(* ===== verification/Prelude.thy ===== *)
theory Prelude
  imports Main "HOL-Library.Word"
begin

text \<open>
  Shared ground of the development: the machine integers of \<^verbatim>\<open>hermes_run_types.h\<close>, the
  error values that stand for what the C++ code cannot do without undefined behaviour
  or without giving up, the result type that carries them, the bytes of an integer in
  memory, decimal printing, and the generic lemmas on lists that the components use.
\<close>

unbundle bit_operations_syntax

section \<open>Integers\<close>

type_synonym u8 = "8 word"
type_synonym u16 = "16 word"
type_synonym u32 = "32 word"
type_synonym u64 = "64 word"

text \<open>\<^verbatim>\<open>size_t\<close> on the 64-bit platforms the runtime builds for.\<close>

type_synonym size_t = "64 word"

section \<open>Errors as values\<close>

text \<open>
  \<open>OutOfRange\<close>: an index past the end of a vector; \<open>NullDeref\<close>: a null or never
  assigned pointer is followed; \<open>Dangling\<close>: a pointer to no live object is followed;
  \<open>BadCast\<close>: an object is used as one of another class; \<open>DivByZero\<close>: a zero modulus; \<open>EraseEnd\<close>: \<^verbatim>\<open>erase(end())\<close>; \<open>Fatal\<close>: a fatal log
  record that does not return; \<open>Thrown\<close>: a C++ exception; \<open>Diverges\<close>: a loop that never ends.
\<close>

datatype error = OutOfRange | NullDeref | Dangling | BadCast | DivByZero | EraseEnd
  | Diverges | Fatal string | Thrown string

type_synonym 'a res = "error + 'a"

definition res_bind :: "'a res \<Rightarrow> ('a \<Rightarrow> 'b res) \<Rightarrow> 'b res" where
  "res_bind m f = (case m of Inl e \<Rightarrow> Inl e | Inr x \<Rightarrow> f x)"

text \<open>
  A fatal log record: whether the logger returns is a property of the logging
  library, so it is an argument (\<open>fr\<close>) of every definition that logs one.
\<close>

definition helog_fatal :: "bool \<Rightarrow> string \<Rightarrow> 'a res \<Rightarrow> 'a res" where
  "helog_fatal fr msg k = (if fr then k else Inl (Fatal msg))"

definition vec_at :: "'a list \<Rightarrow> nat \<Rightarrow> 'a res" where
  "vec_at xs i = (if i < length xs then Inr (xs ! i) else Inl OutOfRange)"

named_theorems res_simps
named_theorems flag_simps
named_theorems codec_simps

lemma res_bind_simps [simp, res_simps]:
  "res_bind (Inl e) f = Inl e"
  "res_bind (Inr x) f = f x"
  by (simp_all add: res_bind_def)

lemma res_bind_Inr_iff: "res_bind m f = Inr y \<longleftrightarrow> (\<exists>x. m = Inr x \<and> f x = Inr y)"
  by (cases m) simp_all

lemma res_bind_Inl_iff:
  "res_bind m f = Inl e \<longleftrightarrow> m = Inl e \<or> (\<exists>x. m = Inr x \<and> f x = Inl e)"
  by (cases m) auto

lemma vec_at_in [simp]: "i < length xs \<Longrightarrow> vec_at xs i = Inr (xs ! i)"
  by (simp add: vec_at_def)

lemma vec_at_out [simp]: "\<not> i < length xs \<Longrightarrow> vec_at xs i = Inl OutOfRange"
  by (simp add: vec_at_def)

lemma vec_at_Inr_iff: "vec_at xs i = Inr x \<longleftrightarrow> i < length xs \<and> x = xs ! i"
  by (auto simp: vec_at_def)

lemma nth_list_update_if: "j < length xs \<Longrightarrow> xs[i := x] ! j = (if i = j then x else xs ! j)"
  by (auto simp: nth_list_update)

lemma unat_of_nat_less: "n < 2 ^ LENGTH('a) \<Longrightarrow> unat (of_nat n :: 'a::len word) = n"
  by (simp add: unsigned_of_nat take_bit_nat_eq_self)

lemma unat_ucast_size [simp]: "unat (ucast (w :: u32) :: size_t) = unat w"
proof -
  have "unat w < 2 ^ 32" using unsigned_less [of w, where 'a = nat] by simp
  then show ?thesis by (simp add: unsigned_ucast_eq take_bit_nat_eq_self)
qed

section \<open>The bytes of an integer in memory (little endian)\<close>

primrec word_bytes :: "nat \<Rightarrow> 'a::len word \<Rightarrow> u8 list" where
  "word_bytes 0 w = []"
| "word_bytes (Suc n) w = ucast w # word_bytes n (drop_bit 8 w)"

primrec bytes_word :: "u8 list \<Rightarrow> 'a::len word" where
  "bytes_word [] = 0"
| "bytes_word (b # bs) = ucast b OR push_bit 8 (bytes_word bs)"

lemma length_word_bytes [simp]: "length (word_bytes n w) = n"
  by (induction n arbitrary: w) simp_all

lemma word_bytes_numeral [simp]:
  "word_bytes (numeral k) w = ucast w # word_bytes (pred_numeral k) (drop_bit 8 w)"
  by (simp add: numeral_eq_Suc)

lemma bit_bytes_word_word_bytes:
  fixes w :: "'a::len word"
  shows "bit (bytes_word (word_bytes n w) :: 'a word) i \<longleftrightarrow> i < 8 * n \<and> bit w i"
proof (induction n arbitrary: w i)
  case 0
  show ?case by simp
next
  case (Suc n)
  have low: "bit (ucast (ucast w :: u8) :: 'a word) i \<longleftrightarrow> i < 8 \<and> bit w i"
    using bit_imp_le_length [of w i] by (auto simp: bit_unsigned_iff)
  have high: "bit (push_bit 8 (bytes_word (word_bytes n (drop_bit 8 w)) :: 'a word)) i \<longleftrightarrow>
    8 \<le> i \<and> i < 8 * Suc n \<and> bit w i"
    using bit_imp_le_length [of w i] by (auto simp: bit_push_bit_iff Suc.IH bit_drop_bit_eq)
  show ?case by (auto simp: bit_or_iff low high)
qed

lemma bytes_word_word_bytes [codec_simps]:
  fixes w :: "'a::len word"
  assumes "LENGTH('a) \<le> 8 * n"
  shows "bytes_word (word_bytes n w) = w"
  using assms bit_imp_le_length [of w]
  by (intro bit_eqI) (auto simp: bit_bytes_word_word_bytes)

lemma word_bytes_inj:
  fixes v w :: "'a::len word"
  assumes "LENGTH('a) \<le> 8 * n" and "word_bytes n v = word_bytes n w"
  shows "v = w"
  by (metis assms bytes_word_word_bytes)

section \<open>Decimal printing (\<^verbatim>\<open>std::to_string\<close>)\<close>

definition digit_char :: "nat \<Rightarrow> char" where
  "digit_char d = char_of (48 + d)"

fun to_string :: "nat \<Rightarrow> string" where
  "to_string n = (if n < 10 then [digit_char n] else to_string (n div 10) @ [digit_char (n mod 10)])"

declare to_string.simps [simp del]

lemma digit_char_inj: "d < 10 \<Longrightarrow> e < 10 \<Longrightarrow> digit_char d = digit_char e \<longleftrightarrow> d = e"
proof
  assume d: "d < 10" "e < 10" and eq: "digit_char d = digit_char e"
  then have "of_char (digit_char d) = (of_char (digit_char e) :: nat)" by simp
  with d show "d = e" by (simp add: digit_char_def)
qed simp

lemma to_string_nonempty [simp]: "to_string n \<noteq> []" "[] \<noteq> to_string n"
  by (subst to_string.simps, simp)+

lemma to_string_digits: "c \<in> set (to_string n) \<Longrightarrow> \<exists>d<10. c = digit_char d"
proof (induction n rule: to_string.induct)
  case (1 n)
  then show ?case
    by (cases "n < 10") (auto simp: to_string.simps [of n] intro: exI [of _ "n mod 10"])
qed

lemma digit_char_neq: "d < 10 \<Longrightarrow> of_char c < (48::nat) \<Longrightarrow> digit_char d \<noteq> c"
  by (auto simp: digit_char_def)

lemma to_string_no_sep:
  assumes "of_char c < (48::nat)"
  shows "c \<notin> set (to_string n)"
  using to_string_digits digit_char_neq [OF _ assms] by metis

lemma to_string_inj: "to_string m = to_string n \<longleftrightarrow> m = n"
proof (induction m arbitrary: n rule: to_string.induct)
  case (1 m)
  show ?case
  proof (cases "m < 10 \<or> n < 10")
    case True
    then show ?thesis
      by (auto simp: to_string.simps [of m] to_string.simps [of n] digit_char_inj split: if_splits)
  next
    case False
    then have "to_string m = to_string n \<longleftrightarrow>
        to_string (m div 10) = to_string (n div 10) \<and> m mod 10 = n mod 10"
      by (simp add: to_string.simps [of m] to_string.simps [of n] digit_char_inj)
    also have "\<dots> \<longleftrightarrow> m div 10 = n div 10 \<and> m mod 10 = n mod 10"
      using False "1.IH" by simp
    also have "\<dots> \<longleftrightarrow> m = n"
      by (metis mult_div_mod_eq)
    finally show ?thesis .
  qed
qed

lemma append_sep_inj:
  assumes "c \<notin> set xs" and "c \<notin> set xs'"
  shows "xs @ c # ys = xs' @ c # ys' \<longleftrightarrow> xs = xs' \<and> ys = ys'"
  using assms
proof (induction xs arbitrary: xs')
  case Nil
  then show ?case by (cases xs') auto
next
  case (Cons x xs)
  then show ?case by (cases xs') auto
qed

end
