(* ===== verification/Hshm.thy ===== *)
theory Hshm
  imports Prelude
begin

text \<open>
  The bit fields of the shared-memory library. \<^verbatim>\<open>hshm::bitfield32_t\<close> and the macro
  \<^verbatim>\<open>BIT_OPT\<close> come from that library, which is not part of this repository: they are the
  record \<open>bitfield_lib\<close>, an argument of every definition that sets or tests a flag, and
  the locale \<open>bitfield\<close> states what the code relies on. A bit field is the word the
  code reads as its member \<^verbatim>\<open>bits_\<close>.
\<close>

record bitfield_lib =
  bf_init :: u32
  bf_SetBits :: "u32 \<Rightarrow> u32 \<Rightarrow> u32"
  bf_UnsetBits :: "u32 \<Rightarrow> u32 \<Rightarrow> u32"
  bf_Any :: "u32 \<Rightarrow> u32 \<Rightarrow> bool"
  bf_BIT_OPT :: "nat \<Rightarrow> u32"

locale bitfield =
  fixes B :: bitfield_lib
  assumes bit_init [flag_simps]: "\<not> bit (bf_init B) i"
    and bit_SetBits [flag_simps]: "bit (bf_SetBits B x m) i \<longleftrightarrow> bit x i \<or> bit m i"
    and bit_UnsetBits [flag_simps]: "bit (bf_UnsetBits B x m) i \<longleftrightarrow> bit x i \<and> \<not> bit m i"
    and Any_bit: "bf_Any B x m \<longleftrightarrow> (\<exists>i. bit x i \<and> bit m i)"
    and bit_BIT_OPT [flag_simps]: "n < 32 \<Longrightarrow> bit (bf_BIT_OPT B n) i \<longleftrightarrow> i = n"
begin

lemma Any_or [flag_simps]: "bf_Any B x (m OR k) \<longleftrightarrow> bf_Any B x m \<or> bf_Any B x k"
  by (auto simp: Any_bit bit_or_iff)

lemma Any_BIT_OPT [flag_simps]: "n < 32 \<Longrightarrow> bf_Any B x (bf_BIT_OPT B n) \<longleftrightarrow> bit x n"
  by (auto simp: Any_bit bit_BIT_OPT)

lemma UnsetBits_id: "\<not> bf_Any B x m \<Longrightarrow> bf_UnsetBits B x m = x"
  by (rule bit_eqI) (auto simp: Any_bit bit_UnsetBits)

lemma UnsetBits_SetBits: "\<not> bf_Any B x m \<Longrightarrow> bf_UnsetBits B (bf_SetBits B x m) m = x"
  by (rule bit_eqI) (auto simp: Any_bit bit_UnsetBits bit_SetBits)

lemma Any_SetBits [flag_simps]: "bf_Any B (bf_SetBits B x m) k \<longleftrightarrow> bf_Any B x k \<or> bf_Any B m k"
  by (auto simp: Any_bit bit_SetBits)

end

text \<open>The bitwise reading of the interface, on machine words.\<close>

definition word_bitfield :: bitfield_lib where
  "word_bitfield = \<lparr>bf_init = 0, bf_SetBits = (OR), bf_UnsetBits = (\<lambda>x m. x AND NOT m),
     bf_Any = (\<lambda>x m. x AND m \<noteq> 0), bf_BIT_OPT = (\<lambda>n. push_bit n 1)\<rparr>"

lemma word_and_nonzero_bit: "x AND m \<noteq> (0 :: 'a::len word) \<longleftrightarrow> (\<exists>i. bit x i \<and> bit m i)"
  by (auto simp: bit_eq_iff bit_and_iff dest: bit_imp_le_length)

interpretation word_bf: bitfield word_bitfield
  by unfold_locales
    (auto simp: word_bitfield_def bit_or_iff bit_and_iff bit_not_iff word_and_nonzero_bit
      bit_exp_iff dest: bit_imp_le_length)

end
