(* ===== verification/Ids.thy ===== *)
theory Ids
  imports Hshm
begin

text \<open>
  The identifiers of \<^verbatim>\<open>include/hermes_run/hermes_run_types.h\<close>: scheduling domains
  (\<open>DomainId\<close>), the ids of task states, queues and tasks (\<open>UniqueId\<close>), their equality,
  hashes and printed form. The template argument of \<open>UniqueId\<close> only separates C++ types
  whose values are freely converted into each other, so the three ids are one record.
\<close>

section \<open>Scheduling domains\<close>

datatype HermesRunMode = kModeNone | kClient | kServer

datatype IoType = kRead | kWrite | kNone

record DomainId =
  dom_flags :: u32
  dom_id :: u32

definition kLocal :: "bitfield_lib \<Rightarrow> u32" where "kLocal B = bf_BIT_OPT B 0"
definition kGlobal :: "bitfield_lib \<Rightarrow> u32" where "kGlobal B = bf_BIT_OPT B 1"
definition kSet :: "bitfield_lib \<Rightarrow> u32" where "kSet B = bf_BIT_OPT B 2"
definition kNode :: "bitfield_lib \<Rightarrow> u32" where "kNode B = bf_BIT_OPT B 3"

definition DomainId_new :: "bitfield_lib \<Rightarrow> DomainId" where
  "DomainId_new B = \<lparr>dom_flags = bf_init B, dom_id = 0\<rparr>"

definition DomainId_IsRemote :: "bitfield_lib \<Rightarrow> DomainId \<Rightarrow> size_t \<Rightarrow> u32 \<Rightarrow> bool" where
  "DomainId_IsRemote B d num_hosts this_node =
     (if num_hosts = 1 then False
      else bf_Any B (dom_flags d) (kGlobal B OR kSet B) \<or>
        (bf_Any B (dom_flags d) (kNode B) \<and> dom_id d \<noteq> this_node))"

definition GetLocal :: "bitfield_lib \<Rightarrow> DomainId" where
  "GetLocal B = (let d = (DomainId_new B)\<lparr>dom_id := 0\<rparr>
     in d\<lparr>dom_flags := bf_SetBits B (dom_flags d) (kLocal B)\<rparr>)"

definition DomainId_GetId :: "DomainId \<Rightarrow> u32" where
  "DomainId_GetId d = dom_id d"

definition IsNode :: "bitfield_lib \<Rightarrow> DomainId \<Rightarrow> bool" where
  "IsNode B d = bf_Any B (dom_flags d) (kNode B)"

definition GetNode :: "bitfield_lib \<Rightarrow> u32 \<Rightarrow> DomainId" where
  "GetNode B node = (let d = (DomainId_new B)\<lparr>dom_id := node\<rparr>
     in d\<lparr>dom_flags := bf_SetBits B (dom_flags d) (kNode B)\<rparr>)"

definition GetNodeWithLocal :: "bitfield_lib \<Rightarrow> u32 \<Rightarrow> DomainId" where
  "GetNodeWithLocal B node = (let d = (DomainId_new B)\<lparr>dom_id := node\<rparr>
     in d\<lparr>dom_flags := bf_SetBits B (dom_flags d) (kLocal B)\<rparr>)"

definition IsGlobal :: "bitfield_lib \<Rightarrow> DomainId \<Rightarrow> bool" where
  "IsGlobal B d = bf_Any B (dom_flags d) (kGlobal B)"

definition GetGlobal :: "bitfield_lib \<Rightarrow> DomainId" where
  "GetGlobal B = (let d = (DomainId_new B)\<lparr>dom_id := 0\<rparr>
     in d\<lparr>dom_flags := bf_SetBits B (dom_flags d) (kGlobal B)\<rparr>)"

definition IsSet :: "bitfield_lib \<Rightarrow> DomainId \<Rightarrow> bool" where
  "IsSet B d = bf_Any B (dom_flags d) (kSet B)"

definition GetSet :: "bitfield_lib \<Rightarrow> u32 \<Rightarrow> DomainId" where
  "GetSet B ds = (let d = (DomainId_new B)\<lparr>dom_id := ds\<rparr>
     in d\<lparr>dom_flags := bf_SetBits B (dom_flags d) (kSet B)\<rparr>)"

definition GetSetWithLocal :: "bitfield_lib \<Rightarrow> u32 \<Rightarrow> DomainId" where
  "GetSetWithLocal B ds = (let d = (DomainId_new B)\<lparr>dom_id := ds\<rparr>
     in d\<lparr>dom_flags := bf_SetBits B (dom_flags d) (kSet B OR kLocal B)\<rparr>)"

text \<open>The copy and move constructors and assignments all copy both members.\<close>

definition DomainId_copy :: "DomainId \<Rightarrow> DomainId" where
  "DomainId_copy other = \<lparr>dom_flags = dom_flags other, dom_id = dom_id other\<rparr>"

definition DomainId_eq :: "DomainId \<Rightarrow> DomainId \<Rightarrow> bool" where
  "DomainId_eq a b = (dom_id a = dom_id b \<and> dom_flags a = dom_flags b)"

definition DomainId_neq :: "DomainId \<Rightarrow> DomainId \<Rightarrow> bool" where
  "DomainId_neq a b = (dom_id a \<noteq> dom_id b \<or> dom_flags a \<noteq> dom_flags b)"

section \<open>Unique ids\<close>

record UniqueId =
  node_id :: u32
  uid_hash :: u32
  unique :: u64

type_synonym TaskStateId = UniqueId
type_synonym QueueId = UniqueId
type_synonym TaskId = UniqueId

definition UniqueId_new :: "u32 \<Rightarrow> u64 \<Rightarrow> UniqueId" where
  "UniqueId_new node u = \<lparr>node_id = node, uid_hash = 0, unique = u\<rparr>"

definition UniqueId_new_hash :: "u32 \<Rightarrow> u32 \<Rightarrow> u64 \<Rightarrow> UniqueId" where
  "UniqueId_new_hash node h u = \<lparr>node_id = node, uid_hash = h, unique = u\<rparr>"

text \<open>The copy constructors, the conversions between the id types and the assignments.\<close>

definition UniqueId_copy :: "UniqueId \<Rightarrow> UniqueId" where
  "UniqueId_copy other = \<lparr>node_id = node_id other, uid_hash = uid_hash other, unique = unique other\<rparr>"

definition UniqueId_IsNull :: "UniqueId \<Rightarrow> bool" where
  "UniqueId_IsNull i = (node_id i = 0)"

definition UniqueId_GetNull :: UniqueId where
  "UniqueId_GetNull = UniqueId_new 0 0"

definition UniqueId_SetNull :: "UniqueId \<Rightarrow> UniqueId" where
  "UniqueId_SetNull i = i\<lparr>node_id := 0, uid_hash := 0, unique := 0\<rparr>"

definition GetNodeId :: "UniqueId \<Rightarrow> u32" where
  "GetNodeId i = node_id i"

definition UniqueId_eq :: "UniqueId \<Rightarrow> UniqueId \<Rightarrow> bool" where
  "UniqueId_eq a b = (unique a = unique b \<and> node_id a = node_id b)"

definition UniqueId_neq :: "UniqueId \<Rightarrow> UniqueId \<Rightarrow> bool" where
  "UniqueId_neq a b = (unique a \<noteq> unique b \<or> node_id a \<noteq> node_id b)"

text \<open>
  A hash map keyed by ids only sees an id up to \<open>UniqueId_eq\<close>: its key is this pair.
\<close>

type_synonym uid_key = "u64 \<times> u32"

definition key_of :: "UniqueId \<Rightarrow> uid_key" where
  "key_of i = (unique i, node_id i)"

definition print_UniqueId :: "UniqueId \<Rightarrow> string" where
  "print_UniqueId i = to_string (unat (node_id i)) @ ''.'' @ to_string (unat (unique i))"

section \<open>Hashes\<close>

text \<open>\<^verbatim>\<open>std::hash\<close> of the integer types is implementation-defined: two arguments.\<close>

definition hash_UniqueId :: "(u64 \<Rightarrow> size_t) \<Rightarrow> (u32 \<Rightarrow> size_t) \<Rightarrow> UniqueId \<Rightarrow> size_t" where
  "hash_UniqueId h64 h32 key = h64 (unique key) + h32 (node_id key)"

definition hash_DomainId :: "(u32 \<Rightarrow> size_t) \<Rightarrow> DomainId \<Rightarrow> size_t" where
  "hash_DomainId h32 key = h32 (dom_id key) + h32 (dom_flags key)"

section \<open>Facts about ids\<close>

lemma UniqueId_eq_key: "UniqueId_eq a b \<longleftrightarrow> key_of a = key_of b"
  by (simp add: UniqueId_eq_def key_of_def)

lemma UniqueId_neq_key: "UniqueId_neq a b \<longleftrightarrow> key_of a \<noteq> key_of b"
  by (auto simp: UniqueId_neq_def key_of_def)

lemma DomainId_eq_iff: "DomainId_eq a b \<longleftrightarrow> a = b"
  by (cases a, cases b) (auto simp: DomainId_eq_def)

lemma DomainId_copy_id [simp]: "DomainId_copy d = d"
  by (cases d) (simp add: DomainId_copy_def)

lemma UniqueId_copy_id [simp]: "UniqueId_copy i = i"
  by (cases i) (simp add: UniqueId_copy_def)

lemma dot_not_digit: "CHR ''.'' \<notin> set (to_string n)"
  by (rule to_string_no_sep) simp

lemma print_UniqueId_inj: "print_UniqueId a = print_UniqueId b \<longleftrightarrow> UniqueId_eq a b"
  by (auto simp: print_UniqueId_def UniqueId_eq_def append_sep_inj dot_not_digit to_string_inj
      dest: word_unat_eq_iff [THEN iffD2])

lemma hash_UniqueId_respects_eq:
  "UniqueId_eq a b \<Longrightarrow> hash_UniqueId h64 h32 a = hash_UniqueId h64 h32 b"
  by (simp add: UniqueId_eq_def hash_UniqueId_def)

section \<open>Where a domain runs\<close>

lemmas domain_flag_defs = kLocal_def kGlobal_def kSet_def kNode_def

lemmas domain_ctor_defs = DomainId_new_def GetLocal_def GetNode_def GetNodeWithLocal_def
  GetGlobal_def GetSet_def GetSetWithLocal_def

context bitfield
begin

lemma domain_tests:
  "IsNode B d \<longleftrightarrow> bit (dom_flags d) 3"
  "IsGlobal B d \<longleftrightarrow> bit (dom_flags d) 1"
  "IsSet B d \<longleftrightarrow> bit (dom_flags d) 2"
  by (simp_all add: IsNode_def IsGlobal_def IsSet_def domain_flag_defs flag_simps)

lemma IsRemote_bits:
  "DomainId_IsRemote B d n t \<longleftrightarrow> n \<noteq> 1 \<and>
     (bit (dom_flags d) 1 \<or> bit (dom_flags d) 2 \<or> bit (dom_flags d) 3 \<and> dom_id d \<noteq> t)"
  by (simp add: DomainId_IsRemote_def domain_flag_defs flag_simps)

lemma domain_ctor_bits:
  "bit (dom_flags (GetLocal B)) i \<longleftrightarrow> i = 0"
  "bit (dom_flags (GetNode B k)) i \<longleftrightarrow> i = 3"
  "bit (dom_flags (GetNodeWithLocal B k)) i \<longleftrightarrow> i = 0"
  "bit (dom_flags (GetGlobal B)) i \<longleftrightarrow> i = 1"
  "bit (dom_flags (GetSet B k)) i \<longleftrightarrow> i = 2"
  "bit (dom_flags (GetSetWithLocal B k)) i \<longleftrightarrow> i = 0 \<or> i = 2"
  by (auto simp: domain_ctor_defs Let_def domain_flag_defs bit_or_iff flag_simps)

lemma domain_ctor_ids:
  "dom_id (GetLocal B) = 0" "dom_id (GetNode B k) = k" "dom_id (GetNodeWithLocal B k) = k"
  "dom_id (GetGlobal B) = 0" "dom_id (GetSet B k) = k" "dom_id (GetSetWithLocal B k) = k"
  by (simp_all add: domain_ctor_defs Let_def)

lemma ctor_remote_table:
  assumes "n \<noteq> 1"
  shows "\<not> DomainId_IsRemote B (GetLocal B) n t"
    and "DomainId_IsRemote B (GetNode B k) n t \<longleftrightarrow> k \<noteq> t"
    and "DomainId_IsRemote B (GetGlobal B) n t"
    and "DomainId_IsRemote B (GetSet B k) n t"
    and "DomainId_IsRemote B (GetSetWithLocal B k) n t"
  using assms by (simp_all add: IsRemote_bits domain_ctor_bits domain_ctor_ids)

lemma node_with_local_lost:
  "GetNodeWithLocal B k = (GetLocal B)\<lparr>dom_id := k\<rparr>"
  "\<not> IsNode B (GetNodeWithLocal B k)"
  "\<not> DomainId_IsRemote B (GetNodeWithLocal B k) n t"
  by (simp_all add: domain_tests IsRemote_bits domain_ctor_bits)
    (simp add: domain_ctor_defs Let_def)

end

section \<open>Properties\<close>

text \<open>
  The printed form of an id (\<^verbatim>\<open>node.unique\<close>) separates exactly the ids that
  \<^verbatim>\<open>operator==\<close> separates, and equal ids always have equal hashes, so ids can key the
  registry's hash maps: the \<open>hash_\<close> member takes part in neither.
\<close>

theorem UniqueId_key_contract:
  "(print_UniqueId a = print_UniqueId b \<longleftrightarrow> UniqueId_eq a b) \<and>
   (UniqueId_neq a b \<longleftrightarrow> \<not> UniqueId_eq a b) \<and>
   (UniqueId_eq a b \<longleftrightarrow> UniqueId_eq a (b\<lparr>uid_hash := h\<rparr>)) \<and>
   (hash_UniqueId h64 h32 a \<noteq> hash_UniqueId h64 h32 b \<longrightarrow> UniqueId_neq a b)"
  using hash_UniqueId_respects_eq [of a b h64 h32]
  by (auto simp: print_UniqueId_inj UniqueId_eq_key UniqueId_neq_key key_of_def)

theorem UniqueId_key_contract_witness:
  "hash_UniqueId id ucast (UniqueId_new 1 7) \<noteq> hash_UniqueId id ucast (UniqueId_new 1 8) \<and>
   UniqueId_neq (UniqueId_new 1 7) (UniqueId_new 1 8)"
proof -
  have h: "hash_UniqueId id ucast (UniqueId_new 1 7) \<noteq> hash_UniqueId id ucast (UniqueId_new 1 8)"
    by (simp add: hash_UniqueId_def UniqueId_new_def)
  with UniqueId_key_contract [of "UniqueId_new 1 7" "UniqueId_new 1 8" 0 id ucast]
  show ?thesis by blast
qed

end
