(* ===== verification/Tasks.thy ===== *)
theory Tasks
  imports Ids
begin

text \<open>
  \<^verbatim>\<open>include/hermes_run/task_registry/task.h\<close>: task flags, the position of a task in its
  task graph (\<open>TaskNode\<close>), the compile-time flags of a task class (\<open>TaskFlags\<close>), the task
  base class and its helpers, and the wait loop. A subclass of \<open>Task\<close> is an extension of
  the record, so the helpers are stated on \<open>'a Task_scheme\<close>.
\<close>

section \<open>Task flags\<close>

definition TASK_READ :: "bitfield_lib \<Rightarrow> u32" where "TASK_READ B = bf_BIT_OPT B 0"
definition TASK_WRITE :: "bitfield_lib \<Rightarrow> u32" where "TASK_WRITE B = bf_BIT_OPT B 1"
definition TASK_UPDATE :: "bitfield_lib \<Rightarrow> u32" where "TASK_UPDATE B = bf_BIT_OPT B 2"
definition TASK_BLOCKED :: "bitfield_lib \<Rightarrow> u32" where "TASK_BLOCKED B = bf_BIT_OPT B 3"
definition TASK_LOW_LATENCY :: "bitfield_lib \<Rightarrow> u32" where "TASK_LOW_LATENCY B = bf_BIT_OPT B 4"
definition TASK_SYSCALL :: "bitfield_lib \<Rightarrow> u32" where "TASK_SYSCALL B = bf_BIT_OPT B 5"
definition TASK_STATELESS :: "bitfield_lib \<Rightarrow> u32" where "TASK_STATELESS B = bf_BIT_OPT B 6"
definition TASK_UNORDERED :: "bitfield_lib \<Rightarrow> u32" where "TASK_UNORDERED B = bf_BIT_OPT B 7"
definition TASK_HAS_STARTED :: "bitfield_lib \<Rightarrow> u32" where "TASK_HAS_STARTED B = bf_BIT_OPT B 8"
definition TASK_COMPLETE :: "bitfield_lib \<Rightarrow> u32" where "TASK_COMPLETE B = bf_BIT_OPT B 9"
definition TASK_MODULE_COMPLETE :: "bitfield_lib \<Rightarrow> u32" where
  "TASK_MODULE_COMPLETE B = bf_BIT_OPT B 10"
definition TASK_LONG_RUNNING :: "bitfield_lib \<Rightarrow> u32" where
  "TASK_LONG_RUNNING B = (bf_BIT_OPT B 11 OR TASK_UNORDERED B)"
definition TASK_FIRE_AND_FORGET :: "bitfield_lib \<Rightarrow> u32" where
  "TASK_FIRE_AND_FORGET B = bf_BIT_OPT B 12"
definition TASK_DISABLE_RUN :: "bitfield_lib \<Rightarrow> u32" where "TASK_DISABLE_RUN B = bf_BIT_OPT B 13"
definition TASK_DATA_OWNER :: "bitfield_lib \<Rightarrow> u32" where "TASK_DATA_OWNER B = bf_BIT_OPT B 14"
definition TASK_MARKED :: "bitfield_lib \<Rightarrow> u32" where "TASK_MARKED B = bf_BIT_OPT B 15"
definition TASK_COROUTINE :: "bitfield_lib \<Rightarrow> u32" where "TASK_COROUTINE B = bf_BIT_OPT B 16"
definition TASK_PREEMPTIVE :: "bitfield_lib \<Rightarrow> u32" where "TASK_PREEMPTIVE B = bf_BIT_OPT B 17"
definition TASK_REMOTE_DEBUG_MARK :: "bitfield_lib \<Rightarrow> u32" where
  "TASK_REMOTE_DEBUG_MARK B = bf_BIT_OPT B 18"

lemmas task_flag_defs = TASK_READ_def TASK_WRITE_def TASK_UPDATE_def TASK_BLOCKED_def
  TASK_LOW_LATENCY_def TASK_SYSCALL_def TASK_STATELESS_def TASK_UNORDERED_def
  TASK_HAS_STARTED_def TASK_COMPLETE_def TASK_MODULE_COMPLETE_def TASK_LONG_RUNNING_def
  TASK_FIRE_AND_FORGET_def TASK_DISABLE_RUN_def TASK_DATA_OWNER_def TASK_MARKED_def
  TASK_COROUTINE_def TASK_PREEMPTIVE_def TASK_REMOTE_DEBUG_MARK_def

section \<open>Methods, priorities and compile-time flags\<close>

definition kConstruct :: u32 where "kConstruct = 0"
definition kDestruct :: u32 where "kDestruct = 1"
definition kLast :: u32 where "kLast = 2"

lemmas base_method_defs = kConstruct_def kDestruct_def kLast_def

definition kAdmin :: u32 where "kAdmin = 0"
definition kLongRunning :: u32 where "kLongRunning = 1"
definition kLowLatency :: u32 where "kLowLatency = 2"

lemmas task_prio_defs = kAdmin_def kLongRunning_def kLowLatency_def

definition TF_SRL_SYM_START :: "bitfield_lib \<Rightarrow> u32" where "TF_SRL_SYM_START B = bf_BIT_OPT B 0"
definition TF_SRL_ASYM_START :: "bitfield_lib \<Rightarrow> u32" where "TF_SRL_ASYM_START B = bf_BIT_OPT B 1"
definition TF_SRL_SYM_END :: "bitfield_lib \<Rightarrow> u32" where "TF_SRL_SYM_END B = bf_BIT_OPT B 2"
definition TF_SRL_ASYM_END :: "bitfield_lib \<Rightarrow> u32" where "TF_SRL_ASYM_END B = bf_BIT_OPT B 3"
definition TF_SRL_SYM :: "bitfield_lib \<Rightarrow> u32" where
  "TF_SRL_SYM B = (TF_SRL_SYM_START B OR TF_SRL_SYM_END B)"
definition TF_SRL_ASYM :: "bitfield_lib \<Rightarrow> u32" where
  "TF_SRL_ASYM B = (TF_SRL_ASYM_START B OR TF_SRL_ASYM_END B)"
definition TF_REPLICA :: "bitfield_lib \<Rightarrow> u32" where "TF_REPLICA B = bf_BIT_OPT B 31"
definition TF_LOCAL :: "bitfield_lib \<Rightarrow> u32" where "TF_LOCAL B = bf_BIT_OPT B 5"

lemmas tf_defs = TF_SRL_SYM_START_def TF_SRL_ASYM_START_def TF_SRL_SYM_END_def
  TF_SRL_ASYM_END_def TF_SRL_SYM_def TF_SRL_ASYM_def TF_REPLICA_def TF_LOCAL_def

record TaskFlags =
  IS_LOCAL :: bool
  SUPPORTS_SRL :: bool
  SRL_SYM_START :: bool
  SRL_SYM_END :: bool
  REPLICA :: bool

definition TaskFlags_of :: "bitfield_lib \<Rightarrow> u32 \<Rightarrow> TaskFlags" where
  "TaskFlags_of B FLAGS =
     \<lparr>IS_LOCAL = (FLAGS AND TF_LOCAL B \<noteq> 0),
      SUPPORTS_SRL = (FLAGS AND (TF_SRL_SYM B OR TF_SRL_ASYM B) \<noteq> 0),
      SRL_SYM_START = (FLAGS AND TF_SRL_SYM_START B \<noteq> 0),
      SRL_SYM_END = (FLAGS AND TF_SRL_SYM_END B \<noteq> 0),
      REPLICA = (FLAGS AND TF_REPLICA B \<noteq> 0)\<rparr>"

definition CALL_REPLICA_START :: "TaskFlags \<Rightarrow> (u32 \<Rightarrow> 't \<Rightarrow> 't) \<Rightarrow> u32 \<Rightarrow> 't \<Rightarrow> 't" where
  "CALL_REPLICA_START T ReplicateStart count task =
     (if REPLICA T then ReplicateStart count task else task)"

definition CALL_REPLICA_END :: "TaskFlags \<Rightarrow> ('t \<Rightarrow> 't) \<Rightarrow> 't \<Rightarrow> 't" where
  "CALL_REPLICA_END T ReplicateEnd task = (if REPLICA T then ReplicateEnd task else task)"

section \<open>Task nodes\<close>

record TaskNode =
  root :: TaskId
  node_depth :: u32

definition TaskNode_new :: "TaskId \<Rightarrow> TaskNode" where
  "TaskNode_new r = \<lparr>root = r, node_depth = 0\<rparr>"

text \<open>The copy and move constructors and assignments.\<close>

definition TaskNode_copy :: "TaskNode \<Rightarrow> TaskNode" where
  "TaskNode_copy other = \<lparr>root = root other, node_depth = node_depth other\<rparr>"

text \<open>The \<^verbatim>\<open>int\<close> argument is converted to \<^verbatim>\<open>u32\<close> before the addition.\<close>

definition TaskNode_plus :: "TaskNode \<Rightarrow> int \<Rightarrow> TaskNode" where
  "TaskNode_plus n i = \<lparr>root = root n, node_depth = node_depth n + word_of_int i\<rparr>"

definition TaskNode_GetNull :: TaskNode where
  "TaskNode_GetNull = \<lparr>root = UniqueId_GetNull, node_depth = 0\<rparr>"

definition TaskNode_IsNull :: "TaskNode \<Rightarrow> bool" where
  "TaskNode_IsNull n = UniqueId_IsNull (root n)"

definition IsRoot :: "TaskNode \<Rightarrow> bool" where
  "IsRoot n = (node_depth n = 0)"

definition print_TaskNode :: "TaskNode \<Rightarrow> string" where
  "print_TaskNode n = print_UniqueId (root n) @ ''/'' @ to_string (unat (node_depth n))"

section \<open>Tasks\<close>

text \<open>
  The run context: the lane the task is on, the task state it runs on and its
  coroutine stack, both null or the address of a live object. The saved machine context
  \<^verbatim>\<open>jmp_\<close> belongs to the coroutine library; \<^verbatim>\<open>stack_size_\<close> is a constant.
\<close>

record RunContext =
  ctx_lane_id :: u32
  ctx_stack_ptr :: "nat option"
  ctx_exec :: "nat option"

record Task =
  task_state :: TaskStateId
  task_node :: TaskNode
  domain_id :: DomainId
  prio :: u32
  lane_hash :: u32
  method_id :: u32
  task_flags :: u32
  delcnt :: int
  ctx :: RunContext

text \<open>
  The default constructor writes only the members with an initialiser; \<open>mem\<close> is what
  the allocated memory held before.
\<close>

definition Task_new :: "bitfield_lib \<Rightarrow> 'a Task_scheme \<Rightarrow> 'a Task_scheme" where
  "Task_new B mem = mem\<lparr>task_flags := bf_init B, domain_id := DomainId_new B, delcnt := 0\<rparr>"

definition Task_new_node :: "bitfield_lib \<Rightarrow> 'a Task_scheme \<Rightarrow> TaskNode \<Rightarrow> 'a Task_scheme" where
  "Task_new_node B mem tn = (Task_new B mem)\<lparr>task_node := tn\<rparr>"

definition Task_new_full :: "bitfield_lib \<Rightarrow> 'a Task_scheme \<Rightarrow> TaskNode \<Rightarrow> DomainId \<Rightarrow> TaskStateId \<Rightarrow>
    u32 \<Rightarrow> u32 \<Rightarrow> u32 \<Rightarrow> 'a Task_scheme" where
  "Task_new_full B mem tn d ts lh m fl = (Task_new B mem)\<lparr>task_node := tn, lane_hash := lh,
     prio := kLowLatency, task_state := ts, method_id := m, domain_id := d, task_flags := fl\<rparr>"

definition SetModuleComplete :: "bitfield_lib \<Rightarrow> 'a Task_scheme \<Rightarrow> 'a Task_scheme" where
  "SetModuleComplete B t = t\<lparr>task_flags := bf_SetBits B (task_flags t) (TASK_MODULE_COMPLETE B)\<rparr>"

definition IsModuleComplete :: "bitfield_lib \<Rightarrow> 'a Task_scheme \<Rightarrow> bool" where
  "IsModuleComplete B t = bf_Any B (task_flags t) (TASK_MODULE_COMPLETE B)"

definition IsFireAndForget :: "bitfield_lib \<Rightarrow> 'a Task_scheme \<Rightarrow> bool" where
  "IsFireAndForget B t = bf_Any B (task_flags t) (TASK_FIRE_AND_FORGET B)"

definition UnsetFireAndForget :: "bitfield_lib \<Rightarrow> 'a Task_scheme \<Rightarrow> 'a Task_scheme" where
  "UnsetFireAndForget B t = t\<lparr>task_flags := bf_UnsetBits B (task_flags t) (TASK_FIRE_AND_FORGET B)\<rparr>"

definition IsLongRunning :: "bitfield_lib \<Rightarrow> 'a Task_scheme \<Rightarrow> bool" where
  "IsLongRunning B t = bf_Any B (task_flags t) (TASK_LONG_RUNNING B)"

definition IsUnordered :: "bitfield_lib \<Rightarrow> 'a Task_scheme \<Rightarrow> bool" where
  "IsUnordered B t = bf_Any B (task_flags t) (TASK_UNORDERED B)"

text \<open>As in the source, this one only tests the flag.\<close>

definition SetUnordered :: "bitfield_lib \<Rightarrow> 'a Task_scheme \<Rightarrow> 'a Task_scheme \<times> bool" where
  "SetUnordered B t = (t, bf_Any B (task_flags t) (TASK_UNORDERED B))"

definition SetComplete :: "bitfield_lib \<Rightarrow> 'a Task_scheme \<Rightarrow> 'a Task_scheme" where
  "SetComplete B t = t\<lparr>task_flags :=
     bf_SetBits B (task_flags t) (TASK_MODULE_COMPLETE B OR TASK_COMPLETE B)\<rparr>"

definition IsComplete :: "bitfield_lib \<Rightarrow> 'a Task_scheme \<Rightarrow> bool" where
  "IsComplete B t = bf_Any B (task_flags t) (TASK_COMPLETE B)"

definition DisableRun :: "bitfield_lib \<Rightarrow> 'a Task_scheme \<Rightarrow> 'a Task_scheme" where
  "DisableRun B t = t\<lparr>task_flags := bf_SetBits B (task_flags t) (TASK_DISABLE_RUN B)\<rparr>"

definition IsRunDisabled :: "bitfield_lib \<Rightarrow> 'a Task_scheme \<Rightarrow> bool" where
  "IsRunDisabled B t = bf_Any B (task_flags t) (TASK_DISABLE_RUN B)"

definition SetDataOwner :: "bitfield_lib \<Rightarrow> 'a Task_scheme \<Rightarrow> 'a Task_scheme" where
  "SetDataOwner B t = t\<lparr>task_flags := bf_SetBits B (task_flags t) (TASK_DATA_OWNER B)\<rparr>"

definition IsDataOwner :: "bitfield_lib \<Rightarrow> 'a Task_scheme \<Rightarrow> bool" where
  "IsDataOwner B t = bf_Any B (task_flags t) (TASK_DATA_OWNER B)"

definition UnsetDataOwner :: "bitfield_lib \<Rightarrow> 'a Task_scheme \<Rightarrow> 'a Task_scheme" where
  "UnsetDataOwner B t = t\<lparr>task_flags := bf_UnsetBits B (task_flags t) (TASK_DATA_OWNER B)\<rparr>"

definition SetStarted :: "bitfield_lib \<Rightarrow> 'a Task_scheme \<Rightarrow> 'a Task_scheme" where
  "SetStarted B t = t\<lparr>task_flags := bf_SetBits B (task_flags t) (TASK_HAS_STARTED B)\<rparr>"

definition UnsetStarted :: "bitfield_lib \<Rightarrow> 'a Task_scheme \<Rightarrow> 'a Task_scheme" where
  "UnsetStarted B t = t\<lparr>task_flags := bf_UnsetBits B (task_flags t) (TASK_HAS_STARTED B)\<rparr>"

definition IsStarted :: "bitfield_lib \<Rightarrow> 'a Task_scheme \<Rightarrow> bool" where
  "IsStarted B t = bf_Any B (task_flags t) (TASK_HAS_STARTED B)"

definition SetMarked :: "bitfield_lib \<Rightarrow> 'a Task_scheme \<Rightarrow> 'a Task_scheme" where
  "SetMarked B t = t\<lparr>task_flags := bf_SetBits B (task_flags t) (TASK_MARKED B)\<rparr>"

definition UnsetMarked :: "bitfield_lib \<Rightarrow> 'a Task_scheme \<Rightarrow> 'a Task_scheme" where
  "UnsetMarked B t = t\<lparr>task_flags := bf_UnsetBits B (task_flags t) (TASK_MARKED B)\<rparr>"

definition IsMarked :: "bitfield_lib \<Rightarrow> 'a Task_scheme \<Rightarrow> bool" where
  "IsMarked B t = bf_Any B (task_flags t) (TASK_MARKED B)"

definition UnsetLongRunning :: "bitfield_lib \<Rightarrow> 'a Task_scheme \<Rightarrow> 'a Task_scheme" where
  "UnsetLongRunning B t = t\<lparr>task_flags := bf_UnsetBits B (task_flags t) (TASK_LONG_RUNNING B)\<rparr>"

definition IsCoroutine :: "bitfield_lib \<Rightarrow> 'a Task_scheme \<Rightarrow> bool" where
  "IsCoroutine B t = bf_Any B (task_flags t) (TASK_COROUTINE B)"

definition UnsetCoroutine :: "bitfield_lib \<Rightarrow> 'a Task_scheme \<Rightarrow> 'a Task_scheme" where
  "UnsetCoroutine B t = t\<lparr>task_flags := bf_UnsetBits B (task_flags t) (TASK_COROUTINE B)\<rparr>"

definition IsPreemptive :: "bitfield_lib \<Rightarrow> 'a Task_scheme \<Rightarrow> bool" where
  "IsPreemptive B t = bf_Any B (task_flags t) (TASK_PREEMPTIVE B)"

text \<open>
  \<open>Wait\<close> reads the flags until they hold \<open>TASK_COMPLETE\<close> and yields in between. The
  flags are written by other threads: \<open>obs i\<close> is the task as the \<open>i\<close>-th test finds
  it. The result is the number of yields, \<open>None\<close> when the loop does not end.
\<close>

partial_function (option) Wait ::
    "bitfield_lib \<Rightarrow> (nat \<Rightarrow> 'a Task_scheme) \<Rightarrow> nat \<Rightarrow> nat option" where
  "Wait B obs i = (if \<not> IsComplete B (obs i) then Wait B obs (Suc i) else Some i)"

definition Task_GetGroup :: "bitfield_lib \<Rightarrow> u8 list \<Rightarrow> u32 \<times> u8 list" where
  "Task_GetGroup B g = (TASK_UNORDERED B, g)"

lemmas task_set_defs = SetModuleComplete_def UnsetFireAndForget_def SetUnordered_def
  SetComplete_def DisableRun_def SetDataOwner_def UnsetDataOwner_def SetStarted_def
  UnsetStarted_def SetMarked_def UnsetMarked_def UnsetLongRunning_def UnsetCoroutine_def

lemmas task_test_defs = IsModuleComplete_def IsFireAndForget_def IsLongRunning_def
  IsUnordered_def IsComplete_def IsRunDisabled_def IsDataOwner_def IsStarted_def IsMarked_def
  IsCoroutine_def IsPreemptive_def

section \<open>Facts about task nodes and the wait loop\<close>

lemma slash_not_in_uid: "CHR ''/'' \<notin> set (print_UniqueId i)"
  by (simp add: print_UniqueId_def to_string_no_sep)

lemma print_TaskNode_inj:
  "print_TaskNode a = print_TaskNode b \<longleftrightarrow>
     UniqueId_eq (root a) (root b) \<and> node_depth a = node_depth b"
  by (simp add: print_TaskNode_def append_sep_inj slash_not_in_uid print_UniqueId_inj to_string_inj
      word_unat_eq_iff)

lemma Wait_step: "\<not> IsComplete B (obs i) \<Longrightarrow> Wait B obs i = Wait B obs (Suc i)"
  by (simp add: Wait.simps [of B obs i])

lemma Wait_stop: "IsComplete B (obs i) \<Longrightarrow> Wait B obs i = Some i"
  by (simp add: Wait.simps [of B obs i])

lemma Wait_first:
  assumes "\<And>j. i \<le> j \<Longrightarrow> j < n \<Longrightarrow> \<not> IsComplete B (obs j)" and "IsComplete B (obs n)" and "i \<le> n"
  shows "Wait B obs i = Some n"
  using assms(3,1)
proof (induction rule: inc_induct)
  case base
  show ?case using assms(2) by (rule Wait_stop)
next
  case (step k)
  then show ?case by (simp add: Wait_step)
qed

lemma Wait_Some_complete:
  assumes "Wait B obs i = Some n"
  shows "i \<le> n \<and> IsComplete B (obs n) \<and> (\<forall>j. i \<le> j \<and> j < n \<longrightarrow> \<not> IsComplete B (obs j))"
proof (rule Wait.raw_induct [where P = "\<lambda>B obs i n. i \<le> n \<and> IsComplete B (obs n) \<and>
    (\<forall>j. i \<le> j \<and> j < n \<longrightarrow> \<not> IsComplete B (obs j))", OF _ assms])
  fix W B and obs :: "nat \<Rightarrow> 'a Task_scheme" and i n
  assume IH: "\<And>B (obs :: nat \<Rightarrow> 'a Task_scheme) i n. W B obs i = Some n \<Longrightarrow> i \<le> n \<and>
      IsComplete B (obs n) \<and> (\<forall>j. i \<le> j \<and> j < n \<longrightarrow> \<not> IsComplete B (obs j))"
    and eq: "(if \<not> IsComplete B (obs i) then W B obs (Suc i) else Some i) = Some n"
  show "i \<le> n \<and> IsComplete B (obs n) \<and> (\<forall>j. i \<le> j \<and> j < n \<longrightarrow> \<not> IsComplete B (obs j))"
  proof (cases "IsComplete B (obs i)")
    case True
    with eq show ?thesis by auto
  next
    case False
    with eq have "W B obs (Suc i) = Some n" by simp
    from IH [OF this] False show ?thesis
      by (metis Suc_leD Suc_leI le_neq_implies_less)
  qed
qed

section \<open>Flag algebra\<close>

context bitfield
begin

lemma task_test_bits [flag_simps]:
  "IsModuleComplete B t \<longleftrightarrow> bit (task_flags t) 10"
  "IsFireAndForget B t \<longleftrightarrow> bit (task_flags t) 12"
  "IsLongRunning B t \<longleftrightarrow> bit (task_flags t) 11 \<or> bit (task_flags t) 7"
  "IsUnordered B t \<longleftrightarrow> bit (task_flags t) 7"
  "IsComplete B t \<longleftrightarrow> bit (task_flags t) 9"
  "IsRunDisabled B t \<longleftrightarrow> bit (task_flags t) 13"
  "IsDataOwner B t \<longleftrightarrow> bit (task_flags t) 14"
  "IsStarted B t \<longleftrightarrow> bit (task_flags t) 8"
  "IsMarked B t \<longleftrightarrow> bit (task_flags t) 15"
  "IsCoroutine B t \<longleftrightarrow> bit (task_flags t) 16"
  "IsPreemptive B t \<longleftrightarrow> bit (task_flags t) 17"
  by (simp_all add: task_test_defs task_flag_defs flag_simps)

lemma task_set_bits [flag_simps]:
  "bit (task_flags (SetModuleComplete B t)) i \<longleftrightarrow> bit (task_flags t) i \<or> i = 10"
  "bit (task_flags (UnsetFireAndForget B t)) i \<longleftrightarrow> bit (task_flags t) i \<and> i \<noteq> 12"
  "bit (task_flags (SetComplete B t)) i \<longleftrightarrow> bit (task_flags t) i \<or> i = 10 \<or> i = 9"
  "bit (task_flags (DisableRun B t)) i \<longleftrightarrow> bit (task_flags t) i \<or> i = 13"
  "bit (task_flags (SetDataOwner B t)) i \<longleftrightarrow> bit (task_flags t) i \<or> i = 14"
  "bit (task_flags (UnsetDataOwner B t)) i \<longleftrightarrow> bit (task_flags t) i \<and> i \<noteq> 14"
  "bit (task_flags (SetStarted B t)) i \<longleftrightarrow> bit (task_flags t) i \<or> i = 8"
  "bit (task_flags (UnsetStarted B t)) i \<longleftrightarrow> bit (task_flags t) i \<and> i \<noteq> 8"
  "bit (task_flags (SetMarked B t)) i \<longleftrightarrow> bit (task_flags t) i \<or> i = 15"
  "bit (task_flags (UnsetMarked B t)) i \<longleftrightarrow> bit (task_flags t) i \<and> i \<noteq> 15"
  "bit (task_flags (UnsetLongRunning B t)) i \<longleftrightarrow> bit (task_flags t) i \<and> i \<noteq> 11 \<and> i \<noteq> 7"
  "bit (task_flags (UnsetCoroutine B t)) i \<longleftrightarrow> bit (task_flags t) i \<and> i \<noteq> 16"
  by (auto simp: task_set_defs task_flag_defs bit_or_iff flag_simps)

lemma fst_SetUnordered [simp]: "fst (SetUnordered B t) = t"
  by (simp add: SetUnordered_def)

lemma complete_protocol:
  "IsComplete B (SetComplete B t)" "IsModuleComplete B (SetComplete B t)"
  "IsModuleComplete B (SetModuleComplete B t)"
  "IsComplete B (SetModuleComplete B t) \<longleftrightarrow> IsComplete B t"
  "IsUnordered B (SetComplete B t) \<longleftrightarrow> IsUnordered B t"
  "IsStarted B (SetComplete B t) \<longleftrightarrow> IsStarted B t"
  "IsFireAndForget B (SetComplete B t) \<longleftrightarrow> IsFireAndForget B t"
  by (simp_all add: flag_simps)

text \<open>What \<^verbatim>\<open>RpcExec\<close> strips from a task that arrives from another node.\<close>

lemma rpc_reset_flags:
  defines "r \<equiv> \<lambda>t. UnsetLongRunning B (UnsetDataOwner B (UnsetMarked B (UnsetStarted B (UnsetFireAndForget B t))))"
  shows "\<not> IsFireAndForget B (r t)" "\<not> IsStarted B (r t)" "\<not> IsMarked B (r t)"
    "\<not> IsDataOwner B (r t)" "\<not> IsLongRunning B (r t)" "\<not> IsUnordered B (r t)"
    "IsComplete B (r t) \<longleftrightarrow> IsComplete B t" "IsCoroutine B (r t) \<longleftrightarrow> IsCoroutine B t"
    "IsPreemptive B (r t) \<longleftrightarrow> IsPreemptive B t" "IsRunDisabled B (r t) \<longleftrightarrow> IsRunDisabled B t"
  by (simp_all add: r_def flag_simps)

lemma TaskFlags_bits:
  "IS_LOCAL (TaskFlags_of B F) \<longleftrightarrow> bit F 5"
  "SUPPORTS_SRL (TaskFlags_of B F) \<longleftrightarrow> bit F 0 \<or> bit F 1 \<or> bit F 2 \<or> bit F 3"
  "SRL_SYM_START (TaskFlags_of B F) \<longleftrightarrow> bit F 0"
  "SRL_SYM_END (TaskFlags_of B F) \<longleftrightarrow> bit F 2"
  "REPLICA (TaskFlags_of B F) \<longleftrightarrow> bit F 31"
  by (auto simp: TaskFlags_of_def tf_defs word_and_nonzero_bit bit_or_iff flag_simps)

lemma TaskFlags_kinds:
  "TaskFlags_of B (TF_SRL_SYM B) = \<lparr>IS_LOCAL = False, SUPPORTS_SRL = True, SRL_SYM_START = True,
     SRL_SYM_END = True, REPLICA = False\<rparr>"
  "TaskFlags_of B (TF_SRL_SYM B OR TF_REPLICA B) = \<lparr>IS_LOCAL = False, SUPPORTS_SRL = True,
     SRL_SYM_START = True, SRL_SYM_END = True, REPLICA = True\<rparr>"
  "TaskFlags_of B (TF_SRL_ASYM_START B OR TF_SRL_SYM_END B) = \<lparr>IS_LOCAL = False, SUPPORTS_SRL = True,
     SRL_SYM_START = False, SRL_SYM_END = True, REPLICA = False\<rparr>"
  "TaskFlags_of B (TF_LOCAL B) = \<lparr>IS_LOCAL = True, SUPPORTS_SRL = False, SRL_SYM_START = False,
     SRL_SYM_END = False, REPLICA = False\<rparr>"
  by (rule TaskFlags.equality; simp add: TaskFlags_bits; simp add: tf_defs bit_or_iff flag_simps)+

end

end
