(* ===== verification/LocalSerialize.thy ===== *)
theory LocalSerialize
  imports Hshm
begin

text \<open>
  \<^verbatim>\<open>include/hermes_run/network/local_serialize.h\<close>: flat serialisation of integers and
  byte strings into a growable buffer. The buffer type is a template argument
  (\<^verbatim>\<open>hshm::charbuf\<close> by default), of which the code uses \<^verbatim>\<open>size\<close>, \<^verbatim>\<open>data\<close> and
  \<^verbatim>\<open>resize\<close>: a buffer is its bytes, \<^verbatim>\<open>resize\<close> is an argument, and the locale \<open>charbuf\<close>
  states what the code relies on.
\<close>

type_synonym bytes = "u8 list"

type_synonym resize_fn = "bytes \<Rightarrow> nat \<Rightarrow> bytes"

locale charbuf =
  fixes resize :: resize_fn
  assumes length_resize [simp]: "length (resize b n) = n"
    and resize_keeps: "k \<le> length b \<Longrightarrow> k \<le> n \<Longrightarrow> take k (resize b n) = take k b"

text \<open>\<^verbatim>\<open>memcpy\<close> into and out of a buffer; past its end the C++ code is undefined.\<close>

definition memcpy_to :: "bytes \<Rightarrow> nat \<Rightarrow> bytes \<Rightarrow> bytes res" where
  "memcpy_to data off src =
     (if off + length src \<le> length data
      then Inr (take off data @ src @ drop (off + length src) data) else Inl OutOfRange)"

definition memcpy_from :: "bytes \<Rightarrow> nat \<Rightarrow> nat \<Rightarrow> bytes res" where
  "memcpy_from data off sz =
     (if off + sz \<le> length data then Inr (take sz (drop off data)) else Inl OutOfRange)"

text \<open>
  What \<^verbatim>\<open>operator<<\<close> is applied to: an arithmetic object, given by its bytes in memory
  (\<^verbatim>\<open>sizeof(T)\<close> of them), a string or character buffer, or anything else.
\<close>

datatype srl_obj = Arith bytes | Str bytes | Other

definition srl_u32 :: "u32 \<Rightarrow> srl_obj" where
  "srl_u32 x = Arith (word_bytes 4 x)"

definition srl_int :: "int \<Rightarrow> srl_obj" where
  "srl_int x = Arith (word_bytes 4 (word_of_int x :: u32))"

definition LocalSerialize_new :: "resize_fn \<Rightarrow> bytes \<Rightarrow> bytes" where
  "LocalSerialize_new resize data = resize data 0"

definition LocalSerialize_put :: "resize_fn \<Rightarrow> bytes \<Rightarrow> srl_obj \<Rightarrow> bytes res" where
  "LocalSerialize_put resize data obj =
     (case obj of
        Arith bs \<Rightarrow>
          (let sz = length bs; off = length data; data' = resize data (off + sz)
           in memcpy_to data' off bs)
      | Str bs \<Rightarrow>
          (let sz = length bs; off = length data; data' = resize data (off + sz)
           in memcpy_to data' off bs)
      | Other \<Rightarrow> Inl (Thrown ''Cannot serialize object''))"

fun LocalSerialize_puts :: "resize_fn \<Rightarrow> bytes \<Rightarrow> srl_obj list \<Rightarrow> bytes res" where
  "LocalSerialize_puts resize data [] = Inr data"
| "LocalSerialize_puts resize data (x # xs) =
     res_bind (LocalSerialize_put resize data x) (\<lambda>d. LocalSerialize_puts resize d xs)"

text \<open>
  What \<^verbatim>\<open>operator>>\<close> reads into: an arithmetic object of a size, a string that the caller
  has already sized, or anything else. The result is the bytes read and the new offset.
\<close>

datatype srl_want = WantArith nat | WantStr nat | WantOther

definition LocalDeserialize_get :: "bytes \<Rightarrow> nat \<Rightarrow> srl_want \<Rightarrow> (bytes \<times> nat) res" where
  "LocalDeserialize_get data cur_off w =
     (case w of
        WantArith sz \<Rightarrow> res_bind (memcpy_from data cur_off sz) (\<lambda>bs. Inr (bs, cur_off + sz))
      | WantStr sz \<Rightarrow> res_bind (memcpy_from data cur_off sz) (\<lambda>bs. Inr (bs, cur_off + sz))
      | WantOther \<Rightarrow> Inl (Thrown ''Cannot serialize object''))"

fun LocalDeserialize_gets :: "bytes \<Rightarrow> nat \<Rightarrow> srl_want list \<Rightarrow> bytes list res" where
  "LocalDeserialize_gets data off [] = Inr []"
| "LocalDeserialize_gets data off (w # ws) =
     res_bind (LocalDeserialize_get data off w)
       (\<lambda>(bs, off'). res_bind (LocalDeserialize_gets data off' ws) (\<lambda>r. Inr (bs # r)))"

section \<open>Facts\<close>

fun obj_bytes :: "srl_obj \<Rightarrow> bytes" where
  "obj_bytes (Arith bs) = bs"
| "obj_bytes (Str bs) = bs"
| "obj_bytes Other = []"

fun obj_want :: "srl_obj \<Rightarrow> srl_want" where
  "obj_want (Arith bs) = WantArith (length bs)"
| "obj_want (Str bs) = WantStr (length bs)"
| "obj_want Other = WantOther"

context charbuf
begin

lemma LocalSerialize_new_empty [simp]: "LocalSerialize_new resize data = []"
  using length_resize [of data 0] by (simp add: LocalSerialize_new_def del: length_resize)

lemma put_appends:
  "x \<noteq> Other \<Longrightarrow> LocalSerialize_put resize data x = Inr (data @ obj_bytes x)"
  using resize_keeps [of "length data" data]
  by (cases x) (simp_all add: LocalSerialize_put_def memcpy_to_def Let_def)

lemma put_throws:
  "LocalSerialize_put resize data Other = Inl (Thrown ''Cannot serialize object'')"
  by (simp add: LocalSerialize_put_def)

lemma puts_append:
  "Other \<notin> set xs \<Longrightarrow>
     LocalSerialize_puts resize data xs = Inr (data @ concat (map obj_bytes xs))"
  by (induction xs arbitrary: data) (auto simp: put_appends)

end

lemma get_obj:
  "x \<noteq> Other \<Longrightarrow>
     LocalDeserialize_get (pre @ obj_bytes x @ post) (length pre) (obj_want x) =
       Inr (obj_bytes x, length pre + length (obj_bytes x))"
  by (cases x) (simp_all add: LocalDeserialize_get_def memcpy_from_def)

lemma gets_objs:
  "Other \<notin> set xs \<Longrightarrow>
     LocalDeserialize_gets (pre @ concat (map obj_bytes xs) @ post) (length pre) (map obj_want xs) =
       Inr (map obj_bytes xs)"
proof (induction xs arbitrary: pre)
  case Nil
  then show ?case by simp
next
  case (Cons x xs)
  from Cons.prems have x: "x \<noteq> Other" and xs: "Other \<notin> set xs" by auto
  show ?case
    using get_obj [OF x, of pre "concat (map obj_bytes xs) @ post"]
      Cons.IH [OF xs, of "pre @ obj_bytes x"]
    by simp
qed

text \<open>The standard reading of \<^verbatim>\<open>resize\<close>: truncate, or pad with zero bytes.\<close>

definition list_resize :: resize_fn where
  "list_resize b n = take n b @ replicate (n - length b) 0"

interpretation list_charbuf: charbuf list_resize
  by unfold_locales (simp_all add: list_resize_def)

section \<open>Properties\<close>

text \<open>
  C27. Serialising any sequence of integers and strings into a buffer, whatever the
  buffer held before, and reading it back with the matching types gives the same bytes
  in the same order; every intermediate copy stays inside the buffer.
\<close>

theorem local_serialize_roundtrip:
  assumes "charbuf resize" and "Other \<notin> set xs"
  shows "res_bind (LocalSerialize_puts resize (LocalSerialize_new resize old) xs)
           (\<lambda>d. LocalDeserialize_gets d 0 (map obj_want xs)) = Inr (map obj_bytes xs)"
  using gets_objs [OF assms(2), of "[]" "[]"]
  by (simp add: charbuf.puts_append [OF assms] charbuf.LocalSerialize_new_empty [OF assms(1)])

theorem local_serialize_roundtrip_witness:
  "charbuf list_resize \<and> Other \<notin> set [srl_u32 16, Str [1, 2]] \<and>
   res_bind (LocalSerialize_puts list_resize (LocalSerialize_new list_resize [9, 9, 9]) [srl_u32 16, Str [1, 2]])
     (\<lambda>d. LocalDeserialize_gets d 0 (map obj_want [srl_u32 16, Str [1, 2]])) =
     Inr [[16, 0, 0, 0], [1, 2]]"
proof -
  have c: "charbuf list_resize" by (rule list_charbuf.charbuf_axioms)
  have n: "Other \<notin> set [srl_u32 16, Str [1, 2]]" by (simp add: srl_u32_def)
  show ?thesis
    using c n local_serialize_roundtrip [OF c n, of "[9, 9, 9]"]
    by (simp add: srl_u32_def)
qed

end
