(* ===== verification/Queues.thy ===== *)
theory Queues
  imports Tasks
begin

text \<open>
  \<^verbatim>\<open>include/hermes_run/queue_manager/queue.h\<close> and \<^verbatim>\<open>queues/hshm_queue.h\<close>: the
  multi-lane queues tasks travel through. A queue is divided into lane groups, one per
  priority, and a group into lanes. A lane is an \<^verbatim>\<open>hipc::mpsc_queue\<close> of the shared-memory
  library: the record \<open>queue_env\<close> holds its operations and the bit-field operations,
  and the locale \<open>lane_queues\<close> states what the code relies on. \<^verbatim>\<open>hipc::vector\<close>s of groups
  and lanes are lists.
\<close>

section \<open>Data\<close>

definition QUEUE_LOW_LATENCY :: "bitfield_lib \<Rightarrow> u32" where "QUEUE_LOW_LATENCY B = bf_BIT_OPT B 0"
definition QUEUE_RESIZE :: "bitfield_lib \<Rightarrow> u32" where "QUEUE_RESIZE B = bf_BIT_OPT B 1"
definition QUEUE_UPDATE :: "bitfield_lib \<Rightarrow> u32" where "QUEUE_UPDATE B = bf_BIT_OPT B 2"
definition QUEUE_UNORDERED :: "bitfield_lib \<Rightarrow> u32" where "QUEUE_UNORDERED B = bf_BIT_OPT B 3"
definition QUEUE_LONG_RUNNING :: "bitfield_lib \<Rightarrow> u32" where "QUEUE_LONG_RUNNING B = bf_BIT_OPT B 3"

lemmas queue_flag_defs = QUEUE_LOW_LATENCY_def QUEUE_RESIZE_def QUEUE_UPDATE_def
  QUEUE_UNORDERED_def QUEUE_LONG_RUNNING_def

record PriorityInfo =
  max_lanes :: u32
  num_lanes :: u32
  depth :: u32
  pflags :: u32

definition PriorityInfo_new :: "u32 \<Rightarrow> u32 \<Rightarrow> u32 \<Rightarrow> u32 \<Rightarrow> PriorityInfo" where
  "PriorityInfo_new nl ml d fl = \<lparr>max_lanes = ml, num_lanes = nl, depth = d, pflags = fl\<rparr>"

text \<open>The copy and move constructors and assignments.\<close>

definition PriorityInfo_copy :: "PriorityInfo \<Rightarrow> PriorityInfo" where
  "PriorityInfo_copy p = \<lparr>max_lanes = max_lanes p, num_lanes = num_lanes p, depth = depth p,
     pflags = pflags p\<rparr>"

text \<open>The address of an object in shared memory.\<close>

type_synonym Pointer = nat

record LaneData =
  ld_p :: Pointer
  ld_complete :: bool
  ld_thread :: "nat option"

definition LaneData_new :: "Pointer \<Rightarrow> bool \<Rightarrow> LaneData" where
  "LaneData_new p c = \<lparr>ld_p = p, ld_complete = c, ld_thread = None\<rparr>"

record Lane =
  items :: "LaneData list"
  lane_flags :: u32

record LaneGroup = PriorityInfo +
  gprio :: u32
  num_scheduled :: u32
  lanes :: "Lane list"

text \<open>
  The constructor from a priority description; the priority is set by the caller.
  \<open>mem\<close> is what the allocated memory held before.
\<close>

definition LaneGroup_new :: "LaneGroup \<Rightarrow> PriorityInfo \<Rightarrow> LaneGroup" where
  "LaneGroup_new mem p = mem\<lparr>max_lanes := max_lanes p, num_lanes := num_lanes p,
     num_scheduled := 0, depth := depth p, pflags := pflags p, lanes := []\<rparr>"

definition IsLowPriority :: "bitfield_lib \<Rightarrow> LaneGroup \<Rightarrow> bool" where
  "IsLowPriority B g = (bf_Any B (pflags g) (QUEUE_LONG_RUNNING B) \<or> gprio g = 0)"

record MultiQueue =
  mq_id :: QueueId
  groups :: "LaneGroup list"
  mq_flags :: u32

section \<open>The queue library\<close>

text \<open>
  \<open>mpsc_new\<close> constructs a lane of a depth, \<open>mpsc_emplace\<close> appends an entry and tells
  whether the token it returns is not null, \<open>mpsc_peek\<close> reads the entry at an offset from
  the head (\<open>None\<close> for a null token), \<open>mpsc_poke\<close> is a write through the pointer that
  \<open>mpsc_peek\<close> gives, \<open>mpsc_pop\<close> drops the head. \<open>plug_reads i\<close> is the value of the
  flags of a queue at the \<open>i\<close>-th test of a wait loop, as other threads leave it.
\<close>

record queue_env =
  qe_bits :: bitfield_lib
  mpsc_new :: "u32 \<Rightarrow> Lane"
  mpsc_emplace :: "Lane \<Rightarrow> LaneData \<Rightarrow> Lane \<times> bool"
  mpsc_peek :: "Lane \<Rightarrow> nat \<Rightarrow> LaneData option"
  mpsc_poke :: "Lane \<Rightarrow> nat \<Rightarrow> LaneData \<Rightarrow> Lane"
  mpsc_pop :: "Lane \<Rightarrow> Lane"
  plug_reads :: "nat \<Rightarrow> u32"

locale lane_queues = bitfield "qe_bits E" for E :: queue_env +
  assumes items_new [simp]: "items (mpsc_new E d) = []"
    and items_emplace: "items (fst (mpsc_emplace E l x)) =
      (if snd (mpsc_emplace E l x) then items l @ [x] else items l)"
    and flags_emplace [simp]: "lane_flags (fst (mpsc_emplace E l x)) = lane_flags l"
    and peek_items [simp]: "mpsc_peek E l i = (if i < length (items l) then Some (items l ! i) else None)"
    and items_poke [simp]: "i < length (items l) \<Longrightarrow> items (mpsc_poke E l i x) = (items l)[i := x]"
    and flags_poke [simp]: "lane_flags (mpsc_poke E l i x) = lane_flags l"
    and items_pop [simp]: "items (mpsc_pop E l) = tl (items l)"
    and flags_pop [simp]: "lane_flags (mpsc_pop E l) = lane_flags l"

section \<open>Operations\<close>

definition MultiQueue_default :: "bitfield_lib \<Rightarrow> MultiQueue \<Rightarrow> MultiQueue" where
  "MultiQueue_default B mem = mem\<lparr>mq_flags := bf_init B\<rparr>"

text \<open>The inner loop of the constructor: \<open>num_lanes\<close> lanes, each with the group's flags.\<close>

fun make_lanes :: "queue_env \<Rightarrow> u32 \<Rightarrow> u32 \<Rightarrow> nat \<Rightarrow> Lane list" where
  "make_lanes E d fl 0 = []"
| "make_lanes E d fl (Suc n) = make_lanes E d fl n @ [(mpsc_new E d)\<lparr>lane_flags := fl\<rparr>]"

definition make_group :: "queue_env \<Rightarrow> LaneGroup \<Rightarrow> nat \<Rightarrow> PriorityInfo \<Rightarrow> LaneGroup" where
  "make_group E mem i info =
     (let g = (LaneGroup_new mem info)\<lparr>gprio := of_nat i\<rparr>
      in g\<lparr>lanes := make_lanes E (depth g) (pflags info) (unat (num_lanes g))\<rparr>)"

fun make_groups :: "queue_env \<Rightarrow> LaneGroup \<Rightarrow> nat \<Rightarrow> PriorityInfo list \<Rightarrow> LaneGroup list" where
  "make_groups E mem i [] = []"
| "make_groups E mem i (p # ps) = make_group E mem i p # make_groups E mem (Suc i) ps"

definition MultiQueue_new :: "queue_env \<Rightarrow> LaneGroup \<Rightarrow> QueueId \<Rightarrow> PriorityInfo list \<Rightarrow> MultiQueue" where
  "MultiQueue_new E mem qid prios =
     \<lparr>mq_id = qid, groups = make_groups E mem 0 prios, mq_flags = bf_init (qe_bits E)\<rparr>"

definition GetGroup :: "MultiQueue \<Rightarrow> u32 \<Rightarrow> LaneGroup res" where
  "GetGroup q pr = vec_at (groups q) (unat pr)"

definition GetLane :: "LaneGroup \<Rightarrow> u32 \<Rightarrow> Lane res" where
  "GetLane g lane_id = vec_at (lanes g) (unat lane_id)"

definition GetLane_prio :: "MultiQueue \<Rightarrow> u32 \<Rightarrow> u32 \<Rightarrow> Lane res" where
  "GetLane_prio q pr lane_id = res_bind (GetGroup q pr) (\<lambda>g. GetLane g lane_id)"

definition IsEmplacePlugged :: "bitfield_lib \<Rightarrow> MultiQueue \<Rightarrow> bool" where
  "IsEmplacePlugged B q = bf_Any B (mq_flags q) (QUEUE_RESIZE B)"

definition IsPopPlugged :: "bitfield_lib \<Rightarrow> MultiQueue \<Rightarrow> bool" where
  "IsPopPlugged B q = bf_Any B (mq_flags q) (QUEUE_UPDATE B OR QUEUE_RESIZE B)"

partial_function (option) WaitForEmplacePlug :: "queue_env \<Rightarrow> nat \<Rightarrow> nat option" where
  "WaitForEmplacePlug E i =
     (if bf_Any (qe_bits E) (plug_reads E i) (QUEUE_UPDATE (qe_bits E))
      then WaitForEmplacePlug E (Suc i) else Some i)"

text \<open>The references the code takes to a group and to a lane are written back.\<close>

definition put_lane :: "MultiQueue \<Rightarrow> nat \<Rightarrow> nat \<Rightarrow> Lane \<Rightarrow> MultiQueue" where
  "put_lane q gi li l = q\<lparr>groups := (groups q)[gi := (groups q ! gi)\<lparr>lanes :=
     (lanes (groups q ! gi))[li := l]\<rparr>]\<rparr>"

definition Emplace_lane ::
    "queue_env \<Rightarrow> MultiQueue \<Rightarrow> u32 \<Rightarrow> u32 \<Rightarrow> LaneData \<Rightarrow> (MultiQueue \<times> bool) res" where
  "Emplace_lane E q pr lane_hash' data =
     res_bind (GetGroup q pr) (\<lambda>g.
       if num_lanes g = 0 then Inl DivByZero
       else let lane_id = lane_hash' mod num_lanes g
         in res_bind (GetLane g lane_id) (\<lambda>l.
              case mpsc_emplace E l data of
                (l', ok) \<Rightarrow> Inr (put_lane q (unat pr) (unat lane_id) l', ok)))"

definition Emplace_data ::
    "queue_env \<Rightarrow> MultiQueue \<Rightarrow> u32 \<Rightarrow> u32 \<Rightarrow> LaneData \<Rightarrow> (MultiQueue \<times> bool) res" where
  "Emplace_data E q pr lane_hash' data =
     (if IsEmplacePlugged (qe_bits E) q
      then (case WaitForEmplacePlug E 0 of
              None \<Rightarrow> Inl Diverges
            | Some _ \<Rightarrow> Emplace_lane E q pr lane_hash' data)
      else Emplace_lane E q pr lane_hash' data)"

definition Emplace :: "queue_env \<Rightarrow> MultiQueue \<Rightarrow> u32 \<Rightarrow> u32 \<Rightarrow> Pointer \<Rightarrow> (MultiQueue \<times> bool) res" where
  "Emplace E q pr lane_hash' p = Emplace_data E q pr lane_hash' (LaneData_new p False)"

definition Resize :: "MultiQueue \<Rightarrow> u32 \<Rightarrow> MultiQueue" where
  "Resize q n = q"

definition PlugForResize :: "MultiQueue \<Rightarrow> MultiQueue \<times> bool" where
  "PlugForResize q = (q, True)"

definition PlugForUpdateTask :: "MultiQueue \<Rightarrow> MultiQueue \<times> bool" where
  "PlugForUpdateTask q = (q, True)"

definition UnplugForResize :: "bitfield_lib \<Rightarrow> MultiQueue \<Rightarrow> MultiQueue" where
  "UnplugForResize B q = q\<lparr>mq_flags := bf_UnsetBits B (mq_flags q) (QUEUE_RESIZE B)\<rparr>"

definition UnplugForUpdateTask :: "bitfield_lib \<Rightarrow> MultiQueue \<Rightarrow> MultiQueue" where
  "UnplugForUpdateTask B q = q\<lparr>mq_flags := bf_UnsetBits B (mq_flags q) (QUEUE_UPDATE B)\<rparr>"

section \<open>Well-formed queues\<close>

text \<open>
  Group \<open>i\<close> has priority \<open>i\<close> and exactly as many lanes as it says it uses.
\<close>

definition group_wf :: "nat \<Rightarrow> LaneGroup \<Rightarrow> bool" where
  "group_wf i g \<longleftrightarrow> gprio g = of_nat i \<and> length (lanes g) = unat (num_lanes g) \<and>
     num_scheduled g \<le> num_lanes g"

definition queue_wf :: "MultiQueue \<Rightarrow> bool" where
  "queue_wf q \<longleftrightarrow> (\<forall>i < length (groups q). group_wf i (groups q ! i))"

text \<open>The abstract queue: what each lane of each group holds, oldest first.\<close>

definition lane_items :: "MultiQueue \<Rightarrow> nat \<Rightarrow> nat \<Rightarrow> LaneData list" where
  "lane_items q gi li = items (lanes (groups q ! gi) ! li)"

lemma length_make_lanes [simp]: "length (make_lanes E d fl n) = n"
  by (induction n) simp_all

lemma length_make_groups [simp]: "length (make_groups E mem i ps) = length ps"
  by (induction ps arbitrary: i) simp_all

lemma nth_make_lanes: "k < n \<Longrightarrow> make_lanes E d fl n ! k = (mpsc_new E d)\<lparr>lane_flags := fl\<rparr>"
  by (induction n) (auto simp: nth_append less_Suc_eq)

lemma nth_make_groups: "k < length ps \<Longrightarrow> make_groups E mem i ps ! k = make_group E mem (i + k) (ps ! k)"
proof (induction ps arbitrary: i k)
  case Nil
  then show ?case by simp
next
  case (Cons p ps)
  then show ?case by (cases k) simp_all
qed

lemma make_group_simps [simp]:
  "gprio (make_group E mem i p) = of_nat i"
  "num_lanes (make_group E mem i p) = num_lanes p"
  "num_scheduled (make_group E mem i p) = 0"
  "pflags (make_group E mem i p) = pflags p"
  "lanes (make_group E mem i p) = make_lanes E (depth p) (pflags p) (unat (num_lanes p))"
  by (simp_all add: make_group_def LaneGroup_new_def Let_def)

lemma MultiQueue_new_wf: "queue_wf (MultiQueue_new E mem qid ps)"
  by (simp add: queue_wf_def group_wf_def MultiQueue_new_def nth_make_groups)

lemma lane_id_in_range:
  "(n :: u32) \<noteq> 0 \<Longrightarrow> unat (h mod n) < unat n"
  by (simp add: word_less_nat_alt [symmetric] word_gt_0 word_mod_less_divisor)

lemma put_lane_simps [simp]:
  "mq_id (put_lane q gi li l) = mq_id q"
  "mq_flags (put_lane q gi li l) = mq_flags q"
  "length (groups (put_lane q gi li l)) = length (groups q)"
  by (simp_all add: put_lane_def)

lemma put_lane_wf: "queue_wf q \<Longrightarrow> queue_wf (put_lane q gi li l)"
  by (auto simp: queue_wf_def group_wf_def put_lane_def nth_list_update_if)

lemma lane_items_put_lane:
  assumes "gi < length (groups q)" and "li < length (lanes (groups q ! gi))"
  shows "lane_items (put_lane q gi li l) gj lj =
    (if gj = gi \<and> lj = li then items l else lane_items q gj lj)"
  using assms by (auto simp: lane_items_def put_lane_def nth_list_update)

context lane_queues
begin

lemma Emplace_lane_ok:
  fixes h :: u32
  assumes "queue_wf q" and "unat pr < length (groups q)" and "num_lanes (groups q ! unat pr) \<noteq> 0"
  defines "li \<equiv> unat (h mod num_lanes (groups q ! unat pr))"
  defines "l \<equiv> lanes (groups q ! unat pr) ! li"
  shows "Emplace_lane E q pr h x =
    Inr (put_lane q (unat pr) li (fst (mpsc_emplace E l x)), snd (mpsc_emplace E l x))"
    and "li < length (lanes (groups q ! unat pr))"
proof -
  from assms(1,2) have "length (lanes (groups q ! unat pr)) = unat (num_lanes (groups q ! unat pr))"
    by (simp add: queue_wf_def group_wf_def)
  then show li: "li < length (lanes (groups q ! unat pr))"
    using assms(3) by (simp add: li_def lane_id_in_range)
  show "Emplace_lane E q pr h x =
    Inr (put_lane q (unat pr) li (fst (mpsc_emplace E l x)), snd (mpsc_emplace E l x))"
    using li assms(2,3)
    by (simp add: Emplace_lane_def GetGroup_def GetLane_def Let_def l_def li_def split: prod.splits)
qed

lemma Emplace_lane_abs:
  assumes "queue_wf q" and "unat pr < length (groups q)" and "num_lanes (groups q ! unat pr) \<noteq> 0"
    and "Emplace_lane E q pr h x = Inr (q', ok)"
  shows "queue_wf q' \<and> mq_id q' = mq_id q \<and> mq_flags q' = mq_flags q \<and>
    lane_items q' gi li =
      (if ok \<and> gi = unat pr \<and> li = unat (h mod num_lanes (groups q ! unat pr))
       then lane_items q gi li @ [x] else lane_items q gi li)"
  using Emplace_lane_ok(1) [OF assms(1-3), of h x] Emplace_lane_ok(2) [OF assms(1-3), of h] assms
  by (auto simp: put_lane_wf lane_items_put_lane items_emplace lane_items_def [symmetric])

lemma Emplace_data_unplugged:
  "\<not> IsEmplacePlugged (qe_bits E) q \<Longrightarrow> Emplace_data E q pr h x = Emplace_lane E q pr h x"
  by (simp add: Emplace_data_def)

lemma new_queue_unplugged: "\<not> IsEmplacePlugged (qe_bits E) (MultiQueue_new E mem qid ps)"
  by (simp add: IsEmplacePlugged_def MultiQueue_new_def QUEUE_RESIZE_def flag_simps)

lemma new_queue_empty:
  "gi < length ps \<Longrightarrow> li < unat (num_lanes (ps ! gi)) \<Longrightarrow> lane_items (MultiQueue_new E mem qid ps) gi li = []"
  by (simp add: lane_items_def MultiQueue_new_def nth_make_groups nth_make_lanes)

end

lemma WaitForEmplacePlug_stop:
  "\<not> bf_Any (qe_bits E) (plug_reads E i) (QUEUE_UPDATE (qe_bits E)) \<Longrightarrow> WaitForEmplacePlug E i = Some i"
  by (simp add: WaitForEmplacePlug.simps [of E i])

section \<open>A lane library on lists\<close>

text \<open>Lanes that hold at most \<open>cap\<close> entries, over the word bit fields; never plugged.\<close>

definition list_env :: "nat \<Rightarrow> queue_env" where
  "list_env cap = \<lparr>qe_bits = word_bitfield,
     mpsc_new = (\<lambda>d. \<lparr>items = [], lane_flags = 0\<rparr>),
     mpsc_emplace = (\<lambda>l x. if length (items l) < cap then (l\<lparr>items := items l @ [x]\<rparr>, True) else (l, False)),
     mpsc_peek = (\<lambda>l i. if i < length (items l) then Some (items l ! i) else None),
     mpsc_poke = (\<lambda>l i x. l\<lparr>items := (items l)[i := x]\<rparr>),
     mpsc_pop = (\<lambda>l. l\<lparr>items := tl (items l)\<rparr>),
     plug_reads = (\<lambda>i. 0)\<rparr>"

lemma list_env_bits [simp]: "qe_bits (list_env cap) = word_bitfield"
  by (simp add: list_env_def)

interpretation list_lanes: lane_queues "list_env cap"
  by unfold_locales
    (simp_all add: word_bf.bit_init word_bf.bit_SetBits word_bf.bit_UnsetBits word_bf.Any_bit
      word_bf.bit_BIT_OPT, simp_all add: list_env_def)

section \<open>Properties\<close>

text \<open>
  Tasks put into a queue travel in order. From a well-formed queue that is not
  plugged, emplacing into an existing priority whose group has lanes always succeeds
  without leaving the group or lane vectors, appends the entry to exactly the lane
  \<open>lane_hash mod num_lanes\<close> when the lane library accepts it, changes no other lane, and
  keeps the queue well-formed.
\<close>

theorem Emplace_fifo:
  assumes "lane_queues E" and "queue_wf q" and "\<not> IsEmplacePlugged (qe_bits E) q"
    and "unat pr < length (groups q)" and "num_lanes (groups q ! unat pr) \<noteq> 0"
  shows "\<exists>q' ok. Emplace E q pr h p = Inr (q', ok) \<and> queue_wf q' \<and> mq_id q' = mq_id q \<and>
    (\<forall>gi li. lane_items q' gi li =
      (if ok \<and> gi = unat pr \<and> li = unat (h mod num_lanes (groups q ! unat pr))
       then lane_items q gi li @ [LaneData_new p False] else lane_items q gi li))"
proof -
  note E = assms(1)
  have eq: "Emplace E q pr h p = Emplace_lane E q pr h (LaneData_new p False)"
    using assms(3) by (simp add: Emplace_def lane_queues.Emplace_data_unplugged [OF E])
  then obtain q' ok where r: "Emplace E q pr h p = Inr (q', ok)"
    using lane_queues.Emplace_lane_ok(1) [OF E assms(2,4,5)] by metis
  then show ?thesis
    using lane_queues.Emplace_lane_abs [OF E assms(2,4,5), of h "LaneData_new p False" q' ok] eq
    by auto
qed

text \<open>Memory that is all zero, as a fresh shared-memory segment is.\<close>

definition zero_uid :: UniqueId where
  "zero_uid = \<lparr>node_id = 0, uid_hash = 0, unique = 0\<rparr>"

definition zero_group :: LaneGroup where
  "zero_group = \<lparr>max_lanes = 0, num_lanes = 0, depth = 0, pflags = 0, gprio = 0, num_scheduled = 0, lanes = []\<rparr>"

theorem Emplace_fifo_witness:
  "\<exists>q' ok. Emplace (list_env 4) (MultiQueue_new (list_env 4) zero_group (UniqueId_new 1 1)
       [PriorityInfo_new 2 2 4 0]) 0 5 9 = Inr (q', ok) \<and> queue_wf q' \<and>
     lane_items q' 0 0 = [] \<and> lane_items q' 0 1 = (if ok then [LaneData_new 9 False] else [])"
proof -
  let ?q = "MultiQueue_new (list_env 4) zero_group (UniqueId_new 1 1) [PriorityInfo_new 2 2 4 0]"
  have E: "lane_queues (list_env 4)" by (rule list_lanes.lane_queues_axioms)
  have wf: "queue_wf ?q" by (rule MultiQueue_new_wf)
  have up: "\<not> IsEmplacePlugged (qe_bits (list_env 4)) ?q" by (rule list_lanes.new_queue_unplugged)
  have g: "unat (0 :: u32) < length (groups ?q)" by (simp add: MultiQueue_new_def)
  have nl: "num_lanes (groups ?q ! unat (0 :: u32)) = 2"
    by (simp add: MultiQueue_new_def PriorityInfo_new_def)
  have li: "unat ((5 :: u32) mod 2) = 1" by simp
  have empty: "lane_items ?q 0 0 = []" "lane_items ?q 0 1 = []"
    by (simp_all add: list_lanes.new_queue_empty PriorityInfo_new_def)
  from Emplace_fifo [OF E wf up g, of 5 9] nl li empty show ?thesis by fastforce
qed

text \<open>
  A queue built from a list of priority descriptions is well-formed and not
  plugged; group \<open>i\<close> has priority \<open>i\<close>, the flags of its description, no scheduled lanes
  and exactly \<open>num_lanes\<close> lanes, each empty and with the group's flags.
\<close>

theorem MultiQueue_new_spec:
  assumes "lane_queues E"
  shows "queue_wf (MultiQueue_new E mem qid ps) \<and> \<not> IsEmplacePlugged (qe_bits E) (MultiQueue_new E mem qid ps) \<and>
    length (groups (MultiQueue_new E mem qid ps)) = length ps \<and>
    (\<forall>i < length ps. let g = groups (MultiQueue_new E mem qid ps) ! i in
       gprio g = of_nat i \<and> pflags g = pflags (ps ! i) \<and> num_scheduled g = 0 \<and>
       length (lanes g) = unat (num_lanes (ps ! i)) \<and>
       (\<forall>l \<in> set (lanes g). items l = [] \<and> lane_flags l = pflags (ps ! i)))"
proof -
  have lane: "items l = [] \<and> lane_flags l = fl" if "l \<in> set (make_lanes E d fl n)" for l d fl n
    using that lane_queues.items_new [OF assms] by (auto simp: in_set_conv_nth nth_make_lanes)
  show ?thesis
    using lane MultiQueue_new_wf lane_queues.new_queue_unplugged [OF assms]
    by (auto simp: Let_def MultiQueue_new_def nth_make_groups)
qed

theorem MultiQueue_new_spec_witness:
  "lane_queues (list_env 8) \<and>
   (let g = groups (MultiQueue_new (list_env 8) zero_group (UniqueId_new 1 1)
        [PriorityInfo_new 1 1 8 8, PriorityInfo_new 3 4 8 1]) ! 1
    in gprio g = 1 \<and> pflags g = 1 \<and> length (lanes g) = 3)"
proof -
  have E: "lane_queues (list_env 8)" by (rule list_lanes.lane_queues_axioms)
  from MultiQueue_new_spec [OF E, of zero_group "UniqueId_new 1 1"
      "[PriorityInfo_new 1 1 8 8, PriorityInfo_new 3 4 8 1]"] E
  show ?thesis by (auto simp: Let_def PriorityInfo_new_def)
qed

text \<open>
  The emplace plug does not hold emplacers back while a queue is being resized:
  with only the resize flag set, the wait loop returns at its first test and the entry
  goes into its lane exactly as if the queue were not plugged.
\<close>

theorem resize_plug_does_not_block:
  assumes "lane_queues E" and "plug_reads E 0 = mq_flags q"
    and "bf_Any (qe_bits E) (mq_flags q) (QUEUE_RESIZE (qe_bits E))"
    and "\<not> bf_Any (qe_bits E) (mq_flags q) (QUEUE_UPDATE (qe_bits E))"
  shows "IsEmplacePlugged (qe_bits E) q \<and> WaitForEmplacePlug E 0 = Some 0 \<and>
    Emplace E q pr h p = Emplace_lane E q pr h (LaneData_new p False)"
  using assms WaitForEmplacePlug_stop [of E 0]
  by (simp add: IsEmplacePlugged_def Emplace_def Emplace_data_def)

theorem resize_plug_does_not_block_witness:
  "\<exists>q'. IsEmplacePlugged word_bitfield \<lparr>mq_id = UniqueId_new 1 1, groups = [], mq_flags = 2\<rparr> \<and>
     Emplace ((list_env 4)\<lparr>plug_reads := \<lambda>i. 2\<rparr>)
       \<lparr>mq_id = UniqueId_new 1 1, groups = groups (MultiQueue_new (list_env 4) zero_group
          (UniqueId_new 1 1) [PriorityInfo_new 1 1 4 0]), mq_flags = 2\<rparr> 0 0 9 = Inr (q', True)"
proof -
  let ?E = "(list_env 4)\<lparr>plug_reads := \<lambda>i. 2\<rparr>"
  let ?g = "groups (MultiQueue_new (list_env 4) zero_group (UniqueId_new 1 1) [PriorityInfo_new 1 1 4 0])"
  let ?q = "\<lparr>mq_id = UniqueId_new 1 1, groups = ?g, mq_flags = 2\<rparr>"
  have E: "lane_queues ?E"
    by unfold_locales
      (simp_all add: word_bf.bit_init word_bf.bit_SetBits word_bf.bit_UnsetBits word_bf.Any_bit
        word_bf.bit_BIT_OPT, simp_all add: list_env_def)
  have bits: "qe_bits ?E = word_bitfield" by simp
  have r: "bf_Any (qe_bits ?E) (mq_flags ?q) (QUEUE_RESIZE (qe_bits ?E))"
    and u: "\<not> bf_Any (qe_bits ?E) (mq_flags ?q) (QUEUE_UPDATE (qe_bits ?E))"
    by (simp_all add: word_bitfield_def QUEUE_RESIZE_def QUEUE_UPDATE_def)
  from resize_plug_does_not_block [OF E _ r u, of 0 0 9] bits
  show ?thesis
    by (simp add: IsEmplacePlugged_def Emplace_lane_def GetGroup_def GetLane_def MultiQueue_new_def
        make_group_def LaneGroup_new_def PriorityInfo_new_def list_env_def Let_def)
qed

end
