(* ===== verification/Config.thy ===== *)
theory Config
  imports Prelude
begin

text \<open>
  Configuration: \<^verbatim>\<open>include/hermes_run/config/*.h\<close>, \<^verbatim>\<open>src/config_server.cc\<close> and
  \<^verbatim>\<open>src/config_client.cc\<close>. YAML documents and the path, size and host-name parsers come
  from other libraries: \<open>yaml_lib\<close> and \<open>parse_lib\<close> are arguments. A parser mutates
  the configuration field by field and an exception leaves what was already written, so
  a parse step maps a configuration to the one it leaves and the exception, if any.
\<close>

section \<open>Configurations\<close>

record WorkOrchestratorInfo =
  max_workers :: size_t

record QueueManagerInfo =
  queue_depth :: u32
  qm_max_lanes :: u32
  qm_max_queues :: u32
  shm_allocator :: string
  shm_name :: string
  shm_size :: size_t

record RpcInfo =
  host_file :: string
  host_names :: "string list"
  protocol :: string
  rpc_domain :: string
  port :: int
  num_threads :: int

record ServerConfig =
  wo :: WorkOrchestratorInfo
  queue_manager :: QueueManagerInfo
  rpc :: RpcInfo
  task_libs :: "string list"

record ClientConfig =
  thread_model :: string

section \<open>The libraries\<close>

text \<open>
  \<open>y_get n k\<close> is \<^verbatim>\<open>n[k]\<close>, \<open>None\<close> when the key is absent; the \<open>as\<close> conversions may
  throw; \<open>y_seq\<close> lists the elements an iteration over a node visits.
\<close>

record 'y yaml_lib =
  y_get :: "'y \<Rightarrow> string \<Rightarrow> 'y option"
  y_size :: "'y \<Rightarrow> size_t res"
  y_int :: "'y \<Rightarrow> int res"
  y_string :: "'y \<Rightarrow> string res"
  y_seq :: "'y \<Rightarrow> 'y list"
  y_load :: "string \<Rightarrow> 'y res"
  y_load_file :: "string \<Rightarrow> 'y res"

record parse_lib =
  ExpandPath :: "string \<Rightarrow> string"
  ParseSize :: "string \<Rightarrow> size_t"
  ParseHostfile :: "string \<Rightarrow> string list"
  ParseHostNameString :: "string \<Rightarrow> string list"

section \<open>Parse steps\<close>

type_synonym 'c step = "'c \<Rightarrow> 'c \<times> error option"

definition then_step :: "'c step \<Rightarrow> 'c step \<Rightarrow> 'c step" where
  "then_step f g c = (case f c of (c', None) \<Rightarrow> g c' | (c', Some e) \<Rightarrow> (c', Some e))"

fun steps :: "'c step list \<Rightarrow> 'c step" where
  "steps [] c = (c, None)"
| "steps (f # fs) c = then_step f (steps fs) c"

text \<open>\<^verbatim>\<open>if (node[key]) { field = node[key].as<T>(); }\<close>\<close>

definition opt_field ::
    "'y yaml_lib \<Rightarrow> 'y \<Rightarrow> string \<Rightarrow> ('y \<Rightarrow> 'v res) \<Rightarrow> ('v \<Rightarrow> 'c \<Rightarrow> 'c) \<Rightarrow> 'c step" where
  "opt_field Y node key conv upd c =
     (case y_get Y node key of
        None \<Rightarrow> (c, None)
      | Some v \<Rightarrow> (case conv v of Inl e \<Rightarrow> (c, Some e) | Inr x \<Rightarrow> (upd x c, None)))"

definition ParseWorkOrchestrator :: "'y yaml_lib \<Rightarrow> 'y \<Rightarrow> ServerConfig step" where
  "ParseWorkOrchestrator Y n = opt_field Y n ''max_workers'' (y_size Y)
     (\<lambda>x c. c\<lparr>wo := (wo c)\<lparr>max_workers := x\<rparr>\<rparr>)"

text \<open>The sizes are read as \<^verbatim>\<open>size_t\<close> and stored in 32-bit members.\<close>

definition ParseQueueManager :: "'y yaml_lib \<Rightarrow> parse_lib \<Rightarrow> 'y \<Rightarrow> ServerConfig step" where
  "ParseQueueManager Y P n = steps
     [opt_field Y n ''queue_depth'' (y_size Y)
        (\<lambda>x c. c\<lparr>queue_manager := (queue_manager c)\<lparr>queue_depth := ucast x\<rparr>\<rparr>),
      opt_field Y n ''max_lanes'' (y_size Y)
        (\<lambda>x c. c\<lparr>queue_manager := (queue_manager c)\<lparr>qm_max_lanes := ucast x\<rparr>\<rparr>),
      opt_field Y n ''max_queues'' (y_size Y)
        (\<lambda>x c. c\<lparr>queue_manager := (queue_manager c)\<lparr>qm_max_queues := ucast x\<rparr>\<rparr>),
      opt_field Y n ''shm_allocator'' (y_string Y)
        (\<lambda>x c. c\<lparr>queue_manager := (queue_manager c)\<lparr>shm_allocator := x\<rparr>\<rparr>),
      opt_field Y n ''shm_name'' (y_string Y)
        (\<lambda>x c. c\<lparr>queue_manager := (queue_manager c)\<lparr>shm_name := x\<rparr>\<rparr>),
      opt_field Y n ''shm_size'' (y_string Y)
        (\<lambda>x c. c\<lparr>queue_manager := (queue_manager c)\<lparr>shm_size := ParseSize P x\<rparr>\<rparr>)]"

text \<open>The \<^verbatim>\<open>host_file\<close> branch: the file is only read when its path is not empty.\<close>

definition ParseHostFileField :: "'y yaml_lib \<Rightarrow> parse_lib \<Rightarrow> 'y \<Rightarrow> ServerConfig step" where
  "ParseHostFileField Y P n = opt_field Y n ''host_file'' (y_string Y)
     (\<lambda>x c. let f = ExpandPath P x; r = (rpc c)\<lparr>host_file := f\<rparr>
        in c\<lparr>rpc := (if length f > 0 then r\<lparr>host_names := ParseHostfile P f\<rparr> else r)\<rparr>)"

text \<open>The loop over \<^verbatim>\<open>host_names\<close>, which runs only while no host is known.\<close>

fun ParseHostNames :: "'y yaml_lib \<Rightarrow> parse_lib \<Rightarrow> 'y list \<Rightarrow> ServerConfig step" where
  "ParseHostNames Y P [] c = (c, None)"
| "ParseHostNames Y P (g # gs) c =
     (case y_string Y g of
        Inl e \<Rightarrow> (c, Some e)
      | Inr s \<Rightarrow> ParseHostNames Y P gs
          (c\<lparr>rpc := (rpc c)\<lparr>host_names := host_names (rpc c) @ ParseHostNameString P s\<rparr>\<rparr>))"

definition ParseHostNamesField :: "'y yaml_lib \<Rightarrow> parse_lib \<Rightarrow> 'y \<Rightarrow> ServerConfig step" where
  "ParseHostNamesField Y P n c =
     (case y_get Y n ''host_names'' of
        None \<Rightarrow> (c, None)
      | Some v \<Rightarrow> if length (host_names (rpc c)) = 0 then ParseHostNames Y P (y_seq Y v) c else (c, None))"

definition ParseRpcInfo :: "'y yaml_lib \<Rightarrow> parse_lib \<Rightarrow> 'y \<Rightarrow> ServerConfig step" where
  "ParseRpcInfo Y P n = steps
     [\<lambda>c. (c\<lparr>rpc := (rpc c)\<lparr>host_names := []\<rparr>\<rparr>, None),
      ParseHostFileField Y P n,
      ParseHostNamesField Y P n,
      opt_field Y n ''domain'' (y_string Y) (\<lambda>x c. c\<lparr>rpc := (rpc c)\<lparr>rpc_domain := x\<rparr>\<rparr>),
      opt_field Y n ''protocol'' (y_string Y) (\<lambda>x c. c\<lparr>rpc := (rpc c)\<lparr>protocol := x\<rparr>\<rparr>),
      opt_field Y n ''port'' (y_int Y) (\<lambda>x c. c\<lparr>rpc := (rpc c)\<lparr>port := x\<rparr>\<rparr>),
      opt_field Y n ''num_threads'' (y_int Y) (\<lambda>x c. c\<lparr>rpc := (rpc c)\<lparr>num_threads := x\<rparr>\<rparr>)]"

fun ParseVector :: "'y yaml_lib \<Rightarrow> 'y list \<Rightarrow> string list \<Rightarrow> string list \<times> error option" where
  "ParseVector Y [] acc = (acc, None)"
| "ParseVector Y (v # vs) acc =
     (case y_string Y v of Inl e \<Rightarrow> (acc, Some e) | Inr s \<Rightarrow> ParseVector Y vs (acc @ [s]))"

definition section_of :: "'y yaml_lib \<Rightarrow> 'y \<Rightarrow> string \<Rightarrow> ('y \<Rightarrow> 'c step) \<Rightarrow> 'c step" where
  "section_of Y doc key f c = (case y_get Y doc key of None \<Rightarrow> (c, None) | Some n \<Rightarrow> f n c)"

definition ServerConfig_ParseYAML :: "'y yaml_lib \<Rightarrow> parse_lib \<Rightarrow> 'y \<Rightarrow> ServerConfig step" where
  "ServerConfig_ParseYAML Y P doc = steps
     [section_of Y doc ''work_orchestrator'' (ParseWorkOrchestrator Y),
      section_of Y doc ''queue_manager'' (ParseQueueManager Y P),
      section_of Y doc ''rpc'' (ParseRpcInfo Y P),
      section_of Y doc ''task_registry''
        (\<lambda>n c. let (l, e) = ParseVector Y (y_seq Y n) (task_libs c) in (c\<lparr>task_libs := l\<rparr>, e))]"

definition ClientConfig_ParseYAML :: "'y yaml_lib \<Rightarrow> 'y \<Rightarrow> ClientConfig step" where
  "ClientConfig_ParseYAML Y doc = opt_field Y doc ''thread_model'' (y_string Y)
     (\<lambda>x c. c\<lparr>thread_model := x\<rparr>)"

section \<open>Loading\<close>

text \<open>
  \<open>LoadText\<close> and \<open>LoadFromFile\<close> are methods of the base class; \<open>dflt\<close> is the text of
  the class's default configuration and \<open>parse\<close> its \<^verbatim>\<open>ParseYAML\<close>. An exception in
  \<open>LoadText\<close> leaves the function; in \<open>LoadFromFile\<close> it is caught and logged as fatal.
\<close>

definition LoadText_body :: "'y yaml_lib \<Rightarrow> ('y \<Rightarrow> 'c step) \<Rightarrow> string \<Rightarrow> 'c step" where
  "LoadText_body Y parse txt c =
     (if length txt = 0 then (c, None)
      else case y_load Y txt of Inl e \<Rightarrow> (c, Some e) | Inr doc \<Rightarrow> parse doc c)"

definition LoadDefault :: "'y yaml_lib \<Rightarrow> ('y \<Rightarrow> 'c step) \<Rightarrow> string \<Rightarrow> 'c step" where
  "LoadDefault Y parse dflt = LoadText_body Y parse dflt"

definition LoadText :: "'y yaml_lib \<Rightarrow> ('y \<Rightarrow> 'c step) \<Rightarrow> string \<Rightarrow> string \<Rightarrow> bool \<Rightarrow> 'c step" where
  "LoadText Y parse dflt txt with_default =
     then_step (if with_default then LoadDefault Y parse dflt else (\<lambda>c. (c, None)))
       (LoadText_body Y parse txt)"

definition LoadFromFile ::
    "bool \<Rightarrow> 'y yaml_lib \<Rightarrow> parse_lib \<Rightarrow> ('y \<Rightarrow> 'c step) \<Rightarrow> string \<Rightarrow> string \<Rightarrow> bool \<Rightarrow> 'c step" where
  "LoadFromFile fr Y P parse dflt path with_default =
     then_step (if with_default then LoadDefault Y parse dflt else (\<lambda>c. (c, None)))
       (\<lambda>c. if length path = 0 then (c, None)
            else case (case y_load_file Y (ExpandPath P path) of
                         Inl e \<Rightarrow> (c, Some e) | Inr doc \<Rightarrow> parse doc c) of
                   (c', None) \<Rightarrow> (c', None)
                 | (c', Some e) \<Rightarrow> (c', if fr then None else Some (Fatal ''config'')))"

section \<open>Facts about parsing\<close>

lemma then_step_ok: "f c = (c', None) \<Longrightarrow> then_step f g c = g c'"
  by (simp add: then_step_def)

text \<open>A projection that no step changes is unchanged at the end, whatever fails.\<close>

definition keeps :: "('c \<Rightarrow> 'v) \<Rightarrow> 'c step \<Rightarrow> bool" where
  "keeps pr f \<longleftrightarrow> (\<forall>c. pr (fst (f c)) = pr c)"

lemma keeps_then_step: "keeps pr f \<Longrightarrow> keeps pr g \<Longrightarrow> keeps pr (then_step f g)"
  unfolding keeps_def then_step_def by (metis (no_types, lifting) fst_conv option.exhaust
      option.simps(4) option.simps(5) prod.case_eq_if prod.collapse)

lemma keeps_steps: "(\<And>f. f \<in> set fs \<Longrightarrow> keeps pr f) \<Longrightarrow> keeps pr (steps fs)"
proof (induction fs)
  case Nil
  show ?case by (simp add: keeps_def)
next
  case (Cons f fs)
  then have "keeps pr (then_step f (steps fs))" by (intro keeps_then_step) auto
  then show ?case by (simp add: keeps_def)
qed

lemma keeps_opt_field: "(\<And>x c. pr (upd x c) = pr c) \<Longrightarrow> keeps pr (opt_field Y n k conv upd)"
  by (auto simp: keeps_def opt_field_def split: option.splits sum.splits)

lemma keeps_section: "(\<And>n. keeps pr (f n)) \<Longrightarrow> keeps pr (section_of Y doc k f)"
  by (auto simp: keeps_def section_of_def split: option.splits)

lemma keeps_ParseHostNames:
  assumes "\<And>h c. pr (c\<lparr>rpc := (rpc c)\<lparr>host_names := h\<rparr>\<rparr>) = pr c"
  shows "pr (fst (ParseHostNames Y P gs c)) = pr c"
  using assms by (induction gs arbitrary: c) (auto split: sum.splits)

lemma ParseVector_appends:
  assumes "\<And>v. v \<in> set vs \<Longrightarrow> y_string Y v = Inr (f v)"
  shows "ParseVector Y vs acc = (acc @ map f vs, None)"
  using assms by (induction vs arbitrary: acc) auto

lemma keeps_ParseQueueManager:
  assumes "\<And>q c. pr (c\<lparr>queue_manager := q\<rparr>) = pr c"
  shows "keeps pr (ParseQueueManager Y P n)"
  unfolding ParseQueueManager_def
  by (rule keeps_steps) (auto intro!: keeps_opt_field simp: assms)

lemma keeps_ParseRpcInfo:
  assumes "\<And>r c. pr (c\<lparr>rpc := r\<rparr>) = pr c"
  shows "keeps pr (ParseRpcInfo Y P n)"
proof -
  have h: "keeps pr (ParseHostNamesField Y P n)"
    using keeps_ParseHostNames [of pr] assms
    by (auto simp: keeps_def ParseHostNamesField_def split: option.splits)
  have f: "keeps pr (ParseHostFileField Y P n)"
    unfolding ParseHostFileField_def by (rule keeps_opt_field) (simp add: assms Let_def)
  have s: "keeps pr (\<lambda>c. (c\<lparr>rpc := (rpc c)\<lparr>host_names := []\<rparr>\<rparr>, None))"
    by (simp add: keeps_def assms)
  show ?thesis
    unfolding ParseRpcInfo_def
    by (rule keeps_steps) (use h f s in \<open>auto intro!: keeps_opt_field simp: assms\<close>)
qed

lemma steps_Cons_ok: "f c = (c', None) \<Longrightarrow> steps (f # fs) c = steps fs c'"
  by (simp add: then_step_def)

lemma opt_field_absent: "y_get Y n k = None \<Longrightarrow> opt_field Y n k conv upd c = (c, None)"
  by (simp add: opt_field_def)

lemma steps_ok_iff:
  "steps (f # fs) c = (c', None) \<longleftrightarrow> (\<exists>d. f c = (d, None) \<and> steps fs d = (c', None))"
  by (auto simp: then_step_def split: prod.splits option.splits)

lemma opt_field_host_names:
  assumes "opt_field Y n k conv upd c = (c', None)"
    and "\<And>x c. host_names (rpc (upd x c)) = host_names (rpc c)"
  shows "host_names (rpc c') = host_names (rpc c)"
  using keeps_opt_field [of "\<lambda>c. host_names (rpc c)" upd Y n k conv] assms
  by (auto simp: keeps_def) (metis fst_conv)

lemma ParseRpcInfo_no_hosts:
  assumes "ParseRpcInfo Y P n c = (c', None)"
    and "y_get Y n ''host_file'' = None" and "y_get Y n ''host_names'' = None"
  shows "host_names (rpc c') = []"
  using assms
  by (auto simp: ParseRpcInfo_def steps_ok_iff ParseHostFileField_def ParseHostNamesField_def
      opt_field_absent simp del: steps.simps(2) dest!: opt_field_host_names)

lemma keeps_task_libs_section:
  "(\<And>l c. pr (c\<lparr>task_libs := l\<rparr>) = pr c) \<Longrightarrow> keeps pr (section_of Y doc ''task_registry''
      (\<lambda>n c. let (l, e) = ParseVector Y (y_seq Y n) (task_libs c) in (c\<lparr>task_libs := l\<rparr>, e)))"
  by (rule keeps_section) (auto simp: keeps_def split: prod.splits)

lemma keeps_absent_section: "y_get Y doc k = None \<Longrightarrow> keeps pr (section_of Y doc k f)"
  by (simp add: keeps_def section_of_def)

lemma keeps_ParseWorkOrchestrator:
  "(\<And>l c. pr (c\<lparr>wo := l\<rparr>) = pr c) \<Longrightarrow> keeps pr (ParseWorkOrchestrator Y n)"
  unfolding ParseWorkOrchestrator_def by (rule keeps_opt_field)

text \<open>A projection survives a document none of whose sections can change it.\<close>

lemma keeps_ParseYAML:
  assumes "y_get Y doc ''work_orchestrator'' = None \<or> (\<forall>l c. pr (c\<lparr>wo := l\<rparr>) = pr c)"
    and "y_get Y doc ''queue_manager'' = None \<or> (\<forall>l c. pr (c\<lparr>queue_manager := l\<rparr>) = pr c)"
    and "y_get Y doc ''rpc'' = None \<or> (\<forall>l c. pr (c\<lparr>rpc := l\<rparr>) = pr c)"
    and "y_get Y doc ''task_registry'' = None \<or> (\<forall>l c. pr (c\<lparr>task_libs := l\<rparr>) = pr c)"
  shows "keeps pr (ServerConfig_ParseYAML Y P doc)"
proof -
  have "keeps pr (section_of Y doc ''work_orchestrator'' (ParseWorkOrchestrator Y))"
    using assms(1) by (elim disjE) (simp_all add: keeps_absent_section keeps_section keeps_ParseWorkOrchestrator)
  moreover have "keeps pr (section_of Y doc ''queue_manager'' (ParseQueueManager Y P))"
    using assms(2) by (elim disjE) (simp_all add: keeps_absent_section keeps_section keeps_ParseQueueManager)
  moreover have "keeps pr (section_of Y doc ''rpc'' (ParseRpcInfo Y P))"
    using assms(3) by (elim disjE) (simp_all add: keeps_absent_section keeps_section keeps_ParseRpcInfo)
  moreover have "keeps pr (section_of Y doc ''task_registry''
      (\<lambda>n c. let (l, e) = ParseVector Y (y_seq Y n) (task_libs c) in (c\<lparr>task_libs := l\<rparr>, e)))"
    using assms(4) by (elim disjE) (blast intro: keeps_absent_section keeps_task_libs_section)+
  ultimately show ?thesis
    unfolding ServerConfig_ParseYAML_def by (intro keeps_steps) auto
qed

text \<open>YAML documents as trees.\<close>

datatype yaml_tree = YMap "(string \<times> yaml_tree) list" | YSeq "yaml_tree list" | YStr string | YNum int

fun tree_get :: "yaml_tree \<Rightarrow> string \<Rightarrow> yaml_tree option" where
  "tree_get (YMap m) k = map_of m k"
| "tree_get _ k = None"

fun tree_string :: "yaml_tree \<Rightarrow> string res" where
  "tree_string (YStr s) = Inr s"
| "tree_string _ = Inl (Thrown ''bad conversion'')"

fun tree_num :: "yaml_tree \<Rightarrow> int res" where
  "tree_num (YNum i) = Inr i"
| "tree_num _ = Inl (Thrown ''bad conversion'')"

fun tree_seq :: "yaml_tree \<Rightarrow> yaml_tree list" where
  "tree_seq (YSeq l) = l"
| "tree_seq _ = []"

definition tree_lib :: "yaml_tree yaml_lib" where
  "tree_lib = \<lparr>y_get = tree_get, y_size = (\<lambda>v. res_bind (tree_num v) (\<lambda>i. Inr (word_of_int i))),
     y_int = tree_num, y_string = tree_string, y_seq = tree_seq,
     y_load = (\<lambda>s. Inl (Thrown ''no text'')), y_load_file = (\<lambda>s. Inl (Thrown ''no file''))\<rparr>"

definition plain_parse :: parse_lib where
  "plain_parse = \<lparr>ExpandPath = (\<lambda>p. p), ParseSize = (\<lambda>s. 0), ParseHostfile = (\<lambda>f. []),
     ParseHostNameString = (\<lambda>s. [s])\<rparr>"

definition sample_config :: ServerConfig where
  "sample_config = \<lparr>wo = \<lparr>max_workers = 4\<rparr>, queue_manager = \<lparr>queue_depth = 256, qm_max_lanes = 16,
     qm_max_queues = 1024, shm_allocator = ''kScalablePageAllocator'', shm_name = ''hermes_run_shm'',
     shm_size = 0\<rparr>, rpc = \<lparr>host_file = [], host_names = [''localhost''], protocol = ''ofi+sockets'',
     rpc_domain = [], port = 8080, num_threads = 4\<rparr>, task_libs = [''hermes_mdm'']\<rparr>"

section \<open>Properties\<close>

text \<open>
  C35. A section that a document does not have leaves its part of the configuration as
  it was, whether or not the parse of the other sections fails.
\<close>

theorem config_sections_independent:
  "(y_get Y doc ''rpc'' = None \<longrightarrow> rpc (fst (ServerConfig_ParseYAML Y P doc c)) = rpc c) \<and>
   (y_get Y doc ''queue_manager'' = None \<longrightarrow>
      queue_manager (fst (ServerConfig_ParseYAML Y P doc c)) = queue_manager c) \<and>
   (y_get Y doc ''work_orchestrator'' = None \<longrightarrow>
      wo (fst (ServerConfig_ParseYAML Y P doc c)) = wo c) \<and>
   (y_get Y doc ''task_registry'' = None \<longrightarrow>
      task_libs (fst (ServerConfig_ParseYAML Y P doc c)) = task_libs c)"
  using keeps_ParseYAML [where pr = rpc and Y = Y and doc = doc and P = P]
    keeps_ParseYAML [where pr = queue_manager and Y = Y and doc = doc and P = P]
    keeps_ParseYAML [where pr = wo and Y = Y and doc = doc and P = P]
    keeps_ParseYAML [where pr = task_libs and Y = Y and doc = doc and P = P]
  by (simp add: keeps_def)

theorem config_sections_independent_witness:
  "y_get tree_lib (YMap [(''rpc'', YMap [(''port'', YNum 9)])]) ''queue_manager'' = None \<and>
   queue_manager (fst (ServerConfig_ParseYAML tree_lib plain_parse
     (YMap [(''rpc'', YMap [(''port'', YNum 9)])]) sample_config)) = queue_manager sample_config"
proof -
  have h: "y_get tree_lib (YMap [(''rpc'', YMap [(''port'', YNum 9)])]) ''queue_manager'' = None"
    by (simp add: tree_lib_def)
  with config_sections_independent [of tree_lib "YMap [(''rpc'', YMap [(''port'', YNum 9)])]"
      plain_parse sample_config]
  show ?thesis by blast
qed

text \<open>
  A document whose \<^verbatim>\<open>rpc\<close> section names no hosts (say, one that only changes the
  port) leaves the server with no host at all: the hosts of the default configuration
  that was loaded before are cleared.
\<close>

theorem rpc_section_clears_hosts:
  assumes "ServerConfig_ParseYAML Y P doc c = (c', None)" and "y_get Y doc ''rpc'' = Some n"
    and "y_get Y n ''host_file'' = None" and "y_get Y n ''host_names'' = None"
  shows "host_names (rpc c') = []"
proof -
  from assms(1,2) obtain d d' where r: "ParseRpcInfo Y P n d = (d', None)"
    and t: "steps [section_of Y doc ''task_registry''
      (\<lambda>n c. let (l, e) = ParseVector Y (y_seq Y n) (task_libs c) in (c\<lparr>task_libs := l\<rparr>, e))] d' = (c', None)"
    by (auto simp: ServerConfig_ParseYAML_def steps_ok_iff section_of_def simp del: steps.simps(2))
  have "host_names (rpc d') = []" by (rule ParseRpcInfo_no_hosts [OF r assms(3,4)])
  moreover from t have "rpc c' = rpc d'"
    by (auto simp: then_step_def section_of_def split: option.splits prod.splits)
  ultimately show ?thesis by simp
qed

theorem rpc_section_clears_hosts_witness:
  "host_names (rpc sample_config) = [''localhost''] \<and>
   (\<exists>c'. ServerConfig_ParseYAML tree_lib plain_parse (YMap [(''rpc'', YMap [(''port'', YNum 9)])])
      sample_config = (c', None) \<and> host_names (rpc c') = [] \<and> port (rpc c') = 9)"
proof -
  let ?d = "YMap [(''rpc'', YMap [(''port'', YNum 9)])]"
  obtain c' where eq: "ServerConfig_ParseYAML tree_lib plain_parse ?d sample_config = (c', None)"
    and p: "port (rpc c') = 9"
    by (simp add: ServerConfig_ParseYAML_def section_of_def tree_lib_def then_step_def ParseRpcInfo_def
        ParseHostFileField_def ParseHostNamesField_def opt_field_def)
  have "host_names (rpc c') = []"
    by (rule rpc_section_clears_hosts [OF eq, of "YMap [(''port'', YNum 9)]"]) (simp_all add: tree_lib_def)
  with eq p show ?thesis by (simp add: sample_config_def)
qed

end
