(* ===== verification/QueueManager.thy ===== *)
theory QueueManager
  imports Queues Config
begin

text \<open>
  \<^verbatim>\<open>include/hermes_run/queue_manager/queue_manager*.h\<close>: the table of queues in shared
  memory, its initialisation, and the creation and destruction of queues. The table is an
  \<^verbatim>\<open>hipc::vector\<close> and the ticket pool an \<^verbatim>\<open>hipc::split_ticket_queue\<close>; both are lists, and
  the operations the code applies to them beyond indexing are the record \<open>qvec_lib\<close> and
  the locale \<open>queue_table\<close>.
\<close>

record qvec_lib =
  qv_resize :: "MultiQueue list \<Rightarrow> nat \<Rightarrow> MultiQueue list"
  qv_replace :: "MultiQueue list \<Rightarrow> nat \<Rightarrow> MultiQueue \<Rightarrow> MultiQueue list"
  qv_erase :: "MultiQueue list \<Rightarrow> nat \<Rightarrow> MultiQueue list"
  tq_emplace :: "u64 list \<Rightarrow> u64 \<Rightarrow> u64 list"

text \<open>
  The vector operations as documented for vectors; the elements that \<open>qv_resize\<close> adds
  to an empty vector are built in fresh shared memory, which is zero.
\<close>

locale queue_table =
  fixes V :: qvec_lib
  assumes length_resize [simp]: "length (qv_resize V [] n) = n"
    and resize_null: "q \<in> set (qv_resize V [] n) \<Longrightarrow> UniqueId_IsNull (mq_id q) \<and> groups q = []"
    and replace_upd [simp]: "i < length qs \<Longrightarrow> qv_replace V qs i q = qs[i := q]"
    and erase_del [simp]: "i < length qs \<Longrightarrow> qv_erase V qs i = take i qs @ drop (Suc i) qs"
    and emplace_ticket [simp]: "tq_emplace V ts t = ts @ [t]"

section \<open>Queue managers\<close>

record QueueManagerShm =
  shm_queue_map :: "MultiQueue list"
  shm_tickets :: "u64 list"

text \<open>
  The manager keeps a pointer to the table of the shared segment, so its \<open>queue_map\<close> is
  that table. The runtime's own \<^verbatim>\<open>tickets_\<close> pointer is \<open>None\<close> while nothing assigns it;
  its \<^verbatim>\<open>node_id_\<close> hides the member of the base class that \<open>QueueManager_Init\<close> sets.
\<close>

record QueueManager =
  queue_map :: "MultiQueue list"
  qm_node_id :: u32
  admin_queue :: QueueId
  process_queue :: QueueId
  admin_task_state :: TaskStateId

record QueueManagerRuntime = QueueManager +
  max_queues :: size_t
  rt_max_lanes :: size_t
  tickets :: "u64 list option"
  rt_node_id :: u32

definition QueueManager_Init :: "u32 \<Rightarrow> 'a QueueManager_scheme \<Rightarrow> 'a QueueManager_scheme" where
  "QueueManager_Init node qm = qm\<lparr>qm_node_id := node, admin_queue := UniqueId_new 1 0,
     admin_task_state := UniqueId_new 1 0, process_queue := UniqueId_new 1 1\<rparr>"

definition GetQueue :: "MultiQueue list \<Rightarrow> QueueId \<Rightarrow> MultiQueue res" where
  "GetQueue qs qid = vec_at qs (unat (unique qid))"

text \<open>The address of the slot is taken first and followed only after the null test.\<close>

definition CreateQueue ::
    "queue_env \<Rightarrow> qvec_lib \<Rightarrow> LaneGroup \<Rightarrow> MultiQueue list \<Rightarrow> QueueId \<Rightarrow> PriorityInfo list \<Rightarrow> MultiQueue list res" where
  "CreateQueue E V mem qs qid queue_info =
     (if UniqueId_IsNull qid then Inr qs
      else res_bind (GetQueue qs qid) (\<lambda>q.
        if \<not> UniqueId_IsNull (mq_id q) then Inr qs
        else Inr (qv_replace V qs (unat (unique qid)) (MultiQueue_new E mem qid queue_info))))"

definition DestroyQueue ::
    "qvec_lib \<Rightarrow> 'a QueueManagerRuntime_scheme \<Rightarrow> QueueId \<Rightarrow> 'a QueueManagerRuntime_scheme res" where
  "DestroyQueue V qm qid =
     (if unat (unique qid) < length (queue_map qm)
      then let qm' = qm\<lparr>queue_map := qv_erase V (queue_map qm) (unat (unique qid))\<rparr>
           in (case tickets qm' of
                 None \<Rightarrow> Inl NullDeref
               | Some ts \<Rightarrow> Inr (qm'\<lparr>tickets := Some (tq_emplace V ts (unique qid))\<rparr>))
      else Inl OutOfRange)"

fun emplace_tickets :: "qvec_lib \<Rightarrow> u64 list \<Rightarrow> nat \<Rightarrow> u64 list" where
  "emplace_tickets V ts 0 = ts"
| "emplace_tickets V ts (Suc n) = tq_emplace V (emplace_tickets V ts n) (of_nat (Suc n))"

definition admin_queue_info :: "bitfield_lib \<Rightarrow> QueueManagerInfo \<Rightarrow> PriorityInfo list" where
  "admin_queue_info B qmi = [PriorityInfo_new 1 1 (queue_depth qmi) (QUEUE_UNORDERED B)]"

definition process_queue_info :: "bitfield_lib \<Rightarrow> QueueManagerInfo \<Rightarrow> PriorityInfo list" where
  "process_queue_info B qmi =
     [PriorityInfo_new 1 1 (queue_depth qmi) (QUEUE_UNORDERED B),
      PriorityInfo_new 1 1 (queue_depth qmi) (QUEUE_LONG_RUNNING B),
      PriorityInfo_new (qm_max_lanes qmi) (qm_max_lanes qmi) (queue_depth qmi) (QUEUE_LOW_LATENCY B)]"

definition QueueManagerRuntime_ServerInit ::
    "queue_env \<Rightarrow> qvec_lib \<Rightarrow> LaneGroup \<Rightarrow> u32 \<Rightarrow> ServerConfig \<Rightarrow> 'a QueueManagerRuntime_scheme \<Rightarrow>
     ('a QueueManagerRuntime_scheme \<times> QueueManagerShm) res" where
  "QueueManagerRuntime_ServerInit E V mem node config qm0 =
     (let qmi = queue_manager config;
          qm1 = (QueueManager_Init node qm0)\<lparr>max_queues := ucast (qm_max_queues qmi),
            rt_max_lanes := ucast (qm_max_lanes qmi)\<rparr>;
          ts = emplace_tickets V [] (unat (max_queues qm1));
          qs = qv_resize V [] (unat (max_queues qm1))
      in res_bind (CreateQueue E V mem qs (admin_queue qm1) (admin_queue_info (qe_bits E) qmi)) (\<lambda>qs1.
         res_bind (CreateQueue E V mem qs1 (process_queue qm1) (process_queue_info (qe_bits E) qmi)) (\<lambda>qs2.
           Inr (qm1\<lparr>queue_map := qs2\<rparr>, \<lparr>shm_queue_map = qs2, shm_tickets = ts\<rparr>))))"

definition QueueManagerClient_ClientInit ::
    "QueueManagerShm \<Rightarrow> u32 \<Rightarrow> 'a QueueManager_scheme \<Rightarrow> 'a QueueManager_scheme" where
  "QueueManagerClient_ClientInit shm node qm =
     QueueManager_Init node (qm\<lparr>queue_map := shm_queue_map shm\<rparr>)"

section \<open>Facts\<close>

text \<open>Every slot is empty or holds a well-formed queue whose id points back at the slot.\<close>

definition slot_wf :: "nat \<Rightarrow> MultiQueue \<Rightarrow> bool" where
  "slot_wf i q \<longleftrightarrow> queue_wf q \<and> (\<not> UniqueId_IsNull (mq_id q) \<longrightarrow> unat (unique (mq_id q)) = i)"

definition table_wf :: "MultiQueue list \<Rightarrow> bool" where
  "table_wf qs \<longleftrightarrow> (\<forall>i < length qs. slot_wf i (qs ! i))"

lemma mq_id_MultiQueue_new [simp]: "mq_id (MultiQueue_new E mem qid ps) = qid"
  by (simp add: MultiQueue_new_def)

lemma CreateQueue_null: "UniqueId_IsNull qid \<Longrightarrow> CreateQueue E V mem qs qid ps = Inr qs"
  by (simp add: CreateQueue_def)

lemma CreateQueue_out:
  "\<not> UniqueId_IsNull qid \<Longrightarrow> length qs \<le> unat (unique qid) \<Longrightarrow> CreateQueue E V mem qs qid ps = Inl OutOfRange"
  by (simp add: CreateQueue_def GetQueue_def)

lemma CreateQueue_taken:
  assumes "\<not> UniqueId_IsNull qid" and "unat (unique qid) < length qs"
    and "\<not> UniqueId_IsNull (mq_id (qs ! unat (unique qid)))"
  shows "CreateQueue E V mem qs qid ps = Inr qs"
  using assms by (simp add: CreateQueue_def GetQueue_def)

lemma GetQueue_unique: "unique a = unique b \<Longrightarrow> GetQueue qs a = GetQueue qs b"
  by (simp add: GetQueue_def)

context queue_table
begin

lemma CreateQueue_free:
  assumes "\<not> UniqueId_IsNull qid" and "unat (unique qid) < length qs"
    and "UniqueId_IsNull (mq_id (qs ! unat (unique qid)))"
  shows "CreateQueue E V mem qs qid ps = Inr (qs[unat (unique qid) := MultiQueue_new E mem qid ps])"
  using assms by (simp add: CreateQueue_def GetQueue_def)

lemma CreateQueue_table_wf:
  assumes "table_wf qs" and "CreateQueue E V mem qs qid ps = Inr qs'"
  shows "table_wf qs' \<and> length qs' = length qs"
  using assms
  by (auto simp: CreateQueue_def GetQueue_def table_wf_def slot_wf_def MultiQueue_new_wf
      res_bind_Inr_iff vec_at_Inr_iff nth_list_update_if split: if_splits)

lemma CreateQueue_idem:
  assumes "CreateQueue E V mem qs qid ps = Inr qs'"
  shows "CreateQueue E V mem qs' qid ps' = Inr qs'"
  using assms
  by (auto simp: CreateQueue_def GetQueue_def res_bind_Inr_iff vec_at_Inr_iff nth_list_update_if
      split: if_splits)

lemma CreateQueue_frame:
  assumes "CreateQueue E V mem qs qid ps = Inr qs'" and "i \<noteq> unat (unique qid)"
  shows "qs' ! i = qs ! i"
  using assms
  by (auto simp: CreateQueue_def GetQueue_def res_bind_Inr_iff vec_at_Inr_iff split: if_splits)

lemma emplace_tickets_upt: "emplace_tickets V [] n = map of_nat [1..<Suc n]"
  by (induction n) (simp_all del: of_nat_Suc)

lemma resized_table_wf: "table_wf (qv_resize V [] n)"
  using resize_null [of _ n] nth_mem by (fastforce simp: table_wf_def slot_wf_def queue_wf_def)

end

text \<open>The documented vector operations on lists.\<close>

definition zero_queue :: MultiQueue where
  "zero_queue = \<lparr>mq_id = zero_uid, groups = [], mq_flags = 0\<rparr>"

definition list_qvec :: qvec_lib where
  "list_qvec = \<lparr>qv_resize = (\<lambda>qs n. take n qs @ replicate (n - length qs) zero_queue),
     qv_replace = (\<lambda>qs i q. qs[i := q]),
     qv_erase = (\<lambda>qs i. take i qs @ drop (Suc i) qs),
     tq_emplace = (\<lambda>ts t. ts @ [t])\<rparr>"

interpretation list_table: queue_table list_qvec
  by unfold_locales (auto simp: list_qvec_def zero_queue_def zero_uid_def UniqueId_IsNull_def)

context queue_table
begin

lemma ServerInit_ok:
  fixes E :: queue_env and mem :: LaneGroup and config :: ServerConfig
    and qm0 :: "'a QueueManagerRuntime_scheme"
  assumes "2 \<le> unat (qm_max_queues (queue_manager config))"
  defines "n \<equiv> unat (qm_max_queues (queue_manager config))"
  defines "qs \<equiv> (qv_resize V [] n)
    [0 := MultiQueue_new E mem (UniqueId_new 1 0) (admin_queue_info (qe_bits E) (queue_manager config)),
     1 := MultiQueue_new E mem (UniqueId_new 1 1) (process_queue_info (qe_bits E) (queue_manager config))]"
  shows "\<exists>qm shm. QueueManagerRuntime_ServerInit E V mem node config qm0 = Inr (qm, shm) \<and>
    queue_map qm = qs \<and> shm_queue_map shm = qs \<and> shm_tickets shm = map of_nat [1..<Suc n] \<and>
    max_queues qm = of_nat n \<and> tickets qm = tickets qm0 \<and> length qs = n"
proof -
  have n: "unat (ucast (qm_max_queues (queue_manager config)) :: size_t) = n"
    by (simp add: n_def)
  have mq: "(ucast (qm_max_queues (queue_manager config)) :: size_t) = of_nat n"
    by (simp add: n [symmetric])
  have n': "unat (of_nat n :: size_t) = n" using n mq by simp
  have null: "UniqueId_IsNull (mq_id (qv_resize V [] n ! i))" if "i < n" for i
    using resize_null [of "qv_resize V [] n ! i" n] that by simp
  have ids: "\<not> UniqueId_IsNull (UniqueId_new 1 0)" "\<not> UniqueId_IsNull (UniqueId_new 1 1)"
    "unat (unique (UniqueId_new 1 0)) = 0" "unat (unique (UniqueId_new 1 1)) = 1"
    by (simp_all add: UniqueId_IsNull_def UniqueId_new_def)
  show ?thesis
    using assms(1) null [of 0] null [of 1]
    by (simp add: QueueManagerRuntime_ServerInit_def QueueManager_Init_def Let_def n n' mq qs_def
        CreateQueue_free ids emplace_tickets_upt n_def [symmetric])
qed

lemma ServerInit_table:
  fixes config :: ServerConfig and qm0 :: "'a QueueManagerRuntime_scheme"
  assumes "2 \<le> unat (qm_max_queues (queue_manager config))"
    and "QueueManagerRuntime_ServerInit E V mem node config qm0 = Inr (qm, shm)"
  shows "admin_queue qm = UniqueId_new 1 0" and "process_queue qm = UniqueId_new 1 1" and "table_wf (queue_map qm)"
    and "length (queue_map qm) = unat (qm_max_queues (queue_manager config))"
    and "mq_id (queue_map qm ! 0) = UniqueId_new 1 0" and "mq_id (queue_map qm ! 1) = UniqueId_new 1 1"
    and "\<forall>i < length (queue_map qm). 1 < i \<longrightarrow> UniqueId_IsNull (mq_id (queue_map qm ! i))"
proof -
  let ?n = "unat (qm_max_queues (queue_manager config))"
  have qs: "queue_map qm = (qv_resize V [] ?n)
      [0 := MultiQueue_new E mem (UniqueId_new 1 0) (admin_queue_info (qe_bits E) (queue_manager config)),
       1 := MultiQueue_new E mem (UniqueId_new 1 1) (process_queue_info (qe_bits E) (queue_manager config))]"
    using ServerInit_ok [OF assms(1), of E mem node qm0] assms(2) by auto
  show "admin_queue qm = UniqueId_new 1 0" "process_queue qm = UniqueId_new 1 1"
    using assms(2) by (auto simp: QueueManagerRuntime_ServerInit_def Let_def res_bind_Inr_iff QueueManager_Init_def)
  show "table_wf (queue_map qm)"
    using resized_table_wf [of ?n]
    by (auto simp: qs table_wf_def slot_wf_def MultiQueue_new_wf nth_list_update_if UniqueId_new_def)
  show "length (queue_map qm) = ?n" "mq_id (queue_map qm ! 0) = UniqueId_new 1 0" "mq_id (queue_map qm ! 1) = UniqueId_new 1 1"
    using assms(1) by (simp_all add: qs)
  show "\<forall>i < length (queue_map qm). 1 < i \<longrightarrow> UniqueId_IsNull (mq_id (queue_map qm ! i))"
    using resize_null [of "qv_resize V [] ?n ! _" ?n] by (simp add: qs)
qed

end

text \<open>A manager before its initialisation, for the closed instances below.\<close>

definition sample_runtime :: QueueManagerRuntime where
  "sample_runtime = \<lparr>queue_map = [], qm_node_id = 0, admin_queue = zero_uid, process_queue = zero_uid,
     admin_task_state = zero_uid, max_queues = 0, rt_max_lanes = 0, tickets = None, rt_node_id = 0\<rparr>"

section \<open>Properties\<close>

text \<open>
  Starting the queue manager with room for at least two queues gives a table of
  \<open>max_queues\<close> well-formed slots in which slot 0 is the admin queue, slot 1 the process
  queue with its three priorities, and every other slot is free; the ticket pool counts
  from 1 to \<open>max_queues\<close>, one more than the last slot, so the last ticket has no slot.
\<close>

theorem queue_manager_init:
  fixes config :: ServerConfig and qm0 :: "'a QueueManagerRuntime_scheme"
  assumes "queue_table V" and "2 \<le> unat (qm_max_queues (queue_manager config))"
  shows "\<exists>qm shm. QueueManagerRuntime_ServerInit E V mem node config qm0 = Inr (qm, shm) \<and>
    table_wf (queue_map qm) \<and> length (queue_map qm) = unat (qm_max_queues (queue_manager config)) \<and>
    (\<exists>q. GetQueue (queue_map qm) (admin_queue qm) = Inr q \<and> mq_id q = UniqueId_new 1 0 \<and> length (groups q) = 1) \<and>
    (\<exists>q. GetQueue (queue_map qm) (process_queue qm) = Inr q \<and> mq_id q = UniqueId_new 1 1 \<and> length (groups q) = 3) \<and>
    (\<forall>i < length (queue_map qm). 1 < i \<longrightarrow> UniqueId_IsNull (mq_id (queue_map qm ! i))) \<and>
    (\<forall>t \<in> set (shm_tickets shm). GetQueue (queue_map qm) (UniqueId_new node t) = Inl OutOfRange \<longleftrightarrow>
       t = max_queues qm)"
proof -
  let ?n = "unat (qm_max_queues (queue_manager config))"
  obtain qm shm where r: "QueueManagerRuntime_ServerInit E V mem node config qm0 = Inr (qm, shm)"
    and qs: "queue_map qm = (qv_resize V [] ?n)
      [0 := MultiQueue_new E mem (UniqueId_new 1 0) (admin_queue_info (qe_bits E) (queue_manager config)),
       1 := MultiQueue_new E mem (UniqueId_new 1 1) (process_queue_info (qe_bits E) (queue_manager config))]"
    and ts: "shm_tickets shm = map of_nat [1..<Suc ?n]" and mq: "max_queues qm = of_nat ?n"
    using queue_table.ServerInit_ok [OF assms, of E mem node qm0] by auto
  note t = queue_table.ServerInit_table [OF assms r]
  then have len: "length (queue_map qm) = ?n" and ids: "admin_queue qm = UniqueId_new 1 0" "process_queue qm = UniqueId_new 1 1"
    by simp_all
  have tick: "GetQueue (queue_map qm) (UniqueId_new node (of_nat t)) = Inl OutOfRange \<longleftrightarrow>
      (of_nat t :: u64) = max_queues qm" if "t < Suc ?n" for t
  proof -
    have "?n < 2 ^ 32" using unsigned_less [of "qm_max_queues (queue_manager config)"] by simp
    with that have "unat (of_nat t :: u64) = t" "unat (of_nat ?n :: u64) = ?n"
      by (simp_all add: unat_of_nat_less)
    with that show ?thesis
      by (auto simp: GetQueue_def UniqueId_new_def vec_at_def len mq word_unat_eq_iff)
  qed
  have "\<exists>q. GetQueue (queue_map qm) (admin_queue qm) = Inr q \<and> mq_id q = UniqueId_new 1 0 \<and> length (groups q) = 1"
    using assms(2) len by (simp add: ids GetQueue_def qs UniqueId_new_def admin_queue_info_def MultiQueue_new_def)
  moreover have "\<exists>q. GetQueue (queue_map qm) (process_queue qm) = Inr q \<and> mq_id q = UniqueId_new 1 1 \<and> length (groups q) = 3"
    using assms(2) len by (simp add: ids GetQueue_def qs UniqueId_new_def process_queue_info_def MultiQueue_new_def)
  moreover have "\<forall>t \<in> set (shm_tickets shm). GetQueue (queue_map qm) (UniqueId_new node t) = Inl OutOfRange \<longleftrightarrow>
      t = max_queues qm"
    unfolding ts using tick by (auto simp del: upt_Suc)
  ultimately show ?thesis
    using r t by (intro exI [of _ qm] exI [of _ shm] conjI) simp_all
qed

theorem queue_manager_init_witness:
  "queue_table list_qvec \<and> 2 \<le> unat (qm_max_queues (queue_manager sample_config)) \<and>
   (\<exists>qm shm. QueueManagerRuntime_ServerInit (list_env 8) list_qvec zero_group 1 sample_config sample_runtime = Inr (qm, shm) \<and>
     table_wf (queue_map qm) \<and> length (queue_map qm) = 1024)"
proof -
  have n: "unat (qm_max_queues (queue_manager sample_config)) = 1024" by (simp add: sample_config_def)
  then show ?thesis
    using queue_manager_init [OF list_table.queue_table_axioms, of sample_config "list_env 8" zero_group 1 sample_runtime]
      list_table.queue_table_axioms
    by auto
qed

text \<open>
  C17. Creating a queue, on every branch: a null id is ignored, an id past the table is out
  of range, an id whose slot is taken changes nothing even when another node's id holds
  the slot, and otherwise exactly the id's slot becomes the new empty queue. The table
  stays well-formed and creating the queue again changes nothing.
\<close>

theorem CreateQueue_spec:
  assumes "queue_table V" and "table_wf qs"
  shows "case CreateQueue E V mem qs qid ps of
      Inl e \<Rightarrow> e = OutOfRange \<and> \<not> UniqueId_IsNull qid \<and> length qs \<le> unat (unique qid)
    | Inr qs' \<Rightarrow> table_wf qs' \<and> length qs' = length qs \<and>
        (\<forall>i. i \<noteq> unat (unique qid) \<longrightarrow> qs' ! i = qs ! i) \<and>
        (\<forall>ps'. CreateQueue E V mem qs' qid ps' = Inr qs') \<and>
        (if UniqueId_IsNull qid \<or> \<not> UniqueId_IsNull (mq_id (qs ! unat (unique qid))) then qs' = qs
         else GetQueue qs' qid = Inr (MultiQueue_new E mem qid ps))"
proof (cases "CreateQueue E V mem qs qid ps")
  case (Inl e)
  then show ?thesis
    by (auto simp: CreateQueue_def GetQueue_def res_bind_Inl_iff vec_at_def split: if_splits)
next
  case (Inr qs')
  note facts = queue_table.CreateQueue_table_wf [OF assms Inr] queue_table.CreateQueue_idem [OF assms(1) Inr]
    queue_table.CreateQueue_frame [OF assms(1) Inr]
  have "if UniqueId_IsNull qid \<or> \<not> UniqueId_IsNull (mq_id (qs ! unat (unique qid))) then qs' = qs
      else GetQueue qs' qid = Inr (MultiQueue_new E mem qid ps)"
    using Inr queue_table.replace_upd [OF assms(1)]
    by (auto simp: CreateQueue_def GetQueue_def res_bind_Inr_iff vec_at_Inr_iff split: if_splits)
  with facts show ?thesis by (simp add: Inr)
qed

theorem CreateQueue_spec_witness:
  "queue_table list_qvec \<and> table_wf (replicate 3 zero_queue) \<and>
   (\<exists>qs'. CreateQueue (list_env 8) list_qvec zero_group (replicate 3 zero_queue) (UniqueId_new 1 2) [] = Inr qs' \<and>
      table_wf qs' \<and> length qs' = 3)"
proof -
  have wf: "table_wf (replicate 3 zero_queue)"
    by (simp add: table_wf_def slot_wf_def queue_wf_def zero_queue_def zero_uid_def UniqueId_IsNull_def)
  show ?thesis
    using CreateQueue_spec [OF list_table.queue_table_axioms wf, where E = "list_env 8" and mem = zero_group
        and qid = "UniqueId_new 1 2" and ps = "[]"]
      wf list_table.queue_table_axioms
    by (auto simp: UniqueId_new_def split: sum.splits)
qed

text \<open>
  C38. Destroying a queue of a freshly started manager follows the ticket pool pointer that
  nothing assigned. With a pool it returns the ticket, but erasing the slot moves every
  later queue down by one: afterwards the id of a later slot \<open>j\<close> finds the queue of slot
  \<open>j + 1\<close>, and the last id is out of range.
\<close>

theorem DestroyQueue_shifts:
  assumes "queue_table V" and "unat (unique qid) < length (queue_map qm)"
  shows "(tickets qm = None \<longrightarrow> DestroyQueue V qm qid = Inl NullDeref) \<and>
    (\<forall>ts. tickets qm = Some ts \<longrightarrow> (\<exists>qm'. DestroyQueue V qm qid = Inr qm' \<and>
      tickets qm' = Some (ts @ [unique qid]) \<and>
      (\<forall>j. unat (unique j) < unat (unique qid) \<longrightarrow> GetQueue (queue_map qm') j = GetQueue (queue_map qm) j) \<and>
      (\<forall>j. unat (unique qid) \<le> unat (unique j) \<longrightarrow>
         GetQueue (queue_map qm') j = vec_at (queue_map qm) (Suc (unat (unique j))))))"
  using assms(2) queue_table.erase_del [OF assms(1,2)] queue_table.emplace_ticket [OF assms(1)]
  by (auto simp: DestroyQueue_def Let_def GetQueue_def vec_at_def nth_append)

theorem DestroyQueue_shifts_witness:
  "queue_table list_qvec \<and>
   (\<exists>qm'. DestroyQueue list_qvec (sample_runtime\<lparr>queue_map := [zero_queue, zero_queue], tickets := Some []\<rparr>)
        (UniqueId_new 1 0) = Inr qm' \<and> tickets qm' = Some [0])"
proof -
  let ?qm = "sample_runtime\<lparr>queue_map := [zero_queue, zero_queue], tickets := Some []\<rparr>"
  have "unat (unique (UniqueId_new 1 0)) < length (queue_map ?qm)" by (simp add: UniqueId_new_def)
  from DestroyQueue_shifts [OF list_table.queue_table_axioms this] list_table.queue_table_axioms
  show ?thesis by (auto simp: UniqueId_new_def)
qed

end
