(* ===== verification/Archive.thy ===== *)
theory Archive
  imports Queues LocalSerialize
begin

text \<open>
  \<^verbatim>\<open>include/hermes_run/network/serialize.h\<close> and the \<^verbatim>\<open>serialize\<close> members of the id, node
  and priority classes: how a task is turned into a byte stream and a list of data
  transfers, and read back on another node.

  A C++ \<^verbatim>\<open>serialize\<close> template is instantiated at an output and at an input archive. It is
  modelled once, as the list of members it passes to the archive in order; \<open>ar_out\<close> and
  \<open>ar_in\<close> are its two instances. How \<^verbatim>\<open>cereal\<close> lays out a value is the record
  \<open>cereal_lib\<close>, and the locale \<open>cereal\<close> states that it reads back what it wrote.
\<close>

section \<open>Members\<close>

text \<open>A C++ \<^verbatim>\<open>int\<close> travels as its 32 bits.\<close>

datatype srl_val = V32 u32 | V64 u64 | VStr string | VPrios "PriorityInfo list"

datatype srl_ty = T32 | T64 | TStr | TPrios

primrec ty_of :: "srl_val \<Rightarrow> srl_ty" where
  "ty_of (V32 _) = T32"
| "ty_of (V64 _) = T64"
| "ty_of (VStr _) = TStr"
| "ty_of (VPrios _) = TPrios"

record cereal_lib =
  c_enc :: "srl_val \<Rightarrow> bytes"
  c_dec :: "srl_ty \<Rightarrow> bytes \<Rightarrow> (srl_val \<times> bytes) res"

locale cereal =
  fixes C :: cereal_lib
  assumes dec_enc [codec_simps]: "c_dec C (ty_of v) (c_enc C v @ rest) = Inr (v, rest)"

text \<open>A member of an object: its type, how it is read and how it is assigned.\<close>

datatype 't fld = Fld (fty: srl_ty) (fget: "'t \<Rightarrow> srl_val") (fset: "srl_val \<Rightarrow> 't \<Rightarrow> 't")

definition fld32 :: "('t \<Rightarrow> u32) \<Rightarrow> ((u32 \<Rightarrow> u32) \<Rightarrow> 't \<Rightarrow> 't) \<Rightarrow> 't fld" where
  "fld32 get upd = Fld T32 (\<lambda>t. V32 (get t)) (\<lambda>v t. case v of V32 x \<Rightarrow> upd (\<lambda>_. x) t | _ \<Rightarrow> t)"

definition fld64 :: "('t \<Rightarrow> u64) \<Rightarrow> ((u64 \<Rightarrow> u64) \<Rightarrow> 't \<Rightarrow> 't) \<Rightarrow> 't fld" where
  "fld64 get upd = Fld T64 (\<lambda>t. V64 (get t)) (\<lambda>v t. case v of V64 x \<Rightarrow> upd (\<lambda>_. x) t | _ \<Rightarrow> t)"

definition fldStr :: "('t \<Rightarrow> string) \<Rightarrow> ((string \<Rightarrow> string) \<Rightarrow> 't \<Rightarrow> 't) \<Rightarrow> 't fld" where
  "fldStr get upd = Fld TStr (\<lambda>t. VStr (get t)) (\<lambda>v t. case v of VStr x \<Rightarrow> upd (\<lambda>_. x) t | _ \<Rightarrow> t)"

definition fldPrios ::
    "('t \<Rightarrow> PriorityInfo list) \<Rightarrow> ((PriorityInfo list \<Rightarrow> PriorityInfo list) \<Rightarrow> 't \<Rightarrow> 't) \<Rightarrow> 't fld" where
  "fldPrios get upd = Fld TPrios (\<lambda>t. VPrios (get t)) (\<lambda>v t. case v of VPrios x \<Rightarrow> upd (\<lambda>_. x) t | _ \<Rightarrow> t)"

text \<open>A member that is itself an object with a \<^verbatim>\<open>serialize\<close> member.\<close>

definition sub_fld :: "('t \<Rightarrow> 's) \<Rightarrow> (('s \<Rightarrow> 's) \<Rightarrow> 't \<Rightarrow> 't) \<Rightarrow> 's fld \<Rightarrow> 't fld" where
  "sub_fld get upd f = Fld (fty f) (\<lambda>t. fget f (get t)) (\<lambda>v t. upd (\<lambda>_. fset f v (get t)) t)"

definition sub_flds :: "('t \<Rightarrow> 's) \<Rightarrow> (('s \<Rightarrow> 's) \<Rightarrow> 't \<Rightarrow> 't) \<Rightarrow> 's fld list \<Rightarrow> 't fld list" where
  "sub_flds get upd = map (sub_fld get upd)"

lemmas fld_defs = fld32_def fld64_def fldStr_def fldPrios_def sub_flds_def sub_fld_def

text \<open>The two instances of a list of members.\<close>

fun ar_out :: "cereal_lib \<Rightarrow> 't fld list \<Rightarrow> 't \<Rightarrow> bytes" where
  "ar_out C [] t = []"
| "ar_out C (f # fs) t = c_enc C (fget f t) @ ar_out C fs t"

fun ar_in :: "cereal_lib \<Rightarrow> 't fld list \<Rightarrow> 't \<Rightarrow> bytes \<Rightarrow> ('t \<times> bytes) res" where
  "ar_in C [] t bs = Inr (t, bs)"
| "ar_in C (f # fs) t bs =
     res_bind (c_dec C (fty f) bs) (\<lambda>(v, bs'). ar_in C fs (fset f v t) bs')"

text \<open>What reading the bytes of \<open>t\<close> into \<open>t0\<close> assigns.\<close>

fun copy_flds :: "'t fld list \<Rightarrow> 't \<Rightarrow> 't \<Rightarrow> 't" where
  "copy_flds [] t t0 = t0"
| "copy_flds (f # fs) t t0 = copy_flds fs t (fset f (fget f t) t0)"

definition typed :: "'t fld \<Rightarrow> bool" where
  "typed f \<longleftrightarrow> (\<forall>t. ty_of (fget f t) = fty f)"

lemma typed_flds [simp]:
  "typed (fld32 g u)" "typed (fld64 g' u')" "typed (fldStr gs us)" "typed (fldPrios gp up)"
  by (simp_all add: typed_def fld_defs)

lemma typed_sub [simp]: "typed f \<Longrightarrow> typed (sub_fld g u f)"
  by (simp add: typed_def sub_fld_def)

lemma ar_out_append: "ar_out C (fs @ gs) t = ar_out C fs t @ ar_out C gs t"
  by (induction fs) simp_all

lemma copy_flds_append: "copy_flds (fs @ gs) t t0 = copy_flds gs t (copy_flds fs t t0)"
  by (induction fs arbitrary: t0) simp_all

lemma ar_in_append:
  "ar_in C (fs @ gs) t bs = res_bind (ar_in C fs t bs) (\<lambda>(t', bs'). ar_in C gs t' bs')"
proof (induction fs arbitrary: t bs)
  case Nil
  show ?case by simp
next
  case (Cons f fs)
  then show ?case by (cases "c_dec C (fty f) bs") (auto split: prod.splits)
qed

context cereal
begin

lemma ar_roundtrip:
  "(\<And>f. f \<in> set fs \<Longrightarrow> typed f) \<Longrightarrow> ar_in C fs t0 (ar_out C fs t @ rest) = Inr (copy_flds fs t t0, rest)"
proof (induction fs arbitrary: t0)
  case Nil
  show ?case by simp
next
  case (Cons f fs)
  then have "ty_of (fget f t) = fty f" by (simp add: typed_def)
  with Cons dec_enc [of "fget f t" "ar_out C fs t @ rest"] show ?case by simp
qed

end

section \<open>The serialised classes\<close>

definition UniqueId_serialize :: "UniqueId fld list" where
  "UniqueId_serialize = [fld32 node_id node_id_update, fld32 uid_hash uid_hash_update,
     fld64 unique unique_update]"

definition DomainId_serialize :: "DomainId fld list" where
  "DomainId_serialize = [fld32 dom_flags dom_flags_update, fld32 dom_id dom_id_update]"

definition TaskNode_serialize :: "TaskNode fld list" where
  "TaskNode_serialize = sub_flds root root_update UniqueId_serialize @
     [fld32 node_depth node_depth_update]"

definition PriorityInfo_serialize :: "PriorityInfo fld list" where
  "PriorityInfo_serialize = [fld32 max_lanes max_lanes_update, fld32 num_lanes num_lanes_update,
     fld32 depth depth_update, fld32 pflags pflags_update]"

definition task_serialize :: "'a Task_scheme fld list" where
  "task_serialize =
     sub_flds task_state task_state_update UniqueId_serialize @
     sub_flds task_node task_node_update TaskNode_serialize @
     sub_flds domain_id domain_id_update DomainId_serialize @
     [fld32 lane_hash lane_hash_update, fld32 prio prio_update, fld32 method_id method_id_update,
      fld32 task_flags task_flags_update]"

lemmas serialize_defs = UniqueId_serialize_def DomainId_serialize_def TaskNode_serialize_def
  PriorityInfo_serialize_def task_serialize_def

lemma serialize_typed:
  "f \<in> set UniqueId_serialize \<Longrightarrow> typed f"
  "d \<in> set DomainId_serialize \<Longrightarrow> typed d"
  "n \<in> set TaskNode_serialize \<Longrightarrow> typed n"
  "p \<in> set PriorityInfo_serialize \<Longrightarrow> typed p"
  "t \<in> set (task_serialize :: 'a Task_scheme fld list) \<Longrightarrow> typed t"
  by (auto simp: serialize_defs sub_flds_def)

lemma copy_UniqueId: "copy_flds UniqueId_serialize i j = i"
  by (cases i) (simp add: serialize_defs fld_defs)

lemma copy_DomainId: "copy_flds DomainId_serialize d e = d"
  by (cases d) (simp add: serialize_defs fld_defs)

lemma copy_TaskNode: "copy_flds TaskNode_serialize n m = n"
  by (cases n, cases "root n") (simp add: serialize_defs fld_defs)

lemma copy_PriorityInfo: "copy_flds PriorityInfo_serialize p (q :: PriorityInfo) = p"
  by (cases p) (simp add: serialize_defs fld_defs)

text \<open>The members of a task that travel; \<^verbatim>\<open>delcnt_\<close> and \<^verbatim>\<open>ctx_\<close> keep the reader's values.\<close>

lemma copy_task:
  "copy_flds task_serialize t t0 = t0\<lparr>task_state := task_state t, task_node := task_node t,
     domain_id := domain_id t, lane_hash := lane_hash t, prio := prio t, method_id := method_id t,
     task_flags := task_flags t\<rparr>"
  by (rule Task.equality; cases "task_state t"; cases "task_node t"; cases "root (task_node t)";
      cases "domain_id t"; simp add: serialize_defs fld_defs)

section \<open>Data transfers\<close>

definition DT_RECEIVER_READ :: "bitfield_lib \<Rightarrow> u32" where "DT_RECEIVER_READ B = bf_BIT_OPT B 0"
definition DT_RECEIVER_WRITE :: "bitfield_lib \<Rightarrow> u32" where "DT_RECEIVER_WRITE B = bf_BIT_OPT B 1"
definition DT_FREE_DATA :: "bitfield_lib \<Rightarrow> u32" where "DT_FREE_DATA B = bf_BIT_OPT B 2"

lemmas dt_flag_defs = DT_RECEIVER_READ_def DT_RECEIVER_WRITE_def DT_FREE_DATA_def

text \<open>
  A transfer buffer is represented by the bytes its address points to, \<open>None\<close> for a null
  address; \<open>xf_size\<close> is the member \<^verbatim>\<open>data_size_\<close>.
\<close>

record DataTransfer =
  xf_flags :: u32
  xf_data :: "bytes option"
  xf_size :: nat
  xf_node :: DomainId

definition DataTransfer_new :: "u32 \<Rightarrow> bytes option \<Rightarrow> nat \<Rightarrow> DomainId \<Rightarrow> DataTransfer" where
  "DataTransfer_new fl d n node = \<lparr>xf_flags = fl, xf_data = d, xf_size = n, xf_node = node\<rparr>"

text \<open>The copy and move constructors and the copy assignment.\<close>

definition DataTransfer_copy :: "DataTransfer \<Rightarrow> DataTransfer" where
  "DataTransfer_copy x = \<lparr>xf_flags = xf_flags x, xf_data = xf_data x, xf_size = xf_size x,
     xf_node = xf_node x\<rparr>"

section \<open>Archives\<close>

record BinaryOutputArchive =
  oa_xfer :: "DataTransfer list"
  oa_ss :: bytes
  oa_node :: DomainId

definition BinaryOutputArchive_new :: "DomainId \<Rightarrow> BinaryOutputArchive" where
  "BinaryOutputArchive_new node = \<lparr>oa_xfer = [], oa_ss = [], oa_node = node\<rparr>"

text \<open>\<^verbatim>\<open>Serialize\<close> on plain members and on a data transfer.\<close>

definition Serialize_flds :: "cereal_lib \<Rightarrow> 't fld list \<Rightarrow> 't \<Rightarrow> BinaryOutputArchive \<Rightarrow> BinaryOutputArchive" where
  "Serialize_flds C fs t ar = ar\<lparr>oa_ss := oa_ss ar @ ar_out C fs t\<rparr>"

definition Serialize_xfer :: "DataTransfer \<Rightarrow> BinaryOutputArchive \<Rightarrow> BinaryOutputArchive" where
  "Serialize_xfer x ar = ar\<lparr>oa_xfer := oa_xfer ar @ [x\<lparr>xf_node := oa_node ar\<rparr>]\<rparr>"

text \<open>
  \<^verbatim>\<open>Get\<close> appends the serialised parameters as the last transfer and moves the transfers
  out of the archive.
\<close>

definition Get :: "bitfield_lib \<Rightarrow> BinaryOutputArchive \<Rightarrow> DataTransfer list \<times> BinaryOutputArchive" where
  "Get B ar =
     (let str = oa_ss ar;
          data = (if length str > 0 then Some str else None);
          x = DataTransfer_new (DT_RECEIVER_READ B OR DT_FREE_DATA B) data (length str) (oa_node ar)
      in (oa_xfer ar @ [x], ar\<lparr>oa_xfer := []\<rparr>))"

record BinaryInputArchive =
  ia_xfer :: "DataTransfer list"
  ia_ss :: bytes
  ia_off :: nat

text \<open>
  The constructor reads the parameters from the last transfer. An empty vector, and a
  buffer shorter than its size, are undefined; a null buffer of size 0 is the empty string.
\<close>

definition BinaryInputArchive_new :: "DataTransfer list \<Rightarrow> BinaryInputArchive res" where
  "BinaryInputArchive_new xfer =
     (if xfer = [] then Inl OutOfRange
      else (case xf_data (last xfer) of
        None \<Rightarrow> if xf_size (last xfer) = 0 then Inr \<lparr>ia_xfer = xfer, ia_ss = [], ia_off = 0\<rparr> else Inl NullDeref
      | Some d \<Rightarrow> res_bind (memcpy_from d 0 (xf_size (last xfer)))
          (\<lambda>s. Inr \<lparr>ia_xfer = xfer, ia_ss = s, ia_off = 0\<rparr>)))"

definition Deserialize_flds ::
    "cereal_lib \<Rightarrow> 't fld list \<Rightarrow> 't \<Rightarrow> BinaryInputArchive \<Rightarrow> ('t \<times> BinaryInputArchive) res" where
  "Deserialize_flds C fs t ar =
     res_bind (ar_in C fs t (ia_ss ar)) (\<lambda>(t', s). Inr (t', ar\<lparr>ia_ss := s\<rparr>))"

definition Deserialize_xfer :: "BinaryInputArchive \<Rightarrow> (DataTransfer \<times> BinaryInputArchive) res" where
  "Deserialize_xfer ar =
     res_bind (vec_at (ia_xfer ar) (ia_off ar)) (\<lambda>x. Inr (DataTransfer_copy x, ar\<lparr>ia_off := Suc (ia_off ar)\<rparr>))"

lemma DataTransfer_copy_id [simp]: "DataTransfer_copy x = x"
  by (cases x) (simp add: DataTransfer_copy_def)

text \<open>An archive filled with members and nothing else is read back from its transfer.\<close>

lemma open_Get:
  "BinaryInputArchive_new (fst (Get B ar)) =
    Inr \<lparr>ia_xfer = fst (Get B ar), ia_ss = oa_ss ar, ia_off = 0\<rparr>"
  by (simp add: Get_def Let_def BinaryInputArchive_new_def DataTransfer_new_def memcpy_from_def)

context cereal
begin

lemma flds_roundtrip:
  assumes "\<And>f. f \<in> set fs \<Longrightarrow> typed f" and "ia_ss ia = ar_out C fs t @ rest"
  shows "Deserialize_flds C fs t0 ia = Inr (copy_flds fs t t0, ia\<lparr>ia_ss := rest\<rparr>)"
  by (simp add: Deserialize_flds_def assms(2) ar_roundtrip [OF assms(1)])

end

section \<open>A reference layout\<close>

text \<open>
  Integers little endian; strings and vectors element by element, each preceded by 1, and
  closed by 0.
\<close>

fun enc_chunks :: "bytes list \<Rightarrow> bytes" where
  "enc_chunks [] = [0]"
| "enc_chunks (c # cs) = 1 # c @ enc_chunks cs"

function dec_chunks :: "nat \<Rightarrow> bytes \<Rightarrow> (bytes list \<times> bytes) res" where
  "dec_chunks k [] = Inl OutOfRange"
| "dec_chunks k (b # bs) =
     (if b = 0 then Inr ([], bs)
      else res_bind (dec_chunks k (drop k bs)) (\<lambda>(cs, r). Inr (take k bs # cs, r)))"
  by pat_completeness auto
termination by (relation "measure (\<lambda>(k, bs). length bs)") auto

lemma dec_enc_chunks:
  "(\<And>c. c \<in> set cs \<Longrightarrow> length c = k) \<Longrightarrow> dec_chunks k (enc_chunks cs @ rest) = Inr (cs, rest)"
  by (induction cs) simp_all

definition char_byte :: "char \<Rightarrow> u8" where
  "char_byte c = word_of_nat (of_char c)"

definition byte_char :: "u8 \<Rightarrow> char" where
  "byte_char b = char_of (unat b)"

lemma byte_char_byte [simp]: "byte_char (char_byte c) = c"
proof -
  have "(of_char c :: nat) < 2 ^ 8" using nat_of_char_less_256 [of c] by simp
  then show ?thesis by (simp add: byte_char_def char_byte_def unat_of_nat_less)
qed

definition prio_chunk :: "PriorityInfo \<Rightarrow> bytes" where
  "prio_chunk p = word_bytes 4 (max_lanes p) @ word_bytes 4 (num_lanes p) @ word_bytes 4 (depth p) @
     word_bytes 4 (pflags p)"

definition chunk_prio :: "bytes \<Rightarrow> PriorityInfo" where
  "chunk_prio c = \<lparr>max_lanes = bytes_word (take 4 c), num_lanes = bytes_word (take 4 (drop 4 c)),
     depth = bytes_word (take 4 (drop 8 c)), pflags = bytes_word (take 4 (drop 12 c))\<rparr>"

lemma chunk_prio_chunk [simp]: "chunk_prio (prio_chunk p) = p"
  by (cases p) (simp add: chunk_prio_def prio_chunk_def bytes_word_word_bytes
      del: word_bytes_numeral)

fun ref_enc :: "srl_val \<Rightarrow> bytes" where
  "ref_enc (V32 x) = word_bytes 4 x"
| "ref_enc (V64 x) = word_bytes 8 x"
| "ref_enc (VStr s) = enc_chunks (map (\<lambda>c. [char_byte c]) s)"
| "ref_enc (VPrios ps) = enc_chunks (map prio_chunk ps)"

fun ref_dec :: "srl_ty \<Rightarrow> bytes \<Rightarrow> (srl_val \<times> bytes) res" where
  "ref_dec T32 bs = Inr (V32 (bytes_word (take 4 bs)), drop 4 bs)"
| "ref_dec T64 bs = Inr (V64 (bytes_word (take 8 bs)), drop 8 bs)"
| "ref_dec TStr bs = res_bind (dec_chunks 1 bs) (\<lambda>(cs, r). Inr (VStr (map (\<lambda>c. byte_char (hd c)) cs), r))"
| "ref_dec TPrios bs = res_bind (dec_chunks 16 bs) (\<lambda>(cs, r). Inr (VPrios (map chunk_prio cs), r))"

definition ref_cereal :: cereal_lib where
  "ref_cereal = \<lparr>c_enc = ref_enc, c_dec = ref_dec\<rparr>"

lemma length_prio_chunk [simp]: "length (prio_chunk p) = 16"
  by (simp add: prio_chunk_def del: word_bytes_numeral)

lemma dec_enc_str: "dec_chunks 1 (enc_chunks (map (\<lambda>c. [char_byte c]) s) @ rest) = Inr (map (\<lambda>c. [char_byte c]) s, rest)"
  by (rule dec_enc_chunks) auto

lemma dec_enc_prios: "dec_chunks 16 (enc_chunks (map prio_chunk ps) @ rest) = Inr (map prio_chunk ps, rest)"
  by (rule dec_enc_chunks) auto

lemma ref_dec_enc: "ref_dec (ty_of v) (ref_enc v @ rest) = Inr (v, rest)"
proof (cases v)
  case (VStr s)
  then show ?thesis using dec_enc_str [of s rest] by (simp add: comp_def)
next
  case (VPrios ps)
  then show ?thesis using dec_enc_prios [of ps rest] by (simp add: comp_def)
qed (simp_all add: bytes_word_word_bytes del: word_bytes_numeral)

interpretation ref_codec: cereal ref_cereal
  by unfold_locales (simp add: ref_cereal_def ref_dec_enc)

end
