(* ===== verification/TaskObjects.thy ===== *)
theory TaskObjects
  imports Archive
begin

text \<open>
  The task classes of the libraries as objects. A class is the base class \<open>Task\<close> and its
  own members; an object in shared memory is a \<open>TaskObj\<close>, a task whose \<open>payload\<close> holds
  the members of its class. What the archive, replication and grouping templates use of a
  class is a \<open>task_class\<close>, and the functions of the generated \<^verbatim>\<open>*_lib_exec.h\<close> headers are
  stated once over a library's switch from method to class. Using an object as one of
  another class (\<^verbatim>\<open>reinterpret_cast\<close>) is the error \<open>BadCast\<close>.
\<close>

section \<open>Members of the task classes\<close>

text \<open>\<^verbatim>\<open>hipc::LPointer\<close>: a private and a shared-memory address of the same object.\<close>

record LPointer =
  lp_ptr :: "Pointer option"
  lp_shm :: Pointer

type_synonym c_int = "32 word"

record ScheduleTask =
  sch_ret :: "c_int list"

record RegisterTaskLibTask =
  rl_lib_name :: string
  rl_id :: TaskStateId

record GetOrCreateTaskStateIdTask =
  gc_state_name :: string
  gc_id :: TaskStateId

record CreateTaskStateTask =
  cs_lib_name :: string
  cs_state_name :: string
  cs_queue_info :: "PriorityInfo list"
  cs_id :: TaskStateId

record GetTaskStateIdTask =
  gt_state_name :: string
  gt_id :: TaskStateId

record DestroyTaskStateTask =
  ds_id :: TaskStateId

record SetWorkOrchestratorPolicyTask =
  wp_policy_id :: TaskStateId

record TypedPushTask =
  sub_cli :: LPointer
  sub_run :: LPointer
  phase :: nat

record MdTask =
  md_ret :: "c_int list"

record MdPushTask =
  mp_ret :: "c_int list"

record IoTask =
  io_data :: bytes
  io_ret :: c_int

record RemotePushTask =
  domain_ids :: "DomainId list"
  orig_task :: Pointer
  rp_exec :: nat
  exec_method :: u32
  rp_xfer :: "DataTransfer list"
  rp_params :: bytes

datatype payload =
    PSchedule (un_Schedule: ScheduleTask)
  | PRegisterTaskLib (un_RegisterTaskLib: RegisterTaskLibTask)
  | PGetOrCreateTaskStateId (un_GetOrCreate: GetOrCreateTaskStateIdTask)
  | PCreateTaskState (un_CreateTaskState: CreateTaskStateTask)
  | PGetTaskStateId (un_GetTaskStateId: GetTaskStateIdTask)
  | PDestroyTaskState (un_DestroyTaskState: DestroyTaskStateTask)
  | PStopRuntime
  | PSetPolicy (un_SetPolicy: SetWorkOrchestratorPolicyTask)
  | PTypedPush (un_TypedPush: TypedPushTask)
  | PMd (un_Md: MdTask)
  | PMdPush (un_MdPush: MdPushTask)
  | PIo (un_Io: IoTask)
  | PRemotePush (un_RemotePush: RemotePushTask)
  | PCustom

record TaskObj = Task +
  pl :: payload

text \<open>
  \<^verbatim>\<open>hipc::pod_array\<close>: the elements after \<^verbatim>\<open>construct\<close> and after \<^verbatim>\<open>resize\<close>.
\<close>

record pod_lib =
  pod_construct :: "nat \<Rightarrow> c_int list"
  pod_resize :: "c_int list \<Rightarrow> nat \<Rightarrow> c_int list"

locale pod_array =
  fixes P :: pod_lib
  assumes length_construct [simp]: "length (pod_construct P n) = n"
    and length_pod_resize [simp]: "length (pod_resize P xs n) = n"
    and pod_resize_keeps: "i < length xs \<Longrightarrow> i < n \<Longrightarrow> pod_resize P xs n ! i = xs ! i"

text \<open>The shared-memory libraries that the task classes use.\<close>

record shm_env =
  se_bits :: bitfield_lib
  se_resize :: resize_fn
  se_pods :: pod_lib

section \<open>Task classes\<close>

text \<open>A member of the class, as a member of the object.\<close>

definition pay_upd ::
    "(payload \<Rightarrow> 'm) \<Rightarrow> ('m \<Rightarrow> payload) \<Rightarrow> (('f \<Rightarrow> 'f) \<Rightarrow> 'm \<Rightarrow> 'm) \<Rightarrow> ('f \<Rightarrow> 'f) \<Rightarrow> TaskObj \<Rightarrow> TaskObj" where
  "pay_upd un P upd f t = t\<lparr>pl := P (upd f (un (pl t)))\<rparr>"

text \<open>What every constructor writes into the base class, starting from \<open>Task_new\<close>.\<close>

definition init_task :: "bitfield_lib \<Rightarrow> TaskObj \<Rightarrow> TaskNode \<Rightarrow> u32 \<Rightarrow> u32 \<Rightarrow> TaskStateId \<Rightarrow> u32 \<Rightarrow> u32 \<Rightarrow> DomainId \<Rightarrow> TaskObj" where
  "init_task B mem tn lh pr ts m fl d =
     (let t = Task_new B mem
      in t\<lparr>task_node := tn, lane_hash := lh, prio := pr, task_state := ts, method_id := m,
           task_flags := bf_SetBits B (task_flags t) fl, domain_id := d\<rparr>)"

lemma init_task_simps [simp]:
  "task_node (init_task B mem tn lh pr ts m fl d) = tn"
  "lane_hash (init_task B mem tn lh pr ts m fl d) = lh"
  "prio (init_task B mem tn lh pr ts m fl d) = pr"
  "task_state (init_task B mem tn lh pr ts m fl d) = ts"
  "method_id (init_task B mem tn lh pr ts m fl d) = m"
  "domain_id (init_task B mem tn lh pr ts m fl d) = d"
  "task_flags (init_task B mem tn lh pr ts m fl d) = bf_SetBits B (bf_init B) fl"
  "delcnt (init_task B mem tn lh pr ts m fl d) = 0"
  "pl (init_task B mem tn lh pr ts m fl d) = pl mem"
  by (simp_all add: init_task_def Let_def Task_new_def)

text \<open>
  \<open>tc_SerializeEnd\<close> may index the outputs of a replica and fails out of range.
  \<open>tc_SaveStart\<close> and \<open>tc_LoadStart\<close> are only used by classes with asymmetric serialisation.
\<close>

record task_class =
  tc_is :: "payload \<Rightarrow> bool"
  tc_flags :: TaskFlags
  tc_SerializeStart :: "TaskObj fld list"
  tc_SaveStart :: "TaskObj \<Rightarrow> BinaryOutputArchive \<Rightarrow> BinaryOutputArchive"
  tc_LoadStart :: "TaskObj \<Rightarrow> BinaryInputArchive \<Rightarrow> (TaskObj \<times> BinaryInputArchive) res"
  tc_SerializeEnd :: "u32 \<Rightarrow> TaskObj \<Rightarrow> TaskObj fld list res"
  tc_ReplicateStart :: "u32 \<Rightarrow> TaskObj \<Rightarrow> TaskObj"
  tc_ReplicateEnd :: "TaskObj \<Rightarrow> TaskObj"
  tc_GetGroup :: "TaskObj \<Rightarrow> bytes \<Rightarrow> (u32 \<times> bytes) res"

text \<open>The defaults a class inherits: no asymmetric members, no replication, unordered.\<close>

definition base_class :: "bitfield_lib \<Rightarrow> (payload \<Rightarrow> bool) \<Rightarrow> u32 \<Rightarrow> task_class" where
  "base_class B is_cls flags = \<lparr>tc_is = is_cls, tc_flags = TaskFlags_of B flags,
     tc_SerializeStart = [], tc_SaveStart = (\<lambda>t ar. ar), tc_LoadStart = (\<lambda>t ar. Inr (t, ar)),
     tc_SerializeEnd = (\<lambda>r t. Inr []), tc_ReplicateStart = (\<lambda>n t. t), tc_ReplicateEnd = (\<lambda>t. t),
     tc_GetGroup = (\<lambda>t g. Inr (Task_GetGroup B g))\<rparr>"

text \<open>
  \<^verbatim>\<open>Serialize\<close> and \<^verbatim>\<open>Deserialize\<close> at a task type: the compile-time flags of the class
  choose the member function. No class has \<^verbatim>\<open>SaveEnd\<close> or \<^verbatim>\<open>LoadEnd\<close> members, so a class
  without \<open>SRL_SYM_END\<close> could not be instantiated there.
\<close>

definition Serialize_task ::
    "cereal_lib \<Rightarrow> bool \<Rightarrow> task_class \<Rightarrow> u32 \<Rightarrow> TaskObj \<Rightarrow> BinaryOutputArchive \<Rightarrow> BinaryOutputArchive res" where
  "Serialize_task C is_start cls replica t ar =
     (if \<not> tc_is cls (pl t) then Inl BadCast
      else if SUPPORTS_SRL (tc_flags cls)
      then if is_start
        then Inr (if SRL_SYM_START (tc_flags cls) then Serialize_flds C (tc_SerializeStart cls) t ar
                  else tc_SaveStart cls t ar)
        else if SRL_SYM_END (tc_flags cls)
          then res_bind (tc_SerializeEnd cls replica t) (\<lambda>fs. Inr (Serialize_flds C fs t ar))
          else Inl (Thrown ''no SaveEnd'')
      else Inr ar)"

definition Deserialize_task ::
    "cereal_lib \<Rightarrow> bool \<Rightarrow> task_class \<Rightarrow> u32 \<Rightarrow> TaskObj \<Rightarrow> BinaryInputArchive \<Rightarrow> (TaskObj \<times> BinaryInputArchive) res" where
  "Deserialize_task C is_start cls replica t ar =
     (if \<not> tc_is cls (pl t) then Inl BadCast
      else if SUPPORTS_SRL (tc_flags cls)
      then if is_start
        then (if SRL_SYM_START (tc_flags cls) then Deserialize_flds C (tc_SerializeStart cls) t ar
              else tc_LoadStart cls t ar)
        else if SRL_SYM_END (tc_flags cls)
          then res_bind (tc_SerializeEnd cls replica t) (\<lambda>fs. Deserialize_flds C fs t ar)
          else Inl (Thrown ''no LoadEnd'')
      else Inr (t, ar))"

section \<open>The generated dispatch functions\<close>

text \<open>
  The switch of a library: the class that each method's task is used as, \<open>None\<close> for a
  method without a case.
\<close>

type_synonym method_switch = "u32 \<Rightarrow> task_class option"

definition lib_SaveStart ::
    "cereal_lib \<Rightarrow> bitfield_lib \<Rightarrow> method_switch \<Rightarrow> u32 \<Rightarrow> BinaryOutputArchive \<Rightarrow> TaskObj \<Rightarrow> DataTransfer list res" where
  "lib_SaveStart C B sw m ar t =
     (case sw m of
        None \<Rightarrow> Inr (fst (Get B ar))
      | Some cls \<Rightarrow> res_bind (Serialize_task C True cls 0 t ar) (\<lambda>ar'. Inr (fst (Get B ar'))))"

text \<open>
  \<open>mem cls\<close> is the object that \<^verbatim>\<open>NewEmptyTask\<close> builds in fresh memory; a method without a
  case leaves the task pointer unset.
\<close>

definition lib_LoadStart ::
    "cereal_lib \<Rightarrow> method_switch \<Rightarrow> (task_class \<Rightarrow> TaskObj) \<Rightarrow> u32 \<Rightarrow> BinaryInputArchive \<Rightarrow> TaskObj option res" where
  "lib_LoadStart C sw mem m ar =
     (case sw m of
        None \<Rightarrow> Inr None
      | Some cls \<Rightarrow> res_bind (Deserialize_task C True cls 0 (mem cls) ar) (\<lambda>(t, _). Inr (Some t)))"

definition lib_SaveEnd ::
    "cereal_lib \<Rightarrow> bitfield_lib \<Rightarrow> method_switch \<Rightarrow> u32 \<Rightarrow> BinaryOutputArchive \<Rightarrow> TaskObj \<Rightarrow> DataTransfer list res" where
  "lib_SaveEnd C B sw m ar t =
     (case sw m of
        None \<Rightarrow> Inr (fst (Get B ar))
      | Some cls \<Rightarrow> res_bind (Serialize_task C False cls 0 t ar) (\<lambda>ar'. Inr (fst (Get B ar'))))"

definition lib_LoadEnd ::
    "cereal_lib \<Rightarrow> method_switch \<Rightarrow> u32 \<Rightarrow> u32 \<Rightarrow> BinaryInputArchive \<Rightarrow> TaskObj \<Rightarrow> TaskObj res" where
  "lib_LoadEnd C sw replica m ar t =
     (case sw m of
        None \<Rightarrow> Inr t
      | Some cls \<Rightarrow> res_bind (Deserialize_task C False cls replica t ar) (\<lambda>(t', _). Inr t'))"

definition lib_ReplicateStart :: "method_switch \<Rightarrow> u32 \<Rightarrow> u32 \<Rightarrow> TaskObj \<Rightarrow> TaskObj res" where
  "lib_ReplicateStart sw m count t =
     (case sw m of
        None \<Rightarrow> Inr t
      | Some cls \<Rightarrow> if tc_is cls (pl t)
          then Inr (CALL_REPLICA_START (tc_flags cls) (tc_ReplicateStart cls) count t) else Inl BadCast)"

definition lib_ReplicateEnd :: "method_switch \<Rightarrow> u32 \<Rightarrow> TaskObj \<Rightarrow> TaskObj res" where
  "lib_ReplicateEnd sw m t =
     (case sw m of
        None \<Rightarrow> Inr t
      | Some cls \<Rightarrow> if tc_is cls (pl t)
          then Inr (CALL_REPLICA_END (tc_flags cls) (tc_ReplicateEnd cls) t) else Inl BadCast)"

text \<open>A method without a case returns -1 and leaves the group buffer alone.\<close>

definition lib_GetGroup :: "method_switch \<Rightarrow> u32 \<Rightarrow> TaskObj \<Rightarrow> bytes \<Rightarrow> (u32 \<times> bytes) res" where
  "lib_GetGroup sw m t g =
     (case sw m of
        None \<Rightarrow> Inr (- 1, g)
      | Some cls \<Rightarrow> if tc_is cls (pl t) then tc_GetGroup cls t g else Inl BadCast)"

lemmas lib_exec_defs = lib_SaveStart_def lib_LoadStart_def lib_SaveEnd_def lib_LoadEnd_def
  lib_ReplicateStart_def lib_ReplicateEnd_def lib_GetGroup_def

section \<open>Remote calls of one class\<close>

text \<open>A class whose start parameters survive the trip to another node.\<close>

definition start_ok :: "task_class \<Rightarrow> bool" where
  "start_ok cls \<longleftrightarrow> SUPPORTS_SRL (tc_flags cls) \<and> SRL_SYM_START (tc_flags cls) \<and>
     (\<forall>f \<in> set (tc_SerializeStart cls). typed f)"

definition list_pods :: pod_lib where
  "list_pods = \<lparr>pod_construct = (\<lambda>n. replicate n 0),
     pod_resize = (\<lambda>xs n. take n xs @ replicate (n - length xs) 0)\<rparr>"

interpretation list_pod: pod_array list_pods
  by unfold_locales (auto simp: list_pods_def nth_append)

context cereal
begin

lemma start_roundtrip:
  assumes "sw m = Some cls" and "start_ok cls" and "tc_is cls (pl t)" and "tc_is cls (pl (mem cls))"
    and "lib_SaveStart C B sw m (BinaryOutputArchive_new node) t = Inr xfer"
  shows "res_bind (BinaryInputArchive_new xfer) (lib_LoadStart C sw mem m) =
    Inr (Some (copy_flds (tc_SerializeStart cls) t (mem cls)))"
proof -
  let ?ar = "Serialize_flds C (tc_SerializeStart cls) t (BinaryOutputArchive_new node)"
  from assms have x: "xfer = fst (Get B ?ar)"
    by (simp add: lib_SaveStart_def Serialize_task_def start_ok_def)
  have o: "oa_ss ?ar = ar_out C (tc_SerializeStart cls) t @ []"
    by (simp add: Serialize_flds_def BinaryOutputArchive_new_def)
  have ty: "\<And>f. f \<in> set (tc_SerializeStart cls) \<Longrightarrow> typed f" using assms(2) by (simp add: start_ok_def)
  show ?thesis
    using assms(1-4) flds_roundtrip [OF ty, where t = t and rest = "[]"
        and ia = "\<lparr>ia_xfer = xfer, ia_ss = oa_ss ?ar, ia_off = 0\<rparr>" and t0 = "mem cls"] o
    by (simp add: x open_Get lib_LoadStart_def Deserialize_task_def start_ok_def)
qed

text \<open>
  The output of a task travels from the node that ran it, which serialises replica 0,
  into slot \<open>replica\<close> of the task that was dispersed.
\<close>

lemma end_roundtrip:
  assumes "sw m = Some cls" and "SUPPORTS_SRL (tc_flags cls)" and "SRL_SYM_END (tc_flags cls)"
    and "tc_is cls (pl r)" and "tc_is cls (pl t)"
    and "tc_SerializeEnd cls 0 r = Inr fs" and "tc_SerializeEnd cls replica t = Inr gs"
    and "ar_out C fs r = ar_out C gs r'" and "\<And>g. g \<in> set gs \<Longrightarrow> typed g"
    and "lib_SaveEnd C B sw m (BinaryOutputArchive_new node) r = Inr xfer"
  shows "res_bind (BinaryInputArchive_new xfer) (\<lambda>ia. lib_LoadEnd C sw replica m ia t) =
    Inr (copy_flds gs r' t)"
proof -
  let ?ar = "Serialize_flds C fs r (BinaryOutputArchive_new node)"
  from assms have x: "xfer = fst (Get B ?ar)"
    by (simp add: lib_SaveEnd_def Serialize_task_def)
  have o: "oa_ss ?ar = ar_out C gs r' @ []"
    by (simp add: Serialize_flds_def BinaryOutputArchive_new_def assms(8))
  show ?thesis
    using assms(1-7) flds_roundtrip [OF assms(9), where t = r' and rest = "[]"
        and ia = "\<lparr>ia_xfer = xfer, ia_ss = oa_ss ?ar, ia_off = 0\<rparr>" and t0 = t] o
    by (simp add: x open_Get lib_LoadEnd_def Deserialize_task_def)
qed

end

end
