(* ===== verification/AdminTasks.thy ===== *)
theory AdminTasks
  imports TaskObjects QueueManager
begin

text \<open>
  \<^verbatim>\<open>hermes_run_admin_tasks.h\<close>, \<^verbatim>\<open>hermes_run_admin_methods.h\<close>, \<^verbatim>\<open>hermes_run_admin_lib_exec.h\<close>
  and \<^verbatim>\<open>work_orchestrator/scheduler.h\<close>: the task classes of the administration library, their
  constructors, what they serialise, how they are grouped, and the library's dispatch.
\<close>

section \<open>Methods\<close>

definition kCreateTaskState :: u32 where "kCreateTaskState = kLast + 0"
definition kDestroyTaskState :: u32 where "kDestroyTaskState = kLast + 1"
definition kRegisterTaskLib :: u32 where "kRegisterTaskLib = kLast + 2"
definition kDestroyTaskLib :: u32 where "kDestroyTaskLib = kLast + 3"
definition kGetOrCreateTaskStateId :: u32 where "kGetOrCreateTaskStateId = kLast + 4"
definition kGetTaskStateId :: u32 where "kGetTaskStateId = kLast + 5"
definition kStopRuntime :: u32 where "kStopRuntime = kLast + 6"
definition kSetWorkOrchQueuePolicy :: u32 where "kSetWorkOrchQueuePolicy = kLast + 7"
definition kSetWorkOrchProcPolicy :: u32 where "kSetWorkOrchProcPolicy = kLast + 8"
definition kSchedule :: u32 where "kSchedule = kLast"

lemmas admin_method_defs = kCreateTaskState_def kDestroyTaskState_def kRegisterTaskLib_def
  kDestroyTaskLib_def kGetOrCreateTaskStateId_def kGetTaskStateId_def kStopRuntime_def
  kSetWorkOrchQueuePolicy_def kSetWorkOrchProcPolicy_def kSchedule_def base_method_defs

section \<open>Scheduling tasks\<close>

definition ScheduleTask_new :: "shm_env \<Rightarrow> TaskObj \<Rightarrow> TaskNode \<Rightarrow> DomainId \<Rightarrow> TaskStateId \<Rightarrow> TaskObj" where
  "ScheduleTask_new S mem tn d sid =
     (init_task (se_bits S) mem tn 0 kLongRunning sid kSchedule
        (TASK_LONG_RUNNING (se_bits S) OR TASK_REMOTE_DEBUG_MARK (se_bits S)) d)
       \<lparr>pl := PSchedule \<lparr>sch_ret = pod_construct (se_pods S) 1\<rparr>\<rparr>"

definition Schedule_class :: "shm_env \<Rightarrow> task_class" where
  "Schedule_class S = base_class (se_bits S) is_PSchedule (TF_LOCAL (se_bits S))"

section \<open>Administration tasks\<close>

text \<open>
  Every constructor takes the task state of the administration library from the client's
  queue manager (\<open>admin\<close>) and lane 0 of the admin priority. \<open>RegisterTaskLibTask_new\<close> has
  the template argument as its first argument.
\<close>

definition RegisterTaskLibTask_new ::
    "nat \<Rightarrow> shm_env \<Rightarrow> TaskStateId \<Rightarrow> TaskObj \<Rightarrow> TaskNode \<Rightarrow> DomainId \<Rightarrow> string \<Rightarrow> TaskObj" where
  "RegisterTaskLibTask_new k S admin mem tn d name =
     pay_upd un_RegisterTaskLib PRegisterTaskLib rl_lib_name_update (\<lambda>_. name)
       (init_task (se_bits S) mem tn 0 kAdmin admin
          (if k = 0 then kRegisterTaskLib else kDestroyTaskLib) 0 d)"

definition RegisterTaskLib_SerializeStart :: "TaskObj fld list" where
  "RegisterTaskLib_SerializeStart = task_serialize @
     [fldStr (\<lambda>t. rl_lib_name (un_RegisterTaskLib (pl t)))
        (pay_upd un_RegisterTaskLib PRegisterTaskLib rl_lib_name_update)]"

definition RegisterTaskLib_SerializeEnd :: "u32 \<Rightarrow> TaskObj fld list" where
  "RegisterTaskLib_SerializeEnd replica =
     sub_flds (\<lambda>t. rl_id (un_RegisterTaskLib (pl t)))
       (pay_upd un_RegisterTaskLib PRegisterTaskLib rl_id_update) UniqueId_serialize"

definition RegisterTaskLib_class :: "shm_env \<Rightarrow> task_class" where
  "RegisterTaskLib_class S = (base_class (se_bits S) is_PRegisterTaskLib (TF_SRL_SYM (se_bits S)))
     \<lparr>tc_SerializeStart := RegisterTaskLib_SerializeStart,
      tc_SerializeEnd := (\<lambda>r t. Inr (RegisterTaskLib_SerializeEnd r))\<rparr>"

definition GetOrCreateTaskStateIdTask_new ::
    "shm_env \<Rightarrow> TaskStateId \<Rightarrow> TaskObj \<Rightarrow> TaskNode \<Rightarrow> DomainId \<Rightarrow> string \<Rightarrow> TaskObj" where
  "GetOrCreateTaskStateIdTask_new S admin mem tn d name =
     pay_upd un_GetOrCreate PGetOrCreateTaskStateId gc_state_name_update (\<lambda>_. name)
       (init_task (se_bits S) mem tn 0 kAdmin admin kGetOrCreateTaskStateId 0 d)"

definition GetOrCreateTaskStateId_SerializeStart :: "TaskObj fld list" where
  "GetOrCreateTaskStateId_SerializeStart = task_serialize @
     [fldStr (\<lambda>t. gc_state_name (un_GetOrCreate (pl t)))
        (pay_upd un_GetOrCreate PGetOrCreateTaskStateId gc_state_name_update)]"

definition GetOrCreateTaskStateId_SerializeEnd :: "u32 \<Rightarrow> TaskObj fld list" where
  "GetOrCreateTaskStateId_SerializeEnd replica =
     sub_flds (\<lambda>t. gc_id (un_GetOrCreate (pl t)))
       (pay_upd un_GetOrCreate PGetOrCreateTaskStateId gc_id_update) UniqueId_serialize"

definition GetOrCreateTaskStateId_class :: "shm_env \<Rightarrow> task_class" where
  "GetOrCreateTaskStateId_class S =
     (base_class (se_bits S) is_PGetOrCreateTaskStateId (TF_SRL_SYM (se_bits S)))
     \<lparr>tc_SerializeStart := GetOrCreateTaskStateId_SerializeStart,
      tc_SerializeEnd := (\<lambda>r t. Inr (GetOrCreateTaskStateId_SerializeEnd r))\<rparr>"

definition CreateTaskStateTask_new ::
    "shm_env \<Rightarrow> TaskStateId \<Rightarrow> TaskObj \<Rightarrow> TaskNode \<Rightarrow> DomainId \<Rightarrow> string \<Rightarrow> string \<Rightarrow> TaskStateId \<Rightarrow>
     PriorityInfo list \<Rightarrow> TaskObj" where
  "CreateTaskStateTask_new S admin mem tn d state_name lib_name i queue_info =
     (init_task (se_bits S) mem tn 0 kAdmin admin kCreateTaskState (TASK_COROUTINE (se_bits S)) d)
       \<lparr>pl := PCreateTaskState \<lparr>cs_lib_name = lib_name, cs_state_name = state_name,
          cs_queue_info = queue_info, cs_id = i\<rparr>\<rparr>"

text \<open>The order of the archive call is name of the library, name, id, queues.\<close>

definition CreateTaskState_SerializeStart :: "TaskObj fld list" where
  "CreateTaskState_SerializeStart = task_serialize @
     [fldStr (\<lambda>t. cs_lib_name (un_CreateTaskState (pl t)))
        (pay_upd un_CreateTaskState PCreateTaskState cs_lib_name_update),
      fldStr (\<lambda>t. cs_state_name (un_CreateTaskState (pl t)))
        (pay_upd un_CreateTaskState PCreateTaskState cs_state_name_update)] @
     sub_flds (\<lambda>t. cs_id (un_CreateTaskState (pl t)))
       (pay_upd un_CreateTaskState PCreateTaskState cs_id_update) UniqueId_serialize @
     [fldPrios (\<lambda>t. cs_queue_info (un_CreateTaskState (pl t)))
        (pay_upd un_CreateTaskState PCreateTaskState cs_queue_info_update)]"

definition CreateTaskState_SerializeEnd :: "u32 \<Rightarrow> TaskObj fld list" where
  "CreateTaskState_SerializeEnd replica =
     sub_flds (\<lambda>t. cs_id (un_CreateTaskState (pl t)))
       (pay_upd un_CreateTaskState PCreateTaskState cs_id_update) UniqueId_serialize"

definition CreateTaskState_ReplicateStart :: "u32 \<Rightarrow> TaskObj \<Rightarrow> TaskObj" where
  "CreateTaskState_ReplicateStart count t = t"

definition CreateTaskState_ReplicateEnd :: "TaskObj \<Rightarrow> TaskObj" where
  "CreateTaskState_ReplicateEnd t = t"

definition CreateTaskState_GetGroup :: "resize_fn \<Rightarrow> bytes \<Rightarrow> (u32 \<times> bytes) res" where
  "CreateTaskState_GetGroup resize g =
     res_bind (LocalSerialize_put resize (LocalSerialize_new resize g) (srl_int 16)) (\<lambda>g'. Inr (0, g'))"

definition CreateTaskState_class :: "shm_env \<Rightarrow> task_class" where
  "CreateTaskState_class S =
     (base_class (se_bits S) is_PCreateTaskState (TF_SRL_SYM (se_bits S) OR TF_REPLICA (se_bits S)))
     \<lparr>tc_SerializeStart := CreateTaskState_SerializeStart,
      tc_SerializeEnd := (\<lambda>r t. Inr (CreateTaskState_SerializeEnd r)),
      tc_ReplicateStart := CreateTaskState_ReplicateStart,
      tc_ReplicateEnd := CreateTaskState_ReplicateEnd,
      tc_GetGroup := (\<lambda>t. CreateTaskState_GetGroup (se_resize S))\<rparr>"

definition GetTaskStateIdTask_new ::
    "shm_env \<Rightarrow> TaskStateId \<Rightarrow> TaskObj \<Rightarrow> TaskNode \<Rightarrow> DomainId \<Rightarrow> string \<Rightarrow> TaskObj" where
  "GetTaskStateIdTask_new S admin mem tn d name =
     pay_upd un_GetTaskStateId PGetTaskStateId gt_state_name_update (\<lambda>_. name)
       (init_task (se_bits S) mem tn 0 kAdmin admin kGetTaskStateId 0 d)"

definition GetTaskStateId_SerializeStart :: "TaskObj fld list" where
  "GetTaskStateId_SerializeStart = task_serialize @
     [fldStr (\<lambda>t. gt_state_name (un_GetTaskStateId (pl t)))
        (pay_upd un_GetTaskStateId PGetTaskStateId gt_state_name_update)]"

definition GetTaskStateId_SerializeEnd :: "u32 \<Rightarrow> TaskObj fld list" where
  "GetTaskStateId_SerializeEnd replica =
     sub_flds (\<lambda>t. gt_id (un_GetTaskStateId (pl t)))
       (pay_upd un_GetTaskStateId PGetTaskStateId gt_id_update) UniqueId_serialize"

definition GetTaskStateId_class :: "shm_env \<Rightarrow> task_class" where
  "GetTaskStateId_class S =
     (base_class (se_bits S) is_PGetTaskStateId (TF_SRL_SYM (se_bits S)))
     \<lparr>tc_SerializeStart := GetTaskStateId_SerializeStart,
      tc_SerializeEnd := (\<lambda>r t. Inr (GetTaskStateId_SerializeEnd r))\<rparr>"

definition DestroyTaskStateTask_new ::
    "shm_env \<Rightarrow> TaskStateId \<Rightarrow> TaskObj \<Rightarrow> TaskNode \<Rightarrow> DomainId \<Rightarrow> TaskStateId \<Rightarrow> TaskObj" where
  "DestroyTaskStateTask_new S admin mem tn d i =
     (init_task (se_bits S) mem tn 0 kAdmin admin kDestroyTaskState 0 d)
       \<lparr>pl := PDestroyTaskState \<lparr>ds_id = i\<rparr>\<rparr>"

definition DestroyTaskState_SerializeStart :: "TaskObj fld list" where
  "DestroyTaskState_SerializeStart = task_serialize @
     sub_flds (\<lambda>t. ds_id (un_DestroyTaskState (pl t)))
       (pay_upd un_DestroyTaskState PDestroyTaskState ds_id_update) UniqueId_serialize"

definition DestroyTaskState_class :: "shm_env \<Rightarrow> task_class" where
  "DestroyTaskState_class S =
     (base_class (se_bits S) is_PDestroyTaskState (TF_SRL_SYM (se_bits S)))
     \<lparr>tc_SerializeStart := DestroyTaskState_SerializeStart\<rparr>"

definition StopRuntimeTask_new :: "shm_env \<Rightarrow> TaskStateId \<Rightarrow> TaskObj \<Rightarrow> TaskNode \<Rightarrow> DomainId \<Rightarrow> TaskObj" where
  "StopRuntimeTask_new S admin mem tn d =
     (init_task (se_bits S) mem tn 0 kAdmin admin kStopRuntime (TASK_FIRE_AND_FORGET (se_bits S)) d)
       \<lparr>pl := PStopRuntime\<rparr>"

definition StopRuntime_class :: "shm_env \<Rightarrow> task_class" where
  "StopRuntime_class S =
     (base_class (se_bits S) (\<lambda>p. p = PStopRuntime) (TF_SRL_SYM (se_bits S)))
     \<lparr>tc_SerializeStart := task_serialize\<rparr>"

definition SetWorkOrchestratorPolicyTask_new ::
    "nat \<Rightarrow> shm_env \<Rightarrow> TaskStateId \<Rightarrow> TaskObj \<Rightarrow> TaskNode \<Rightarrow> DomainId \<Rightarrow> TaskStateId \<Rightarrow> TaskObj" where
  "SetWorkOrchestratorPolicyTask_new k S admin mem tn d policy =
     (init_task (se_bits S) mem tn 0 kAdmin admin
        (if k = 0 then kSetWorkOrchQueuePolicy else kSetWorkOrchProcPolicy) 0 d)
       \<lparr>pl := PSetPolicy \<lparr>wp_policy_id = policy\<rparr>\<rparr>"

definition SetPolicy_SerializeStart :: "TaskObj fld list" where
  "SetPolicy_SerializeStart = task_serialize @
     sub_flds (\<lambda>t. wp_policy_id (un_SetPolicy (pl t)))
       (pay_upd un_SetPolicy PSetPolicy wp_policy_id_update) UniqueId_serialize"

definition SetPolicy_class :: "shm_env \<Rightarrow> task_class" where
  "SetPolicy_class S =
     (base_class (se_bits S) is_PSetPolicy (TF_SRL_SYM (se_bits S)))
     \<lparr>tc_SerializeStart := SetPolicy_SerializeStart\<rparr>"

lemmas admin_class_defs = base_class_def RegisterTaskLib_class_def GetOrCreateTaskStateId_class_def
  CreateTaskState_class_def GetTaskStateId_class_def DestroyTaskState_class_def
  StopRuntime_class_def SetPolicy_class_def Schedule_class_def

lemmas admin_start_defs = RegisterTaskLib_SerializeStart_def GetOrCreateTaskStateId_SerializeStart_def
  CreateTaskState_SerializeStart_def GetTaskStateId_SerializeStart_def
  DestroyTaskState_SerializeStart_def SetPolicy_SerializeStart_def

section \<open>Dispatch\<close>

text \<open>
  Both template instances of a class share its members, so the register and destroy
  methods use one class, and so do the two policies.
\<close>

definition admin_switch :: "shm_env \<Rightarrow> method_switch" where
  "admin_switch S m =
     (if m = kCreateTaskState then Some (CreateTaskState_class S)
      else if m = kDestroyTaskState then Some (DestroyTaskState_class S)
      else if m = kRegisterTaskLib then Some (RegisterTaskLib_class S)
      else if m = kDestroyTaskLib then Some (RegisterTaskLib_class S)
      else if m = kGetOrCreateTaskStateId then Some (GetOrCreateTaskStateId_class S)
      else if m = kGetTaskStateId then Some (GetTaskStateId_class S)
      else if m = kStopRuntime then Some (StopRuntime_class S)
      else if m = kSetWorkOrchQueuePolicy then Some (SetPolicy_class S)
      else if m = kSetWorkOrchProcPolicy then Some (SetPolicy_class S)
      else None)"

definition admin_SaveStart ::
    "cereal_lib \<Rightarrow> shm_env \<Rightarrow> u32 \<Rightarrow> BinaryOutputArchive \<Rightarrow> TaskObj \<Rightarrow> DataTransfer list res" where
  "admin_SaveStart C S = lib_SaveStart C (se_bits S) (admin_switch S)"

definition admin_LoadStart ::
    "cereal_lib \<Rightarrow> shm_env \<Rightarrow> (task_class \<Rightarrow> TaskObj) \<Rightarrow> u32 \<Rightarrow> BinaryInputArchive \<Rightarrow> TaskObj option res" where
  "admin_LoadStart C S = lib_LoadStart C (admin_switch S)"

definition admin_SaveEnd ::
    "cereal_lib \<Rightarrow> shm_env \<Rightarrow> u32 \<Rightarrow> BinaryOutputArchive \<Rightarrow> TaskObj \<Rightarrow> DataTransfer list res" where
  "admin_SaveEnd C S = lib_SaveEnd C (se_bits S) (admin_switch S)"

definition admin_LoadEnd ::
    "cereal_lib \<Rightarrow> shm_env \<Rightarrow> u32 \<Rightarrow> u32 \<Rightarrow> BinaryInputArchive \<Rightarrow> TaskObj \<Rightarrow> TaskObj res" where
  "admin_LoadEnd C S = lib_LoadEnd C (admin_switch S)"

definition admin_ReplicateStart :: "shm_env \<Rightarrow> u32 \<Rightarrow> u32 \<Rightarrow> TaskObj \<Rightarrow> TaskObj res" where
  "admin_ReplicateStart S = lib_ReplicateStart (admin_switch S)"

definition admin_ReplicateEnd :: "shm_env \<Rightarrow> u32 \<Rightarrow> TaskObj \<Rightarrow> TaskObj res" where
  "admin_ReplicateEnd S = lib_ReplicateEnd (admin_switch S)"

definition admin_GetGroup :: "shm_env \<Rightarrow> u32 \<Rightarrow> TaskObj \<Rightarrow> bytes \<Rightarrow> (u32 \<times> bytes) res" where
  "admin_GetGroup S = lib_GetGroup (admin_switch S)"

lemmas admin_exec_defs = admin_SaveStart_def admin_LoadStart_def admin_SaveEnd_def admin_LoadEnd_def
  admin_ReplicateStart_def admin_ReplicateEnd_def admin_GetGroup_def

section \<open>Facts\<close>

lemma admin_switch_simps [simp]:
  "admin_switch S kCreateTaskState = Some (CreateTaskState_class S)"
  "admin_switch S kDestroyTaskState = Some (DestroyTaskState_class S)"
  "admin_switch S kRegisterTaskLib = Some (RegisterTaskLib_class S)"
  "admin_switch S kDestroyTaskLib = Some (RegisterTaskLib_class S)"
  "admin_switch S kGetOrCreateTaskStateId = Some (GetOrCreateTaskStateId_class S)"
  "admin_switch S kGetTaskStateId = Some (GetTaskStateId_class S)"
  "admin_switch S kStopRuntime = Some (StopRuntime_class S)"
  "admin_switch S kSetWorkOrchQueuePolicy = Some (SetPolicy_class S)"
  "admin_switch S kSetWorkOrchProcPolicy = Some (SetPolicy_class S)"
  "admin_switch S kConstruct = None"
  by (simp_all add: admin_switch_def admin_method_defs)

text \<open>The arguments of a call: the members marked \<^verbatim>\<open>IN\<close> or \<^verbatim>\<open>INOUT\<close>.\<close>

fun call_args :: "payload \<Rightarrow> string list \<times> TaskStateId list \<times> PriorityInfo list" where
  "call_args (PRegisterTaskLib r) = ([rl_lib_name r], [], [])"
| "call_args (PGetOrCreateTaskStateId r) = ([gc_state_name r], [], [])"
| "call_args (PCreateTaskState r) = ([cs_lib_name r, cs_state_name r], [cs_id r], cs_queue_info r)"
| "call_args (PGetTaskStateId r) = ([gt_state_name r], [], [])"
| "call_args (PDestroyTaskState r) = ([], [ds_id r], [])"
| "call_args (PSetPolicy r) = ([], [wp_policy_id r], [])"
| "call_args _ = ([], [], [])"

text \<open>Two objects that are the same call: equal travelling members and equal arguments.\<close>

definition same_call :: "TaskObj \<Rightarrow> TaskObj \<Rightarrow> bool" where
  "same_call t t' \<longleftrightarrow> task_state t' = task_state t \<and> task_node t' = task_node t \<and>
     domain_id t' = domain_id t \<and> lane_hash t' = lane_hash t \<and> prio t' = prio t \<and>
     method_id t' = method_id t \<and> task_flags t' = task_flags t \<and> call_args (pl t') = call_args (pl t)"

lemma copy_start:
  "is_PRegisterTaskLib (pl t) \<Longrightarrow> is_PRegisterTaskLib (pl t0) \<Longrightarrow> same_call t (copy_flds RegisterTaskLib_SerializeStart t t0)"
  "is_PGetOrCreateTaskStateId (pl t) \<Longrightarrow> is_PGetOrCreateTaskStateId (pl t0) \<Longrightarrow> same_call t (copy_flds GetOrCreateTaskStateId_SerializeStart t t0)"
  "is_PCreateTaskState (pl t) \<Longrightarrow> is_PCreateTaskState (pl t0) \<Longrightarrow> same_call t (copy_flds CreateTaskState_SerializeStart t t0)"
  "is_PGetTaskStateId (pl t) \<Longrightarrow> is_PGetTaskStateId (pl t0) \<Longrightarrow> same_call t (copy_flds GetTaskStateId_SerializeStart t t0)"
  "is_PDestroyTaskState (pl t) \<Longrightarrow> is_PDestroyTaskState (pl t0) \<Longrightarrow> same_call t (copy_flds DestroyTaskState_SerializeStart t t0)"
  "is_PSetPolicy (pl t) \<Longrightarrow> is_PSetPolicy (pl t0) \<Longrightarrow> same_call t (copy_flds SetPolicy_SerializeStart t t0)"
  "pl t = PStopRuntime \<Longrightarrow> pl t0 = PStopRuntime \<Longrightarrow> same_call t (copy_flds task_serialize t t0)"
  unfolding is_PRegisterTaskLib_def is_PGetOrCreateTaskStateId_def is_PCreateTaskState_def
    is_PGetTaskStateId_def is_PDestroyTaskState_def is_PSetPolicy_def
  by (auto simp: same_call_def admin_start_defs copy_flds_append copy_task UniqueId_serialize_def
      fld_defs pay_upd_def intro!: UniqueId.equality)

lemma admin_start_typed:
  "f \<in> set RegisterTaskLib_SerializeStart \<union> set GetOrCreateTaskStateId_SerializeStart \<union>
     set CreateTaskState_SerializeStart \<union> set GetTaskStateId_SerializeStart \<union>
     set DestroyTaskState_SerializeStart \<union> set SetPolicy_SerializeStart \<Longrightarrow> typed f"
  by (auto simp: admin_start_defs sub_flds_def serialize_typed)

text \<open>Every method of the library names a class that can be sent and keeps its arguments.\<close>

lemma admin_switch_cases:
  assumes "bitfield (se_bits S)" and "admin_switch S m = Some cls"
  shows "start_ok cls" and "SRL_SYM_END (tc_flags cls)"
    and "tc_is cls (pl t) \<Longrightarrow> tc_is cls (pl t0) \<Longrightarrow> same_call t (copy_flds (tc_SerializeStart cls) t t0)"
proof -
  note kinds = bitfield.TaskFlags_kinds [OF assms(1)]
  from assms(2) have c: "cls \<in> {CreateTaskState_class S, DestroyTaskState_class S, RegisterTaskLib_class S,
      GetOrCreateTaskStateId_class S, GetTaskStateId_class S, StopRuntime_class S, SetPolicy_class S}"
    by (auto simp: admin_switch_def split: if_splits)
  then show "start_ok cls"
    using admin_start_typed serialize_typed(5) by (auto simp: start_ok_def admin_class_defs kinds)
  show "SRL_SYM_END (tc_flags cls)" using c by (auto simp: admin_class_defs kinds)
  show "tc_is cls (pl t) \<Longrightarrow> tc_is cls (pl t0) \<Longrightarrow> same_call t (copy_flds (tc_SerializeStart cls) t t0)"
    using c copy_start [of t t0] by (auto simp: admin_class_defs)
qed

text \<open>Concrete libraries and objects for the closed instances.\<close>

definition sample_env :: shm_env where
  "sample_env = \<lparr>se_bits = word_bitfield, se_resize = list_resize, se_pods = list_pods\<rparr>"

definition sample_obj :: "payload \<Rightarrow> TaskObj" where
  "sample_obj p = \<lparr>task_state = UniqueId_new 1 0, task_node = TaskNode_new (UniqueId_new 1 5),
     domain_id = GetLocal word_bitfield, prio = 0, lane_hash = 0, method_id = 4, task_flags = 0,
     delcnt = 0, ctx = \<lparr>ctx_lane_id = 0, ctx_stack_ptr = None, ctx_exec = None\<rparr>, pl = p\<rparr>"

section \<open>Properties\<close>

text \<open>
  C7. A call to the administration library reaches another node unchanged: for every
  method of the library, serialising a task of the method's class succeeds, and loading
  the transfer there gives an object with the same task state, node, domain, lane, priority,
  method, flags and arguments, whatever memory the new object is built in.
\<close>

theorem admin_call_roundtrip:
  assumes "cereal C" and "bitfield (se_bits S)" and "admin_switch S m = Some cls"
    and "tc_is cls (pl t)" and "tc_is cls (pl (mem cls))"
  shows "\<exists>xfer t'. admin_SaveStart C S m (BinaryOutputArchive_new node) t = Inr xfer \<and>
    res_bind (BinaryInputArchive_new xfer) (admin_LoadStart C S mem m) = Inr (Some t') \<and> same_call t t'"
proof -
  note sw = admin_switch_cases [OF assms(2,3)]
  from sw(1) assms(3,4) obtain xfer where x: "lib_SaveStart C (se_bits S) (admin_switch S) m (BinaryOutputArchive_new node) t = Inr xfer"
    by (auto simp: lib_SaveStart_def Serialize_task_def start_ok_def)
  from cereal.start_roundtrip [where mem = mem, OF assms(1,3) sw(1) assms(4,5) x] x sw(3) [OF assms(4,5)]
  show ?thesis by (simp add: admin_exec_defs)
qed

theorem admin_call_roundtrip_witness:
  "admin_switch sample_env kRegisterTaskLib = Some (RegisterTaskLib_class sample_env) \<and>
   (\<exists>xfer t'. admin_SaveStart ref_cereal sample_env kRegisterTaskLib
       (BinaryOutputArchive_new (GetNode word_bitfield 1))
       (sample_obj (PRegisterTaskLib \<lparr>rl_lib_name = ''small_message'', rl_id = UniqueId_GetNull\<rparr>)) = Inr xfer \<and>
     res_bind (BinaryInputArchive_new xfer) (admin_LoadStart ref_cereal sample_env
       (\<lambda>_. sample_obj (PRegisterTaskLib \<lparr>rl_lib_name = [], rl_id = UniqueId_new 7 7\<rparr>)) kRegisterTaskLib) = Inr (Some t') \<and>
     call_args (pl t') = ([''small_message''], [], []))"
proof -
  have b: "bitfield (se_bits sample_env)" by (simp add: sample_env_def word_bf.bitfield_axioms)
  have c: "tc_is (RegisterTaskLib_class sample_env) (pl (sample_obj (PRegisterTaskLib r)))" for r
    by (simp add: admin_class_defs sample_obj_def)
  show ?thesis
    using admin_call_roundtrip [OF ref_codec.cereal_axioms b, where m = kRegisterTaskLib
        and t = "sample_obj (PRegisterTaskLib \<lparr>rl_lib_name = ''small_message'', rl_id = UniqueId_GetNull\<rparr>)"
        and mem = "\<lambda>_. sample_obj (PRegisterTaskLib \<lparr>rl_lib_name = [], rl_id = UniqueId_new 7 7\<rparr>)"
        and node = "GetNode word_bitfield 1", OF admin_switch_simps(3) c c]
    by (auto simp: same_call_def sample_obj_def)
qed

end
