(* ===== verification/Registry.thy ===== *)
theory Registry
  imports AdminTasks
begin

text \<open>
  \<^verbatim>\<open>task_registry/task_lib.h\<close> and \<^verbatim>\<open>task_registry.h\<close>: task states, the search for task
  libraries and the registry of libraries and states. The dynamic loader, the file system and
  the string formatter are the record \<open>loader\<close>. A library handle is closed by the destructor
  of \<open>TaskLibInfo\<close>: the operations that destroy one return the handles they close.
\<close>

section \<open>Task states\<close>

record TaskLib =
  tl_id :: TaskStateId
  tl_queue_id :: QueueId
  tl_name :: string

definition TaskLib_new :: "TaskLib \<Rightarrow> TaskLib" where
  "TaskLib_new mem = mem\<lparr>tl_id := UniqueId_GetNull, tl_name := []\<rparr>"

definition TaskLib_Init :: "TaskStateId \<Rightarrow> string \<Rightarrow> TaskLib \<Rightarrow> TaskLib" where
  "TaskLib_Init i name s = s\<lparr>tl_id := i, tl_queue_id := UniqueId_copy i, tl_name := name\<rparr>"

record TaskLibClient =
  tc_id :: TaskStateId
  tc_queue_id :: QueueId

definition TaskLibClient_Init :: "TaskStateId \<Rightarrow> TaskLibClient \<Rightarrow> TaskLibClient" where
  "TaskLibClient_Init i c = c\<lparr>tc_id := i, tc_queue_id := UniqueId_copy i\<rparr>"

section \<open>The loader\<close>

text \<open>
  \<open>ld_getenv\<close>, \<open>ld_exists\<close>, \<open>ld_open\<close> (\<^verbatim>\<open>dlopen\<close>, a handle or null), \<open>ld_sym\<close> (\<^verbatim>\<open>dlsym\<close>),
  \<open>ld_name\<close> (a call of the loaded \<^verbatim>\<open>get_task_lib_name\<close>) and the formatter.
\<close>

record loader =
  ld_getenv :: "string \<Rightarrow> string option"
  ld_format :: "string \<Rightarrow> string list \<Rightarrow> string"
  ld_exists :: "string \<Rightarrow> bool"
  ld_open :: "string \<Rightarrow> nat option"
  ld_sym :: "nat \<Rightarrow> string \<Rightarrow> nat option"
  ld_name :: "nat \<Rightarrow> string"

record TaskLibInfo =
  li_lib :: "nat option"
  li_create_state :: "nat option"
  li_get_name :: "nat option"

definition TaskLibInfo_new :: "nat option \<Rightarrow> nat option \<Rightarrow> nat option \<Rightarrow> TaskLibInfo" where
  "TaskLibInfo_new l c g = \<lparr>li_lib = l, li_create_state = c, li_get_name = g\<rparr>"

text \<open>The move constructor gives the new object and what is left of the old one.\<close>

definition TaskLibInfo_move :: "TaskLibInfo \<Rightarrow> TaskLibInfo \<times> TaskLibInfo" where
  "TaskLibInfo_move i = (\<lparr>li_lib = li_lib i, li_create_state = li_create_state i, li_get_name = li_get_name i\<rparr>,
     \<lparr>li_lib = None, li_create_state = None, li_get_name = None\<rparr>)"

text \<open>The destructor: the handle it closes, if any.\<close>

definition TaskLibInfo_destroy :: "TaskLibInfo \<Rightarrow> nat list" where
  "TaskLibInfo_destroy i = (case li_lib i of None \<Rightarrow> [] | Some h \<Rightarrow> [h])"

section \<open>The registry\<close>

text \<open>
  The maps are keyed as their hash maps are, ids up to \<open>UniqueId_eq\<close>. A task state is an
  address; \<open>objects\<close> holds the base-class part of the live ones. The counter \<^verbatim>\<open>unique_\<close>
  points into the shared-memory header and is shared with the clients, so it is passed
  explicitly.
\<close>

record TaskRegistry =
  rg_node_id :: u32
  lib_dirs :: "string list"
  libs :: "string \<rightharpoonup> TaskLibInfo"
  task_state_ids :: "string \<rightharpoonup> TaskStateId"
  task_states :: "uid_key \<rightharpoonup> nat"
  objects :: "nat \<rightharpoonup> TaskLib"

lemma tl_dropWhile_shorter: "s \<noteq> [] \<Longrightarrow> length (tl (dropWhile P s)) < length s"
proof -
  assume "s \<noteq> []"
  then have "0 < length s" by simp
  with length_dropWhile_le [of P s] show ?thesis unfolding length_tl by linarith
qed

text \<open>\<^verbatim>\<open>std::getline\<close> with delimiter \<^verbatim>\<open>:\<close>, called until the stream is empty.\<close>

function getlines :: "string \<Rightarrow> string list" where
  "getlines s =
     (if s = [] then []
      else let l = takeWhile (\<lambda>c. c \<noteq> CHR '':'') s; r = dropWhile (\<lambda>c. c \<noteq> CHR '':'') s
        in l # (if r = [] then [] else getlines (tl r)))"
  by pat_completeness auto
termination
  by (relation "measure length") (auto intro: tl_dropWhile_shorter simp del: length_tl)

declare getlines.simps [simp del]

text \<open>\<^verbatim>\<open>unordered_map::emplace\<close> keeps an existing entry; the node it built is then destroyed.\<close>

definition libs_emplace :: "string \<Rightarrow> TaskLibInfo \<Rightarrow> TaskRegistry \<Rightarrow> TaskRegistry \<times> nat list" where
  "libs_emplace name info R =
     (if libs R name = None then (R\<lparr>libs := (libs R)(name \<mapsto> info)\<rparr>, [])
      else (R, TaskLibInfo_destroy info))"

definition ids_emplace :: "string \<Rightarrow> TaskStateId \<Rightarrow> TaskRegistry \<Rightarrow> TaskRegistry" where
  "ids_emplace name i R =
     (if task_state_ids R name = None then R\<lparr>task_state_ids := (task_state_ids R)(name \<mapsto> i)\<rparr> else R)"

definition states_emplace :: "TaskStateId \<Rightarrow> nat \<Rightarrow> TaskRegistry \<Rightarrow> TaskRegistry" where
  "states_emplace i a R =
     (if task_states R (key_of i) = None then R\<lparr>task_states := (task_states R)(key_of i \<mapsto> a)\<rparr> else R)"

text \<open>
  The body of \<^verbatim>\<open>RegisterTaskLib\<close> once a path exists: success, the registry and the handles
  closed on the way out.
\<close>

definition load_lib :: "loader \<Rightarrow> string \<Rightarrow> TaskRegistry \<Rightarrow> bool \<times> TaskRegistry \<times> nat list" where
  "load_lib L lib_path R =
     (case ld_open L lib_path of
        None \<Rightarrow> (False, R, [])
      | Some h \<Rightarrow>
        (case ld_sym L h ''create_state'' of
           None \<Rightarrow> (False, R, [h])
         | Some cs \<Rightarrow>
           (case ld_sym L h ''get_task_lib_name'' of
              None \<Rightarrow> (False, R, [h])
            | Some gn \<Rightarrow>
              (let (moved, left) = TaskLibInfo_move (TaskLibInfo_new (Some h) (Some cs) (Some gn));
                   (R', closed) = libs_emplace (ld_name L gn) moved R
               in (True, R', closed @ TaskLibInfo_destroy left)))))"

fun search_dirs :: "loader \<Rightarrow> string \<Rightarrow> string list \<Rightarrow> TaskRegistry \<Rightarrow> bool \<times> TaskRegistry \<times> nat list" where
  "search_dirs L lib_name [] R = (False, R, [])"
| "search_dirs L lib_name (dir # dirs) R =
     (let p1 = ld_format L ''{}/{}.so'' [dir, lib_name];
          p2 = ld_format L ''{}/lib{}.so'' [dir, lib_name]
      in if ld_exists L p1 then load_lib L p1 R
         else if ld_exists L p2 then load_lib L p2 R
         else search_dirs L lib_name dirs R)"

definition RegisterTaskLib :: "loader \<Rightarrow> string \<Rightarrow> TaskRegistry \<Rightarrow> bool \<times> TaskRegistry \<times> nat list" where
  "RegisterTaskLib L lib_name R = search_dirs L lib_name (lib_dirs R) R"

fun register_libs :: "loader \<Rightarrow> string list \<Rightarrow> TaskRegistry \<Rightarrow> TaskRegistry \<times> nat list" where
  "register_libs L [] R = (R, [])"
| "register_libs L (n # ns) R =
     (case RegisterTaskLib L n R of
        (_, R1, c1) \<Rightarrow> (case register_libs L ns R1 of (R2, c2) \<Rightarrow> (R2, c1 @ c2)))"

definition lib_paths :: "loader \<Rightarrow> string" where
  "lib_paths L =
     (let ld_lib_path = (case ld_getenv L ''LD_LIBRARY_PATH'' of None \<Rightarrow> [] | Some s \<Rightarrow> s);
          hermes_lib_path = (case ld_getenv L ''HERMES_RUN_TASK_PATH'' of None \<Rightarrow> [] | Some s \<Rightarrow> s)
      in hermes_lib_path @ '':'' @ ld_lib_path)"

definition TaskRegistry_ServerInit ::
    "loader \<Rightarrow> ServerConfig \<Rightarrow> u32 \<Rightarrow> TaskRegistry \<Rightarrow> TaskRegistry \<times> nat list" where
  "TaskRegistry_ServerInit L config node R =
     register_libs L (task_libs config)
       (R\<lparr>rg_node_id := node, lib_dirs := lib_dirs R @ getlines (lib_paths L)\<rparr>)"

definition DestroyTaskLib :: "string \<Rightarrow> TaskRegistry \<Rightarrow> TaskRegistry \<times> nat list" where
  "DestroyTaskLib lib_name R =
     (case libs R lib_name of
        None \<Rightarrow> (R, [])
      | Some info \<Rightarrow> (R\<lparr>libs := (libs R)(lib_name := None)\<rparr>, TaskLibInfo_destroy info))"

definition CreateTaskStateId :: "TaskRegistry \<Rightarrow> u64 \<Rightarrow> TaskStateId \<times> u64" where
  "CreateTaskStateId R u = (UniqueId_new (rg_node_id R) u, u + 1)"

definition TaskStateExists :: "TaskRegistry \<Rightarrow> TaskStateId \<Rightarrow> bool" where
  "TaskStateExists R i = (task_states R (key_of i) \<noteq> None)"

text \<open>
  \<^verbatim>\<open>create_state\<close> as the macro \<^verbatim>\<open>HERMES_RUN_TASK_CC\<close> defines it: a new object of the
  library's server class at a fresh address, its initialisation, and the run of its
  constructor method, an argument, on the task.
\<close>

definition create_state ::
    "(TaskRegistry \<Rightarrow> nat \<times> TaskLib) \<Rightarrow> (nat \<Rightarrow> u32 \<Rightarrow> TaskObj \<Rightarrow> TaskObj) \<Rightarrow> TaskObj \<Rightarrow> string \<Rightarrow>
     TaskRegistry \<Rightarrow> nat \<times> TaskObj \<times> TaskRegistry" where
  "create_state new_state Run task state_name R =
     (let (a, mem) = new_state R;
          s = TaskLib_Init (cs_id (un_CreateTaskState (pl task))) state_name (TaskLib_new mem);
          R1 = R\<lparr>objects := (objects R)(a \<mapsto> s)\<rparr>
      in (a, Run a kConstruct task, R1))"

text \<open>
  \<open>cs\<close> is the loaded \<^verbatim>\<open>create_state\<close> function of a library, which may return null. The
  task is completed by the constructor method or, on every failure, here.
\<close>

definition CreateTaskState ::
    "bitfield_lib \<Rightarrow> (nat option \<Rightarrow> TaskObj \<Rightarrow> string \<Rightarrow> TaskRegistry \<Rightarrow> nat option \<times> TaskObj \<times> TaskRegistry) \<Rightarrow>
     string \<Rightarrow> string \<Rightarrow> TaskStateId \<Rightarrow> TaskObj \<Rightarrow> TaskRegistry \<Rightarrow> bool \<times> TaskObj \<times> TaskRegistry" where
  "CreateTaskState B cs lib_name state_name state_id task R =
     (if UniqueId_IsNull state_id then (False, SetModuleComplete B task, R)
      else (case libs R lib_name of
        None \<Rightarrow> (False, SetModuleComplete B task, R)
      | Some info \<Rightarrow>
        if TaskStateExists R state_id then (True, SetModuleComplete B task, R)
        else (case cs (li_create_state info)
                 (pay_upd un_CreateTaskState PCreateTaskState cs_id_update (\<lambda>_. state_id) task) state_name R of
            (None, task1, R1) \<Rightarrow> (False, SetModuleComplete B task1, R1)
          | (Some a, task1, R1) \<Rightarrow>
            (let R2 = R1\<lparr>objects := (objects R1)(a := map_option (tl_name_update (\<lambda>_. state_name) \<circ>
                         tl_id_update (\<lambda>_. state_id)) (objects R1 a))\<rparr>
             in (True, task1, states_emplace state_id a (ids_emplace state_name state_id R2))))))"

definition GetOrCreateTaskStateId :: "string \<Rightarrow> TaskRegistry \<Rightarrow> u64 \<Rightarrow> TaskStateId \<times> TaskRegistry \<times> u64" where
  "GetOrCreateTaskStateId state_name R u =
     (case task_state_ids R state_name of
        None \<Rightarrow> (case CreateTaskStateId R u of
          (i, u') \<Rightarrow> (i, ids_emplace state_name i R, u'))
      | Some i \<Rightarrow> (i, R, u))"

definition GetTaskStateId :: "string \<Rightarrow> TaskRegistry \<Rightarrow> TaskStateId" where
  "GetTaskStateId state_name R =
     (case task_state_ids R state_name of None \<Rightarrow> UniqueId_GetNull | Some i \<Rightarrow> i)"

definition GetTaskState :: "TaskRegistry \<Rightarrow> TaskStateId \<Rightarrow> nat option" where
  "GetTaskState R i = task_states R (key_of i)"

definition GetTaskState_name :: "TaskRegistry \<Rightarrow> string \<Rightarrow> TaskStateId \<Rightarrow> nat option" where
  "GetTaskState_name R name state_id =
     (let i = GetTaskStateId name R; j = (if UniqueId_IsNull i then state_id else i)
      in GetTaskState R j)"

definition DestroyTaskState :: "TaskStateId \<Rightarrow> TaskRegistry \<Rightarrow> TaskRegistry res" where
  "DestroyTaskState i R =
     (case task_states R (key_of i) of
        None \<Rightarrow> Inr R
      | Some a \<Rightarrow> (case objects R a of
          None \<Rightarrow> Inl Dangling
        | Some s \<Rightarrow> Inr (R\<lparr>task_state_ids := (task_state_ids R)(tl_name s := None),
            task_states := (task_states R)(key_of i := None), objects := (objects R)(a := None)\<rparr>)))"

section \<open>The registry invariant\<close>

text \<open>Every registered state is a live object that carries its id; no registered id is null.\<close>

definition registry_wf :: "TaskRegistry \<Rightarrow> bool" where
  "registry_wf R \<longleftrightarrow>
     (\<forall>k a. task_states R k = Some a \<longrightarrow> (\<exists>s. objects R a = Some s \<and> key_of (tl_id s) = k)) \<and>
     (\<forall>i. TaskStateExists R i \<longrightarrow> \<not> UniqueId_IsNull i)"

lemma registry_wfI:
  assumes "\<And>k a. task_states R k = Some a \<Longrightarrow> \<exists>s. objects R a = Some s \<and> key_of (tl_id s) = k"
    and "\<And>i. TaskStateExists R i \<Longrightarrow> \<not> UniqueId_IsNull i"
  shows "registry_wf R"
  using assms unfolding registry_wf_def by blast

lemma registry_wfD:
  assumes "registry_wf R"
  shows "task_states R k = Some a \<Longrightarrow> \<exists>s. objects R a = Some s \<and> key_of (tl_id s) = k"
    and "task_states R (key_of i) = Some a \<Longrightarrow> \<not> UniqueId_IsNull i"
  using assms unfolding registry_wf_def TaskStateExists_def by blast+

text \<open>
  What the code relies on of a loaded \<^verbatim>\<open>create_state\<close>: it returns null and leaves the
  objects alone, or the address of a new object.
\<close>

locale state_factory =
  fixes cs :: "nat option \<Rightarrow> TaskObj \<Rightarrow> string \<Rightarrow> TaskRegistry \<Rightarrow> nat option \<times> TaskObj \<times> TaskRegistry"
  assumes cs_null: "cs f t n R = (None, t', R') \<Longrightarrow> R' = R"
    and cs_new: "cs f t n R = (Some a, t', R') \<Longrightarrow>
      objects R a = None \<and> (\<exists>s. R' = R\<lparr>objects := (objects R)(a \<mapsto> s)\<rparr>)"

lemma emplace_simps [simp]:
  "objects (ids_emplace n i R) = objects R" "task_states (ids_emplace n i R) = task_states R"
  "libs (ids_emplace n i R) = libs R" "rg_node_id (ids_emplace n i R) = rg_node_id R"
  "objects (states_emplace j a R) = objects R" "task_state_ids (states_emplace j a R) = task_state_ids R"
  by (simp_all add: ids_emplace_def states_emplace_def)

lemma task_states_emplace:
  "task_states R (key_of i) = None \<Longrightarrow> task_states (states_emplace i a R) = (task_states R)(key_of i \<mapsto> a)"
  by (simp add: states_emplace_def)

lemma ids_emplace_lookup:
  "task_state_ids (ids_emplace n i R) m =
     (if m = n \<and> task_state_ids R n = None then Some i else task_state_ids R m)"
  by (auto simp: ids_emplace_def)

lemma key_null: "key_of i = key_of j \<Longrightarrow> UniqueId_IsNull i = UniqueId_IsNull j"
  by (simp add: key_of_def UniqueId_IsNull_def)

lemma GetOrCreate_again:
  assumes "GetOrCreateTaskStateId n R u = (i, R', u')"
  shows "GetOrCreateTaskStateId n R' u'' = (i, R', u'')" and "GetTaskStateId n R' = i"
  using assms
  by (auto simp: GetOrCreateTaskStateId_def CreateTaskStateId_def GetTaskStateId_def ids_emplace_lookup
      split: option.splits)

context state_factory
begin

lemma CreateTaskState_fails:
  assumes "CreateTaskState B cs lib name i t R = (ok, t', R')"
    and "UniqueId_IsNull i \<or> libs R lib = None \<or> TaskStateExists R i"
  shows "R' = R \<and> t' = SetModuleComplete B t \<and>
    (ok \<longleftrightarrow> \<not> UniqueId_IsNull i \<and> libs R lib \<noteq> None \<and> TaskStateExists R i)"
  using assms by (auto simp: CreateTaskState_def split: if_splits option.splits)

lemma CreateTaskState_new:
  assumes "CreateTaskState B cs lib name i t R = (ok, t', R')"
    and "\<not> UniqueId_IsNull i" and "libs R lib = Some info" and "\<not> TaskStateExists R i"
  shows "if ok then \<exists>a s. objects R a = None \<and> objects R' = (objects R)(a \<mapsto> s) \<and> tl_id s = i \<and>
           tl_name s = name \<and> task_states R' = (task_states R)(key_of i \<mapsto> a) \<and>
           task_state_ids R' = task_state_ids (ids_emplace name i R)
         else R' = R \<and> (\<exists>t1. t' = SetModuleComplete B t1)"
proof -
  let ?t = "pay_upd un_CreateTaskState PCreateTaskState cs_id_update (\<lambda>_. i) t"
  obtain oa t1 R1 where c: "cs (li_create_state info) ?t name R = (oa, t1, R1)"
    by (cases "cs (li_create_state info) ?t name R") auto
  from assms(4) have st: "task_states R (key_of i) = None" by (simp add: TaskStateExists_def)
  show ?thesis
  proof (cases oa)
    case None
    with c cs_null [of "li_create_state info" ?t name R t1 R1] assms show ?thesis
      by (auto simp: CreateTaskState_def)
  next
    case (Some a)
    with c obtain s where fresh: "objects R a = None" and R1: "R1 = R\<lparr>objects := (objects R)(a \<mapsto> s)\<rparr>"
      using cs_new [of "li_create_state info" ?t name R a t1 R1] by blast
    define R2 where "R2 = R\<lparr>objects := (objects R)(a \<mapsto> s\<lparr>tl_id := i, tl_name := name\<rparr>)\<rparr>"
    from assms c Some have ok: ok and R': "R' = states_emplace i a (ids_emplace name i R2)"
      by (auto simp: CreateTaskState_def R1 R2_def Let_def comp_def)
    have "task_states R' = (task_states R)(key_of i \<mapsto> a)" "task_state_ids R' = task_state_ids (ids_emplace name i R)"
      "objects R' = (objects R)(a \<mapsto> s\<lparr>tl_id := i, tl_name := name\<rparr>)"
      using st by (simp_all add: R' states_emplace_def ids_emplace_def R2_def)
    with ok fresh show ?thesis by (auto intro!: exI [of _ a] exI [of _ "s\<lparr>tl_id := i, tl_name := name\<rparr>"])
  qed
qed

lemma CreateTaskState_wf:
  assumes "registry_wf R" and "CreateTaskState B cs lib name i t R = (ok, t', R')"
  shows "registry_wf R'"
proof (cases "UniqueId_IsNull i \<or> libs R lib = None \<or> TaskStateExists R i")
  case True
  with CreateTaskState_fails [OF assms(2)] assms(1) show ?thesis by simp
next
  case False
  then obtain info where l: "libs R lib = Some info" by auto
  note n = CreateTaskState_new [OF assms(2) _ l]
  show ?thesis
  proof (cases ok)
    case True
    with n False obtain a s where a: "objects R a = None" "objects R' = (objects R)(a \<mapsto> s)" "tl_id s = i"
      "task_states R' = (task_states R)(key_of i \<mapsto> a)" by auto
    show ?thesis
    proof (rule registry_wfI)
      fix k b assume "task_states R' k = Some b"
      with a registry_wfD(1) [OF assms(1), of k b] show "\<exists>s. objects R' b = Some s \<and> key_of (tl_id s) = k"
        by (auto split: if_splits)
    next
      fix j assume "TaskStateExists R' j"
      with a False key_null [of j i] registry_wfD(2) [OF assms(1), of j] show "\<not> UniqueId_IsNull j"
        by (auto simp: TaskStateExists_def split: if_splits)
    qed
  next
    case False
    with n \<open>\<not> (UniqueId_IsNull i \<or> libs R lib = None \<or> TaskStateExists R i)\<close> assms(1) show ?thesis
      by simp
  qed
qed

end

lemma DestroyTaskState_wf:
  assumes "registry_wf R"
  shows "\<exists>R'. DestroyTaskState i R = Inr R' \<and> registry_wf R' \<and> \<not> TaskStateExists R' i \<and>
    (\<forall>j. \<not> UniqueId_eq i j \<longrightarrow> GetTaskState R' j = GetTaskState R j)"
proof (cases "task_states R (key_of i)")
  case None
  with assms show ?thesis by (simp add: DestroyTaskState_def TaskStateExists_def)
next
  case (Some a)
  with assms obtain s where s: "objects R a = Some s" "key_of (tl_id s) = key_of i"
    unfolding registry_wf_def by blast
  have only: "k = key_of i" if "task_states R k = Some a" for k
    using registry_wfD(1) [OF assms that] s by auto
  define R' where "R' = R\<lparr>task_state_ids := (task_state_ids R)(tl_name s := None),
    task_states := (task_states R)(key_of i := None), objects := (objects R)(a := None)\<rparr>"
  have "registry_wf R'"
  proof (rule registry_wfI)
    fix k b assume "task_states R' k = Some b"
    with only [of k] registry_wfD(1) [OF assms, of k b] show "\<exists>s. objects R' b = Some s \<and> key_of (tl_id s) = k"
      by (auto simp: R'_def split: if_splits)
  next
    fix j assume "TaskStateExists R' j"
    with registry_wfD(2) [OF assms, of j] show "\<not> UniqueId_IsNull j"
      by (auto simp: R'_def TaskStateExists_def split: if_splits)
  qed
  with Some s show ?thesis
    by (auto simp: DestroyTaskState_def R'_def TaskStateExists_def GetTaskState_def UniqueId_eq_key)
qed

text \<open>Loading a file: the handle that was opened is kept or closed, never both, never lost.\<close>

lemma load_lib_handle:
  assumes "ld_open L p = Some h" and "load_lib L p R = (ok, R', closed)"
  shows "(\<not> ok \<longrightarrow> R' = R \<and> closed = [h]) \<and>
    (ok \<longrightarrow> (case ld_sym L h ''get_task_lib_name'' of None \<Rightarrow> False | Some gn \<Rightarrow>
       (if libs R (ld_name L gn) = None
        then closed = [] \<and> R' = R\<lparr>libs := (libs R)(ld_name L gn \<mapsto>
          TaskLibInfo_new (Some h) (ld_sym L h ''create_state'') (Some gn))\<rparr>
        else closed = [h] \<and> R' = R)))"
  using assms
  by (auto simp: load_lib_def libs_emplace_def TaskLibInfo_move_def TaskLibInfo_new_def
      TaskLibInfo_destroy_def Let_def split: option.splits if_splits)

text \<open>The directory that decides: the first one with either file.\<close>

definition has_lib :: "loader \<Rightarrow> string \<Rightarrow> string \<Rightarrow> bool" where
  "has_lib L name dir \<longleftrightarrow> ld_exists L (ld_format L ''{}/{}.so'' [dir, name]) \<or>
     ld_exists L (ld_format L ''{}/lib{}.so'' [dir, name])"

definition lib_file :: "loader \<Rightarrow> string \<Rightarrow> string \<Rightarrow> string" where
  "lib_file L name dir =
     (if ld_exists L (ld_format L ''{}/{}.so'' [dir, name]) then ld_format L ''{}/{}.so'' [dir, name]
      else ld_format L ''{}/lib{}.so'' [dir, name])"

lemma search_dirs_first:
  "search_dirs L name dirs R =
     (case List.find (has_lib L name) dirs of None \<Rightarrow> (False, R, []) | Some d \<Rightarrow> load_lib L (lib_file L name d) R)"
  by (induction dirs) (auto simp: has_lib_def lib_file_def Let_def)

lemma getlines_sep:
  assumes "CHR '':'' \<notin> set d"
  shows "getlines (d @ CHR '':'' # s) = d # getlines s"
proof -
  have "takeWhile (\<lambda>c. c \<noteq> CHR '':'') (d @ CHR '':'' # s) = d"
    "dropWhile (\<lambda>c. c \<noteq> CHR '':'') (d @ CHR '':'' # s) = CHR '':'' # s"
    using assms by (induction d) auto
  then show ?thesis by (subst getlines.simps) (simp add: Let_def)
qed

lemma getlines_last: "CHR '':'' \<notin> set d \<Longrightarrow> d \<noteq> [] \<Longrightarrow> getlines d = [d]"
proof -
  assume "CHR '':'' \<notin> set d" and "d \<noteq> []"
  moreover from this have "takeWhile (\<lambda>c. c \<noteq> CHR '':'') d = d" "dropWhile (\<lambda>c. c \<noteq> CHR '':'') d = []"
    by (auto simp: takeWhile_eq_all_conv dropWhile_eq_Nil_conv)
  ultimately show ?thesis by (subst getlines.simps) (simp add: Let_def)
qed

lemma getlines_Nil [simp]: "getlines [] = []"
  by (subst getlines.simps) simp

text \<open>
  The macro's \<^verbatim>\<open>create_state\<close> with an allocator that hands out the first free address of a
  small arena, and null once it is full.
\<close>

definition arena_create ::
    "nat \<Rightarrow> (nat \<Rightarrow> u32 \<Rightarrow> TaskObj \<Rightarrow> TaskObj) \<Rightarrow> nat option \<Rightarrow> TaskObj \<Rightarrow> string \<Rightarrow> TaskRegistry \<Rightarrow>
     nat option \<times> TaskObj \<times> TaskRegistry" where
  "arena_create cap Run f t n R =
     (case List.find (\<lambda>a. objects R a = None) [0..<cap] of
        None \<Rightarrow> (None, t, R)
      | Some a \<Rightarrow> (case create_state (\<lambda>R. (a, \<lparr>tl_id = UniqueId_GetNull, tl_queue_id = UniqueId_GetNull, tl_name = []\<rparr>))
          Run t n R of (a', t', R') \<Rightarrow> (Some a', t', R')))"

interpretation arena: state_factory "arena_create cap Run"
  by unfold_locales
    (auto simp: arena_create_def create_state_def Let_def find_Some_iff split: option.splits)

definition empty_registry :: TaskRegistry where
  "empty_registry = \<lparr>rg_node_id = 1, lib_dirs = [],
     libs = [''small_message'' \<mapsto> TaskLibInfo_new (Some 3) (Some 4) (Some 5)],
     task_state_ids = Map.empty, task_states = Map.empty, objects = Map.empty\<rparr>"

lemma empty_registry_wf: "registry_wf empty_registry"
  by (simp add: registry_wf_def empty_registry_def TaskStateExists_def)

section \<open>Properties\<close>

text \<open>
  C16. Creating a task state keeps the registry well-formed on every branch. It succeeds
  without effect when the state exists; it fails without effect, and completes the task,
  for a null id, an unknown library or a library that makes no object; otherwise the new
  state, with its id and name, is found under its id and no other lookup by id changes.
\<close>

theorem CreateTaskState_spec:
  assumes "state_factory cs" and "registry_wf R" and "CreateTaskState B cs lib name i t R = (ok, t', R')"
  shows "registry_wf R' \<and> (\<forall>j. \<not> UniqueId_eq i j \<longrightarrow> GetTaskState R' j = GetTaskState R j) \<and>
    (\<not> ok \<longrightarrow> R' = R \<and> (\<exists>t1. t' = SetModuleComplete B t1)) \<and>
    (ok \<and> TaskStateExists R i \<longrightarrow> R' = R) \<and>
    (ok \<longrightarrow> (\<exists>a s. GetTaskState R' i = Some a \<and> objects R' a = Some s \<and> UniqueId_eq i (tl_id s)))"
proof -
  have wf: "registry_wf R'" by (rule state_factory.CreateTaskState_wf [OF assms])
  show ?thesis
  proof (cases "UniqueId_IsNull i \<or> libs R lib = None \<or> TaskStateExists R i")
    case True
    note f = state_factory.CreateTaskState_fails [OF assms(1,3) True]
    have "\<exists>a s. GetTaskState R' i = Some a \<and> objects R' a = Some s \<and> UniqueId_eq i (tl_id s)" if ok
      using f that registry_wfD(1) [OF assms(2), of "key_of i"]
      by (fastforce simp: TaskStateExists_def GetTaskState_def UniqueId_eq_key)
    with f wf show ?thesis by auto
  next
    case False
    then obtain info where l: "libs R lib = Some info" by auto
    have n: "if ok then \<exists>a s. objects R a = None \<and> objects R' = (objects R)(a \<mapsto> s) \<and> tl_id s = i \<and>
           tl_name s = name \<and> task_states R' = (task_states R)(key_of i \<mapsto> a) \<and>
           task_state_ids R' = task_state_ids (ids_emplace name i R)
         else R' = R \<and> (\<exists>t1. t' = SetModuleComplete B t1)"
      using state_factory.CreateTaskState_new [OF assms(1,3) _ l] False by blast
    show ?thesis
    proof (cases ok)
      case True
      with n obtain a s where "objects R' = (objects R)(a \<mapsto> s)" "tl_id s = i"
        "task_states R' = (task_states R)(key_of i \<mapsto> a)" by auto
      with wf True False show ?thesis by (auto simp: GetTaskState_def UniqueId_eq_key)
    next
      case False
      with n wf show ?thesis by simp
    qed
  qed
qed

theorem CreateTaskState_spec_witness:
  "\<exists>t' R'. CreateTaskState word_bitfield (arena_create 2 (\<lambda>a m t. SetModuleComplete word_bitfield t))
      ''small_message'' ''sm'' (UniqueId_new 1 2)
      (sample_obj (PCreateTaskState \<lparr>cs_lib_name = ''small_message'', cs_state_name = ''sm'', cs_queue_info = [],
         cs_id = UniqueId_GetNull\<rparr>)) empty_registry = (True, t', R') \<and>
     registry_wf R' \<and> (\<exists>a s. GetTaskState R' (UniqueId_new 1 2) = Some a \<and> objects R' a = Some s)"
proof -
  let ?t = "sample_obj (PCreateTaskState \<lparr>cs_lib_name = ''small_message'', cs_state_name = ''sm'',
    cs_queue_info = [], cs_id = UniqueId_GetNull\<rparr>)"
  let ?c = "CreateTaskState word_bitfield (arena_create 2 (\<lambda>a m t. SetModuleComplete word_bitfield t))
      ''small_message'' ''sm'' (UniqueId_new 1 2) ?t empty_registry"
  obtain ok t' R' where c: "?c = (ok, t', R')" by (cases ?c) auto
  have ok: "fst ?c"
    by (simp add: CreateTaskState_def empty_registry_def TaskStateExists_def arena_create_def
        create_state_def UniqueId_IsNull_def UniqueId_new_def upt_rec Let_def)
  from CreateTaskState_spec [OF arena.state_factory_axioms empty_registry_wf c] c ok
  show ?thesis by auto
qed

text \<open>
  C31. Names are resolved to ids once: the first request for a name takes the next value
  of the shared counter on this node, every later request and lookup gives the same id
  and moves the counter no more, and requests for other names are not affected.
\<close>

theorem GetOrCreateTaskStateId_stable:
  assumes "GetOrCreateTaskStateId n R u = (i, R', u')"
  shows "GetOrCreateTaskStateId n R' v = (i, R', v) \<and> GetTaskStateId n R' = i \<and>
    (task_state_ids R n = None \<longrightarrow> i = UniqueId_new (rg_node_id R) u \<and> u' = u + 1) \<and>
    (\<forall>m. m \<noteq> n \<longrightarrow> GetTaskStateId m R' = GetTaskStateId m R) \<and> task_states R' = task_states R"
  using GetOrCreate_again(1) [OF assms, of v] GetOrCreate_again(2) [OF assms] assms
  by (auto simp: GetOrCreateTaskStateId_def CreateTaskStateId_def GetTaskStateId_def ids_emplace_lookup
      split: option.splits)

theorem GetOrCreateTaskStateId_stable_witness:
  "\<exists>R'. GetOrCreateTaskStateId ''q'' empty_registry 2 = (UniqueId_new 1 2, R', 3) \<and>
     GetOrCreateTaskStateId ''q'' R' 9 = (UniqueId_new 1 2, R', 9)"
proof -
  have "GetOrCreateTaskStateId ''q'' empty_registry 2 =
      (UniqueId_new 1 2, ids_emplace ''q'' (UniqueId_new 1 2) empty_registry, 3)"
    by (simp add: GetOrCreateTaskStateId_def empty_registry_def CreateTaskStateId_def)
  with GetOrCreateTaskStateId_stable [OF this, of 9] show ?thesis by blast
qed



text \<open>
  C32. Registering a library: only the first search directory that has either of the two
  files is tried, even when loading it fails; a library handle that was opened is stored
  under the library's own name, or closed when loading fails or the name is taken, and is
  never both stored and closed.
\<close>

theorem RegisterTaskLib_spec:
  "RegisterTaskLib L name R =
     (case List.find (has_lib L name) (lib_dirs R) of None \<Rightarrow> (False, R, [])
      | Some d \<Rightarrow> load_lib L (lib_file L name d) R) \<and>
   (\<forall>p. ld_open L p = None \<longrightarrow> load_lib L p R = (False, R, [])) \<and>
   (\<forall>p h ok R' closed. ld_open L p = Some h \<and> load_lib L p R = (ok, R', closed) \<longrightarrow>
      (closed = [h] \<and> R' = R) \<noteq>
      (ok \<and> closed = [] \<and> (\<exists>n info. libs R n = None \<and> li_lib info = Some h \<and> R' = R\<lparr>libs := (libs R)(n \<mapsto> info)\<rparr>)))"
proof -
  have "(closed = [h] \<and> R' = R) \<noteq>
      (ok \<and> closed = [] \<and> (\<exists>n info. libs R n = None \<and> li_lib info = Some h \<and> R' = R\<lparr>libs := (libs R)(n \<mapsto> info)\<rparr>))"
    if "ld_open L p = Some h" "load_lib L p R = (ok, R', closed)" for p h ok R' closed
  proof (cases "ld_sym L h ''get_task_lib_name''")
    case None
    with load_lib_handle [OF that] show ?thesis by auto
  next
    case (Some gn)
    have "li_lib (TaskLibInfo_new (Some h) c g) = Some h" for c g by (simp add: TaskLibInfo_new_def)
    with load_lib_handle [OF that] Some show ?thesis by (cases ok) (auto split: if_splits)
  qed
  moreover have "load_lib L p R = (False, R, [])" if "ld_open L p = None" for p
    using that by (simp add: load_lib_def)
  ultimately show ?thesis unfolding RegisterTaskLib_def search_dirs_first by blast
qed

theorem RegisterTaskLib_spec_witness:
  "\<exists>L. ld_open L ''d/x.so'' = None \<and> load_lib L ''d/x.so'' empty_registry = (False, empty_registry, [])"
proof -
  let ?L = "\<lparr>ld_getenv = (\<lambda>_. None), ld_format = (\<lambda>f _. f), ld_exists = (\<lambda>_. True), ld_open = (\<lambda>_. None),
    ld_sym = (\<lambda>_ _. None), ld_name = (\<lambda>_. [])\<rparr>"
  have "ld_open ?L ''d/x.so'' = None" by simp
  with RegisterTaskLib_spec [of ?L "[]" empty_registry] show ?thesis by blast
qed

text \<open>
  The search path is the entries of \<^verbatim>\<open>HERMES_RUN_TASK_PATH\<close> before those of
  \<^verbatim>\<open>LD_LIBRARY_PATH\<close>. When \<^verbatim>\<open>HERMES_RUN_TASK_PATH\<close> is unset or empty, the first directory
  searched is the empty string, so libraries are looked up in the root directory first.
\<close>

theorem search_path_order:
  assumes "CHR '':'' \<notin> set d" and "CHR '':'' \<notin> set e" and "e \<noteq> []"
    and "ld_getenv L ''LD_LIBRARY_PATH'' = Some e"
  shows "(ld_getenv L ''HERMES_RUN_TASK_PATH'' = Some d \<longrightarrow> getlines (lib_paths L) = [d, e]) \<and>
    (ld_getenv L ''HERMES_RUN_TASK_PATH'' = None \<longrightarrow> getlines (lib_paths L) = [[], e])"
  using assms getlines_sep [of d e] getlines_sep [of "[]" e] by (simp add: lib_paths_def getlines_last)

theorem search_path_order_witness:
  "\<exists>L. ld_getenv L ''LD_LIBRARY_PATH'' = Some ''/usr/lib'' \<and> getlines (lib_paths L) = [[], ''/usr/lib'']"
proof -
  let ?L = "\<lparr>ld_getenv = (\<lambda>v. if v = ''LD_LIBRARY_PATH'' then Some ''/usr/lib'' else None), ld_format = (\<lambda>f _. f),
    ld_exists = (\<lambda>_. True), ld_open = (\<lambda>_. None), ld_sym = (\<lambda>_ _. None), ld_name = (\<lambda>_. [])\<rparr>"
  have "getlines (lib_paths ?L) = [[], ''/usr/lib'']"
    using search_path_order [of "[]" "''/usr/lib''" ?L] by simp
  then show ?thesis by (intro exI [of _ ?L]) simp
qed

end
