(* ===== verification/Worker.thy ===== *)
theory Worker
  imports Registry
begin

text \<open>
  \<^verbatim>\<open>work_orchestrator/worker.h\<close> and \<^verbatim>\<open>src/worker.cc\<close>: the workers that poll lanes and run
  tasks. The state of a node is the record \<open>Node\<close>: the tasks in shared memory, the queue
  table, the registry and the workers. A pointer to a lane, a group or a queue is its
  position in the queue table. What a worker calls through pointers or in other libraries,
  the virtual members of a task state, the remote queue, coroutines, threads, is the
  record \<open>worker_env\<close>.
\<close>

section \<open>Work entries\<close>

type_synonym lane_ref = "nat \<times> nat \<times> nat"

record WorkEntry =
  we_prio :: u32
  we_lane_id :: u32
  we_count :: u32
  we_lane :: lane_ref
  we_group :: "nat \<times> nat"
  we_queue :: nat

definition WorkEntry_new :: "MultiQueue list \<Rightarrow> u32 \<Rightarrow> u32 \<Rightarrow> nat \<Rightarrow> WorkEntry res" where
  "WorkEntry_new qs pr lane_id slot =
     res_bind (vec_at qs slot) (\<lambda>q.
     res_bind (GetGroup q pr) (\<lambda>g.
     res_bind (GetLane g lane_id) (\<lambda>l.
       Inr \<lparr>we_prio = pr, we_lane_id = lane_id, we_count = 0, we_lane = (slot, unat pr, unat lane_id),
         we_group = (slot, unat pr), we_queue = slot\<rparr>)))"

text \<open>
  None of the copy and move operations copies \<^verbatim>\<open>count_\<close>: a constructed copy has whatever
  the memory held (\<open>c\<close>), an assignment keeps the old count.
\<close>

definition WorkEntry_copy :: "u32 \<Rightarrow> WorkEntry \<Rightarrow> WorkEntry" where
  "WorkEntry_copy c other = \<lparr>we_prio = we_prio other, we_lane_id = we_lane_id other, we_count = c,
     we_lane = we_lane other, we_group = we_group other, we_queue = we_queue other\<rparr>"

definition WorkEntry_assign :: "WorkEntry \<Rightarrow> WorkEntry \<Rightarrow> WorkEntry" where
  "WorkEntry_assign self other = self\<lparr>we_prio := we_prio other, we_lane_id := we_lane_id other,
     we_lane := we_lane other, we_group := we_group other, we_queue := we_queue other\<rparr>"

definition WorkEntry_eq :: "WorkEntry \<Rightarrow> WorkEntry \<Rightarrow> bool" where
  "WorkEntry_eq a b = (we_queue a = we_queue b \<and> we_lane_id a = we_lane_id b \<and> we_prio a = we_prio b)"

definition hash_WorkEntry :: "(nat \<Rightarrow> size_t) \<Rightarrow> (u32 \<Rightarrow> size_t) \<Rightarrow> (u64 \<Rightarrow> size_t) \<Rightarrow> WorkEntry \<Rightarrow> size_t" where
  "hash_WorkEntry hp h32 h64 key = hp (we_queue key) + h32 (we_lane_id key) + h64 (ucast (we_prio key))"

section \<open>Workers and nodes\<close>

definition WORKER_CONTINUOUS_POLLING :: "bitfield_lib \<Rightarrow> u32" where
  "WORKER_CONTINUOUS_POLLING B = bf_BIT_OPT B 0"

record Worker =
  wk_id :: u32
  wk_pid :: int
  work_queue :: "WorkEntry list"
  poll_queues :: "WorkEntry list list"
  relinquish_queues :: "WorkEntry list list"
  sleep_us :: size_t
  retries :: u32
  wk_flags :: u32
  group_map :: "bytes \<rightharpoonup> TaskNode"
  group_buf :: bytes

text \<open>
  The header of the shared segment (\<^verbatim>\<open>HermesRunShm\<close> in \<^verbatim>\<open>api/manager.h\<close>); its queue table is
  the member \<open>queues\<close> of the node.
\<close>

record HermesRunShm =
  hdr_node_id :: u32
  hdr_unique :: u64
  hdr_num_nodes :: u64

record Node =
  heap :: "Pointer \<rightharpoonup> TaskObj"
  queues :: "MultiQueue list"
  registry :: TaskRegistry
  workers :: "Worker list"
  header :: HermesRunShm

text \<open>
  \<^verbatim>\<open>hshm::spsc_queue\<close> of vectors of entries: \<open>spsc_pop\<close> is \<open>None\<close> on a null token.
\<close>

record spsc_lib =
  spsc_Resize :: "WorkEntry list list \<Rightarrow> nat \<Rightarrow> WorkEntry list list"
  spsc_emplace :: "WorkEntry list list \<Rightarrow> WorkEntry list \<Rightarrow> WorkEntry list list"
  spsc_pop :: "WorkEntry list list \<Rightarrow> (WorkEntry list \<times> WorkEntry list list) option"
  spsc_size :: "WorkEntry list list \<Rightarrow> nat"

locale spsc_queues =
  fixes Q :: spsc_lib
  assumes spsc_Resize_nil: "spsc_Resize Q [] n = []"
    and spsc_emplace_app: "length q < 1024 \<Longrightarrow> spsc_emplace Q q v = q @ [v]"
    and spsc_pop_hd: "spsc_pop Q q = (case q of [] \<Rightarrow> None | v # q' \<Rightarrow> Some (v, q'))"
    and spsc_size_length: "spsc_size Q q = length q"

text \<open>
  The growth of \<^verbatim>\<open>std::vector\<close>: whether adding to a vector of some length moves its
  elements, and what fresh memory holds in the place of the count at some position.
\<close>

record vector_mem =
  vm_reallocs :: "nat \<Rightarrow> bool"
  vm_garbage :: "nat \<Rightarrow> u32"

definition emplace_back :: "vector_mem \<Rightarrow> WorkEntry list \<Rightarrow> WorkEntry \<Rightarrow> WorkEntry list" where
  "emplace_back M wq e =
     (if vm_reallocs M (length wq)
      then map (\<lambda>i. WorkEntry_copy (vm_garbage M i) (wq ! i)) [0..<length wq] else wq) @
     [WorkEntry_copy (vm_garbage M (length wq)) e]"

text \<open>\<^verbatim>\<open>erase\<close> assigns each later element to its predecessor and drops the last.\<close>

definition erase_at :: "WorkEntry list \<Rightarrow> nat \<Rightarrow> WorkEntry list" where
  "erase_at wq i = map (\<lambda>j. if j < i then wq ! j else WorkEntry_assign (wq ! j) (wq ! Suc j)) [0..<length wq - 1]"

definition Worker_new :: "bitfield_lib \<Rightarrow> spsc_lib \<Rightarrow> resize_fn \<Rightarrow> u32 \<Rightarrow> Worker" where
  "Worker_new B Q resize i = \<lparr>wk_id = i, wk_pid = 0, work_queue = [], poll_queues = spsc_Resize Q [] 1024,
     relinquish_queues = spsc_Resize Q [] 1024, sleep_us = 0, retries = 1,
     wk_flags = bf_SetBits B (bf_init B) (WORKER_CONTINUOUS_POLLING B), group_map = Map.empty,
     group_buf = resize (resize [] 512) 0\<rparr>"

text \<open>The constructor that also starts the thread of the worker on \<^verbatim>\<open>Loop\<close>; the thread is not state of the model.\<close>

definition Worker_new_thread :: "bitfield_lib \<Rightarrow> spsc_lib \<Rightarrow> resize_fn \<Rightarrow> u32 \<Rightarrow> Worker" where
  "Worker_new_thread B Q resize i = \<lparr>wk_id = i, wk_pid = 0, work_queue = [], poll_queues = spsc_Resize Q [] 1024,
     relinquish_queues = spsc_Resize Q [] 1024, sleep_us = 0, retries = 1,
     wk_flags = bf_SetBits B (bf_init B) (WORKER_CONTINUOUS_POLLING B), group_map = Map.empty,
     group_buf = resize (resize [] 512) 0\<rparr>"

definition PollQueues :: "spsc_lib \<Rightarrow> WorkEntry list \<Rightarrow> Worker \<Rightarrow> Worker" where
  "PollQueues Q v w = w\<lparr>poll_queues := spsc_emplace Q (poll_queues w) v\<rparr>"

definition RelinquishingQueues :: "spsc_lib \<Rightarrow> WorkEntry list \<Rightarrow> Worker \<Rightarrow> Worker" where
  "RelinquishingQueues Q v w = w\<lparr>relinquish_queues := spsc_emplace Q (relinquish_queues w) v\<rparr>"

definition IsRelinquishingQueues :: "spsc_lib \<Rightarrow> Worker \<Rightarrow> bool" where
  "IsRelinquishingQueues Q w = (spsc_size Q (relinquish_queues w) > 0)"

definition SetPollingFrequency :: "bitfield_lib \<Rightarrow> size_t \<Rightarrow> u32 \<Rightarrow> Worker \<Rightarrow> Worker" where
  "SetPollingFrequency B us n w = w\<lparr>sleep_us := us, retries := n,
     wk_flags := bf_UnsetBits B (wk_flags w) (WORKER_CONTINUOUS_POLLING B)\<rparr>"

definition EnableContinuousPolling :: "bitfield_lib \<Rightarrow> Worker \<Rightarrow> Worker" where
  "EnableContinuousPolling B w = w\<lparr>wk_flags := bf_SetBits B (wk_flags w) (WORKER_CONTINUOUS_POLLING B)\<rparr>"

definition DisableContinuousPolling :: "bitfield_lib \<Rightarrow> Worker \<Rightarrow> Worker" where
  "DisableContinuousPolling B w = w\<lparr>wk_flags := bf_UnsetBits B (wk_flags w) (WORKER_CONTINUOUS_POLLING B)\<rparr>"

text \<open>What a yield asks of the thread library.\<close>

datatype yield_action = NoYield | SleepForUs size_t | YieldThread

definition Worker_Yield :: "bitfield_lib \<Rightarrow> Worker \<Rightarrow> yield_action" where
  "Worker_Yield B w =
     (if bf_Any B (wk_flags w) (WORKER_CONTINUOUS_POLLING B) then NoYield
      else if sleep_us w > 0 then SleepForUs (sleep_us w) else YieldThread)"

section \<open>Merging and relinquishing queues\<close>

fun add_entries :: "vector_mem \<Rightarrow> WorkEntry list \<Rightarrow> WorkEntry list \<Rightarrow> WorkEntry list" where
  "add_entries M wq [] = wq"
| "add_entries M wq (e # es) = add_entries M (emplace_back M wq e) es"

partial_function (option) poll_loop ::
    "spsc_lib \<Rightarrow> vector_mem \<Rightarrow> WorkEntry list \<Rightarrow> WorkEntry list list \<Rightarrow> (WorkEntry list \<times> WorkEntry list list) option" where
  "poll_loop Q M wq pq =
     (case spsc_pop Q pq of
        None \<Rightarrow> Some (wq, pq)
      | Some vp \<Rightarrow> poll_loop Q M (add_entries M wq (fst vp)) (snd vp))"

definition PollQueues_merge :: "spsc_lib \<Rightarrow> vector_mem \<Rightarrow> Worker \<Rightarrow> Worker res" where
  "PollQueues_merge Q M w =
     (case poll_loop Q M (work_queue w) (poll_queues w) of
        None \<Rightarrow> Inl Diverges
      | Some (wq, pq) \<Rightarrow> Inr (w\<lparr>work_queue := wq, poll_queues := pq\<rparr>))"

fun find_entry :: "WorkEntry list \<Rightarrow> WorkEntry \<Rightarrow> nat option" where
  "find_entry [] e = None"
| "find_entry (x # xs) e = (if WorkEntry_eq x e then Some 0 else map_option Suc (find_entry xs e))"

fun erase_entries :: "WorkEntry list \<Rightarrow> WorkEntry list \<Rightarrow> WorkEntry list res" where
  "erase_entries wq [] = Inr wq"
| "erase_entries wq (e # es) =
     (case find_entry wq e of None \<Rightarrow> Inl EraseEnd | Some i \<Rightarrow> erase_entries (erase_at wq i) es)"

text \<open>As in the source, the loop pops the queues to poll, not the queues to relinquish.\<close>

partial_function (option) relinquish_loop ::
    "spsc_lib \<Rightarrow> WorkEntry list \<Rightarrow> WorkEntry list list \<Rightarrow> (WorkEntry list \<times> WorkEntry list list) res option" where
  "relinquish_loop Q wq pq =
     (case spsc_pop Q pq of
        None \<Rightarrow> Some (Inr (wq, pq))
      | Some vp \<Rightarrow>
        (case erase_entries wq (fst vp) of
           Inl e \<Rightarrow> Some (Inl e)
         | Inr wq' \<Rightarrow> relinquish_loop Q wq' (snd vp)))"

definition RelinquishQueues_drop :: "spsc_lib \<Rightarrow> Worker \<Rightarrow> Worker res" where
  "RelinquishQueues_drop Q w =
     (case relinquish_loop Q (work_queue w) (poll_queues w) of
        None \<Rightarrow> Inl Diverges
      | Some r \<Rightarrow> res_bind r (\<lambda>(wq, pq). Inr (w\<lparr>work_queue := wq, poll_queues := pq\<rparr>)))"

section \<open>Task groups\<close>

text \<open>
  \<open>GetGroup\<close> is the virtual member of the task's state. The group buffer it fills is a
  member of the worker, and the key of the map is what the buffer holds after the local
  serialiser has been constructed on it and the lane id written.
\<close>

type_synonym getgroup = "u32 \<Rightarrow> TaskObj \<Rightarrow> bytes \<Rightarrow> (u32 \<times> bytes) res"

definition group_key :: "resize_fn \<Rightarrow> bytes \<Rightarrow> u32 \<Rightarrow> bytes res" where
  "group_key resize g lane_id = LocalSerialize_put resize (LocalSerialize_new resize g) (srl_u32 lane_id)"

definition CheckTaskGroup ::
    "bitfield_lib \<Rightarrow> resize_fn \<Rightarrow> getgroup \<Rightarrow> TaskObj \<Rightarrow> u32 \<Rightarrow> TaskNode \<Rightarrow> bool \<Rightarrow> Worker \<Rightarrow> (bool \<times> Worker) res" where
  "CheckTaskGroup B resize gg t lane_id node is_remote w =
     (if is_remote \<or> IsStarted B t then Inr (True, w)
      else res_bind (gg (method_id t) t (group_buf w)) (\<lambda>(ret, g).
        if ret = TASK_UNORDERED B \<or> IsUnordered B t then Inr (True, w\<lparr>group_buf := g\<rparr>)
        else res_bind (group_key resize g lane_id) (\<lambda>key.
          let w1 = w\<lparr>group_buf := key\<rparr>
          in case group_map w1 key of
               None \<Rightarrow> Inr (True, w1\<lparr>group_map := (group_map w1)(key \<mapsto> node\<lparr>node_depth := 1\<rparr>)\<rparr>)
             | Some node_cmp \<Rightarrow>
               if UniqueId_eq (root node_cmp) (root node)
               then Inr (True, w1\<lparr>group_map := (group_map w1)(key \<mapsto> node_cmp\<lparr>node_depth := node_depth node_cmp + 1\<rparr>)\<rparr>)
               else Inr (False, w1))))"

text \<open>
  \<^verbatim>\<open>operator[]\<close> adds a value-initialised node for an absent key; a depth of 0 is logged as
  fatal and then wraps around if the logger returns (\<open>fr\<close>).
\<close>

definition RemoveTaskGroup ::
    "bitfield_lib \<Rightarrow> resize_fn \<Rightarrow> bool \<Rightarrow> getgroup \<Rightarrow> TaskObj \<Rightarrow> u32 \<Rightarrow> bool \<Rightarrow> Worker \<Rightarrow> Worker res" where
  "RemoveTaskGroup B resize fr gg t lane_id is_remote w =
     (if is_remote then Inr w
      else res_bind (gg (method_id t) t (group_buf w)) (\<lambda>(ret, g).
        if ret = TASK_UNORDERED B \<or> IsUnordered B t then Inr (w\<lparr>group_buf := g\<rparr>)
        else res_bind (group_key resize g lane_id) (\<lambda>key.
          let node_cmp = (case group_map w key of None \<Rightarrow> TaskNode_GetNull | Some n \<Rightarrow> n);
              depth' = node_depth node_cmp - 1;
              w1 = w\<lparr>group_buf := key, group_map := (if depth' = 0 then (group_map w)(key := None)
                     else (group_map w)(key \<mapsto> node_cmp\<lparr>node_depth := depth'\<rparr>))\<rparr>
          in if node_depth node_cmp = 0 then helog_fatal fr ''Group depth is already 0'' (Inr w1)
             else Inr w1)))"

section \<open>The group discipline\<close>

text \<open>A task whose state puts it into a group.\<close>

definition ordered_task :: "bitfield_lib \<Rightarrow> getgroup \<Rightarrow> TaskObj \<Rightarrow> Worker \<Rightarrow> bool" where
  "ordered_task B gg t w \<longleftrightarrow> (case gg (method_id t) t (group_buf w) of
     Inl _ \<Rightarrow> False | Inr (ret, g) \<Rightarrow> ret \<noteq> TASK_UNORDERED B \<and> \<not> IsUnordered B t)"

text \<open>
  The runs of a worker as its tasks enter and leave groups. \<open>A\<close> lists the lane and the
  node of the ordered tasks that have been admitted and have not left; each step is a call
  of one of the two operations, with the task state's own \<open>GetGroup\<close>.
\<close>

inductive group_run :: "bitfield_lib \<Rightarrow> resize_fn \<Rightarrow> bool \<Rightarrow> Worker \<Rightarrow> (u32 \<times> TaskNode) list \<Rightarrow> bool"
  for B resize fr where
  start: "group_map w = Map.empty \<Longrightarrow> group_run B resize fr w []"
| enter: "group_run B resize fr w A \<Longrightarrow> ordered_task B gg t w \<Longrightarrow> \<not> IsStarted B t \<Longrightarrow>
    CheckTaskGroup B resize gg t l (task_node t) False w = Inr (True, w') \<Longrightarrow> length A < 2 ^ 32 - 1 \<Longrightarrow>
    group_run B resize fr w' ((l, task_node t) # A)"
| refused: "group_run B resize fr w A \<Longrightarrow>
    CheckTaskGroup B resize gg t l (task_node t) False w = Inr (False, w') \<Longrightarrow> group_run B resize fr w' A"
| bypass: "group_run B resize fr w A \<Longrightarrow> is_remote \<or> IsStarted B t \<or> \<not> ordered_task B gg t w \<Longrightarrow>
    CheckTaskGroup B resize gg t l (task_node t) is_remote w = Inr (ok, w') \<Longrightarrow> group_run B resize fr w' A"
| leave: "group_run B resize fr w A \<Longrightarrow> ordered_task B gg t w \<Longrightarrow> (l, task_node t) \<in> set A \<Longrightarrow>
    RemoveTaskGroup B resize fr gg t l False w = Inr w' \<Longrightarrow>
    group_run B resize fr w' (remove1 (l, task_node t) A)"
| pass_by: "group_run B resize fr w A \<Longrightarrow> is_remote \<or> \<not> ordered_task B gg t w \<Longrightarrow>
    RemoveTaskGroup B resize fr gg t l is_remote w = Inr w' \<Longrightarrow> group_run B resize fr w' A"

definition on_lane :: "u32 \<Rightarrow> (u32 \<times> TaskNode) list \<Rightarrow> (u32 \<times> TaskNode) list" where
  "on_lane l A = filter (\<lambda>a. fst a = l) A"

definition lane_key :: "u32 \<Rightarrow> bytes" where
  "lane_key l = word_bytes 4 l"

text \<open>The entry of a lane counts the admitted tasks of the lane, which all share its root.\<close>

definition group_inv :: "(bytes \<rightharpoonup> TaskNode) \<Rightarrow> (u32 \<times> TaskNode) list \<Rightarrow> bool" where
  "group_inv m A \<longleftrightarrow> dom m \<subseteq> range lane_key \<and> length A < 2 ^ 32 \<and>
     (\<forall>l. case m (lane_key l) of
        None \<Rightarrow> on_lane l A = []
      | Some n \<Rightarrow> on_lane l A \<noteq> [] \<and> unat (node_depth n) = length (on_lane l A) \<and>
          (\<forall>a \<in> set (on_lane l A). UniqueId_eq (root n) (root (snd a))))"

lemma lane_key_inj: "lane_key l = lane_key l' \<longleftrightarrow> l = l'"
  unfolding lane_key_def using word_bytes_inj [of 4 l l'] by auto

lemma on_lane_simps [simp]:
  "on_lane l [] = []"
  "on_lane l (a # A) = (if fst a = l then a # on_lane l A else on_lane l A)"
  by (simp_all add: on_lane_def)

lemma on_lane_remove1: "on_lane l (remove1 a A) = (if fst a = l then remove1 a (on_lane l A) else on_lane l A)"
  by (induction A) auto

lemma length_on_lane: "length (on_lane l A) \<le> length A"
  by (simp add: on_lane_def)

lemma set_on_lane: "a \<in> set (on_lane l A) \<longleftrightarrow> a \<in> set A \<and> fst a = l"
  by (auto simp: on_lane_def)

lemma group_invD:
  assumes "group_inv m A"
  shows "m (lane_key l) = None \<Longrightarrow> on_lane l A = []"
    and "m (lane_key l) = Some n \<Longrightarrow> on_lane l A \<noteq> [] \<and> unat (node_depth n) = length (on_lane l A) \<and>
      (\<forall>a \<in> set (on_lane l A). UniqueId_eq (root n) (root (snd a)))"
  using assms unfolding group_inv_def by (force split: option.splits)+

lemma group_invI:
  assumes "dom m \<subseteq> range lane_key" and "length A < 2 ^ 32"
    and "\<And>l. m (lane_key l) = None \<Longrightarrow> on_lane l A = []"
    and "\<And>l n. m (lane_key l) = Some n \<Longrightarrow> on_lane l A \<noteq> [] \<and> unat (node_depth n) = length (on_lane l A) \<and>
      (\<forall>a \<in> set (on_lane l A). UniqueId_eq (root n) (root (snd a)))"
  shows "group_inv m A"
  using assms unfolding group_inv_def by (auto split: option.splits)

lemma group_inv_empty: "group_inv m [] \<Longrightarrow> m = Map.empty"
proof (rule ext)
  fix k assume inv: "group_inv m []"
  show "m k = None"
  proof (cases "k \<in> dom m")
    case True
    with inv obtain l where "k = lane_key l" by (auto simp: group_inv_def)
    with group_invD(2) [OF inv, of l] show ?thesis by (cases "m k") auto
  qed auto
qed

lemma group_inv_enter_new:
  assumes "group_inv m A" and "m (lane_key l) = None" and "length A < 2 ^ 32 - 1"
  shows "group_inv (m(lane_key l \<mapsto> n\<lparr>node_depth := 1\<rparr>)) ((l, n) # A)"
proof (rule group_invI)
  show "dom (m(lane_key l \<mapsto> n\<lparr>node_depth := 1\<rparr>)) \<subseteq> range lane_key"
    using assms(1) by (auto simp: group_inv_def)
qed (use assms group_invD [OF assms(1)] in \<open>auto simp: lane_key_inj UniqueId_eq_def split: if_splits\<close>)

lemma group_inv_enter_more:
  assumes "group_inv m A" and "m (lane_key l) = Some k" and "UniqueId_eq (root k) (root n)"
    and "length A < 2 ^ 32 - 1"
  shows "group_inv (m(lane_key l \<mapsto> k\<lparr>node_depth := node_depth k + 1\<rparr>)) ((l, n) # A)"
proof (rule group_invI)
  have "unat (node_depth k) < 2 ^ 32 - 1"
    using group_invD(2) [OF assms(1,2)] length_on_lane [of l A] assms(4) by linarith
  then have suc: "unat (node_depth k + 1) = Suc (unat (node_depth k))"
    by (simp add: unat_word_ariths)
  show "dom (m(lane_key l \<mapsto> k\<lparr>node_depth := node_depth k + 1\<rparr>)) \<subseteq> range lane_key"
    using assms(1) by (auto simp: group_inv_def)
  fix j p
  assume "(m(lane_key l \<mapsto> k\<lparr>node_depth := node_depth k + 1\<rparr>)) (lane_key j) = Some p"
  with group_invD(2) [OF assms(1), of j] group_invD(2) [OF assms(1,2)] assms(3) suc
  show "on_lane j ((l, n) # A) \<noteq> [] \<and> unat (node_depth p) = length (on_lane j ((l, n) # A)) \<and>
      (\<forall>a \<in> set (on_lane j ((l, n) # A)). UniqueId_eq (root p) (root (snd a)))"
    by (auto simp: lane_key_inj split: if_splits)
qed (use assms group_invD [OF assms(1)] in \<open>auto simp: lane_key_inj split: if_splits\<close>)

lemma group_inv_leave:
  assumes "group_inv m A" and "(l, n) \<in> set A"
  obtains k where "m (lane_key l) = Some k" and "node_depth k \<noteq> 0"
    and "group_inv (if node_depth k - 1 = 0 then m(lane_key l := None)
           else m(lane_key l \<mapsto> k\<lparr>node_depth := node_depth k - 1\<rparr>)) (remove1 (l, n) A)"
proof -
  have mem: "(l, n) \<in> set (on_lane l A)" using assms(2) by (simp add: set_on_lane)
  then obtain k where k: "m (lane_key l) = Some k" using group_invD(1) [OF assms(1), of l] by fastforce
  note inv = group_invD(2) [OF assms(1) k]
  from inv have nz: "node_depth k \<noteq> 0" by (metis length_0_conv unat_0)
  then have pred: "unat (node_depth k - 1) = length (remove1 (l, n) (on_lane l A))"
    using inv mem by (simp add: unat_minus_one length_remove1)
  let ?m = "if node_depth k - 1 = 0 then m(lane_key l := None)
    else m(lane_key l \<mapsto> k\<lparr>node_depth := node_depth k - 1\<rparr>)"
  have "group_inv ?m (remove1 (l, n) A)"
  proof (rule group_invI)
    show "dom ?m \<subseteq> range lane_key" using assms(1) by (auto simp: group_inv_def)
    show "length (remove1 (l, n) A) < 2 ^ 32"
      using assms by (auto simp: group_inv_def length_remove1 less_imp_diff_less)
    show "on_lane j (remove1 (l, n) A) = []" if "?m (lane_key j) = None" for j
      using that group_invD(1) [OF assms(1), of j] pred
      by (auto simp: lane_key_inj on_lane_remove1 split: if_splits)
    show "on_lane j (remove1 (l, n) A) \<noteq> [] \<and> unat (node_depth p) = length (on_lane j (remove1 (l, n) A)) \<and>
        (\<forall>a \<in> set (on_lane j (remove1 (l, n) A)). UniqueId_eq (root p) (root (snd a)))"
      if "?m (lane_key j) = Some p" for j p
    proof (cases "j = l")
      case True
      with that have "unat (node_depth k - 1) \<noteq> 0" and p: "p = k\<lparr>node_depth := node_depth k - 1\<rparr>"
        unfolding unat_eq_zero by (auto split: if_splits)
      with pred have "remove1 (l, n) (on_lane l A) \<noteq> []" by auto
      with True p pred inv show ?thesis
        by (auto simp: on_lane_remove1 dest: notin_set_remove1 [rotated] set_remove1_subset [THEN subsetD])
    next
      case False
      with that group_invD(2) [OF assms(1), of j p] show ?thesis
        by (auto simp: lane_key_inj on_lane_remove1 split: if_splits)
    qed
  qed
  with k nz show ?thesis by (rule that)
qed

lemma group_inv_root:
  assumes "group_inv m A" and "m (lane_key l) = Some k" and "(l, n) \<in> set A"
  shows "UniqueId_eq (root k) (root n)"
proof -
  have "(l, n) \<in> set (on_lane l A)" using assms(3) by (simp add: set_on_lane)
  with group_invD(2) [OF assms(1,2)] show ?thesis by force
qed

lemma group_inv_some: "group_inv m A \<Longrightarrow> (l, n) \<in> set A \<Longrightarrow> \<exists>k. m (lane_key l) = Some k"
  using group_inv_leave by blast

lemma group_inv_occupied: "group_inv m A \<Longrightarrow> m (lane_key l) = Some k \<Longrightarrow> \<exists>n. (l, n) \<in> set A"
  using group_invD(2) [of m A l k] by (metis list.set_intros(1) neq_Nil_conv prod.collapse set_on_lane)

context charbuf
begin

lemma group_key_lane: "group_key resize g l = Inr (lane_key l)"
  by (simp add: group_key_def srl_u32_def put_appends lane_key_def del: word_bytes_numeral)

lemma Check_ordered:
  assumes "ordered_task B gg t w" and "\<not> IsStarted B t"
  shows "CheckTaskGroup B resize gg t l n False w =
    (let w1 = w\<lparr>group_buf := lane_key l\<rparr>
     in case group_map w (lane_key l) of
          None \<Rightarrow> Inr (True, w1\<lparr>group_map := (group_map w)(lane_key l \<mapsto> n\<lparr>node_depth := 1\<rparr>)\<rparr>)
        | Some k \<Rightarrow> if UniqueId_eq (root k) (root n)
            then Inr (True, w1\<lparr>group_map := (group_map w)(lane_key l \<mapsto> k\<lparr>node_depth := node_depth k + 1\<rparr>)\<rparr>)
            else Inr (False, w1))"
  using assms
  by (auto simp: CheckTaskGroup_def ordered_task_def group_key_lane Let_def split: sum.splits option.splits)

lemma Check_unordered:
  assumes "CheckTaskGroup B resize gg t l n is_remote w = Inr (ok, w')"
    and "is_remote \<or> IsStarted B t \<or> \<not> ordered_task B gg t w"
  shows "ok \<and> group_map w' = group_map w"
  using assms
  by (auto simp: CheckTaskGroup_def ordered_task_def res_bind_Inr_iff split: if_splits sum.splits)

lemma Check_refused:
  assumes "CheckTaskGroup B resize gg t l n False w = Inr (False, w')"
  shows "group_map w' = group_map w"
  using assms
  by (auto simp: CheckTaskGroup_def res_bind_Inr_iff Let_def split: if_splits option.splits)

lemma Remove_unordered:
  assumes "RemoveTaskGroup B resize fr gg t l is_remote w = Inr w'"
    and "is_remote \<or> \<not> ordered_task B gg t w"
  shows "group_map w' = group_map w"
  using assms
  by (auto simp: RemoveTaskGroup_def ordered_task_def res_bind_Inr_iff split: if_splits sum.splits)

lemma Remove_ordered:
  assumes "ordered_task B gg t w" and "group_map w (lane_key l) = Some k" and "node_depth k \<noteq> 0"
  shows "RemoveTaskGroup B resize fr gg t l False w =
    Inr (w\<lparr>group_buf := lane_key l, group_map := (if node_depth k - 1 = 0 then (group_map w)(lane_key l := None)
      else (group_map w)(lane_key l \<mapsto> k\<lparr>node_depth := node_depth k - 1\<rparr>))\<rparr>)"
  using assms
  by (auto simp: RemoveTaskGroup_def ordered_task_def group_key_lane Let_def split: sum.splits)

lemma group_run_inv: "group_run B resize fr w A \<Longrightarrow> group_inv (group_map w) A"
proof (induction rule: group_run.induct)
  case (start w)
  then show ?case by (simp add: group_inv_def)
next
  case (enter w A gg t l w')
  then show ?case
    using Check_ordered [OF enter(2,3), of l "task_node t"]
      group_inv_enter_new [of "group_map w" A l "task_node t"]
      group_inv_enter_more [of "group_map w" A l _ "task_node t"]
    by (auto simp: Let_def split: option.splits if_splits)
next
  case (refused w A gg t l w')
  then show ?case using Check_refused [OF refused(2)] by simp
next
  case (bypass w A is_remote t gg l ok w')
  then show ?case using Check_unordered [OF bypass(3,2)] by simp
next
  case (leave w A gg t l w')
  show ?case
  proof (rule group_inv_leave [OF leave(5,3)])
    fix k assume k: "group_map w (lane_key l) = Some k" "node_depth k \<noteq> 0"
      and "group_inv (if node_depth k - 1 = 0 then (group_map w)(lane_key l := None)
        else (group_map w)(lane_key l \<mapsto> k\<lparr>node_depth := node_depth k - 1\<rparr>)) (remove1 (l, task_node t) A)"
    with Remove_ordered [OF leave(2) k, of fr] leave(4) show ?case by (auto split: if_splits)
  qed
next
  case (pass_by w A is_remote gg t l w')
  then show ?case using Remove_unordered [OF pass_by(3,2)] by simp
qed

lemma check_decides:
  assumes "group_inv (group_map w) A" and "ordered_task B gg t w" and "\<not> IsStarted B t"
  shows "\<exists>w'. CheckTaskGroup B resize gg t l (task_node t) False w =
      Inr (\<forall>n. (l, n) \<in> set A \<longrightarrow> UniqueId_eq (root n) (root (task_node t)), w')"
proof (cases "group_map w (lane_key l)")
  case None
  then have "(l, n) \<notin> set A" for n using group_inv_some [OF assms(1), of l n] by auto
  with None Check_ordered [OF assms(2,3), of l "task_node t"] show ?thesis by (simp add: Let_def)
next
  case (Some k)
  have "UniqueId_eq (root k) (root (task_node t)) \<longleftrightarrow>
      (\<forall>n. (l, n) \<in> set A \<longrightarrow> UniqueId_eq (root n) (root (task_node t)))"
    using group_inv_root [OF assms(1) Some] group_inv_occupied [OF assms(1) Some]
    unfolding UniqueId_eq_key by metis
  with Some Check_ordered [OF assms(2,3), of l "task_node t"] show ?thesis by (simp add: Let_def)
qed

lemma leave_succeeds:
  assumes "group_inv (group_map w) A" and "ordered_task B gg t w" and "(l, task_node t) \<in> set A"
  shows "\<exists>w'. RemoveTaskGroup B resize fr gg t l False w = Inr w'"
proof (rule group_inv_leave [OF assms(1,3)])
  fix k assume "group_map w (lane_key l) = Some k" and "node_depth k \<noteq> 0"
  from Remove_ordered [OF assms(2) this, of fr] show ?thesis by blast
qed

end

section \<open>Facts about the queue hand-over\<close>

context spsc_queues
begin

lemma poll_loop_all: "poll_loop Q M wq pq = Some (foldl (add_entries M) wq pq, [])"
proof (induction pq arbitrary: wq)
  case Nil
  then show ?case by (subst poll_loop.simps) (simp add: spsc_pop_hd)
next
  case (Cons v pq)
  then show ?case by (subst poll_loop.simps) (simp add: spsc_pop_hd)
qed

lemma merge_all:
  "PollQueues_merge Q M w = Inr (w\<lparr>work_queue := foldl (add_entries M) (work_queue w) (poll_queues w), poll_queues := []\<rparr>)"
  by (simp add: PollQueues_merge_def poll_loop_all)

lemma relinquish_empty: "poll_queues w = [] \<Longrightarrow> RelinquishQueues_drop Q w = Inr w"
  by (simp add: RelinquishQueues_drop_def relinquish_loop.simps [of Q "work_queue w"] spsc_pop_hd)

end

text \<open>The identity of an entry, which the copies keep.\<close>

definition entry_key :: "WorkEntry \<Rightarrow> nat \<times> u32 \<times> u32 \<times> lane_ref" where
  "entry_key e = (we_queue e, we_prio e, we_lane_id e, we_lane e)"

lemma entry_key_copy [simp]: "entry_key (WorkEntry_copy c e) = entry_key e"
  by (simp add: entry_key_def WorkEntry_copy_def)

lemma entry_keys_emplace_back: "map entry_key (emplace_back M wq e) = map entry_key wq @ [entry_key e]"
  by (auto simp: emplace_back_def comp_def intro: nth_equalityI)

lemma entry_keys_add: "map entry_key (add_entries M wq es) = map entry_key wq @ map entry_key es"
  by (induction es arbitrary: wq) (simp_all add: entry_keys_emplace_back)

lemma entry_keys_merge: "map entry_key (foldl (add_entries M) wq pq) = map entry_key wq @ map entry_key (concat pq)"
  by (induction pq arbitrary: wq) (simp_all add: entry_keys_add)

text \<open>The documented queue on lists.\<close>

definition list_spsc :: spsc_lib where
  "list_spsc = \<lparr>spsc_Resize = (\<lambda>q n. q), spsc_emplace = (\<lambda>q v. if length q < 1024 then q @ [v] else q),
     spsc_pop = (\<lambda>q. case q of [] \<Rightarrow> None | v # q' \<Rightarrow> Some (v, q')), spsc_size = length\<rparr>"

interpretation list_sq: spsc_queues list_spsc
  by unfold_locales (simp_all add: list_spsc_def)

definition sample_worker :: Worker where
  "sample_worker = Worker_new word_bitfield list_spsc list_resize 1"

text \<open>A group function that orders every task.\<close>

definition always_ordered :: getgroup where
  "always_ordered m t g = Inr (0, g)"

section \<open>Properties\<close>

text \<open>
  C1. Group discipline of a worker. In every run of a worker, starting without groups,
  all ordered tasks that have been admitted on a lane and have not left it have the same
  root task; a task of another root is refused as long as there is one of them; leaving a
  group never finds a depth of 0, whatever the fatal logger does; and when the last task
  has left no group remains, so every lane is free again.
\<close>

theorem group_discipline:
  assumes "charbuf resize" and "group_run B resize fr w A"
  shows "(\<forall>l n n'. (l, n) \<in> set A \<and> (l, n') \<in> set A \<longrightarrow> UniqueId_eq (root n) (root n')) \<and>
    (\<forall>gg t l. ordered_task B gg t w \<and> \<not> IsStarted B t \<longrightarrow>
      (\<exists>w'. CheckTaskGroup B resize gg t l (task_node t) False w =
        Inr (\<forall>n. (l, n) \<in> set A \<longrightarrow> UniqueId_eq (root n) (root (task_node t)), w'))) \<and>
    (\<forall>gg t l. ordered_task B gg t w \<and> (l, task_node t) \<in> set A \<longrightarrow>
      (\<exists>w'. RemoveTaskGroup B resize fr gg t l False w = Inr w')) \<and>
    (A = [] \<longrightarrow> group_map w = Map.empty)"
proof -
  have inv: "group_inv (group_map w) A" by (rule charbuf.group_run_inv [OF assms])
  have "UniqueId_eq (root n) (root n')" if "(l, n) \<in> set A" "(l, n') \<in> set A" for l n n'
    using group_inv_some [OF inv that(1)] group_inv_root [OF inv] that unfolding UniqueId_eq_key by metis
  moreover note charbuf.check_decides [OF assms(1) inv] charbuf.leave_succeeds [OF assms(1) inv]
  moreover from inv group_inv_empty have "A = [] \<longrightarrow> group_map w = Map.empty" by blast
  ultimately show ?thesis by blast
qed

theorem group_discipline_witness:
  "\<exists>w. group_run word_bitfield list_resize False w [(2, TaskNode_new (UniqueId_new 1 5))] \<and>
     (\<exists>w'. CheckTaskGroup word_bitfield list_resize always_ordered
        ((sample_obj PCustom)\<lparr>task_node := TaskNode_new (UniqueId_new 1 6)\<rparr>) 2 (TaskNode_new (UniqueId_new 1 6)) False w
        = Inr (False, w'))"
proof -
  let ?t = "sample_obj PCustom" and ?t2 = "(sample_obj PCustom)\<lparr>task_node := TaskNode_new (UniqueId_new 1 6)\<rparr>"
  have start: "group_run word_bitfield list_resize False sample_worker []"
    by (rule group_run.start) (simp add: sample_worker_def Worker_new_def)
  have o: "ordered_task word_bitfield always_ordered t w" "\<not> IsStarted word_bitfield t"
    if "t \<in> {?t, ?t2}" for t w
    using that by (auto simp: ordered_task_def always_ordered_def sample_obj_def word_bitfield_def
        TASK_UNORDERED_def IsUnordered_def IsStarted_def)
  obtain w where c: "CheckTaskGroup word_bitfield list_resize always_ordered ?t 2 (task_node ?t) False sample_worker = Inr (True, w)"
    using list_charbuf.Check_ordered [where t = ?t and w = sample_worker and l = 2 and n = "task_node ?t", OF o]
    by (auto simp: Let_def sample_worker_def Worker_new_def)
  have run: "group_run word_bitfield list_resize False w [(2, task_node ?t)]"
    by (rule group_run.enter [OF start o c]) simp_all
  have ne: "(\<forall>n. (2, n) \<in> set [(2 :: u32, task_node ?t)] \<longrightarrow> UniqueId_eq (root n) (root (task_node ?t2))) = False"
    by (simp add: sample_obj_def UniqueId_eq_def TaskNode_new_def UniqueId_new_def)
  have "\<exists>w'. CheckTaskGroup word_bitfield list_resize always_ordered ?t2 2 (task_node ?t2) False w = Inr (False, w')"
    using group_discipline [OF list_charbuf.charbuf_axioms run] o(1) [of ?t2 w] o(2) [of ?t2] unfolding ne [symmetric]
    by blast
  with run show ?thesis by (auto simp: sample_obj_def)
qed

text \<open>
  The group a task state computes for a task does not reach the worker's map: for any
  two group functions that agree on whether the task is ordered, the decision and the map
  are the same, because the serialiser that appends the lane id empties the buffer first.
  Ordered tasks of different groups exclude each other whenever they share a lane.
\<close>

theorem group_bytes_ignored:
  assumes "charbuf resize" and "ordered_task B gg t w" and "ordered_task B gg' t w" and "\<not> IsStarted B t"
  shows "CheckTaskGroup B resize gg t l n False w = CheckTaskGroup B resize gg' t l n False w"
  by (simp add: charbuf.Check_ordered [OF assms(1,2,4)] charbuf.Check_ordered [OF assms(1,3,4)])

theorem group_bytes_ignored_witness:
  "CheckTaskGroup word_bitfield list_resize (\<lambda>m t g. Inr (0, [1])) (sample_obj PCustom) 2 TaskNode_GetNull False sample_worker =
   CheckTaskGroup word_bitfield list_resize (\<lambda>m t g. Inr (0, [2])) (sample_obj PCustom) 2 TaskNode_GetNull False sample_worker"
  by (rule group_bytes_ignored [OF list_charbuf.charbuf_axioms])
    (simp_all add: ordered_task_def sample_obj_def word_bitfield_def TASK_UNORDERED_def IsUnordered_def
      IsStarted_def TASK_HAS_STARTED_def)

text \<open>
  C34. Handing lanes to a worker loses and duplicates nothing: merging the pending vectors
  ends, empties them, and appends exactly their entries, in order, to the entries the worker
  polls already. Giving lanes up has no effect: the loop looks at the queues to poll,
  which the merge has just emptied, so the request is never taken off its queue.
\<close>

theorem queue_handover:
  assumes "spsc_queues Q"
  shows "\<exists>w'. PollQueues_merge Q M w = Inr w' \<and> poll_queues w' = [] \<and>
    map entry_key (work_queue w') = map entry_key (work_queue w) @ map entry_key (concat (poll_queues w)) \<and>
    RelinquishQueues_drop Q w' = Inr w' \<and>
    (IsRelinquishingQueues Q w \<longrightarrow> IsRelinquishingQueues Q w')"
  by (simp add: spsc_queues.merge_all [OF assms] spsc_queues.relinquish_empty [OF assms] entry_keys_merge
      IsRelinquishingQueues_def)

theorem queue_handover_witness:
  "spsc_queues list_spsc \<and> (\<exists>w'. PollQueues_merge list_spsc \<lparr>vm_reallocs = (\<lambda>n. True), vm_garbage = (\<lambda>n. 7)\<rparr>
      (RelinquishingQueues list_spsc [] sample_worker) = Inr w' \<and> IsRelinquishingQueues list_spsc w')"
proof -
  have r: "IsRelinquishingQueues list_spsc (RelinquishingQueues list_spsc [] sample_worker)"
    by (simp add: IsRelinquishingQueues_def RelinquishingQueues_def sample_worker_def Worker_new_def list_spsc_def)
  with queue_handover [OF list_sq.spsc_queues_axioms, of "\<lparr>vm_reallocs = (\<lambda>n. True), vm_garbage = (\<lambda>n. 7)\<rparr>"
      "RelinquishingQueues list_spsc [] sample_worker"] list_sq.spsc_queues_axioms
  show ?thesis by blast
qed

end
