(* ===== verification/Poll.thy ===== *)
theory Poll
  imports Worker "HOL-Library.Sublist"
begin

text \<open>
  \<^verbatim>\<open>src/worker.cc\<close>: polling a lane, the work loop, and \<^verbatim>\<open>work_orchestrator.h\<close>. The virtual
  members of the task states and the operations of the network, coroutine and thread
  libraries are the record \<open>worker_env\<close>; they act on the whole node, because a running task
  may submit tasks, create states or schedule lanes.
\<close>

section \<open>Access to the node\<close>

definition task_at :: "Node \<Rightarrow> Pointer \<Rightarrow> TaskObj res" where
  "task_at N p = (case heap N p of None \<Rightarrow> Inl Dangling | Some t \<Rightarrow> Inr t)"

definition put_task :: "Pointer \<Rightarrow> TaskObj \<Rightarrow> Node \<Rightarrow> Node" where
  "put_task p t N = N\<lparr>heap := (heap N)(p \<mapsto> t)\<rparr>"

definition upd_task :: "Pointer \<Rightarrow> (TaskObj \<Rightarrow> TaskObj) \<Rightarrow> Node \<Rightarrow> Node res" where
  "upd_task p f N = res_bind (task_at N p) (\<lambda>t. Inr (put_task p (f t) N))"

definition lane_at :: "Node \<Rightarrow> lane_ref \<Rightarrow> Lane res" where
  "lane_at N r = (case r of (s, g, l) \<Rightarrow>
     res_bind (vec_at (queues N) s) (\<lambda>q. res_bind (vec_at (groups q) g) (\<lambda>gr. vec_at (lanes gr) l)))"

definition set_lane :: "lane_ref \<Rightarrow> Lane \<Rightarrow> Node \<Rightarrow> Node" where
  "set_lane r lane N = (case r of (s, g, l) \<Rightarrow>
     N\<lparr>queues := (queues N)[s := put_lane (queues N ! s) g l lane]\<rparr>)"

definition put_worker :: "nat \<Rightarrow> Worker \<Rightarrow> Node \<Rightarrow> Node" where
  "put_worker w wk N = N\<lparr>workers := (workers N)[w := wk]\<rparr>"

section \<open>The environment of a worker\<close>

record worker_env =
  wv_queue :: queue_env
  wv_spsc :: spsc_lib
  wv_mem :: vector_mem
  wv_resize :: resize_fn
  wv_fatal_returns :: bool
  wv_num_hosts :: size_t
  wv_node_id :: u32
  wv_GetGroup :: "nat \<Rightarrow> getgroup"
  wv_Run :: "nat \<Rightarrow> u32 \<Rightarrow> Pointer \<Rightarrow> Node \<Rightarrow> Node res"
  wv_Del :: "nat \<Rightarrow> u32 \<Rightarrow> Pointer \<Rightarrow> Node \<Rightarrow> Node res"
  wv_ResolveDomainId :: "DomainId \<Rightarrow> DomainId list"
  wv_Disperse :: "Pointer \<Rightarrow> nat \<Rightarrow> DomainId list \<Rightarrow> Node \<Rightarrow> Node res"
  wv_malloc :: "Node \<Rightarrow> nat option"
  wv_jump :: "Pointer \<Rightarrow> Node \<Rightarrow> Node res"
  wv_abt_create :: "Pointer \<Rightarrow> Node \<Rightarrow> (bool \<times> nat) \<times> Node"
  wv_join :: "nat option \<Rightarrow> Node \<Rightarrow> Node res"

abbreviation "wv_bits V \<equiv> qe_bits (wv_queue V)"

text \<open>
  \<open>wv_abt_create\<close> is \<^verbatim>\<open>ABT_thread_create_on_xstream\<close>: whether it succeeds, the thread, and
  what the node has become when it returns.
\<close>

definition SpawnAsyncThread :: "worker_env \<Rightarrow> Pointer \<Rightarrow> Node \<Rightarrow> (nat \<times> Node) res" where
  "SpawnAsyncThread V p N =
     (case wv_abt_create V p N of ((ok, th), N') \<Rightarrow>
        if \<not> ok then helog_fatal (wv_fatal_returns V) ''Could not spawn worker'' (Inr (th, N')) else Inr (th, N'))"

definition JoinAsyncThread :: "worker_env \<Rightarrow> nat \<Rightarrow> Node \<Rightarrow> Node res" where
  "JoinAsyncThread V th N = wv_join V (Some th) N"

text \<open>The two functions that run a task on a thread or coroutine of its own.\<close>

definition RunPreemptive :: "worker_env \<Rightarrow> Pointer \<Rightarrow> Node \<Rightarrow> Node res" where
  "RunPreemptive V p N =
     res_bind (task_at N p) (\<lambda>t.
       case GetTaskState (registry N) (task_state t) of
         None \<Rightarrow> Inl NullDeref
       | Some exec \<Rightarrow> wv_Run V exec (method_id t) p N)"

definition RunBlocking :: "worker_env \<Rightarrow> Pointer \<Rightarrow> Node \<Rightarrow> Node res" where
  "RunBlocking V p N =
     res_bind (task_at N p) (\<lambda>t.
       case ctx_exec (ctx t) of
         None \<Rightarrow> Inl NullDeref
       | Some exec \<Rightarrow> wv_Run V exec (method_id t) p N)"

section \<open>Polling a lane\<close>

definition PopTask :: "queue_env \<Rightarrow> Lane \<Rightarrow> nat \<Rightarrow> Lane \<times> nat" where
  "PopTask E lane off = (if off = 0 then (mpsc_pop E lane, off) else (lane, off + 1))"

definition EndTask ::
    "worker_env \<Rightarrow> lane_ref \<Rightarrow> nat option \<Rightarrow> Pointer \<Rightarrow> nat \<Rightarrow> Node \<Rightarrow> (nat \<times> Node) res" where
  "EndTask V r exec p off N =
     res_bind (lane_at N r) (\<lambda>lane.
       let (lane', off') = PopTask (wv_queue V) lane off; N1 = set_lane r lane' N
       in res_bind (task_at N1 p) (\<lambda>t.
            case exec of
              Some ex \<Rightarrow>
                if IsFireAndForget (wv_bits V) t
                then res_bind (wv_Del V ex (method_id t) p N1) (\<lambda>N2. Inr (off', N2))
                else Inr (off', put_task p (SetComplete (wv_bits V) t) N1)
            | None \<Rightarrow> Inr (off', put_task p (SetComplete (wv_bits V) t) N1)))"

text \<open>A write through the pointer to the entry at \<open>off\<close>.\<close>

definition poke_entry :: "worker_env \<Rightarrow> lane_ref \<Rightarrow> nat \<Rightarrow> (LaneData \<Rightarrow> LaneData) \<Rightarrow> Node \<Rightarrow> Node res" where
  "poke_entry V r off f N =
     res_bind (lane_at N r) (\<lambda>lane.
       case mpsc_peek (wv_queue V) lane off of
         None \<Rightarrow> Inl Dangling
       | Some d \<Rightarrow> Inr (set_lane r (mpsc_poke (wv_queue V) lane off (f d)) N))"

text \<open>\<open>CheckTaskGroup\<close> and \<open>RemoveTaskGroup\<close> on worker \<open>w\<close> of the node.\<close>

definition check_group :: "worker_env \<Rightarrow> nat \<Rightarrow> nat \<Rightarrow> TaskObj \<Rightarrow> u32 \<Rightarrow> bool \<Rightarrow> Node \<Rightarrow> (bool \<times> Node) res" where
  "check_group V w exec t lane_id is_remote N =
     res_bind (vec_at (workers N) w) (\<lambda>wk.
     res_bind (CheckTaskGroup (wv_bits V) (wv_resize V) (wv_GetGroup V exec) t lane_id (task_node t) is_remote wk)
       (\<lambda>(ok, wk'). Inr (ok, put_worker w wk' N)))"

definition remove_group :: "worker_env \<Rightarrow> nat \<Rightarrow> nat \<Rightarrow> TaskObj \<Rightarrow> u32 \<Rightarrow> bool \<Rightarrow> Node \<Rightarrow> Node res" where
  "remove_group V w exec t lane_id is_remote N =
     res_bind (vec_at (workers N) w) (\<lambda>wk.
     res_bind (RemoveTaskGroup (wv_bits V) (wv_resize V) (wv_fatal_returns V) (wv_GetGroup V exec) t lane_id is_remote wk)
       (\<lambda>wk'. Inr (put_worker w wk' N)))"

text \<open>Execute or schedule a task that may run.\<close>

definition dispatch_task ::
    "worker_env \<Rightarrow> lane_ref \<Rightarrow> nat \<Rightarrow> Pointer \<Rightarrow> nat \<Rightarrow> TaskObj \<Rightarrow> bool \<Rightarrow> Node \<Rightarrow> Node res" where
  "dispatch_task V r off p exec t is_remote N =
     (if is_remote then
        res_bind (wv_Disperse V p exec (wv_ResolveDomainId V (domain_id t)) N)
          (upd_task p (\<lambda>t. UnsetCoroutine (wv_bits V) (fst (SetUnordered (wv_bits V) (DisableRun (wv_bits V) t)))))
      else if IsCoroutine (wv_bits V) t then
        res_bind
          (if IsStarted (wv_bits V) t then Inr N
           else (let N1 = put_task p (SetStarted (wv_bits V) (t\<lparr>ctx := (ctx t)\<lparr>ctx_stack_ptr := wv_malloc V N\<rparr>\<rparr>)) N
                 in if wv_malloc V N = None then helog_fatal (wv_fatal_returns V) ''The stack pointer is NULL'' (Inr N1)
                    else Inr N1))
          (wv_jump V p)
      else if IsPreemptive (wv_bits V) t then
        res_bind (SpawnAsyncThread V p (put_task p (DisableRun (wv_bits V) t) N))
          (\<lambda>(th, N1). poke_entry V r off (\<lambda>d. d\<lparr>ld_thread := Some th\<rparr>) N1)
      else wv_Run V exec (method_id t) p (put_task p (SetStarted (wv_bits V) t) N))"

text \<open>
  What happens to an entry that is not complete. \<^verbatim>\<open>exec\<close> is a reference to the member of the
  task's run context, so it is read again after the task has run.
\<close>

definition finish_task ::
    "worker_env \<Rightarrow> nat \<Rightarrow> WorkEntry \<Rightarrow> nat \<Rightarrow> Pointer \<Rightarrow> bool \<Rightarrow> Node \<Rightarrow> (nat \<times> Node) res" where
  "finish_task V w e off p is_remote N =
     res_bind (task_at N p) (\<lambda>t.
       if IsModuleComplete (wv_bits V) t then
         res_bind (poke_entry V (we_lane e) off (\<lambda>d. d\<lparr>ld_complete := True\<rparr>) N) (\<lambda>N1.
         res_bind
           (if IsCoroutine (wv_bits V) t then Inr N1
            else if IsPreemptive (wv_bits V) t then
              res_bind (lane_at N1 (we_lane e)) (\<lambda>lane.
                case mpsc_peek (wv_queue V) lane off of
                  None \<Rightarrow> Inl Dangling
                | Some d \<Rightarrow> wv_join V (ld_thread d) N1)
            else Inr N1) (\<lambda>N2.
         res_bind (task_at N2 p) (\<lambda>t2.
           case ctx_exec (ctx t2) of
             None \<Rightarrow> if is_remote then EndTask V (we_lane e) None p off N2 else Inl NullDeref
           | Some ex \<Rightarrow>
               res_bind (remove_group V w ex t2 (we_lane_id e) is_remote N2)
                 (EndTask V (we_lane e) (Some ex) p off))))
       else Inr (off + 1, N))"

definition PollEntry ::
    "worker_env \<Rightarrow> nat \<Rightarrow> WorkEntry \<Rightarrow> nat \<Rightarrow> Pointer \<Rightarrow> Node \<Rightarrow> (nat \<times> Node) res" where
  "PollEntry V w e off p N =
     res_bind (task_at N p) (\<lambda>t0.
       let exec = GetTaskState (registry N) (task_state t0);
           t = t0\<lparr>ctx := (ctx t0)\<lparr>ctx_lane_id := we_lane_id e, ctx_exec := exec\<rparr>\<rparr>;
           N1 = put_task p t N
       in case exec of
            None \<Rightarrow> helog_fatal (wv_fatal_returns V) ''Could not find the task state''
              (res_bind (poke_entry V (we_lane e) off (\<lambda>d. d\<lparr>ld_complete := True\<rparr>) N1)
                (EndTask V (we_lane e) None p off))
          | Some ex \<Rightarrow>
              let is_remote = DomainId_IsRemote (wv_bits V) (domain_id t) (wv_num_hosts V) (wv_node_id V)
              in res_bind (if IsRunDisabled (wv_bits V) t then Inr (False, N1)
                           else check_group V w ex t (we_lane_id e) is_remote N1) (\<lambda>(ok, N2).
                 res_bind (if ok then dispatch_task V (we_lane e) off p ex t is_remote N2 else Inr N2)
                   (finish_task V w e off p is_remote)))"

text \<open>The loop of at most \<open>n\<close> iterations, \<open>off\<close> entries into the lane.\<close>

fun poll_iters :: "worker_env \<Rightarrow> nat \<Rightarrow> WorkEntry \<Rightarrow> nat \<Rightarrow> nat \<Rightarrow> Node \<Rightarrow> Node res" where
  "poll_iters V w e 0 off N = Inr N"
| "poll_iters V w e (Suc n) off N =
     res_bind (lane_at N (we_lane e)) (\<lambda>lane.
       case mpsc_peek (wv_queue V) lane off of
         None \<Rightarrow> Inr N
       | Some d \<Rightarrow>
         if ld_complete d
         then (case PopTask (wv_queue V) lane off of
                 (lane', off') \<Rightarrow> poll_iters V w e n off' (set_lane (we_lane e) lane' N))
         else res_bind (PollEntry V w e off (ld_p d) N) (\<lambda>(off', N'). poll_iters V w e n off' N'))"

definition PollGrouped :: "worker_env \<Rightarrow> nat \<Rightarrow> WorkEntry \<Rightarrow> Node \<Rightarrow> Node res" where
  "PollGrouped V w e N = poll_iters V w e 1024 0 N"

section \<open>The work loop\<close>

definition bump_count :: "nat \<Rightarrow> nat \<Rightarrow> Node \<Rightarrow> Node" where
  "bump_count w i N = N\<lparr>workers := (workers N)[w := (workers N ! w)\<lparr>work_queue :=
     (work_queue (workers N ! w))[i := (work_queue (workers N ! w) ! i)\<lparr>we_count := we_count (work_queue (workers N ! w) ! i) + 1\<rparr>]\<rparr>]\<rparr>"

definition run_entry :: "worker_env \<Rightarrow> nat \<Rightarrow> nat \<Rightarrow> Node \<Rightarrow> Node res" where
  "run_entry V w i N =
     res_bind (vec_at (workers N) w) (\<lambda>wk.
     res_bind (vec_at (work_queue wk) i) (\<lambda>e.
     res_bind (lane_at N (we_lane e)) (\<lambda>lane.
       if bf_Any (wv_bits V) (lane_flags lane) (QUEUE_LOW_LATENCY (wv_bits V)) then PollGrouped V w e N
       else (let N1 = bump_count w i N
             in if (we_count e + 1) mod 4096 \<noteq> 0 then Inr N1
                else PollGrouped V w (e\<lparr>we_count := we_count e + 1\<rparr>) N1))))"

fun run_entries :: "worker_env \<Rightarrow> nat \<Rightarrow> nat list \<Rightarrow> Node \<Rightarrow> Node res" where
  "run_entries V w [] N = Inr N"
| "run_entries V w (i # is) N = res_bind (run_entry V w i N) (run_entries V w is)"

definition Worker_Run :: "worker_env \<Rightarrow> nat \<Rightarrow> Node \<Rightarrow> Node res" where
  "Worker_Run V w N =
     res_bind (vec_at (workers N) w) (\<lambda>wk.
     res_bind (if spsc_size (wv_spsc V) (poll_queues wk) > 0 then PollQueues_merge (wv_spsc V) (wv_mem V) wk
               else Inr wk) (\<lambda>wk1.
     res_bind (if spsc_size (wv_spsc V) (relinquish_queues wk1) > 0 then RelinquishQueues_drop (wv_spsc V) wk1
               else Inr wk1) (\<lambda>wk2.
       run_entries V w [0..<length (work_queue wk2)] (put_worker w wk2 N))))"

text \<open>
  \<open>alive i\<close> is what the \<open>i\<close>-th test of \<^verbatim>\<open>IsAlive\<close> reads, \<open>None\<close> when the loop does not end.
  An exception ends the run: the record it would log is fatal.
\<close>

partial_function (option) Worker_Loop ::
    "worker_env \<Rightarrow> nat \<Rightarrow> (nat \<Rightarrow> bool) \<Rightarrow> nat \<Rightarrow> Node \<Rightarrow> Node res option" where
  "Worker_Loop V w alive i N =
     (if alive i
      then (case Worker_Run V w N of Inl e \<Rightarrow> Some (Inl e) | Inr N' \<Rightarrow> Worker_Loop V w alive (Suc i) N')
      else Some (Worker_Run V w N))"

section \<open>What polling does to a lane\<close>

text \<open>The abstract lane: the task of each entry and whether the entry is complete, oldest first.\<close>

definition entries :: "Lane \<Rightarrow> (Pointer \<times> bool) list" where
  "entries l = map (\<lambda>d. (ld_p d, ld_complete d)) (items l)"

text \<open>
  The abstract specification of a lane: entries are added at the end, an entry is completed
  in place, and only a completed entry at the head is dropped.
\<close>

inductive lane_step :: "(Pointer \<times> bool) list \<Rightarrow> (Pointer \<times> bool) list \<Rightarrow> bool" where
  add: "lane_step xs (xs @ ys)"
| complete: "i < length xs \<Longrightarrow> lane_step xs (xs[i := (fst (xs ! i), True)])"
| drop_head: "lane_step ((p, True) # xs) xs"

definition pending :: "(Pointer \<times> bool) list \<Rightarrow> Pointer list" where
  "pending xs = map fst (filter (\<lambda>e. \<not> snd e) xs)"

lemma pending_simps [simp]:
  "pending [] = []"
  "pending ((p, c) # xs) = (if c then pending xs else p # pending xs)"
  "pending (xs @ ys) = pending xs @ pending ys"
  by (simp_all add: pending_def)

lemma pending_complete: "subseq (pending (xs[i := (q, True)])) (pending xs)"
proof (induction xs arbitrary: i)
  case Nil
  then show ?case by simp
next
  case (Cons x xs)
  then show ?case by (cases x; cases i) (auto intro: subseq_Cons')
qed

lemma lane_step_pending: "lane_step xs ys \<Longrightarrow> \<exists>new. subseq (pending ys) (pending xs @ new)"
proof (induction rule: lane_step.induct)
  case (add xs ys)
  have "subseq (pending (xs @ ys)) (pending xs @ pending ys)" by simp
  then show ?case by blast
next
  case (complete i xs)
  have "subseq (pending (xs[i := (fst (xs ! i), True)])) (pending xs @ [])"
    by (simp add: pending_complete)
  then show ?case by blast
next
  case (drop_head p xs)
  have "subseq (pending xs) (pending ((p, True) # xs) @ [])" by simp
  then show ?case by blast
qed

lemma lane_steps_pending: "lane_step\<^sup>*\<^sup>* xs ys \<Longrightarrow> \<exists>new. subseq (pending ys) (pending xs @ new)"
proof (induction rule: rtranclp_induct)
  case base
  have "subseq (pending xs) (pending xs @ [])" by simp
  then show ?case by blast
next
  case (step ys zs)
  then obtain n1 n2 where "subseq (pending ys) (pending xs @ n1)" "subseq (pending zs) (pending ys @ n2)"
    using lane_step_pending by blast
  moreover from this have "subseq (pending ys @ n2) ((pending xs @ n1) @ n2)"
    by (intro list_emb_append_mono) simp_all
  ultimately have "subseq (pending zs) (pending xs @ n1 @ n2)"
    using subseq_order.order_trans by fastforce
  then show ?case by blast
qed

text \<open>A step of the environment only adds to the lane.\<close>

definition grows :: "lane_ref \<Rightarrow> Node \<Rightarrow> Node \<Rightarrow> bool" where
  "grows r N N' \<longleftrightarrow> (\<forall>l. lane_at N r = Inr l \<longrightarrow>
     (\<exists>l' new. lane_at N' r = Inr l' \<and> entries l' = entries l @ new))"

lemma grows_refl: "lane_at N' r = lane_at N r \<Longrightarrow> grows r N N'"
  by (auto simp: grows_def)

lemma grows_trans: "grows r N N' \<Longrightarrow> grows r N' N'' \<Longrightarrow> grows r N N''"
  unfolding grows_def by (metis append.assoc)

lemma growsE:
  assumes "grows r N N'" and "lane_at N r = Inr l"
  obtains l' new where "lane_at N' r = Inr l'" and "entries l' = entries l @ new"
  using assms by (auto simp: grows_def)

lemma lane_at_put [simp]:
  "lane_at (put_task p t N) r = lane_at N r" "lane_at (put_worker w wk N) r = lane_at N r"
  "lane_at (bump_count w i N) r = lane_at N r"
  by (simp_all add: lane_at_def put_task_def put_worker_def bump_count_def)

lemma lane_at_set_lane: "lane_at N r = Inr l \<Longrightarrow> lane_at (set_lane r l' N) r = Inr l'"
  by (cases r) (auto simp: lane_at_def set_lane_def put_lane_def res_bind_Inr_iff vec_at_Inr_iff)

lemma length_entries [simp]: "length (entries l) = length (items l)"
  by (simp add: entries_def)

text \<open>
  The environment of a worker whose libraries and task states do to its lane only what the
  queue interface lets them do: submit entries.
\<close>

locale lane_env = lane_queues "wv_queue V" for V :: worker_env +
  fixes r :: lane_ref
  assumes Run_grows: "wv_Run V ex m p N = Inr N' \<Longrightarrow> grows r N N'"
    and Del_grows: "wv_Del V ex m p N = Inr N' \<Longrightarrow> grows r N N'"
    and Disperse_grows: "wv_Disperse V p ex ds N = Inr N' \<Longrightarrow> grows r N N'"
    and jump_grows: "wv_jump V p N = Inr N' \<Longrightarrow> grows r N N'"
    and create_grows: "wv_abt_create V p N = (x, N') \<Longrightarrow> grows r N N'"
    and join_grows: "wv_join V tho N = Inr N' \<Longrightarrow> grows r N N'"
begin

lemma spawn_grows: "SpawnAsyncThread V p N = Inr (th, N') \<Longrightarrow> grows r N N'"
  by (auto simp: SpawnAsyncThread_def helog_fatal_def intro: create_grows split: prod.splits if_splits)

lemma poke_thread_grows:
  assumes "poke_entry V r off (\<lambda>d. d\<lparr>ld_thread := th\<rparr>) N = Inr N'"
  shows "grows r N N'"
proof -
  from assms obtain l where l: "lane_at N r = Inr l" "off < length (items l)"
    and N': "N' = set_lane r (mpsc_poke (wv_queue V) l off ((items l ! off)\<lparr>ld_thread := th\<rparr>)) N"
    by (auto simp: poke_entry_def res_bind_Inr_iff split: if_splits)
  have "entries (mpsc_poke (wv_queue V) l off ((items l ! off)\<lparr>ld_thread := th\<rparr>)) = entries l"
    using l(2) by (simp add: entries_def map_update list_update_same_conv)
  with l lane_at_set_lane [OF l(1)] show ?thesis by (simp add: grows_def N')
qed

lemma poke_complete:
  assumes "poke_entry V r off (\<lambda>d. d\<lparr>ld_complete := True\<rparr>) N = Inr N'" and "lane_at N r = Inr l"
  obtains l' where "lane_at N' r = Inr l'" and "off < length (items l)"
    and "entries l' = (entries l)[off := (fst (entries l ! off), True)]"
proof -
  from assms have off: "off < length (items l)"
    and N': "N' = set_lane r (mpsc_poke (wv_queue V) l off ((items l ! off)\<lparr>ld_complete := True\<rparr>)) N"
    by (auto simp: poke_entry_def split: if_splits)
  with lane_at_set_lane [OF assms(2)] that show thesis by (simp add: entries_def map_update)
qed

lemma upd_task_grows: "upd_task p f N = Inr N' \<Longrightarrow> grows r N N'"
  by (auto simp: upd_task_def res_bind_Inr_iff intro!: grows_refl)

lemma check_group_grows: "check_group V w ex t l rm N = Inr (ok, N') \<Longrightarrow> grows r N N'"
  by (auto simp: check_group_def res_bind_Inr_iff intro!: grows_refl)

lemma remove_group_grows: "remove_group V w ex t l rm N = Inr N' \<Longrightarrow> grows r N N'"
  by (auto simp: remove_group_def res_bind_Inr_iff intro!: grows_refl)

lemma dispatch_grows:
  assumes "dispatch_task V r off p ex t rm N = Inr N'"
  shows "grows r N N'"
proof -
  have put: "grows r N (put_task p t' N)" for t' by (rule grows_refl) simp
  consider "rm" | "\<not> rm" "IsCoroutine (wv_bits V) t" | "\<not> rm" "\<not> IsCoroutine (wv_bits V) t" "IsPreemptive (wv_bits V) t"
    | "\<not> rm" "\<not> IsCoroutine (wv_bits V) t" "\<not> IsPreemptive (wv_bits V) t" by blast
  then show ?thesis
  proof cases
    case 1
    with assms show ?thesis
      by (auto simp: dispatch_task_def res_bind_Inr_iff intro: grows_trans [OF Disperse_grows upd_task_grows])
  next
    case 2
    with assms show ?thesis
      by (auto simp: dispatch_task_def res_bind_Inr_iff Let_def helog_fatal_def split: if_splits
          intro: jump_grows grows_trans [OF put jump_grows])
  next
    case 3
    with assms show ?thesis
      by (auto simp: dispatch_task_def res_bind_Inr_iff
          intro: grows_trans [OF grows_trans [OF put spawn_grows] poke_thread_grows])
  next
    case 4
    with assms show ?thesis
      by (auto simp: dispatch_task_def intro: grows_trans [OF put Run_grows])
  qed
qed


text \<open>The lane from one node to another follows the specification.\<close>

definition lane_ok :: "Node \<Rightarrow> Node \<Rightarrow> bool" where
  "lane_ok N N' \<longleftrightarrow> (\<forall>l. lane_at N r = Inr l \<longrightarrow>
     (\<exists>l'. lane_at N' r = Inr l' \<and> lane_step\<^sup>*\<^sup>* (entries l) (entries l')))"

lemma lane_ok_grows: "grows r N N' \<Longrightarrow> lane_ok N N'"
  unfolding grows_def lane_ok_def by (metis lane_step.add r_into_rtranclp)

lemma lane_ok_trans: "lane_ok N N' \<Longrightarrow> lane_ok N' N'' \<Longrightarrow> lane_ok N N''"
  unfolding lane_ok_def by (meson rtranclp_trans)

lemma pop_step:
  assumes "lane_at N r = Inr l" and "off = 0 \<longrightarrow> (\<exists>p es. entries l = (p, True) # es)"
  shows "lane_ok N (set_lane r (fst (PopTask (wv_queue V) l off)) N)"
proof -
  have "lane_step\<^sup>*\<^sup>* (entries l) (entries (fst (PopTask (wv_queue V) l off)))"
  proof (cases "off = 0")
    case True
    with assms(2) obtain p es where e: "entries l = (p, True) # es" by blast
    then have "entries (mpsc_pop (wv_queue V) l) = es"
      by (cases "items l") (simp_all add: entries_def)
    with True e lane_step.drop_head show ?thesis by (auto simp: PopTask_def)
  qed (simp add: PopTask_def)
  with assms(1) lane_at_set_lane [OF assms(1)] show ?thesis by (simp add: lane_ok_def)
qed

lemma EndTask_lane_ok:
  assumes "EndTask V r exec p off N = Inr (off', N')" and "lane_at N r = Inr l"
    and "off = 0 \<longrightarrow> (\<exists>q es. entries l = (q, True) # es)"
  shows "lane_ok N N'"
proof -
  let ?N = "set_lane r (fst (PopTask (wv_queue V) l off)) N"
  from assms(1,2) have "grows r ?N N'"
    by (cases exec) (auto simp: EndTask_def Let_def res_bind_Inr_iff split: prod.splits if_splits
        intro: grows_refl Del_grows)
  with pop_step [OF assms(2,3)] show ?thesis by (blast intro: lane_ok_trans lane_ok_grows)
qed

text \<open>An entry that was completed at \<open>off\<close> stays complete while the lane grows.\<close>

lemma completed_head:
  assumes "entries l' = (entries l)[off := (fst (entries l ! off), True)]" and "off < length (items l)"
    and "entries l'' = entries l' @ new"
  shows "off = 0 \<longrightarrow> (\<exists>q es. entries l'' = (q, True) # es)"
  using assms by (cases "entries l") (auto simp flip: length_0_conv)

lemma complete_then_end:
  assumes "poke_entry V r off (\<lambda>d. d\<lparr>ld_complete := True\<rparr>) N = Inr N1" and "grows r N1 N2"
    and "EndTask V r exec p off N2 = Inr (off', N3)" and "lane_at N r = Inr l"
  shows "lane_ok N N3"
proof (rule poke_complete [OF assms(1,4)])
  fix l1 assume l1: "lane_at N1 r = Inr l1" "off < length (items l)"
    "entries l1 = (entries l)[off := (fst (entries l ! off), True)]"
  from l1(2,3) have "lane_step (entries l) (entries l1)" by (simp add: lane_step.complete)
  with assms(4) l1(1) have "lane_ok N N1" by (auto simp: lane_ok_def)
  moreover from growsE [OF assms(2) l1(1)] obtain l2 new where l2: "lane_at N2 r = Inr l2" "entries l2 = entries l1 @ new"
    by blast
  moreover note EndTask_lane_ok [OF assms(3) l2(1) completed_head [OF l1(3,2) l2(2)]] lane_ok_grows [OF assms(2)]
  ultimately show ?thesis by (blast intro: lane_ok_trans)
qed

lemma finish_lane_ok:
  assumes "finish_task V w e off p rm N = Inr (off', N')" and "we_lane e = r" and "lane_at N r = Inr l"
  shows "lane_ok N N'"
proof -
  from assms(1,2) obtain t where "heap N p = Some t"
    by (auto simp: finish_task_def res_bind_Inr_iff task_at_def split: option.splits)
  show ?thesis
  proof (cases "IsModuleComplete (wv_bits V) t")
    case False
    with assms(1) \<open>heap N p = Some t\<close> have "N' = N" by (simp add: finish_task_def task_at_def)
    then show ?thesis by (auto simp: lane_ok_def)
  next
    case True
    with assms(1,2) \<open>heap N p = Some t\<close> obtain N1 N2 t2 where
      N1: "poke_entry V r off (\<lambda>d. d\<lparr>ld_complete := True\<rparr>) N = Inr N1"
      and J: "(if IsCoroutine (wv_bits V) t then Inr N1 else if IsPreemptive (wv_bits V) t
          then res_bind (lane_at N1 r) (\<lambda>lane. case mpsc_peek (wv_queue V) lane off of
            None \<Rightarrow> Inl Dangling | Some d \<Rightarrow> wv_join V (ld_thread d) N1) else Inr N1) = Inr N2"
      and R: "(case ctx_exec (ctx t2) of
          None \<Rightarrow> if rm then EndTask V r None p off N2 else Inl NullDeref
        | Some ex \<Rightarrow> res_bind (remove_group V w ex t2 (we_lane_id e) rm N2) (EndTask V r (Some ex) p off)) = Inr (off', N')"
      unfolding finish_task_def by (auto simp: task_at_def [of N] res_bind_Inr_iff simp del: peek_items)
    have N2: "N2 = N1 \<or> (\<exists>th. wv_join V th N1 = Inr N2)"
      using J by (auto simp: res_bind_Inr_iff split: if_splits)
    have E: "EndTask V r None p off N2 = Inr (off', N') \<or>
        (\<exists>ex N3. remove_group V w ex t2 (we_lane_id e) rm N2 = Inr N3 \<and> EndTask V r (Some ex) p off N3 = Inr (off', N'))"
      using R by (cases "ctx_exec (ctx t2)") (auto simp: res_bind_Inr_iff split: if_splits)
    from N2 join_grows have g: "grows r N1 N2" by (auto intro: grows_refl)
    from E show ?thesis
    proof (elim disjE exE conjE)
      assume "EndTask V r None p off N2 = Inr (off', N')"
      from complete_then_end [OF N1 g this assms(3)] show ?thesis .
    next
      fix ex N3 assume "remove_group V w ex t2 (we_lane_id e) rm N2 = Inr N3"
        and e: "EndTask V r (Some ex) p off N3 = Inr (off', N')"
      with g have "grows r N1 N3" by (blast intro: grows_trans remove_group_grows)
      from complete_then_end [OF N1 this e assms(3)] show ?thesis .
    qed
  qed
qed


lemma PollEntry_lane_ok:
  assumes "PollEntry V w e off p N = Inr (off', N')" and "we_lane e = r" and "lane_at N r = Inr l"
  shows "lane_ok N N'"
proof -
  from assms(1) obtain t0 where t0: "task_at N p = Inr t0" by (auto simp: PollEntry_def res_bind_Inr_iff)
  define t where "t = t0\<lparr>ctx := (ctx t0)\<lparr>ctx_lane_id := we_lane_id e,
    ctx_exec := GetTaskState (registry N) (task_state t0)\<rparr>\<rparr>"
  define N1 where "N1 = put_task p t N"
  have l1: "lane_at N1 r = Inr l" using assms(3) by (simp add: N1_def)
  have ok1: "lane_ok N N1" by (rule lane_ok_grows) (simp add: N1_def grows_refl)
  have "lane_ok N1 N'"
  proof (cases "GetTaskState (registry N) (task_state t0)")
    case None
    with assms(1,2) t0 obtain N2 where "poke_entry V r off (\<lambda>d. d\<lparr>ld_complete := True\<rparr>) N1 = Inr N2"
      "EndTask V r None p off N2 = Inr (off', N')"
      by (auto simp: PollEntry_def Let_def N1_def t_def helog_fatal_def res_bind_Inr_iff split: if_splits)
    from complete_then_end [OF this(1) _ this(2) l1] show ?thesis by (simp add: grows_refl)
  next
    case (Some ex)
    let ?rm = "DomainId_IsRemote (wv_bits V) (domain_id t) (wv_num_hosts V) (wv_node_id V)"
    from Some assms(1,2) t0 obtain ok N2 N3 where
      c: "(if IsRunDisabled (wv_bits V) t then Inr (False, N1) else check_group V w ex t (we_lane_id e) ?rm N1) = Inr (ok, N2)"
      and d: "(if ok then dispatch_task V r off p ex t ?rm N2 else Inr N2) = Inr N3"
      and f: "finish_task V w e off p ?rm N3 = Inr (off', N')"
      unfolding PollEntry_def Let_def N1_def t_def by (auto simp: res_bind_Inr_iff simp del: peek_items)
    from c d have g: "grows r N1 N3"
      by (auto intro: grows_refl check_group_grows dispatch_grows grows_trans [OF check_group_grows dispatch_grows]
          split: if_splits)
    with l1 obtain l3 where "lane_at N3 r = Inr l3" by (auto elim: growsE)
    from lane_ok_trans [OF lane_ok_grows [OF g] finish_lane_ok [OF f assms(2) this]] show ?thesis .
  qed
  with ok1 show ?thesis by (rule lane_ok_trans)
qed

lemma poll_iters_lane_ok:
  assumes "we_lane e = r"
  shows "poll_iters V w e n off N = Inr N' \<Longrightarrow> lane_ok N N'"
proof (induction n arbitrary: off N)
  case 0
  then show ?case by (auto simp: lane_ok_def)
next
  case (Suc n)
  from Suc.prems assms obtain l where l: "lane_at N r = Inr l" by (auto simp: res_bind_Inr_iff)
  show ?case
  proof (cases "off < length (items l)")
    case False
    with Suc.prems l assms show ?thesis by (auto simp: lane_ok_def)
  next
    case True
    show ?thesis
    proof (cases "ld_complete (items l ! off)")
      case True
      let ?P = "PopTask (wv_queue V) l off"
      have "off = 0 \<longrightarrow> (\<exists>p es. entries l = (p, True) # es)"
        using True \<open>off < length (items l)\<close> by (cases "items l") (auto simp: entries_def)
      from pop_step [OF l this] have "lane_ok N (set_lane r (fst ?P) N)" .
      moreover have "poll_iters V w e n (snd ?P) (set_lane r (fst ?P) N) = Inr N'"
        using Suc.prems l assms True \<open>off < length (items l)\<close> by (simp add: case_prod_unfold)
      ultimately show ?thesis using Suc.IH lane_ok_trans by blast
    next
      case False
      with Suc.prems l assms \<open>off < length (items l)\<close> obtain off1 N1 where
        "PollEntry V w e off (ld_p (items l ! off)) N = Inr (off1, N1)" "poll_iters V w e n off1 N1 = Inr N'"
        by (auto simp: res_bind_Inr_iff)
      then show ?thesis using PollEntry_lane_ok [OF _ assms l] Suc.IH lane_ok_trans by blast
    qed
  qed
qed

end

section \<open>The work loop\<close>

fun run_times :: "worker_env \<Rightarrow> nat \<Rightarrow> nat \<Rightarrow> Node \<Rightarrow> Node res" where
  "run_times V w 0 N = Inr N"
| "run_times V w (Suc n) N = res_bind (Worker_Run V w N) (run_times V w n)"

lemma Loop_until:
  assumes "\<And>j. j < n \<Longrightarrow> alive (i + j)" and "\<not> alive (i + n)"
  shows "Worker_Loop V w alive i N = Some (run_times V w (Suc n) N)"
  using assms
proof (induction n arbitrary: i N)
  case 0
  then show ?case
    by (subst Worker_Loop.simps) (cases "Worker_Run V w N"; simp)
next
  case (Suc n)
  have a: "alive i" using Suc.prems(1) [of 0] by simp
  have IH: "Worker_Loop V w alive (Suc i) N' = Some (run_times V w (Suc n) N')" for N'
    using Suc.prems(1) [of "Suc _"] Suc.prems(2) by (intro Suc.IH) auto
  show ?case
    using a IH by (subst Worker_Loop.simps) (cases "Worker_Run V w N"; simp)
qed

lemma Loop_Some:
  assumes "Worker_Loop V w alive i N = Some (Inr N')"
  shows "\<exists>k \<ge> i. \<not> alive k"
proof (rule Worker_Loop.raw_induct [where P = "\<lambda>V w alive i N x. (\<exists>N'. x = Inr N') \<longrightarrow> (\<exists>k \<ge> i. \<not> alive k)",
      OF _ assms, THEN mp])
  fix L V w alive i N x
  assume IH: "\<And>V w alive i N x. L V w alive i N = Some x \<Longrightarrow> (\<exists>N'. x = Inr N') \<longrightarrow> (\<exists>k \<ge> i. \<not> alive k)"
    and eq: "(if alive i then (case Worker_Run V w N of Inl e \<Rightarrow> Some (Inl e) | Inr N' \<Rightarrow> L V w alive (Suc i) N')
       else Some (Worker_Run V w N)) = Some x"
  show "(\<exists>N'. x = Inr N') \<longrightarrow> (\<exists>k \<ge> i. \<not> alive k)"
  proof (cases "alive i")
    case True
    with eq show ?thesis by (cases "Worker_Run V w N") (use IH Suc_leD in \<open>auto, blast\<close>)
  qed auto
qed auto

text \<open>
  A small environment: every task state completes its tasks, tasks are unordered, deletion
  frees the object, and the other operations leave the node alone.
\<close>

definition plain_env :: worker_env where
  "plain_env = \<lparr>wv_queue = list_env 8, wv_spsc = list_spsc,
     wv_mem = \<lparr>vm_reallocs = (\<lambda>n. True), vm_garbage = (\<lambda>n. 0)\<rparr>, wv_resize = list_resize,
     wv_fatal_returns = False, wv_num_hosts = 1, wv_node_id = 1,
     wv_GetGroup = (\<lambda>ex m t g. Inr (Task_GetGroup word_bitfield g)),
     wv_Run = (\<lambda>ex m p. upd_task p (SetModuleComplete word_bitfield)),
     wv_Del = (\<lambda>ex m p N. Inr (N\<lparr>heap := (heap N)(p := None)\<rparr>)),
     wv_ResolveDomainId = (\<lambda>d. [d]), wv_Disperse = (\<lambda>p ex ds N. Inr N), wv_malloc = (\<lambda>N. Some 0),
     wv_jump = (\<lambda>p. upd_task p (SetModuleComplete word_bitfield)), wv_abt_create = (\<lambda>p N. ((True, 0), N)),
     wv_join = (\<lambda>th N. Inr N)\<rparr>"

lemma lane_at_upd_task: "upd_task p f N = Inr N' \<Longrightarrow> lane_at N' r = lane_at N r"
  by (auto simp: upd_task_def res_bind_Inr_iff)

interpretation plain_lane: lane_env plain_env r
proof -
  have q: "wv_queue plain_env = list_env 8" by (simp add: plain_env_def)
  have h: "lane_at (N\<lparr>heap := f\<rparr>) r = lane_at N r" for N f by (simp add: lane_at_def)
  show "lane_env plain_env r"
    unfolding lane_env_def lane_env_axioms_def q
    by (auto simp: list_lanes.lane_queues_axioms plain_env_def h intro!: grows_refl dest: lane_at_upd_task)
qed

definition sample_node :: Node where
  "sample_node = \<lparr>heap = [9 \<mapsto> sample_obj PCustom],
     queues = [(MultiQueue_new (list_env 8) zero_group (UniqueId_new 1 0) [PriorityInfo_new 1 1 8 0])
       \<lparr>groups := [(make_group (list_env 8) zero_group 0 (PriorityInfo_new 1 1 8 0))
          \<lparr>lanes := [\<lparr>items = [LaneData_new 9 False], lane_flags = 0\<rparr>]\<rparr>]\<rparr>],
     registry = empty_registry\<lparr>task_states := [key_of (UniqueId_new 1 0) \<mapsto> 4]\<rparr>,
     workers = [sample_worker], header = \<lparr>hdr_node_id = 1, hdr_unique = 2, hdr_num_nodes = 1\<rparr>\<rparr>"

definition sample_entry :: WorkEntry where
  "sample_entry = \<lparr>we_prio = 0, we_lane_id = 0, we_count = 0, we_lane = (0, 0, 0), we_group = (0, 0), we_queue = 0\<rparr>"

section \<open>Properties\<close>



text \<open>
  C33. The work loop of a worker ends exactly when the orchestrator stops being alive: if the
  first test that fails is the \<open>n\<close>-th, the worker has run \<open>n\<close> times and runs once more, so
  what was submitted before the shutdown is still polled; and a loop that returns a node
  has seen a failed test.
\<close>

theorem worker_loop_spec:
  "((\<forall>j < n. alive j) \<and> \<not> alive n \<longrightarrow> Worker_Loop V w alive 0 N = Some (run_times V w (Suc n) N)) \<and>
   (Worker_Loop V w alive 0 N = Some (Inr N') \<longrightarrow> (\<exists>k. \<not> alive k))"
  using Loop_until [of n alive 0 V w N] Loop_Some [of V w alive 0 N N'] by auto

theorem worker_loop_spec_witness:
  "\<exists>N'. Worker_Loop plain_env 0 (\<lambda>j. j < 2) 0 sample_node = Some (Inr N')"
proof -
  have "Worker_Run plain_env 0 sample_node = Inr sample_node"
    by (simp add: Worker_Run_def sample_node_def sample_worker_def Worker_new_def plain_env_def list_spsc_def put_worker_def)
  then have "run_times plain_env 0 (Suc 2) sample_node = Inr sample_node" by (simp add: numeral_2_eq_2)
  with worker_loop_spec [of 2 "\<lambda>j. j < 2" plain_env 0 sample_node] show ?thesis by simp
qed

end
