(* ===== verification/Sched.thy ===== *)
theory Sched
  imports Poll
begin

text \<open>
  \<^verbatim>\<open>work_orchestrator/work_orchestrator.h\<close> and the two scheduling policies,
  \<^verbatim>\<open>worch_queue_round_robin.cc\<close> and \<^verbatim>\<open>worch_proc_round_robin.cc\<close>: starting the workers,
  giving lanes to workers, and binding workers to processors.
\<close>

section \<open>The work orchestrator\<close>

text \<open>The workers themselves are part of the node.\<close>

record WorkOrchestrator =
  stop_runtime :: bool
  kill_requested :: bool

definition GetWorker :: "Node \<Rightarrow> u32 \<Rightarrow> Worker res" where
  "GetWorker N worker_id = vec_at (workers N) (unat worker_id)"

definition GetNumWorkers :: "Node \<Rightarrow> size_t" where
  "GetNumWorkers N = of_nat (length (workers N))"

definition FinalizeRuntime :: "WorkOrchestrator \<Rightarrow> WorkOrchestrator" where
  "FinalizeRuntime W = W\<lparr>stop_runtime := True\<rparr>"

text \<open>\<^verbatim>\<open>Join\<close> requests the end of the workers and then waits for their threads.\<close>

definition Join :: "WorkOrchestrator \<Rightarrow> WorkOrchestrator" where
  "Join W = W\<lparr>kill_requested := True\<rparr>"

definition IsAlive :: "WorkOrchestrator \<Rightarrow> bool" where
  "IsAlive W = (\<not> kill_requested W)"

definition IsRuntimeAlive :: "WorkOrchestrator \<Rightarrow> bool" where
  "IsRuntimeAlive W = (\<not> stop_runtime W)"

text \<open>
  \<open>poll_lane\<close> hands lane \<open>lane_id\<close> of a queue to worker \<open>wid\<close>. \<open>abt_ok\<close> tells whether the
  thread library could make its stream. The loop counts a 32-bit id up to a 64-bit number
  of workers and does not end past \<open>2 ^ 32\<close>.
\<close>

definition poll_lane :: "spsc_lib \<Rightarrow> nat \<Rightarrow> nat \<Rightarrow> u32 \<Rightarrow> u32 \<Rightarrow> Node \<Rightarrow> Node res" where
  "poll_lane Q wid slot pr lane_id N =
     res_bind (vec_at (workers N) wid) (\<lambda>wk.
     res_bind (WorkEntry_new (queues N) pr lane_id slot) (\<lambda>e.
       Inr (put_worker wid (PollQueues Q [e] wk) N)))"

fun poll_lanes :: "spsc_lib \<Rightarrow> nat \<Rightarrow> nat \<Rightarrow> u32 \<Rightarrow> u32 list \<Rightarrow> Node \<Rightarrow> Node res" where
  "poll_lanes Q wid slot pr [] N = Inr N"
| "poll_lanes Q wid slot pr (l # ls) N = res_bind (poll_lane Q wid slot pr l N) (poll_lanes Q wid slot pr ls)"

definition set_scheduled :: "nat \<Rightarrow> nat \<Rightarrow> Node \<Rightarrow> Node" where
  "set_scheduled s g N = N\<lparr>queues := (queues N)[s := (queues N ! s)\<lparr>groups :=
     (groups (queues N ! s))[g := (groups (queues N ! s) ! g)\<lparr>num_scheduled := num_lanes (groups (queues N ! s) ! g)\<rparr>]\<rparr>]\<rparr>"

definition WorkOrchestrator_ServerInit ::
    "bitfield_lib \<Rightarrow> spsc_lib \<Rightarrow> resize_fn \<Rightarrow> bool \<Rightarrow> bool \<Rightarrow> ServerConfig \<Rightarrow> QueueId \<Rightarrow> Node \<Rightarrow> (WorkOrchestrator \<times> Node) res" where
  "WorkOrchestrator_ServerInit B Q resize fr abt_ok config admin_q N =
     (let num_workers = unat (max_workers (wo config));
          body = (if 2 ^ 32 < num_workers then Inl Diverges
            else (let N1 = N\<lparr>workers := workers N @ map (\<lambda>i. Worker_new_thread B Q resize (of_nat i)) [0..<num_workers]\<rparr>
              in res_bind (GetQueue (queues N1) admin_q) (\<lambda>q.
                 res_bind (GetGroup q 0) (\<lambda>g.
                 res_bind (poll_lanes Q 0 (unat (unique admin_q)) 0 (map of_nat [0..<unat (num_lanes g)]) N1) (\<lambda>N2.
                   Inr (\<lparr>stop_runtime = False, kill_requested = False\<rparr>,
                        set_scheduled (unat (unique admin_q)) 0 N2))))))
      in if abt_ok then body else helog_fatal fr ''Could not create argobots xstream'' body)"

section \<open>Scheduling queues\<close>

text \<open>
  The worker of a lane that is not low priority: the modulus is a 64-bit number, one less
  than the number of workers, and the sum is cut to 32 bits.
\<close>

definition rr_worker :: "nat \<Rightarrow> u32 \<Rightarrow> u32 res" where
  "rr_worker nw count =
     (let m = (of_nat nw :: size_t) - 1
      in if m = 0 then Inl DivByZero else Inr (ucast (((ucast count :: size_t) mod m) + 1)))"

fun sched_lanes :: "spsc_lib \<Rightarrow> bool \<Rightarrow> nat \<Rightarrow> u32 \<Rightarrow> u32 list \<Rightarrow> u32 \<times> Node \<Rightarrow> (u32 \<times> Node) res" where
  "sched_lanes Q low slot pr [] (c, N) = Inr (c, N)"
| "sched_lanes Q low slot pr (l # ls) (c, N) =
     res_bind (if low then Inr 0 else rr_worker (length (workers N)) c) (\<lambda>wid.
     res_bind (poll_lane Q (unat wid) slot pr l N) (\<lambda>N1.
       sched_lanes Q low slot pr ls (if low then c else c + 1, N1)))"

definition unscheduled :: "LaneGroup \<Rightarrow> u32 list" where
  "unscheduled g = map of_nat [unat (num_scheduled g)..<unat (num_lanes g)]"

fun sched_groups :: "bitfield_lib \<Rightarrow> spsc_lib \<Rightarrow> nat \<Rightarrow> nat list \<Rightarrow> u32 \<times> Node \<Rightarrow> (u32 \<times> Node) res" where
  "sched_groups B Q slot [] cN = Inr cN"
| "sched_groups B Q slot (gi # gis) cN =
     (let g = groups (queues (snd cN) ! slot) ! gi
      in res_bind (sched_lanes Q (IsLowPriority B g) slot (gprio g) (unscheduled g) cN)
           (\<lambda>(c, N). sched_groups B Q slot gis (c, set_scheduled slot gi N)))"

fun sched_queues :: "bitfield_lib \<Rightarrow> spsc_lib \<Rightarrow> nat list \<Rightarrow> u32 \<times> Node \<Rightarrow> (u32 \<times> Node) res" where
  "sched_queues B Q [] cN = Inr cN"
| "sched_queues B Q (s # ss) cN =
     (let q = queues (snd cN) ! s
      in if UniqueId_IsNull (mq_id q) then sched_queues B Q ss cN
         else res_bind (sched_groups B Q s [0..<length (groups q)] cN) (sched_queues B Q ss))"

text \<open>The count of the server is the first component; \<^verbatim>\<open>Construct\<close> sets it to 0.\<close>

definition queue_rr_Construct :: u32 where
  "queue_rr_Construct = 0"

definition queue_rr_Schedule :: "bitfield_lib \<Rightarrow> spsc_lib \<Rightarrow> u32 \<Rightarrow> Node \<Rightarrow> (u32 \<times> Node) res" where
  "queue_rr_Schedule B Q count N = sched_queues B Q [0..<length (queues N)] (count, N)"

section \<open>Scheduling processes\<close>

text \<open>
  \<^verbatim>\<open>SetCpuAffinity\<close> makes one system call for a process and a processor and ignores its
  result: the policy is the list of calls. The processor is an \<^verbatim>\<open>int\<close> modulo \<^verbatim>\<open>ncpu_\<close>.
\<close>

definition SetCpuAffinity :: "Worker \<Rightarrow> int \<Rightarrow> int \<times> int" where
  "SetCpuAffinity w cpu_id = (wk_pid w, cpu_id)"

fun proc_rr_loop :: "int \<Rightarrow> int \<Rightarrow> Worker list \<Rightarrow> (int \<times> int) list res" where
  "proc_rr_loop ncpu rr [] = Inr []"
| "proc_rr_loop ncpu rr (w # ws) =
     (if ncpu = 0 then Inl DivByZero
      else res_bind (proc_rr_loop ncpu (rr + 1) ws) (\<lambda>cs. Inr (SetCpuAffinity w (rr mod ncpu) # cs)))"

definition proc_rr_Schedule :: "int \<Rightarrow> Node \<Rightarrow> (int \<times> int) list res" where
  "proc_rr_Schedule ncpu N = proc_rr_loop ncpu 0 (workers N)"

section \<open>The plan\<close>

text \<open>
  The abstract schedule: for each lane that is not scheduled yet, in table order, the worker
  it goes to. A low-priority lane goes to worker 0, the others go round the workers from 1.
\<close>

type_synonym assignment = "nat \<times> nat \<times> u32 \<times> u32"

definition rr_slot :: "nat \<Rightarrow> u32 \<Rightarrow> nat" where
  "rr_slot nw c = unat c mod (nw - 1) + 1"

fun plan_lanes :: "nat \<Rightarrow> bool \<Rightarrow> nat \<Rightarrow> u32 \<Rightarrow> u32 list \<Rightarrow> u32 \<Rightarrow> assignment list" where
  "plan_lanes nw low slot pr [] c = []"
| "plan_lanes nw low slot pr (l # ls) c =
     (if low then 0 else rr_slot nw c, slot, pr, l) # plan_lanes nw low slot pr ls (if low then c else c + 1)"

definition next_count :: "bitfield_lib \<Rightarrow> LaneGroup \<Rightarrow> u32 \<Rightarrow> u32" where
  "next_count B g c = (if IsLowPriority B g then c else c + of_nat (length (unscheduled g)))"

fun plan_groups :: "bitfield_lib \<Rightarrow> nat \<Rightarrow> nat \<Rightarrow> LaneGroup list \<Rightarrow> u32 \<Rightarrow> assignment list \<times> u32" where
  "plan_groups B nw slot [] c = ([], c)"
| "plan_groups B nw slot (g # gs) c =
     (case plan_groups B nw slot gs (next_count B g c) of
        (as, c') \<Rightarrow> (plan_lanes nw (IsLowPriority B g) slot (gprio g) (unscheduled g) c @ as, c'))"

fun plan_queues :: "bitfield_lib \<Rightarrow> nat \<Rightarrow> nat \<Rightarrow> MultiQueue list \<Rightarrow> u32 \<Rightarrow> assignment list \<times> u32" where
  "plan_queues B nw slot [] c = ([], c)"
| "plan_queues B nw slot (q # qs) c =
     (case (if UniqueId_IsNull (mq_id q) then ([], c) else plan_groups B nw slot (groups q) c) of
        (as, c1) \<Rightarrow> (case plan_queues B nw (Suc slot) qs c1 of (bs, c2) \<Rightarrow> (as @ bs, c2)))"

definition entry_of :: "assignment \<Rightarrow> WorkEntry" where
  "entry_of a = (case a of (w, slot, pr, l) \<Rightarrow> \<lparr>we_prio = pr, we_lane_id = l, we_count = 0,
     we_lane = (slot, unat pr, unat l), we_group = (slot, unat pr), we_queue = slot\<rparr>)"

definition deliver :: "spsc_lib \<Rightarrow> Worker list \<Rightarrow> assignment \<Rightarrow> Worker list" where
  "deliver Q ws a = ws[fst a := PollQueues Q [entry_of a] (ws ! fst a)]"

definition all_scheduled :: "MultiQueue \<Rightarrow> MultiQueue" where
  "all_scheduled q = (if UniqueId_IsNull (mq_id q) then q
     else q\<lparr>groups := map (\<lambda>g. g\<lparr>num_scheduled := num_lanes g\<rparr>) (groups q)\<rparr>)"

section \<open>The schedule follows the plan\<close>

lemma rr_worker_ok:
  assumes "2 \<le> nw" and "nw \<le> 2 ^ 32"
  obtains w where "rr_worker nw c = Inr w" and "unat w = rr_slot nw c" and "rr_slot nw c < nw" and "rr_slot nw c \<noteq> 0"
proof -
  have nw: "unat (of_nat nw :: size_t) = nw" using assms(2) by (intro unat_of_nat_less) simp
  have m: "unat ((of_nat nw :: size_t) - 1) = nw - 1"
    using assms(1) nw by (subst unat_minus_one) (auto simp flip: unat_eq_zero)
  then have nz: "(of_nat nw :: size_t) - 1 \<noteq> 0" using assms(1) by (auto simp flip: unat_eq_zero)
  let ?x = "((ucast c :: size_t) mod ((of_nat nw :: size_t) - 1)) + 1"
  have lt: "unat c mod (nw - 1) < nw - 1" using assms(1) by simp
  have x: "unat ?x = rr_slot nw c"
    using lt assms(2) by (simp add: unat_word_ariths unat_mod m rr_slot_def)
  have "unat (ucast ?x :: u32) = rr_slot nw c"
    using lt assms(2) x by (simp add: unsigned_ucast_eq take_bit_nat_eq_self rr_slot_def)
  with nz lt show thesis by (intro that) (auto simp: rr_worker_def Let_def rr_slot_def)
qed

lemma length_deliver [simp]: "length (foldl (deliver Q) ws as) = length ws"
  by (induction as arbitrary: ws) (simp_all add: deliver_def)

lemma poll_lane_ok:
  assumes "wid < length (workers N)" and "WorkEntry_new (queues N) pr l slot = Inr (entry_of (wid, slot, pr, l))"
  shows "poll_lane Q wid slot pr l N = Inr (N\<lparr>workers := deliver Q (workers N) (wid, slot, pr, l)\<rparr>)"
  using assms by (simp add: poll_lane_def put_worker_def deliver_def)

lemma WorkEntry_new_ok:
  assumes "table_wf qs" and "s < length qs" and "gi < length (groups (qs ! s))" and "length (groups (qs ! s)) \<le> 2 ^ 32"
    and "unat l < unat (num_lanes (groups (qs ! s) ! gi))"
  shows "WorkEntry_new qs (gprio (groups (qs ! s) ! gi)) l s = Inr (entry_of (w, s, gprio (groups (qs ! s) ! gi), l))"
proof -
  from assms(1-3) have g: "gprio (groups (qs ! s) ! gi) = of_nat gi"
    "length (lanes (groups (qs ! s) ! gi)) = unat (num_lanes (groups (qs ! s) ! gi))"
    by (auto simp: table_wf_def slot_wf_def queue_wf_def group_wf_def)
  have "unat (of_nat gi :: u32) = gi" using assms(3,4) by (intro unat_of_nat_less) simp
  with g assms show ?thesis
    by (simp add: WorkEntry_new_def GetGroup_def GetLane_def entry_of_def)
qed

lemma sched_lanes_ok:
  assumes "2 \<le> length (workers N)" and "length (workers N) \<le> 2 ^ 32"
    and "\<And>l w. l \<in> set ls \<Longrightarrow> WorkEntry_new (queues N) pr l slot = Inr (entry_of (w, slot, pr, l))"
  shows "sched_lanes Q low slot pr ls (c, N) = Inr (if low then c else c + of_nat (length ls),
    N\<lparr>workers := foldl (deliver Q) (workers N) (plan_lanes (length (workers N)) low slot pr ls c)\<rparr>)"
  using assms
proof (induction ls arbitrary: c N)
  case Nil
  then show ?case by simp
next
  case (Cons l ls)
  let ?w = "if low then 0 else rr_slot (length (workers N)) c"
  obtain w where w: "(if low then Inr 0 else rr_worker (length (workers N)) c) = Inr w" "unat w = ?w"
    and lt: "?w < length (workers N)"
  proof (rule rr_worker_ok [OF Cons.prems(1,2), of c])
    fix v assume "rr_worker (length (workers N)) c = Inr v" and "unat v = rr_slot (length (workers N)) c"
      and "rr_slot (length (workers N)) c < length (workers N)"
    with Cons.prems(1) show thesis by (intro that [of "if low then 0 else v"]) auto
  qed
  let ?N = "N\<lparr>workers := deliver Q (workers N) (?w, slot, pr, l)\<rparr>"
  have p: "poll_lane Q (unat w) slot pr l N = Inr ?N"
    using lt w(2) Cons.prems(3) [of l] by (auto intro!: poll_lane_ok)
  have len: "length (workers ?N) = length (workers N)" by (simp add: deliver_def)
  have IH: "sched_lanes Q low slot pr ls (c', ?N) = Inr (if low then c' else c' + of_nat (length ls),
      ?N\<lparr>workers := foldl (deliver Q) (workers ?N) (plan_lanes (length (workers ?N)) low slot pr ls c')\<rparr>)" for c'
    by (rule Cons.IH) (use Cons.prems len in auto)
  have "sched_lanes Q low slot pr (l # ls) (c, N) = sched_lanes Q low slot pr ls (if low then c else c + 1, ?N)"
    using w(1) p by simp
  with IH [of "if low then c else c + 1"] len show ?case by (simp add: algebra_simps)
qed

lemma unscheduled_bound:
  assumes "l \<in> set (unscheduled g)"
  shows "unat l < unat (num_lanes g)"
proof -
  from assms obtain k where "k < unat (num_lanes g)" "l = of_nat k" by (auto simp: unscheduled_def)
  moreover have "unat (num_lanes g) < 2 ^ 32" using unsigned_less [of "num_lanes g", where 'a = nat] by simp
  ultimately show ?thesis by (simp add: unat_of_nat_less)
qed

definition group_done :: "LaneGroup \<Rightarrow> LaneGroup" where
  "group_done g = g\<lparr>num_scheduled := num_lanes g\<rparr>"

lemma table_wf_group_done:
  assumes "table_wf qs" and "s < length qs"
  shows "table_wf (qs[s := (qs ! s)\<lparr>groups := (groups (qs ! s))[gi := group_done (groups (qs ! s) ! gi)]\<rparr>])"
  using assms
  by (auto simp: table_wf_def slot_wf_def queue_wf_def group_wf_def group_done_def nth_list_update_if)

lemma sched_groups_ok:
  assumes "2 \<le> length (workers N)" and "length (workers N) \<le> 2 ^ 32" and "table_wf (queues N)"
    and "slot < length (queues N)" and "length (groups (queues N ! slot)) \<le> 2 ^ 32"
    and "k \<le> length (groups (queues N ! slot))"
  defines "q \<equiv> queues N ! slot"
  shows "sched_groups B Q slot [k..<length (groups q)] (c, N) =
    (case plan_groups B (length (workers N)) slot (drop k (groups q)) c of
       (as, c') \<Rightarrow> Inr (c', N\<lparr>workers := foldl (deliver Q) (workers N) as,
         queues := (queues N)[slot := q\<lparr>groups := take k (groups q) @ map group_done (drop k (groups q))\<rparr>]\<rparr>))"
  using assms(6,1-5) unfolding q_def
proof (induction "length (groups (queues N ! slot)) - k" arbitrary: k N c)
  case 0
  then show ?case by (simp add: list_update_same_conv)
next
  case (Suc d)
  let ?q = "queues N ! slot" and ?nw = "length (workers N)"
  let ?g = "groups ?q ! k"
  from Suc.hyps(2) have k: "k < length (groups ?q)" by simp
  let ?as = "plan_lanes ?nw (IsLowPriority B ?g) slot (gprio ?g) (unscheduled ?g) c"
  let ?N1 = "N\<lparr>workers := foldl (deliver Q) (workers N) ?as\<rparr>"
  let ?q' = "?q\<lparr>groups := (groups ?q)[k := group_done ?g]\<rparr>"
  let ?N2 = "?N1\<lparr>queues := (queues N)[slot := ?q']\<rparr>"
  have s: "sched_lanes Q (IsLowPriority B ?g) slot (gprio ?g) (unscheduled ?g) (c, N) = Inr (next_count B ?g c, ?N1)"
    using sched_lanes_ok [OF Suc.prems(2,3), of "unscheduled ?g" "gprio ?g" slot Q "IsLowPriority B ?g" c]
      WorkEntry_new_ok [OF Suc.prems(4,5) k Suc.prems(6) unscheduled_bound]
    by (simp add: next_count_def)
  have n2: "set_scheduled slot k ?N1 = ?N2" by (simp add: set_scheduled_def group_done_def)
  have gq: "groups (queues ?N2 ! slot) = (groups ?q)[k := group_done ?g]" using Suc.prems(5) by simp
  have IH: "sched_groups B Q slot [Suc k..<length (groups (queues ?N2 ! slot))] (next_count B ?g c, ?N2) =
    (case plan_groups B (length (workers ?N2)) slot (drop (Suc k) (groups (queues ?N2 ! slot))) (next_count B ?g c) of
       (as, c') \<Rightarrow> Inr (c', ?N2\<lparr>workers := foldl (deliver Q) (workers ?N2) as,
         queues := (queues ?N2)[slot := (queues ?N2 ! slot)\<lparr>groups := take (Suc k) (groups (queues ?N2 ! slot)) @
           map group_done (drop (Suc k) (groups (queues ?N2 ! slot)))\<rparr>]\<rparr>))"
    by (rule Suc.hyps(1)) (use Suc k gq table_wf_group_done [OF Suc.prems(4,5), of k] in simp_all)
  have upt: "[k..<length (groups ?q)] = k # [Suc k..<length (groups ?q)]" using k by (rule upt_conv_Cons)
  have split: "drop k (groups ?q) = ?g # drop (Suc k) (groups ?q)" using k by (simp add: Cons_nth_drop_Suc)
  have tk: "take (Suc k) ((groups ?q)[k := group_done ?g]) = take k (groups ?q) @ [group_done ?g]"
    using k by (simp add: take_Suc_conv_app_nth)
  show ?case
    using IH k Suc.prems(5) unfolding gq
    by (simp add: upt Let_def s n2 split tk split: prod.splits)
qed

lemma all_scheduled_done: "all_scheduled q = (if UniqueId_IsNull (mq_id q) then q else q\<lparr>groups := map group_done (groups q)\<rparr>)"
  by (simp add: all_scheduled_def group_done_def)

lemma table_wf_all_scheduled:
  assumes "table_wf qs" and "s < length qs"
  shows "table_wf (qs[s := all_scheduled (qs ! s)])"
  using assms
  by (auto simp: table_wf_def slot_wf_def queue_wf_def group_wf_def all_scheduled_def nth_list_update_if)

lemma sched_queues_ok:
  assumes "2 \<le> length (workers N)" and "length (workers N) \<le> 2 ^ 32" and "table_wf (queues N)"
    and "\<And>q. q \<in> set (queues N) \<Longrightarrow> length (groups q) \<le> 2 ^ 32" and "k \<le> length (queues N)"
  shows "sched_queues B Q [k..<length (queues N)] (c, N) =
    (case plan_queues B (length (workers N)) k (drop k (queues N)) c of
       (as, c') \<Rightarrow> Inr (c', N\<lparr>workers := foldl (deliver Q) (workers N) as,
         queues := take k (queues N) @ map all_scheduled (drop k (queues N))\<rparr>))"
  using assms(5,1-4)
proof (induction "length (queues N) - k" arbitrary: k N c)
  case 0
  then show ?case by simp
next
  case (Suc d)
  let ?q = "queues N ! k" and ?nw = "length (workers N)"
  from Suc.hyps(2) have k: "k < length (queues N)" by simp
  let ?p = "if UniqueId_IsNull (mq_id ?q) then ([], c) else plan_groups B ?nw k (groups ?q) c"
  let ?N = "N\<lparr>workers := foldl (deliver Q) (workers N) (fst ?p), queues := (queues N)[k := all_scheduled ?q]\<rparr>"
  have upt: "[k..<length (queues N)] = k # [Suc k..<length (queues N)]" using k by (rule upt_conv_Cons)
  have step: "sched_queues B Q [k..<length (queues N)] (c, N) = sched_queues B Q [Suc k..<length (queues N)] (snd ?p, ?N)"
  proof (cases "UniqueId_IsNull (mq_id ?q)")
    case True
    then show ?thesis by (simp add: upt all_scheduled_def Let_def)
  next
    case False
    have "length (groups ?q) \<le> 2 ^ 32" using Suc.prems(5) k by simp
    with False sched_groups_ok [OF Suc.prems(2-4) k, of 0 B Q c] show ?thesis
      by (simp add: upt all_scheduled_done Let_def split: prod.splits)
  qed
  have IH: "sched_queues B Q [Suc k..<length (queues ?N)] (snd ?p, ?N) =
    (case plan_queues B (length (workers ?N)) (Suc k) (drop (Suc k) (queues ?N)) (snd ?p) of
       (as, c') \<Rightarrow> Inr (c', ?N\<lparr>workers := foldl (deliver Q) (workers ?N) as,
         queues := take (Suc k) (queues ?N) @ map all_scheduled (drop (Suc k) (queues ?N))\<rparr>))"
  proof (rule Suc.hyps(1))
    show "length (groups q) \<le> 2 ^ 32" if "q \<in> set (queues ?N)" for q
      using that Suc.prems(5) k by (auto simp: all_scheduled_def dest!: set_update_subset_insert [THEN subsetD])
  qed (use Suc k table_wf_all_scheduled [OF Suc.prems(4) k] in simp_all)
  have split: "drop k (queues N) = ?q # drop (Suc k) (queues N)" using k by (simp add: Cons_nth_drop_Suc)
  have tk: "take (Suc k) ((queues N)[k := all_scheduled ?q]) = take k (queues N) @ [all_scheduled ?q]"
    using k by (simp add: take_Suc_conv_app_nth)
  show ?case
    using IH unfolding step by (simp add: split tk split: prod.splits)
qed

section \<open>What the plan contains\<close>

text \<open>The lanes of the live queues that no worker polls yet, in table order.\<close>

fun todo :: "nat \<Rightarrow> MultiQueue list \<Rightarrow> (nat \<times> u32 \<times> u32) list" where
  "todo slot [] = []"
| "todo slot (q # qs) =
     (if UniqueId_IsNull (mq_id q) then []
      else concat (map (\<lambda>g. map (\<lambda>l. (slot, gprio g, l)) (unscheduled g)) (groups q))) @ todo (Suc slot) qs"

lemma plan_lanes_todo: "map snd (plan_lanes nw low slot pr ls c) = map (\<lambda>l. (slot, pr, l)) ls"
  by (induction ls arbitrary: c) simp_all

lemma fst_plan_groups_Cons:
  "fst (plan_groups B nw slot (g # gs) c) = plan_lanes nw (IsLowPriority B g) slot (gprio g) (unscheduled g) c @
     fst (plan_groups B nw slot gs (next_count B g c))"
  by (simp split: prod.splits)

lemma rr_slot_bounds: "2 \<le> nw \<Longrightarrow> 0 < rr_slot nw c \<and> rr_slot nw c < nw"
proof -
  assume "2 \<le> nw"
  then have "unat c mod (nw - 1) < nw - 1" by simp
  then show ?thesis unfolding rr_slot_def by linarith
qed

lemma plan_groups_todo:
  "map snd (fst (plan_groups B nw slot gs c)) = concat (map (\<lambda>g. map (\<lambda>l. (slot, gprio g, l)) (unscheduled g)) gs)"
proof (induction gs arbitrary: c)
  case (Cons g gs)
  then show ?case by (simp add: fst_plan_groups_Cons plan_lanes_todo del: plan_groups.simps)
qed simp

lemma plan_queues_todo: "map snd (fst (plan_queues B nw slot qs c)) = todo slot qs"
proof (induction qs arbitrary: slot c)
  case Nil
  then show ?case by simp
next
  case (Cons q qs)
  let ?p = "if UniqueId_IsNull (mq_id q) then ([], c) else plan_groups B nw slot (groups q) c"
  have "fst (plan_queues B nw slot (q # qs) c) = fst ?p @ fst (plan_queues B nw (Suc slot) qs (snd ?p))"
    by (simp split: prod.splits)
  then show ?case using Cons plan_groups_todo [of B nw slot "groups q" c] by simp
qed

lemma plan_lanes_workers:
  "2 \<le> nw \<Longrightarrow> a \<in> set (plan_lanes nw low slot pr ls c) \<Longrightarrow> fst a < nw \<and> (fst a = 0 \<longleftrightarrow> low)"
proof (induction ls arbitrary: c)
  case (Cons l ls)
  then show ?case using rr_slot_bounds [OF Cons.prems(1), of c] by (auto split: if_splits)
qed simp

lemma plan_groups_workers:
  "2 \<le> nw \<Longrightarrow> a \<in> set (fst (plan_groups B nw slot gs c)) \<Longrightarrow>
     fst a < nw \<and> (\<exists>g \<in> set gs. fst a = 0 \<longleftrightarrow> IsLowPriority B g)"
proof (induction gs arbitrary: c)
  case (Cons g gs)
  from Cons.prems(2) have "a \<in> set (plan_lanes nw (IsLowPriority B g) slot (gprio g) (unscheduled g) c) \<or>
      a \<in> set (fst (plan_groups B nw slot gs (next_count B g c)))"
    by (simp only: fst_plan_groups_Cons set_append Un_iff)
  then show ?case
    using plan_lanes_workers [OF Cons.prems(1)] Cons.IH [OF Cons.prems(1)] by (elim disjE) auto
qed simp

lemma plan_queues_workers:
  "2 \<le> nw \<Longrightarrow> a \<in> set (fst (plan_queues B nw slot qs c)) \<Longrightarrow> fst a < nw"
proof (induction qs arbitrary: slot c)
  case (Cons q qs)
  let ?p = "if UniqueId_IsNull (mq_id q) then ([], c) else plan_groups B nw slot (groups q) c"
  have "fst (plan_queues B nw slot (q # qs) c) = fst ?p @ fst (plan_queues B nw (Suc slot) qs (snd ?p))"
    by (simp split: prod.splits)
  with Cons plan_groups_workers [of nw a B slot "groups q" c] show ?case by (auto split: if_splits)
qed simp

lemma unscheduled_done [simp]: "unscheduled (group_done g) = []"
  by (simp add: unscheduled_def group_done_def)

lemma plan_groups_done: "plan_groups B nw slot (map group_done gs) c = ([], c)"
  by (induction gs arbitrary: c) (simp_all add: next_count_def)

lemma plan_queues_done: "plan_queues B nw slot (map all_scheduled qs) c = ([], c)"
  by (induction qs arbitrary: slot c) (simp_all add: all_scheduled_done plan_groups_done)

lemma all_scheduled_idem: "all_scheduled (all_scheduled q) = all_scheduled q"
  by (simp add: all_scheduled_def)

lemma table_wf_map_all_scheduled: "table_wf qs \<Longrightarrow> table_wf (map all_scheduled qs)"
  by (auto simp: table_wf_def slot_wf_def queue_wf_def group_wf_def all_scheduled_def)

text \<open>Consecutive lanes that are not low priority are spread evenly: round robin.\<close>

lemma plan_lanes_nth:
  "k < length ls \<Longrightarrow> plan_lanes nw False slot pr ls c ! k = (rr_slot nw (c + of_nat k), slot, pr, ls ! k)"
proof (induction ls arbitrary: c k)
  case (Cons l ls)
  then show ?case by (cases k) (simp_all add: algebra_simps)
qed simp

lemma proc_rr_loop_ok:
  assumes "0 < ncpu"
  shows "proc_rr_loop ncpu rr ws = Inr (map (\<lambda>i. (wk_pid (ws ! i), (rr + int i) mod ncpu)) [0..<length ws])"
proof (induction ws arbitrary: rr)
  case (Cons w ws)
  have "map (\<lambda>i. (wk_pid ((w # ws) ! i), (rr + int i) mod ncpu)) [0..<length (w # ws)] =
      (wk_pid w, rr mod ncpu) # map (\<lambda>i. (wk_pid (ws ! i), (rr + 1 + int i) mod ncpu)) [0..<length ws]"
    by (simp add: upt_conv_Cons map_Suc_upt [symmetric] comp_def algebra_simps del: upt_Suc)
  with Cons assms show ?case by (simp add: SetCpuAffinity_def)
qed simp

text \<open>A node with three workers and a queue of two low-latency lanes in its second priority.\<close>

definition sched_node :: Node where
  "sched_node = sample_node\<lparr>workers := [sample_worker, sample_worker, sample_worker],
     queues := [MultiQueue_new (list_env 8) zero_group (UniqueId_new 1 0)
       [PriorityInfo_new 1 1 8 0, PriorityInfo_new 2 2 8 0]]\<rparr>"

lemma sched_node_wf: "table_wf (queues sched_node)"
  by (simp add: sched_node_def table_wf_def slot_wf_def MultiQueue_new_wf UniqueId_new_def)

section \<open>Properties\<close>

text \<open>
  C6. The queue policy implements its plan. On a well-formed table with at least two
  workers, scheduling succeeds; it hands every lane of a live queue that no worker polls
  yet to exactly one worker, in table order, and no other lane; all workers are in range;
  afterwards every lane of a live queue counts as scheduled, and scheduling again does nothing.
\<close>

theorem queue_schedule_refines_plan:
  assumes "2 \<le> length (workers N)" and "length (workers N) \<le> 2 ^ 32" and "table_wf (queues N)"
    and "\<forall>q \<in> set (queues N). length (groups q) \<le> 2 ^ 32"
  shows "\<exists>as c' N'. plan_queues B (length (workers N)) 0 (queues N) c = (as, c') \<and>
    queue_rr_Schedule B Q c N = Inr (c', N') \<and>
    map snd as = todo 0 (queues N) \<and> (\<forall>a \<in> set as. fst a < length (workers N)) \<and>
    workers N' = foldl (deliver Q) (workers N) as \<and> queues N' = map all_scheduled (queues N) \<and>
    queue_rr_Schedule B Q c' N' = Inr (c', N')"
proof -
  obtain as c' where plan: "plan_queues B (length (workers N)) 0 (queues N) c = (as, c')" by fastforce
  let ?N = "N\<lparr>workers := foldl (deliver Q) (workers N) as, queues := map all_scheduled (queues N)\<rparr>"
  have one: "queue_rr_Schedule B Q c N = Inr (c', ?N)"
    using sched_queues_ok [OF assms(1-3), of 0 B Q c] assms(4) plan by (simp add: queue_rr_Schedule_def)
  have "length (groups q) \<le> 2 ^ 32" if "q \<in> set (queues ?N)" for q
    using that assms(4) by (auto simp: all_scheduled_def)
  then have two: "queue_rr_Schedule B Q c' ?N = Inr (c', ?N)"
    using sched_queues_ok [of ?N 0 B Q c'] assms table_wf_map_all_scheduled [OF assms(3)]
    by (simp add: queue_rr_Schedule_def plan_queues_done all_scheduled_idem comp_def)
  show ?thesis
    using plan one two plan_queues_todo [of B "length (workers N)" 0 "queues N" c]
      plan_queues_workers [OF assms(1), of _ B 0 "queues N" c]
    by (intro exI [of _ as] exI [of _ c'] exI [of _ ?N]) auto
qed

theorem queue_schedule_refines_plan_witness:
  "\<exists>as c' N'. plan_queues word_bitfield 3 0 (queues sched_node) 0 = (as, c') \<and>
     queue_rr_Schedule word_bitfield list_spsc 0 sched_node = Inr (c', N') \<and>
     map snd as = [(0, 0, 0), (0, 1, 0), (0, 1, 1)]"
proof -
  have td: "todo 0 (queues sched_node) = [(0, 0, 0), (0, 1, 0), (0, 1, 1)]"
    by (simp add: sched_node_def MultiQueue_new_def UniqueId_IsNull_def UniqueId_new_def unscheduled_def
        PriorityInfo_new_def upt_rec)
  have w: "length (workers sched_node) = 3" by (simp add: sched_node_def)
  have g: "\<forall>q \<in> set (queues sched_node). length (groups q) \<le> 2 ^ 32"
    by (simp add: sched_node_def MultiQueue_new_def)
  show ?thesis
    using queue_schedule_refines_plan [OF _ _ sched_node_wf g, of word_bitfield 0 list_spsc] by (auto simp: w td)
qed

text \<open>
  C36. A low-priority lane always goes to worker 0; the \<open>k\<close>-th of a run of other lanes goes to
  worker \<open>(count + k) mod (n - 1) + 1\<close>, so worker 0 never gets one. With a single worker
  the modulus is 0: scheduling such a lane divides by zero.
\<close>

theorem queue_schedule_targets:
  "(2 \<le> nw \<and> nw \<le> 2 ^ 32 \<longrightarrow> (\<exists>w. rr_worker nw c = Inr w \<and> unat w = unat c mod (nw - 1) + 1 \<and> 0 < unat w \<and> unat w < nw)) \<and>
   rr_worker 1 c = Inl DivByZero \<and>
   (\<forall>k < length ls. plan_lanes nw False slot pr ls c ! k = (unat (c + of_nat k) mod (nw - 1) + 1, slot, pr, ls ! k) \<and>
      plan_lanes nw True slot pr ls c ! k = (0, slot, pr, ls ! k))"
proof -
  have "plan_lanes nw True slot pr ls c ! k = (0, slot, pr, ls ! k)" if "k < length ls" for k
    using that by (induction ls arbitrary: k) (auto simp: nth_Cons split: nat.splits)
  moreover have "\<exists>w. rr_worker nw c = Inr w \<and> unat w = unat c mod (nw - 1) + 1 \<and> 0 < unat w \<and> unat w < nw"
    if "2 \<le> nw" "nw \<le> 2 ^ 32"
    by (rule rr_worker_ok [OF that, of c]) (auto simp: rr_slot_def)
  ultimately show ?thesis by (simp add: rr_worker_def plan_lanes_nth rr_slot_def)
qed

theorem queue_schedule_targets_witness:
  "\<exists>w. rr_worker 4 5 = Inr w \<and> unat w = 3"
  using queue_schedule_targets [where nw = 4 and c = 5 and ls = "[]"] by auto

text \<open>
  The process policy binds the workers to the processors in turn: worker \<open>i\<close> to processor
  \<open>i mod ncpu\<close>, one call per worker.
\<close>

theorem proc_schedule_round_robin:
  assumes "0 < ncpu"
  shows "proc_rr_Schedule ncpu N =
    Inr (map (\<lambda>i. (wk_pid (workers N ! i), int i mod ncpu)) [0..<length (workers N)])"
  using proc_rr_loop_ok [OF assms, of 0 "workers N"] by (simp add: proc_rr_Schedule_def)

theorem proc_schedule_round_robin_witness:
  "proc_rr_Schedule 2 sched_node = Inr [(0, 0), (0, 1), (0, 0)]"
  using proc_schedule_round_robin [of 2 sched_node]
  by (simp add: sched_node_def sample_worker_def Worker_new_def upt_rec)

end
