(* ===== verification/Client.thy ===== *)
theory Client
  imports Poll
begin

text \<open>
  \<^verbatim>\<open>api/manager.h\<close>, \<^verbatim>\<open>api/hermes_run_client.h\<close> and \<^verbatim>\<open>hermes_run_constants.h\<close>: start-up of a
  client, ids for new tasks and states, allocation, construction and deletion of tasks in
  shared memory, and the submission functions that the client macros generate.

  The shared-memory allocator is the record \<open>alloc_lib\<close>; the locale \<open>allocator\<close> states that
  it returns memory of no live object. A private and a shared pointer to an object are the
  same address.
\<close>

section \<open>Configuration manager\<close>

record ConfigurationManager =
  cm_mode :: HermesRunMode
  cm_client_config :: ClientConfig
  cm_server_config :: ServerConfig
  is_being_initialized :: bool
  is_initialized :: bool
  is_terminated :: bool
  is_transparent :: bool

definition ConfigurationManager_new :: "'a ConfigurationManager_scheme \<Rightarrow> 'a ConfigurationManager_scheme" where
  "ConfigurationManager_new mem = mem\<lparr>is_being_initialized := False, is_initialized := False,
     is_terminated := False, is_transparent := False\<rparr>"

definition kClientConfEnv :: string where "kClientConfEnv = ''HERMES_RUN_CLIENT_CONF''"
definition kServerConfEnv :: string where "kServerConfEnv = ''HERMES_RUN_SERVER_CONF''"

definition GetEnvSafe :: "(string \<Rightarrow> string option) \<Rightarrow> string \<Rightarrow> string" where
  "GetEnvSafe getenv env_name = (case getenv env_name of None \<Rightarrow> [] | Some data \<Rightarrow> data)"

text \<open>
  What start-up takes from outside: the environment, the YAML and path libraries, the two
  default documents, whether a fatal record returns, and the shared segment that
  attaching (or, on the server, looking up) a name gives.
\<close>

record 'y boot_env =
  be_getenv :: "string \<Rightarrow> string option"
  be_yaml :: "'y yaml_lib"
  be_parse :: parse_lib
  be_server_default :: string
  be_client_default :: string
  be_fatal_returns :: bool
  be_attach :: "bool \<Rightarrow> string \<Rightarrow> HermesRunShm \<times> QueueManagerShm"

definition LoadServerConfig :: "'y boot_env \<Rightarrow> string \<Rightarrow> 'a ConfigurationManager_scheme step" where
  "LoadServerConfig X config_path M =
     (let path = (if config_path = [] then GetEnvSafe (be_getenv X) kServerConfEnv else config_path)
      in case LoadFromFile (be_fatal_returns X) (be_yaml X) (be_parse X)
                (ServerConfig_ParseYAML (be_yaml X) (be_parse X)) (be_server_default X) path True (cm_server_config M) of
           (c, e) \<Rightarrow> (M\<lparr>cm_server_config := c\<rparr>, e))"

definition LoadClientConfig :: "'y boot_env \<Rightarrow> string \<Rightarrow> 'a ConfigurationManager_scheme step" where
  "LoadClientConfig X config_path M =
     (let path = (if config_path = [] then GetEnvSafe (be_getenv X) kClientConfEnv else config_path)
      in case LoadFromFile (be_fatal_returns X) (be_yaml X) (be_parse X)
                (ClientConfig_ParseYAML (be_yaml X)) (be_client_default X) path True (cm_client_config M) of
           (c, e) \<Rightarrow> (M\<lparr>cm_client_config := c\<rparr>, e))"

definition GetNumNodes :: "'a ConfigurationManager_scheme \<Rightarrow> nat" where
  "GetNumNodes M = length (host_names (rpc (cm_server_config M)))"

text \<open>
  \<^verbatim>\<open>HASH_TO_NODE_ID\<close>: nodes are numbered from 1. A modulus of 0 is undefined.
\<close>

definition HASH_TO_NODE_ID :: "'a ConfigurationManager_scheme \<Rightarrow> nat \<Rightarrow> nat res" where
  "HASH_TO_NODE_ID M hash = (if GetNumNodes M = 0 then Inl DivByZero else Inr (1 + hash mod GetNumNodes M))"

section \<open>Clients\<close>

record Client = ConfigurationManager +
  cl_queue_manager :: QueueManager
  cl_unique :: "HermesRunShm option"
  cl_node_id :: u32

text \<open>The pointer to the counter is set with the header it points into (\<open>cl_unique\<close>).\<close>

definition LoadSharedMemory :: "'y boot_env \<Rightarrow> bool \<Rightarrow> Client \<Rightarrow> Client" where
  "LoadSharedMemory X server C =
     (let hdr = fst (be_attach X server (shm_name (queue_manager (cm_server_config C))))
      in C\<lparr>cl_unique := Some hdr, cl_node_id := hdr_node_id hdr\<rparr>)"

definition ClientInit :: "'y boot_env \<Rightarrow> string \<Rightarrow> string \<Rightarrow> bool \<Rightarrow> Client step" where
  "ClientInit X server_config_path client_config_path server =
     steps [LoadServerConfig X server_config_path, LoadClientConfig X client_config_path,
       (\<lambda>C. let seg = be_attach X server (shm_name (queue_manager (cm_server_config C)));
                C1 = LoadSharedMemory X server C
            in (C1\<lparr>cl_queue_manager := QueueManagerClient_ClientInit (snd seg) (hdr_node_id (fst seg)) (cl_queue_manager C1)\<rparr>, None))]"

definition Client_Create :: "'y boot_env \<Rightarrow> string \<Rightarrow> string \<Rightarrow> bool \<Rightarrow> Client step" where
  "Client_Create X server_config_path client_config_path server C =
     (if is_initialized C then (C, None)
      else steps [(\<lambda>C. (C\<lparr>cm_mode := kClient, is_being_initialized := True\<rparr>, None)),
        ClientInit X server_config_path client_config_path server,
        (\<lambda>C. (C\<lparr>is_initialized := True, is_being_initialized := False\<rparr>, None))] C)"

text \<open>The result is whether the call initialised the client; \<open>None\<close> when it throws.\<close>

definition TRANSPARENT_HERMES_RUN :: "'y boot_env \<Rightarrow> Client \<Rightarrow> Client \<times> bool option" where
  "TRANSPARENT_HERMES_RUN X C =
     (if \<not> is_initialized C \<and> \<not> is_being_initialized C \<and> \<not> is_terminated C
      then (case Client_Create X [] [] False C of
              (C1, None) \<Rightarrow> (C1\<lparr>is_transparent := True\<rparr>, Some True)
            | (C1, Some e) \<Rightarrow> (C1, None))
      else (C, Some False))"

section \<open>Ids\<close>

definition fetch_add_unique :: "Node \<Rightarrow> u64 \<times> Node" where
  "fetch_add_unique N = (hdr_unique (header N), N\<lparr>header := (header N)\<lparr>hdr_unique := hdr_unique (header N) + 1\<rparr>\<rparr>)"

definition MakeTaskNodeId :: "Node \<Rightarrow> TaskNode \<times> Node" where
  "MakeTaskNodeId N = (case fetch_add_unique N of
     (u, N') \<Rightarrow> (TaskNode_new (UniqueId_new (hdr_node_id (header N)) u), N'))"

definition MakeTaskStateId :: "Node \<Rightarrow> TaskStateId \<times> Node" where
  "MakeTaskStateId N = (case fetch_add_unique N of
     (u, N') \<Rightarrow> (UniqueId_new (hdr_node_id (header N)) u, N'))"

section \<open>Objects in shared memory\<close>

text \<open>
  \<open>al_alloc\<close> gives an address and what its memory held, as an object of the class to be
  built there, or null when the segment is exhausted.
\<close>

record alloc_lib =
  al_alloc :: "(Pointer \<rightharpoonup> TaskObj) \<Rightarrow> (Pointer \<times> TaskObj) option"

locale allocator =
  fixes A :: alloc_lib
  assumes alloc_fresh: "al_alloc A h = Some (p, mem) \<Longrightarrow> h p = None"

definition lptr :: "Pointer \<Rightarrow> LPointer" where
  "lptr p = \<lparr>lp_ptr = Some p, lp_shm = p\<rparr>"

definition AllocateTask :: "alloc_lib \<Rightarrow> Node \<Rightarrow> (LPointer \<times> Node) res" where
  "AllocateTask A N = (case al_alloc A (heap N) of
     None \<Rightarrow> Inl (Thrown ''Could not allocate buffer'')
   | Some (p, mem) \<Rightarrow> Inr (lptr p, put_task p mem N))"

definition ConstructTask :: "(TaskObj \<Rightarrow> TaskObj) \<Rightarrow> Pointer \<Rightarrow> Node \<Rightarrow> Node res" where
  "ConstructTask ctor p N = upd_task p ctor N"

definition NewTask :: "alloc_lib \<Rightarrow> (TaskObj \<Rightarrow> TaskObj) \<Rightarrow> Node \<Rightarrow> (LPointer \<times> Node) res" where
  "NewTask A ctor N = (case al_alloc A (heap N) of
     None \<Rightarrow> Inl (Thrown ''Could not allocate buffer'')
   | Some (p, mem) \<Rightarrow> Inr (lptr p, put_task p (ctor mem) N))"

text \<open>\<open>NewEmptyTask\<close> runs the default constructor of the class.\<close>

definition NewEmptyTask :: "bitfield_lib \<Rightarrow> alloc_lib \<Rightarrow> Node \<Rightarrow> (Pointer \<times> Node) res" where
  "NewEmptyTask B A N =
     res_bind (NewTask A (Task_new B) N) (\<lambda>(lp, N'). Inr (lp_shm lp, N'))"

definition NewTaskRoot :: "alloc_lib \<Rightarrow> (TaskNode \<Rightarrow> TaskObj \<Rightarrow> TaskObj) \<Rightarrow> Node \<Rightarrow> (LPointer \<times> Node) res" where
  "NewTaskRoot A ctor N = (case MakeTaskNodeId N of (tn, N1) \<Rightarrow> NewTask A (ctor tn) N1)"

text \<open>
  Deletion counts, checks the count, runs the destructor of the class (\<open>dtor\<close>) on the object
  and frees its memory. A fatal record that returns lets the deletion go on.
\<close>

definition free_task :: "Pointer \<Rightarrow> Node \<Rightarrow> Node" where
  "free_task p N = N\<lparr>heap := (heap N)(p := None)\<rparr>"

definition DelTask :: "bool \<Rightarrow> (TaskObj \<Rightarrow> Node \<Rightarrow> Node res) \<Rightarrow> Pointer \<Rightarrow> Node \<Rightarrow> Node res" where
  "DelTask fr dtor p N =
     res_bind (task_at N p) (\<lambda>t0.
       let t = t0\<lparr>delcnt := delcnt t0 + 1\<rparr>; N1 = put_task p t N;
           del = res_bind (dtor t N1) (\<lambda>N2. Inr (free_task p N2))
       in if delcnt t \<noteq> 1 then helog_fatal fr ''Freed task'' del else del)"

definition trivial_dtor :: "TaskObj \<Rightarrow> Node \<Rightarrow> Node res" where
  "trivial_dtor t N = Inr N"

text \<open>Deletion through the virtual member of the task's state.\<close>

definition DelTask_exec ::
    "(u32 \<Rightarrow> Pointer \<Rightarrow> Node \<Rightarrow> Node res) \<Rightarrow> Pointer \<Rightarrow> Node \<Rightarrow> Node res" where
  "DelTask_exec Del p N = res_bind (task_at N p) (\<lambda>t. Del (method_id t) p N)"

definition IsRemote :: "bitfield_lib \<Rightarrow> Node \<Rightarrow> TaskObj \<Rightarrow> bool" where
  "IsRemote B N t =
     (if IsNode B (domain_id t) then DomainId_GetId (domain_id t) \<noteq> hdr_node_id (header N)
      else IsGlobal B (domain_id t))"

text \<open>A private pointer is followed, so it must point to a live object.\<close>

definition GetPrivatePointer :: "Pointer \<Rightarrow> Pointer option" where
  "GetPrivatePointer p = Some p"

section \<open>Submission\<close>

text \<open>\<^verbatim>\<open>queue->Emplace(prio, lane_hash, p)\<close> on the queue in a slot of the table; the code drops the result.\<close>

definition emplace_slot :: "queue_env \<Rightarrow> nat \<Rightarrow> u32 \<Rightarrow> u32 \<Rightarrow> Pointer \<Rightarrow> Node \<Rightarrow> Node res" where
  "emplace_slot E s pr lh p N =
     res_bind (vec_at (queues N) s) (\<lambda>q.
     res_bind (Emplace E q pr lh p) (\<lambda>(q', ok). Inr (N\<lparr>queues := (queues N)[s := q']\<rparr>)))"

text \<open>\<^verbatim>\<open>HERMES_RUN_CLIENT->GetQueue(qid)\<close> followed by the submission.\<close>

definition queue_emplace :: "queue_env \<Rightarrow> QueueId \<Rightarrow> u32 \<Rightarrow> u32 \<Rightarrow> Pointer \<Rightarrow> Node \<Rightarrow> Node res" where
  "queue_emplace E qid pr lh p N =
     res_bind (GetQueue (queues N) qid) (\<lambda>_. emplace_slot E (unat (unique qid)) pr lh p N)"

text \<open>
  The functions of the macros \<^verbatim>\<open>HERMES_RUN_TASK_NODE_ADMIN_ROOT\<close> and
  \<^verbatim>\<open>HERMES_RUN_TASK_NODE_PUSH_ROOT\<close>. \<open>con\<close> is \<^verbatim>\<open>AsyncXConstruct\<close> applied to the arguments after
  the task node.
\<close>

definition Async_Alloc ::
    "alloc_lib \<Rightarrow> (TaskNode \<Rightarrow> TaskObj \<Rightarrow> TaskObj) \<Rightarrow> TaskNode \<Rightarrow> Node \<Rightarrow> (LPointer \<times> Node) res" where
  "Async_Alloc A con tn N =
     res_bind (AllocateTask A N) (\<lambda>(lp, N1).
       case lp_ptr lp of
         None \<Rightarrow> Inl NullDeref
       | Some p \<Rightarrow> res_bind (ConstructTask (con tn) p N1) (\<lambda>N2. Inr (lp, N2)))"

definition Async_Emplace ::
    "queue_env \<Rightarrow> alloc_lib \<Rightarrow> nat \<Rightarrow> (TaskNode \<Rightarrow> TaskObj \<Rightarrow> TaskObj) \<Rightarrow> TaskNode \<Rightarrow> Node \<Rightarrow> (LPointer \<times> Node) res" where
  "Async_Emplace E A s con tn N =
     res_bind (Async_Alloc A con tn N) (\<lambda>(lp, N1).
     res_bind (task_at N1 (lp_shm lp)) (\<lambda>t.
     res_bind (emplace_slot E s (prio t) (lane_hash t) (lp_shm lp) N1) (\<lambda>N2. Inr (lp, N2))))"

definition Async ::
    "queue_env \<Rightarrow> alloc_lib \<Rightarrow> QueueId \<Rightarrow> (TaskNode \<Rightarrow> TaskObj \<Rightarrow> TaskObj) \<Rightarrow> TaskNode \<Rightarrow> Node \<Rightarrow> (LPointer \<times> Node) res" where
  "Async E A qid con tn N =
     res_bind (Async_Alloc A con tn N) (\<lambda>(lp, N1).
     res_bind (task_at N1 (lp_shm lp)) (\<lambda>t.
     res_bind (queue_emplace E qid (prio t) (lane_hash t) (lp_shm lp) N1) (\<lambda>N2. Inr (lp, N2))))"

text \<open>The root function of the admin macro passes the node one level down.\<close>

definition Async_Root ::
    "queue_env \<Rightarrow> alloc_lib \<Rightarrow> QueueId \<Rightarrow> (TaskNode \<Rightarrow> TaskObj \<Rightarrow> TaskObj) \<Rightarrow> Node \<Rightarrow> (LPointer \<times> Node) res" where
  "Async_Root E A qid con N = (case MakeTaskNodeId N of (tn, N1) \<Rightarrow> Async E A qid con (TaskNode_plus tn 1) N1)"

text \<open>\<^verbatim>\<open>HERMES_RUN_TASK_NODE_ROOT\<close>: any function of a task node, at a new root.\<close>

definition TASK_NODE_ROOT :: "(TaskNode \<Rightarrow> Node \<Rightarrow> 'r) \<Rightarrow> Node \<Rightarrow> 'r" where
  "TASK_NODE_ROOT custom N = (case MakeTaskNodeId N of (tn, N1) \<Rightarrow> custom tn N1)"

section \<open>Facts\<close>

lemma MakeTaskNodeId_simps [simp]:
  "fst (MakeTaskNodeId N) = TaskNode_new (UniqueId_new (hdr_node_id (header N)) (hdr_unique (header N)))"
  "snd (MakeTaskNodeId N) = N\<lparr>header := (header N)\<lparr>hdr_unique := hdr_unique (header N) + 1\<rparr>\<rparr>"
  by (simp_all add: MakeTaskNodeId_def fetch_add_unique_def)

lemma MakeTaskStateId_simps [simp]:
  "fst (MakeTaskStateId N) = UniqueId_new (hdr_node_id (header N)) (hdr_unique (header N))"
  "snd (MakeTaskStateId N) = N\<lparr>header := (header N)\<lparr>hdr_unique := hdr_unique (header N) + 1\<rparr>\<rparr>"
  by (simp_all add: MakeTaskStateId_def fetch_add_unique_def)

text \<open>Any sequence of new task nodes (\<open>True\<close>) and new task states (\<open>False\<close>).\<close>

fun draw_ids :: "bool list \<Rightarrow> Node \<Rightarrow> UniqueId list \<times> Node" where
  "draw_ids [] N = ([], N)"
| "draw_ids (k # ks) N =
     (let (i, N1) = (if k then map_prod root id (MakeTaskNodeId N) else MakeTaskStateId N);
          (is, N2) = draw_ids ks N1
      in (i # is, N2))"

lemma draw_ids_eq:
  "draw_ids ks N =
     (map (\<lambda>j. UniqueId_new (hdr_node_id (header N)) (hdr_unique (header N) + of_nat j)) [0..<length ks],
      N\<lparr>header := (header N)\<lparr>hdr_unique := hdr_unique (header N) + of_nat (length ks)\<rparr>\<rparr>)"
proof (induction ks arbitrary: N)
  case Nil
  show ?case by simp
next
  case (Cons k ks)
  have upt: "map (\<lambda>j. UniqueId_new n (of_nat j + u)) [0..<Suc m] =
      UniqueId_new n u # map (\<lambda>j. UniqueId_new n (1 + (of_nat j + u))) [0..<m]" for n u m
    by (simp add: upt_conv_Cons map_Suc_upt [symmetric] comp_def algebra_simps del: upt_Suc)
  show ?case
    using upt [of "hdr_node_id (header N)" "hdr_unique (header N)" "length ks"]
    by (simp add: Cons.IH Let_def case_prod_unfold TaskNode_new_def algebra_simps del: upt_Suc)
qed

lemma key_UniqueId_new [simp]: "key_of (UniqueId_new n u) = (u, n)"
  by (simp add: key_of_def UniqueId_new_def)

lemma distinct_counter:
  "m \<le> 2 ^ 64 \<Longrightarrow> distinct (map (\<lambda>j. ((u :: u64) + of_nat j, n)) [0..<m])"
proof -
  assume m: "m \<le> 2 ^ 64"
  have "x = y" if "x < m" "y < m" "(of_nat x :: u64) = of_nat y" for x y
  proof -
    have "x < 2 ^ LENGTH(64)" "y < 2 ^ LENGTH(64)" using that(1,2) m by simp_all
    then show ?thesis using that(3) unat_of_nat_less by metis
  qed
  then show ?thesis by (auto simp: distinct_map inj_on_def)
qed

lemma task_at_put [simp]: "task_at (put_task p t N) p = Inr t"
  by (simp add: task_at_def put_task_def)

lemma put_task_simps [simp]:
  "heap (put_task p t N) = (heap N)(p \<mapsto> t)" "queues (put_task p t N) = queues N"
  "registry (put_task p t N) = registry N" "workers (put_task p t N) = workers N"
  "header (put_task p t N) = header N"
  by (simp_all add: put_task_def)

lemma put_task_put [simp]: "put_task p t (put_task p u N) = put_task p t N"
  by (simp add: put_task_def)

lemma Async_Alloc_eq:
  "Async_Alloc A con tn N = (case al_alloc A (heap N) of
     None \<Rightarrow> Inl (Thrown ''Could not allocate buffer'')
   | Some (p, mem) \<Rightarrow> Inr (lptr p, put_task p (con tn mem) N))"
  by (auto simp: Async_Alloc_def AllocateTask_def ConstructTask_def upd_task_def lptr_def
      split: option.splits)

text \<open>Loading the configuration does not touch the flags of the manager.\<close>

lemma Load_flags:
  "is_being_initialized (fst (LoadServerConfig X path M)) = is_being_initialized M"
  "is_initialized (fst (LoadServerConfig X path M)) = is_initialized M"
  "is_being_initialized (fst (LoadClientConfig X path M)) = is_being_initialized M"
  "is_initialized (fst (LoadClientConfig X path M)) = is_initialized M"
  by (simp_all add: LoadServerConfig_def LoadClientConfig_def Let_def split: prod.splits)

lemma ClientInit_flags:
  "is_being_initialized (fst (ClientInit X sp cp srv C)) = is_being_initialized C"
  "is_initialized (fst (ClientInit X sp cp srv C)) = is_initialized C"
  using Load_flags(1,2) [of X sp C] Load_flags(3,4) [of X cp "fst (LoadServerConfig X sp C)"]
  by (auto simp: ClientInit_def then_step_def Let_def LoadSharedMemory_def split: prod.splits option.splits)

lemma Create_fresh:
  "\<not> is_initialized C \<Longrightarrow> Client_Create X sp cp srv C =
     (case ClientInit X sp cp srv (C\<lparr>cm_mode := kClient, is_being_initialized := True\<rparr>) of
        (C1, None) \<Rightarrow> (C1\<lparr>is_initialized := True, is_being_initialized := False\<rparr>, None)
      | (C1, Some e) \<Rightarrow> (C1, Some e))"
  by (simp add: Client_Create_def then_step_def split: prod.splits option.splits)

context lane_queues
begin

text \<open>What a submission to the queue of a slot does, on a queue that is not plugged.\<close>

lemma queue_emplace_ok:
  fixes h :: u32
  assumes "table_wf (queues N)" and "unat (unique qid) < length (queues N)"
  defines "q \<equiv> queues N ! unat (unique qid)"
  assumes "\<not> IsEmplacePlugged (qe_bits E) q" and "unat pr < length (groups q)"
    and "num_lanes (groups q ! unat pr) \<noteq> 0"
  shows "\<exists>q' ok. queue_emplace E qid pr h p N = Inr (N\<lparr>queues := (queues N)[unat (unique qid) := q']\<rparr>) \<and>
    queue_wf q' \<and> mq_id q' = mq_id q \<and> mq_flags q' = mq_flags q \<and>
    ok = snd (mpsc_emplace E (lanes (groups q ! unat pr) ! unat (h mod num_lanes (groups q ! unat pr))) (LaneData_new p False)) \<and>
    (\<forall>gi li. lane_items q' gi li =
      (if ok \<and> gi = unat pr \<and> li = unat (h mod num_lanes (groups q ! unat pr))
       then lane_items q gi li @ [LaneData_new p False] else lane_items q gi li))"
proof -
  from assms(1,2) have wf: "queue_wf q" by (simp add: table_wf_def slot_wf_def q_def)
  from Emplace_lane_ok(1) [OF wf assms(5,6), of h "LaneData_new p False"] obtain q' ok where
    em: "Emplace_lane E q pr h (LaneData_new p False) = Inr (q', ok)"
    and ok: "ok = snd (mpsc_emplace E (lanes (groups q ! unat pr) ! unat (h mod num_lanes (groups q ! unat pr))) (LaneData_new p False))"
    by simp
  have "Emplace E q pr h p = Inr (q', ok)"
    using em by (simp add: Emplace_def Emplace_data_unplugged [OF assms(4)])
  then have "queue_emplace E qid pr h p N = Inr (N\<lparr>queues := (queues N)[unat (unique qid) := q']\<rparr>)"
    using assms(2) by (simp add: queue_emplace_def GetQueue_def emplace_slot_def q_def)
  with Emplace_lane_abs [OF wf assms(5,6) em] ok show ?thesis by blast
qed

end

text \<open>A bump allocator for the closed instances.\<close>

definition bump_alloc :: "nat \<Rightarrow> TaskObj \<Rightarrow> alloc_lib" where
  "bump_alloc cap mem = \<lparr>al_alloc = (\<lambda>h. case filter (\<lambda>p. h p = None) [0..<cap] of
     [] \<Rightarrow> None | p # _ \<Rightarrow> Some (p, mem))\<rparr>"

interpretation bump: allocator "bump_alloc cap mem"
proof
  fix h p m
  assume "al_alloc (bump_alloc cap mem) h = Some (p, m)"
  then obtain ps where "filter (\<lambda>p. h p = None) [0..<cap] = p # ps"
    by (auto simp: bump_alloc_def split: list.splits)
  then have "p \<in> set (filter (\<lambda>p. h p = None) [0..<cap])" by simp
  then show "h p = None" by simp
qed

definition sample_alloc :: alloc_lib where
  "sample_alloc = bump_alloc 16 (sample_obj PCustom)"

definition sample_con :: "TaskNode \<Rightarrow> TaskObj \<Rightarrow> TaskObj" where
  "sample_con tn mem = StopRuntimeTask_new sample_env (UniqueId_new 1 0) mem tn (GetLocal word_bitfield)"

definition sample_boot :: "yaml_tree boot_env" where
  "sample_boot = \<lparr>be_getenv = (\<lambda>_. None), be_yaml = tree_lib, be_parse = plain_parse,
     be_server_default = [], be_client_default = [], be_fatal_returns = False,
     be_attach = (\<lambda>_ _. (\<lparr>hdr_node_id = 1, hdr_unique = 2, hdr_num_nodes = 1\<rparr>, \<lparr>shm_queue_map = [], shm_tickets = []\<rparr>))\<rparr>"

definition sample_client :: Client where
  "sample_client = \<lparr>cm_mode = kModeNone, cm_client_config = \<lparr>thread_model = []\<rparr>, cm_server_config = sample_config,
     is_being_initialized = False, is_initialized = False, is_terminated = False, is_transparent = False,
     cl_queue_manager = \<lparr>queue_map = [], qm_node_id = 0, admin_queue = UniqueId_GetNull,
       process_queue = UniqueId_GetNull, admin_task_state = UniqueId_GetNull\<rparr>, cl_unique = None, cl_node_id = 0\<rparr>"

section \<open>Properties\<close>

text \<open>
  C21. Ids are unique: whatever sequence of task nodes and task states a node draws, up to
  \<open>2 ^ 64\<close> of them, no two of the ids are equal for \<open>operator==\<close>, and none of them is equal to
  an id drawn on a node with another node id.
\<close>

theorem task_ids_unique:
  assumes "length ks \<le> 2 ^ 64"
  shows "distinct (map key_of (fst (draw_ids ks N))) \<and> (hdr_node_id (header M) \<noteq> hdr_node_id (header N) \<longrightarrow>
      (\<forall>i \<in> set (fst (draw_ids ks N)). \<forall>j \<in> set (fst (draw_ids ls M)). \<not> UniqueId_eq i j))"
proof
  show "distinct (map key_of (fst (draw_ids ks N)))"
    using distinct_counter [OF assms] by (simp add: draw_ids_eq comp_def)
  show "hdr_node_id (header M) \<noteq> hdr_node_id (header N) \<longrightarrow>
      (\<forall>i \<in> set (fst (draw_ids ks N)). \<forall>j \<in> set (fst (draw_ids ls M)). \<not> UniqueId_eq i j)"
    by (auto simp: draw_ids_eq UniqueId_eq_def UniqueId_new_def)
qed

theorem task_ids_unique_witness:
  "distinct (map key_of (fst (draw_ids [True, False, True] sample_node)))"
  using task_ids_unique [of "[True, False, True]" sample_node] by simp

text \<open>
  C39. Task nodes and task states draw their ids from the same counter, and the queue of a
  state is the slot of the table that its id names: on a node that has started with the
  counter at 0 and has drawn \<open>length ks\<close> ids, creating the queue of the next state is out of
  range exactly when at least as many ids were drawn as the table has slots.
\<close>

theorem task_ids_exhaust_queue_slots:
  assumes "hdr_unique (header N) = 0" and "hdr_node_id (header N) \<noteq> 0" and "length ks < 2 ^ 64"
  shows "CreateQueue E V mem (queues N) (fst (MakeTaskStateId (snd (draw_ids ks N)))) info = Inl OutOfRange \<longleftrightarrow>
    length (queues N) \<le> length ks"
proof -
  have "unat (of_nat (length ks) :: u64) = length ks"
    using assms(3) by (intro unat_of_nat_less) simp
  with assms(1,2) show ?thesis
    by (simp add: draw_ids_eq CreateQueue_def GetQueue_def UniqueId_new_def UniqueId_IsNull_def vec_at_def)
qed

theorem task_ids_exhaust_queue_slots_witness:
  "CreateQueue (list_env 8) list_qvec zero_group
     (queues (sample_node\<lparr>header := \<lparr>hdr_node_id = 1, hdr_unique = 0, hdr_num_nodes = 1\<rparr>\<rparr>))
     (fst (MakeTaskStateId (snd (draw_ids [True, True]
        (sample_node\<lparr>header := \<lparr>hdr_node_id = 1, hdr_unique = 0, hdr_num_nodes = 1\<rparr>\<rparr>))))) [] = Inl OutOfRange"
  by (subst task_ids_exhaust_queue_slots) (simp_all add: sample_node_def)

text \<open>
  C24. The client and the worker each have a test for remote tasks. On a cluster of more than one
  host they agree on every task for the local node, one node, one node with the local node, or
  all nodes. They differ on named sets, which only the worker takes for remote, and on a single
  host, where the client still takes global tasks for remote and the worker does not.
\<close>

theorem remote_tests_agree:
  assumes "bitfield B"
  shows "(n \<noteq> 1 \<and> domain_id t \<in> {GetLocal B, GetNode B k, GetNodeWithLocal B k, GetGlobal B} \<longrightarrow>
      IsRemote B N t = DomainId_IsRemote B (domain_id t) n (hdr_node_id (header N))) \<and>
    (n \<noteq> 1 \<and> domain_id t \<in> {GetSet B k, GetSetWithLocal B k} \<longrightarrow>
      \<not> IsRemote B N t \<and> DomainId_IsRemote B (domain_id t) n (hdr_node_id (header N))) \<and>
    (n = 1 \<longrightarrow> IsRemote B N t = (IsNode B (domain_id t) \<and> dom_id (domain_id t) \<noteq> hdr_node_id (header N) \<or>
       \<not> IsNode B (domain_id t) \<and> IsGlobal B (domain_id t)) \<and>
      \<not> DomainId_IsRemote B (domain_id t) n (hdr_node_id (header N)))"
  using bitfield.domain_tests [OF assms] bitfield.IsRemote_bits [OF assms]
    bitfield.domain_ctor_bits [OF assms] bitfield.domain_ctor_ids [OF assms]
  by (auto simp: IsRemote_def DomainId_GetId_def)

theorem remote_tests_agree_witness:
  "IsRemote word_bitfield sample_node ((sample_obj PCustom)\<lparr>domain_id := GetNode word_bitfield 2\<rparr>) =
     DomainId_IsRemote word_bitfield (GetNode word_bitfield 2) 4 1"
  using remote_tests_agree [OF word_bf.bitfield_axioms, of 4 "(sample_obj PCustom)\<lparr>domain_id := GetNode word_bitfield 2\<rparr>" 2 sample_node]
  by (simp add: sample_node_def)

text \<open>
  C22. Submitting a new root task through the client: the call returns the address of a new
  object, built by the class's constructor one level below a fresh root, and appends an
  incomplete entry for it to the lane that its priority and lane hash choose; no other
  object, lane, queue, worker or registry entry changes. If the lane is full the task is in
  no lane. An exhausted segment throws.
\<close>

theorem async_root_spec:
  assumes "lane_queues E" and "allocator A" and "table_wf (queues N)"
    and "unat (unique qid) < length (queues N)"
    and "\<not> IsEmplacePlugged (qe_bits E) (queues N ! unat (unique qid))"
    and "al_alloc A (heap N) = Some (p, mem)"
    and "t = con \<lparr>root = UniqueId_new (hdr_node_id (header N)) (hdr_unique (header N)), node_depth = 1\<rparr> mem"
    and "unat (prio t) < length (groups (queues N ! unat (unique qid)))"
    and "g = groups (queues N ! unat (unique qid)) ! unat (prio t)" and "num_lanes g \<noteq> 0"
  shows "\<exists>q' ok. Async_Root E A qid con N = Inr (lptr p, N\<lparr>heap := (heap N)(p \<mapsto> t),
      queues := (queues N)[unat (unique qid) := q'],
      header := (header N)\<lparr>hdr_unique := hdr_unique (header N) + 1\<rparr>\<rparr>) \<and>
    heap N p = None \<and> queue_wf q' \<and> mq_id q' = mq_id (queues N ! unat (unique qid)) \<and>
    ok = snd (mpsc_emplace E (lanes g ! unat (lane_hash t mod num_lanes g)) (LaneData_new p False)) \<and>
    (\<forall>gi li. lane_items q' gi li = (if ok \<and> gi = unat (prio t) \<and> li = unat (lane_hash t mod num_lanes g)
       then lane_items (queues N ! unat (unique qid)) gi li @ [LaneData_new p False]
       else lane_items (queues N ! unat (unique qid)) gi li))"
proof -
  let ?N1 = "put_task p t (snd (MakeTaskNodeId N))"
  have s: "unat (unique qid) < length (queues ?N1)" "table_wf (queues ?N1)"
    "\<not> IsEmplacePlugged (qe_bits E) (queues ?N1 ! unat (unique qid))"
    "unat (prio t) < length (groups (queues ?N1 ! unat (unique qid)))"
    "num_lanes (groups (queues ?N1 ! unat (unique qid)) ! unat (prio t)) \<noteq> 0"
    using assms by simp_all
  have n: "TaskNode_plus (fst (MakeTaskNodeId N)) 1 =
      \<lparr>root = UniqueId_new (hdr_node_id (header N)) (hdr_unique (header N)), node_depth = 1\<rparr>"
    by (simp add: TaskNode_plus_def TaskNode_new_def)
  have a: "Async_Alloc A con (TaskNode_plus (fst (MakeTaskNodeId N)) 1) (snd (MakeTaskNodeId N)) = Inr (lptr p, ?N1)"
    unfolding n using assms(6,7) by (simp add: Async_Alloc_eq)
  have r: "Async_Root E A qid con N =
      res_bind (queue_emplace E qid (prio t) (lane_hash t) p ?N1) (\<lambda>N2. Inr (lptr p, N2))"
    unfolding Async_Root_def Async_def case_prod_unfold a by (simp add: lptr_def)
  have Q: "queues ?N1 = queues N" by simp
  have N': "?N1\<lparr>queues := qs\<rparr> = N\<lparr>heap := (heap N)(p \<mapsto> t), queues := qs,
      header := (header N)\<lparr>hdr_unique := hdr_unique (header N) + 1\<rparr>\<rparr>" for qs
    by (simp add: put_task_def)
  from lane_queues.queue_emplace_ok [OF assms(1) s(2,1,3,4,5), of "lane_hash t" p] allocator.alloc_fresh [OF assms(2,6)]
  show ?thesis unfolding r Q N' assms(9) by (elim exE conjE) (intro exI conjI; simp)
qed

theorem async_root_spec_witness:
  "\<exists>N'. Async_Root (list_env 8) sample_alloc (UniqueId_new 1 0) sample_con sample_node = Inr (lptr 0, N') \<and>
     lane_items (queues N' ! 0) 0 0 = [LaneData_new 9 False, LaneData_new 0 False]"
proof -
  have al: "al_alloc sample_alloc (heap sample_node) = Some (0, sample_obj PCustom)"
    by (simp add: sample_alloc_def bump_alloc_def sample_node_def upt_conv_Cons)
  have A: "allocator sample_alloc" by (simp add: sample_alloc_def bump.allocator_axioms)
  let ?t = "sample_con \<lparr>root = UniqueId_new 1 2, node_depth = 1\<rparr> (sample_obj PCustom)"
  have t: "prio (sample_con n m) = 0" "lane_hash (sample_con n m) = 0" for n m
    by (simp_all add: sample_con_def StopRuntimeTask_new_def kAdmin_def)
  have wf: "table_wf (queues sample_node)"
    by (simp add: sample_node_def table_wf_def slot_wf_def queue_wf_def group_wf_def UniqueId_new_def MultiQueue_new_def make_group_def LaneGroup_new_def PriorityInfo_new_def Let_def)
  have q: "unat (unique (UniqueId_new 1 0)) < length (queues sample_node)"
    "\<not> IsEmplacePlugged (qe_bits (list_env 8)) (queues sample_node ! unat (unique (UniqueId_new 1 0)))"
    "unat (prio ?t) < length (groups (queues sample_node ! unat (unique (UniqueId_new 1 0))))"
    "num_lanes (groups (queues sample_node ! unat (unique (UniqueId_new 1 0))) ! unat (prio ?t)) \<noteq> 0"
    by (simp_all add: sample_node_def UniqueId_new_def IsEmplacePlugged_def MultiQueue_new_def word_bitfield_def t PriorityInfo_new_def make_group_def LaneGroup_new_def Let_def)
  have h: "hdr_node_id (header sample_node) = 1" "hdr_unique (header sample_node) = 2"
    by (simp_all add: sample_node_def)
  from async_root_spec [OF list_lanes.lane_queues_axioms A wf q(1,2) al, where con = sample_con, unfolded h, OF refl q(3) refl q(4)]
  show ?thesis
    by (auto simp: t) (auto simp: sample_node_def UniqueId_new_def lane_items_def list_env_def)
qed

text \<open>
  A task is deleted once: deleting a live object whose count is 0 frees that object and
  nothing else, and any later use of its address, another deletion included, fails; an
  object that was counted before is reported as fatal and, if the logger returns, freed.
\<close>

theorem DelTask_spec:
  assumes "heap N p = Some t"
  shows "DelTask fr trivial_dtor p N =
      (if delcnt t = 0 \<or> fr then Inr (N\<lparr>heap := (heap N)(p := None)\<rparr>) else Inl (Fatal ''Freed task'')) \<and>
    (DelTask fr trivial_dtor p N = Inr N' \<longrightarrow>
      task_at N' p = Inl Dangling \<and> DelTask fr' dtor p N' = Inl Dangling)"
  using assms
  by (auto simp: DelTask_def task_at_def Let_def trivial_dtor_def free_task_def put_task_def helog_fatal_def
      fun_upd_idem split: if_splits)

theorem DelTask_spec_witness:
  "DelTask False trivial_dtor 9 sample_node = Inr (sample_node\<lparr>heap := (heap sample_node)(9 := None)\<rparr>)"
  using DelTask_spec [of sample_node 9 "sample_obj PCustom" False] by (simp add: sample_node_def sample_obj_def)



end
