(* ===== verification/SmallMessage.thy ===== *)
theory SmallMessage
  imports Client
begin

text \<open>
  The library \<^verbatim>\<open>small_message\<close>: its task classes (\<^verbatim>\<open>small_message_tasks.h\<close>), the handlers of its
  server (\<^verbatim>\<open>small_message.cc\<close>), its dispatch (\<^verbatim>\<open>small_message_lib_exec.h\<close>) and its client
  (\<^verbatim>\<open>small_message.h\<close>).

  \<open>MdTask\<close> and \<open>MdPushTask\<close> have the same members in the same order, so an object of one is
  usable as the other; \<open>ret_of\<close> and \<open>map_ret\<close> read and write the member at its place.
\<close>

section \<open>Methods and task classes\<close>

definition kMd :: u32 where "kMd = kLast + 0"
definition kIo :: u32 where "kIo = kLast + 1"
definition kMdPush :: u32 where "kMdPush = kLast + 2"

lemmas sm_method_defs = kMd_def kIo_def kMdPush_def base_method_defs

definition sm_ConstructTask_new ::
    "shm_env \<Rightarrow> TaskStateId \<Rightarrow> TaskObj \<Rightarrow> TaskNode \<Rightarrow> DomainId \<Rightarrow> string \<Rightarrow> TaskStateId \<Rightarrow> PriorityInfo list \<Rightarrow> TaskObj" where
  "sm_ConstructTask_new S admin mem tn d state_name i queue_info =
     CreateTaskStateTask_new S admin mem tn d state_name ''small_message'' i queue_info"

definition sm_DestructTask_new :: "shm_env \<Rightarrow> TaskStateId \<Rightarrow> TaskObj \<Rightarrow> TaskNode \<Rightarrow> DomainId \<Rightarrow> TaskStateId \<Rightarrow> TaskObj" where
  "sm_DestructTask_new S admin mem tn d i = DestroyTaskStateTask_new S admin mem tn d i"

fun is_md :: "payload \<Rightarrow> bool" where
  "is_md (PMd _) = True"
| "is_md (PMdPush _) = True"
| "is_md _ = False"

fun ret_of :: "payload \<Rightarrow> c_int list" where
  "ret_of (PMd r) = md_ret r"
| "ret_of (PMdPush r) = mp_ret r"
| "ret_of _ = []"

fun map_ret :: "(c_int list \<Rightarrow> c_int list) \<Rightarrow> payload \<Rightarrow> payload" where
  "map_ret f (PMd r) = PMd (r\<lparr>md_ret := f (md_ret r)\<rparr>)"
| "map_ret f (PMdPush r) = PMdPush (r\<lparr>mp_ret := f (mp_ret r)\<rparr>)"
| "map_ret f p = p"

lemma ret_of_map_ret [simp]: "is_md p \<Longrightarrow> ret_of (map_ret f p) = f (ret_of p)"
  by (cases p) simp_all

lemma is_md_map_ret [simp]: "is_md (map_ret f p) = is_md p"
  by (cases p) simp_all

lemma map_ret_map_ret [simp]: "map_ret f (map_ret g p) = map_ret (f \<circ> g) p"
  by (cases p) simp_all

definition upd_ret :: "(c_int list \<Rightarrow> c_int list) \<Rightarrow> TaskObj \<Rightarrow> TaskObj" where
  "upd_ret f t = t\<lparr>pl := map_ret f (pl t)\<rparr>"

definition MdTask_new :: "shm_env \<Rightarrow> TaskObj \<Rightarrow> TaskNode \<Rightarrow> DomainId \<Rightarrow> TaskStateId \<Rightarrow> TaskObj" where
  "MdTask_new S mem tn d sid =
     (init_task (se_bits S) mem tn 0 kLowLatency sid kMd (TASK_LOW_LATENCY (se_bits S)) d)
       \<lparr>pl := PMd \<lparr>md_ret = pod_construct (se_pods S) 1\<rparr>\<rparr>"

text \<open>As in the source, the method of a push task is \<open>kMd\<close>.\<close>

definition MdPushTask_new :: "shm_env \<Rightarrow> TaskObj \<Rightarrow> TaskNode \<Rightarrow> DomainId \<Rightarrow> TaskStateId \<Rightarrow> TaskObj" where
  "MdPushTask_new S mem tn d sid =
     (init_task (se_bits S) mem tn 0 kLowLatency sid kMd (TASK_LOW_LATENCY (se_bits S)) d)
       \<lparr>pl := PMdPush \<lparr>mp_ret = pod_construct (se_pods S) 1\<rparr>\<rparr>"

definition Md_ReplicateStart :: "shm_env \<Rightarrow> u32 \<Rightarrow> TaskObj \<Rightarrow> TaskObj" where
  "Md_ReplicateStart S count = upd_ret (\<lambda>r. pod_resize (se_pods S) r (unat count))"

definition Md_ReplicateEnd :: "TaskObj \<Rightarrow> TaskObj" where
  "Md_ReplicateEnd t = t"

text \<open>Indexing the outputs out of range is undefined.\<close>

definition Md_SerializeEnd :: "u32 \<Rightarrow> TaskObj \<Rightarrow> TaskObj fld list res" where
  "Md_SerializeEnd replica t =
     (if unat replica < length (ret_of (pl t))
      then Inr [fld32 (\<lambda>t. ret_of (pl t) ! unat replica)
                  (\<lambda>f. upd_ret (\<lambda>r. r[unat replica := f (r ! unat replica)]))]
      else Inl OutOfRange)"

definition Md_class :: "shm_env \<Rightarrow> task_class" where
  "Md_class S = (base_class (se_bits S) is_md (TF_SRL_SYM (se_bits S) OR TF_REPLICA (se_bits S)))
     \<lparr>tc_SerializeStart := task_serialize, tc_SerializeEnd := Md_SerializeEnd,
      tc_ReplicateStart := Md_ReplicateStart S, tc_ReplicateEnd := Md_ReplicateEnd\<rparr>"

definition MdPush_class :: "shm_env \<Rightarrow> task_class" where
  "MdPush_class S = (base_class (se_bits S) is_md (TF_SRL_SYM (se_bits S) OR TF_REPLICA (se_bits S)))
     \<lparr>tc_SerializeStart := task_serialize, tc_SerializeEnd := Md_SerializeEnd,
      tc_ReplicateStart := Md_ReplicateStart S, tc_ReplicateEnd := Md_ReplicateEnd\<rparr>"

definition DATA_SIZE :: nat where "DATA_SIZE = 4096"

definition IoTask_new :: "shm_env \<Rightarrow> TaskObj \<Rightarrow> TaskNode \<Rightarrow> DomainId \<Rightarrow> TaskStateId \<Rightarrow> TaskObj" where
  "IoTask_new S mem tn d sid =
     pay_upd un_Io PIo io_data_update (\<lambda>_. replicate DATA_SIZE 10)
       (init_task (se_bits S) mem tn 3 kLowLatency sid kIo 0 d)"

definition Io_SaveStart ::
    "cereal_lib \<Rightarrow> bitfield_lib \<Rightarrow> TaskObj \<Rightarrow> BinaryOutputArchive \<Rightarrow> BinaryOutputArchive" where
  "Io_SaveStart C B t ar =
     (let xfer = DataTransfer_new (DT_RECEIVER_READ B) (Some (io_data (un_Io (pl t)))) DATA_SIZE (domain_id t)
      in Serialize_xfer xfer (Serialize_flds C task_serialize t ar))"

definition Io_LoadStart ::
    "cereal_lib \<Rightarrow> TaskObj \<Rightarrow> BinaryInputArchive \<Rightarrow> (TaskObj \<times> BinaryInputArchive) res" where
  "Io_LoadStart C t ar =
     res_bind (Deserialize_flds C task_serialize t ar) (\<lambda>(t1, ar1).
     res_bind (Deserialize_xfer ar1) (\<lambda>(xfer, ar2).
     res_bind (case xf_data xfer of
                 None \<Rightarrow> if xf_size xfer = 0 then Inr [] else Inl NullDeref
               | Some d \<Rightarrow> memcpy_from d 0 (xf_size xfer)) (\<lambda>src.
     res_bind (memcpy_to (io_data (un_Io (pl t1))) 0 src) (\<lambda>d.
       Inr (pay_upd un_Io PIo io_data_update (\<lambda>_. d) t1, ar2)))))"

definition Io_SerializeEnd :: "u32 \<Rightarrow> TaskObj fld list" where
  "Io_SerializeEnd replica = [fld32 (\<lambda>t. io_ret (un_Io (pl t))) (pay_upd un_Io PIo io_ret_update)]"

definition Io_class :: "cereal_lib \<Rightarrow> shm_env \<Rightarrow> task_class" where
  "Io_class C S = (base_class (se_bits S) is_PIo (TF_SRL_ASYM_START (se_bits S) OR TF_SRL_SYM_END (se_bits S)))
     \<lparr>tc_SaveStart := Io_SaveStart C (se_bits S), tc_LoadStart := Io_LoadStart C,
      tc_SerializeEnd := (\<lambda>r t. Inr (Io_SerializeEnd r))\<rparr>"

lemmas sm_class_defs = base_class_def Md_class_def MdPush_class_def Io_class_def

section \<open>Server\<close>

definition sm_Construct :: "bitfield_lib \<Rightarrow> TaskObj \<Rightarrow> TaskObj res" where
  "sm_Construct B t = Inr (SetModuleComplete B t)"

definition sm_Destruct :: "bitfield_lib \<Rightarrow> TaskObj \<Rightarrow> TaskObj res" where
  "sm_Destruct B t = Inr (SetModuleComplete B t)"

definition Md :: "bitfield_lib \<Rightarrow> TaskObj \<Rightarrow> TaskObj res" where
  "Md B t =
     (if \<not> is_md (pl t) then Inl BadCast
      else if length (ret_of (pl t)) = 0 then Inl OutOfRange
      else Inr (SetModuleComplete B (upd_ret (\<lambda>r. r[0 := 1]) t)))"

definition MdPush :: "bitfield_lib \<Rightarrow> TaskObj \<Rightarrow> TaskObj res" where
  "MdPush B t =
     (if \<not> is_md (pl t) then Inl BadCast
      else if length (ret_of (pl t)) = 0 then Inl OutOfRange
      else Inr (SetModuleComplete B (upd_ret (\<lambda>r. r[0 := 1]) t)))"

text \<open>The loop over the first 256 bytes.\<close>

function Io_scan :: "bytes \<Rightarrow> nat \<Rightarrow> c_int res" where
  "Io_scan data i =
     (if i < 256
      then res_bind (vec_at data i) (\<lambda>b. if b \<noteq> 10 then Inr 0 else Io_scan data (Suc i))
      else Inr 1)"
  by auto
termination by (relation "measure (\<lambda>(data, i). 256 - i)") auto

declare Io_scan.simps [simp del]

definition Io :: "bitfield_lib \<Rightarrow> TaskObj \<Rightarrow> TaskObj res" where
  "Io B t =
     (if \<not> is_PIo (pl t) then Inl BadCast
      else res_bind (Io_scan (io_data (un_Io (pl t))) 0) (\<lambda>ret.
        Inr (SetModuleComplete B (pay_upd un_Io PIo io_ret_update (\<lambda>_. ret) t))))"

section \<open>Dispatch\<close>

definition sm_switch :: "cereal_lib \<Rightarrow> shm_env \<Rightarrow> method_switch" where
  "sm_switch C S m =
     (if m = kConstruct then Some (CreateTaskState_class S)
      else if m = kDestruct then Some (DestroyTaskState_class S)
      else if m = kMd then Some (Md_class S)
      else if m = kIo then Some (Io_class C S)
      else if m = kMdPush then Some (MdPush_class S)
      else None)"

definition sm_Run :: "bitfield_lib \<Rightarrow> u32 \<Rightarrow> TaskObj \<Rightarrow> TaskObj res" where
  "sm_Run B m t =
     (if m = kConstruct then sm_Construct B t
      else if m = kDestruct then sm_Destruct B t
      else if m = kMd then Md B t
      else if m = kIo then Io B t
      else if m = kMdPush then MdPush B t
      else Inr t)"

definition sm_Del :: "bool \<Rightarrow> u32 \<Rightarrow> Pointer \<Rightarrow> Node \<Rightarrow> Node res" where
  "sm_Del fr m p N =
     (if m = kConstruct \<or> m = kDestruct \<or> m = kMd \<or> m = kIo \<or> m = kMdPush
      then DelTask fr trivial_dtor p N else Inr N)"

definition sm_ReplicateStart :: "cereal_lib \<Rightarrow> shm_env \<Rightarrow> u32 \<Rightarrow> u32 \<Rightarrow> TaskObj \<Rightarrow> TaskObj res" where
  "sm_ReplicateStart C S = lib_ReplicateStart (sm_switch C S)"

definition sm_ReplicateEnd :: "cereal_lib \<Rightarrow> shm_env \<Rightarrow> u32 \<Rightarrow> TaskObj \<Rightarrow> TaskObj res" where
  "sm_ReplicateEnd C S = lib_ReplicateEnd (sm_switch C S)"

definition sm_SaveStart ::
    "cereal_lib \<Rightarrow> shm_env \<Rightarrow> u32 \<Rightarrow> BinaryOutputArchive \<Rightarrow> TaskObj \<Rightarrow> DataTransfer list res" where
  "sm_SaveStart C S = lib_SaveStart C (se_bits S) (sm_switch C S)"

definition sm_LoadStart ::
    "cereal_lib \<Rightarrow> shm_env \<Rightarrow> (task_class \<Rightarrow> TaskObj) \<Rightarrow> u32 \<Rightarrow> BinaryInputArchive \<Rightarrow> TaskObj option res" where
  "sm_LoadStart C S = lib_LoadStart C (sm_switch C S)"

definition sm_SaveEnd ::
    "cereal_lib \<Rightarrow> shm_env \<Rightarrow> u32 \<Rightarrow> BinaryOutputArchive \<Rightarrow> TaskObj \<Rightarrow> DataTransfer list res" where
  "sm_SaveEnd C S = lib_SaveEnd C (se_bits S) (sm_switch C S)"

definition sm_LoadEnd ::
    "cereal_lib \<Rightarrow> shm_env \<Rightarrow> u32 \<Rightarrow> u32 \<Rightarrow> BinaryInputArchive \<Rightarrow> TaskObj \<Rightarrow> TaskObj res" where
  "sm_LoadEnd C S = lib_LoadEnd C (sm_switch C S)"

definition sm_GetGroup :: "cereal_lib \<Rightarrow> shm_env \<Rightarrow> u32 \<Rightarrow> TaskObj \<Rightarrow> bytes \<Rightarrow> (u32 \<times> bytes) res" where
  "sm_GetGroup C S = lib_GetGroup (sm_switch C S)"

lemmas sm_exec_defs = sm_ReplicateStart_def sm_ReplicateEnd_def sm_SaveStart_def sm_LoadStart_def
  sm_SaveEnd_def sm_LoadEnd_def sm_GetGroup_def

lemma sm_switch_simps [simp]:
  "sm_switch C S kConstruct = Some (CreateTaskState_class S)"
  "sm_switch C S kDestruct = Some (DestroyTaskState_class S)"
  "sm_switch C S kMd = Some (Md_class S)"
  "sm_switch C S kIo = Some (Io_class C S)"
  "sm_switch C S kMdPush = Some (MdPush_class S)"
  by (simp_all add: sm_switch_def sm_method_defs)

lemma sm_Run_simps [simp]:
  "sm_Run B kConstruct = sm_Construct B" "sm_Run B kDestruct = sm_Destruct B"
  "sm_Run B kMd = Md B" "sm_Run B kIo = Io B" "sm_Run B kMdPush = MdPush B"
  by (simp_all add: sm_Run_def sm_method_defs fun_eq_iff)

section \<open>Client\<close>

text \<open>The queue description that \<^verbatim>\<open>CreateRoot\<close> asks for.\<close>

definition sm_queue_info :: "bitfield_lib \<Rightarrow> QueueManagerInfo \<Rightarrow> PriorityInfo list" where
  "sm_queue_info B qm = [PriorityInfo_new 1 1 (queue_depth qm) 0,
     PriorityInfo_new 1 1 (queue_depth qm) (QUEUE_LONG_RUNNING B),
     PriorityInfo_new (qm_max_lanes qm) (qm_max_lanes qm) (queue_depth qm) (QUEUE_LOW_LATENCY B)]"

definition AsyncMd ::
    "queue_env \<Rightarrow> alloc_lib \<Rightarrow> shm_env \<Rightarrow> TaskLibClient \<Rightarrow> TaskNode \<Rightarrow> DomainId \<Rightarrow> Node \<Rightarrow> (LPointer \<times> Node) res" where
  "AsyncMd E A S cl tn d N =
     res_bind (GetQueue (queues N) (tc_queue_id cl)) (\<lambda>_.
     res_bind (NewTask A (\<lambda>mem. MdTask_new S mem tn d (tc_id cl)) N) (\<lambda>(lp, N1).
     res_bind (queue_emplace E (tc_queue_id cl) kLowLatency 3 (lp_shm lp) N1) (\<lambda>N2. Inr (lp, N2))))"

definition AsyncMdPushConstruct ::
    "shm_env \<Rightarrow> TaskLibClient \<Rightarrow> Pointer \<Rightarrow> TaskNode \<Rightarrow> DomainId \<Rightarrow> Node \<Rightarrow> Node res" where
  "AsyncMdPushConstruct S cl p tn d = ConstructTask (\<lambda>mem. MdPushTask_new S mem tn d (tc_id cl)) p"

definition AsyncIoConstruct ::
    "shm_env \<Rightarrow> TaskLibClient \<Rightarrow> Pointer \<Rightarrow> TaskNode \<Rightarrow> DomainId \<Rightarrow> Node \<Rightarrow> Node res" where
  "AsyncIoConstruct S cl p tn d = ConstructTask (\<lambda>mem. IoTask_new S mem tn d (tc_id cl)) p"

section \<open>Facts\<close>

lemma Io_scan_spec:
  "256 \<le> length data \<Longrightarrow> Io_scan data i = Inr (if \<forall>j. i \<le> j \<and> j < 256 \<longrightarrow> data ! j = 10 then 1 else 0)"
proof (induction data i rule: Io_scan.induct)
  case (1 data i)
  show ?case
  proof (cases "i < 256 \<and> data ! i = 10")
    case True
    then have "(\<forall>j. Suc i \<le> j \<and> j < 256 \<longrightarrow> data ! j = 10) \<longleftrightarrow> (\<forall>j. i \<le> j \<and> j < 256 \<longrightarrow> data ! j = 10)"
      by (metis Suc_leD Suc_leI le_neq_implies_less)
    with True 1 show ?thesis by (simp add: Io_scan.simps [of data i])
  next
    case False
    with 1 show ?thesis by (auto simp: Io_scan.simps [of data i])
  qed
qed

lemma Md_fields:
  assumes "unat replica < length (ret_of (pl t))"
  obtains f where "Md_SerializeEnd replica t = Inr [f]" and "typed f"
    and "\<And>r. fget f r = V32 (ret_of (pl r) ! unat replica)"
    and "\<And>x r. fset f (V32 x) r = upd_ret (\<lambda>xs. xs[unat replica := x]) r"
  using assms by (auto simp: Md_SerializeEnd_def fld32_def typed_def)

lemma upd_ret_simps [simp]:
  "pl (upd_ret f t) = map_ret f (pl t)"
  "pl (SetModuleComplete B t) = pl t"
  by (simp_all add: upd_ret_def SetModuleComplete_def)

text \<open>Opening the transfer of a symmetric output and loading it out of range.\<close>

lemma LoadEnd_out_of_range:
  assumes "bitfield (se_bits S)" and "is_md (pl t)" and "\<not> unat replica < length (ret_of (pl t))"
  shows "sm_LoadEnd C S replica kMd ia t = Inl OutOfRange"
  using assms(2,3) bitfield.TaskFlags_kinds(2) [OF assms(1)]
  by (simp add: sm_exec_defs lib_LoadEnd_def Deserialize_task_def sm_class_defs Md_SerializeEnd_def)

lemma Io_open:
  "BinaryInputArchive_new (fst (Get B (Io_SaveStart C B t (BinaryOutputArchive_new node)))) =
     Inr \<lparr>ia_xfer = fst (Get B (Io_SaveStart C B t (BinaryOutputArchive_new node))),
       ia_ss = ar_out C task_serialize t, ia_off = 0\<rparr>"
  by (simp add: open_Get Io_SaveStart_def Let_def Serialize_xfer_def Serialize_flds_def BinaryOutputArchive_new_def)

lemma Io_first_xfer:
  "fst (Get B (Io_SaveStart C B t (BinaryOutputArchive_new node))) ! 0 =
     DataTransfer_new (DT_RECEIVER_READ B) (Some (io_data (un_Io (pl t)))) DATA_SIZE node"
  "0 < length (fst (Get B (Io_SaveStart C B t (BinaryOutputArchive_new node))))"
  by (simp_all add: Get_def Let_def Io_SaveStart_def Serialize_xfer_def Serialize_flds_def
      BinaryOutputArchive_new_def DataTransfer_new_def)

context cereal
begin

text \<open>The members of the base class and the data reach the other node.\<close>

lemma Io_LoadStart_ok:
  assumes "is_PIo (pl t)" and "is_PIo (pl t0)"
    and "length (io_data (un_Io (pl t))) = DATA_SIZE" and "length (io_data (un_Io (pl t0))) = DATA_SIZE"
    and "ia_ss ia = ar_out C task_serialize t" and "ia_off ia = 0" and "0 < length (ia_xfer ia)"
    and "xf_data (ia_xfer ia ! 0) = Some (io_data (un_Io (pl t)))" and "xf_size (ia_xfer ia ! 0) = DATA_SIZE"
  shows "\<exists>ia'. Io_LoadStart C t0 ia =
    Inr (pay_upd un_Io PIo io_data_update (\<lambda>_. io_data (un_Io (pl t))) (copy_flds task_serialize t t0), ia')"
proof -
  have "Deserialize_flds C task_serialize t0 ia = Inr (copy_flds task_serialize t t0, ia\<lparr>ia_ss := []\<rparr>)"
    by (rule flds_roundtrip) (auto simp: assms(5) serialize_typed(5))
  moreover have "pl (copy_flds task_serialize t t0) = pl t0" by (simp add: copy_task)
  ultimately show ?thesis
    using assms by (simp add: Io_LoadStart_def Deserialize_xfer_def memcpy_from_def memcpy_to_def)
qed

end

section \<open>Properties\<close>

text \<open>
  The result of a replicated metadata call: after making room for \<open>count\<close> replicas, a
  node that runs the task returns 1 in its first output, and loading the answer of replica
  \<open>replica\<close> writes 1 to that output of the original task and to no other; an answer of a
  replica beyond the room is out of range.
\<close>

theorem md_replica_result:
  assumes "cereal C" and "bitfield (se_bits S)" and "pod_array (se_pods S)"
    and "is_md (pl t)" and "is_md (pl r)" and "0 < length (ret_of (pl r))"
  shows "\<exists>t1 r1 xfer. sm_ReplicateStart C S kMd count t = Inr t1 \<and> length (ret_of (pl t1)) = unat count \<and>
    sm_Run (se_bits S) kMd r = Inr r1 \<and> IsModuleComplete (se_bits S) r1 \<and>
    sm_SaveEnd C S kMd (BinaryOutputArchive_new node) r1 = Inr xfer \<and>
    res_bind (BinaryInputArchive_new xfer) (\<lambda>ia. sm_LoadEnd C S replica kMd ia t1) =
      (if replica < count then Inr (upd_ret (\<lambda>xs. xs[unat replica := 1]) t1) else Inl OutOfRange)"
proof -
  note kinds = bitfield.TaskFlags_kinds(2) [OF assms(2)]
  define t1 where "t1 = Md_ReplicateStart S count t"
  define r1 where "r1 = SetModuleComplete (se_bits S) (upd_ret (\<lambda>xs. xs[0 := 1]) r)"
  have t1: "is_md (pl t1)" "length (ret_of (pl t1)) = unat count"
    using assms(4) pod_array.length_pod_resize [OF assms(3)] by (simp_all add: t1_def Md_ReplicateStart_def)
  have start: "sm_ReplicateStart C S kMd count t = Inr t1"
    using assms(4) kinds by (simp add: sm_exec_defs lib_ReplicateStart_def CALL_REPLICA_START_def sm_class_defs t1_def)
  have run: "sm_Run (se_bits S) kMd r = Inr r1" using assms(5,6) by (simp add: Md_def r1_def)
  have r1: "is_md (pl r1)" "ret_of (pl r1) = (ret_of (pl r))[0 := 1]" using assms(5) by (simp_all add: r1_def)
  have mc: "IsModuleComplete (se_bits S) r1" by (simp add: r1_def bitfield.complete_protocol(3) [OF assms(2)])
  have "unat (0 :: u32) < length (ret_of (pl r1))" using r1(2) assms(6) by simp
  from Md_fields [OF this] obtain f where f: "Md_SerializeEnd 0 r1 = Inr [f]"
    and fg: "\<And>r. fget f r = V32 (ret_of (pl r) ! unat (0 :: u32))" by metis
  from f r1 kinds obtain xfer where save: "lib_SaveEnd C (se_bits S) (sm_switch C S) kMd (BinaryOutputArchive_new node) r1 = Inr xfer"
    by (simp add: lib_SaveEnd_def Serialize_task_def sm_class_defs)
  have load: "res_bind (BinaryInputArchive_new xfer) (\<lambda>ia. sm_LoadEnd C S replica kMd ia t1) =
      (if replica < count then Inr (upd_ret (\<lambda>xs. xs[unat replica := 1]) t1) else Inl OutOfRange)"
  proof (cases "replica < count")
    case True
    then have rc: "unat replica < length (ret_of (pl t1))" using t1(2) by (simp add: word_less_nat_alt)
    from Md_fields [OF this] obtain g where g: "Md_SerializeEnd replica t1 = Inr [g]" "typed g"
      "\<And>r. fget g r = V32 (ret_of (pl r) ! unat replica)"
      "\<And>x r. fset g (V32 x) r = upd_ret (\<lambda>xs. xs[unat replica := x]) r" by metis
    define r' where "r' = upd_ret (\<lambda>_. replicate (Suc (unat replica)) 1) r"
    have "ret_of (pl r') ! unat replica = 1"
      using assms(5) by (simp add: r'_def del: replicate_Suc)
    moreover have "ret_of (pl r1) ! unat (0 :: u32) = 1" using r1(2) assms(6) by simp
    ultimately have "ar_out C [f] r1 = ar_out C [g] r'" by (simp add: fg g(3))
    then have "res_bind (BinaryInputArchive_new xfer) (\<lambda>ia. lib_LoadEnd C (sm_switch C S) replica kMd ia t1) =
        Inr (copy_flds [g] r' t1)"
      by (intro cereal.end_roundtrip [where fs = "[f]", OF assms(1) sm_switch_simps(3) _ _ _ _ _ _ _ _ save])
        (use t1 r1 f g(1,2) kinds in \<open>simp_all add: sm_class_defs\<close>)
    with True show ?thesis
      using \<open>ret_of (pl r') ! unat replica = 1\<close> by (simp add: sm_exec_defs g(3,4))
  next
    case False
    then have "\<not> unat replica < length (ret_of (pl t1))" using t1(2) by (simp add: word_less_nat_alt)
    from LoadEnd_out_of_range [OF assms(2) t1(1) this] False
    have "sm_LoadEnd C S replica kMd ia t1 = Inl OutOfRange" for ia by simp
    moreover obtain ia where "BinaryInputArchive_new xfer = Inr ia"
      using save f r1 kinds by (auto simp: lib_SaveEnd_def Serialize_task_def sm_class_defs open_Get)
    ultimately show ?thesis using False by simp
  qed
  show ?thesis using start t1(2) run mc save load by (auto simp: sm_exec_defs)
qed

theorem md_replica_result_witness:
  "\<exists>t1. sm_ReplicateStart ref_cereal sample_env kMd 3 (sample_obj (PMd \<lparr>md_ret = [7]\<rparr>)) = Inr t1 \<and>
     length (ret_of (pl t1)) = 3 \<and>
     (\<exists>r1. sm_Run word_bitfield kMd (sample_obj (PMd \<lparr>md_ret = [0]\<rparr>)) = Inr r1)"
proof -
  have e: "bitfield (se_bits sample_env)" "pod_array (se_pods sample_env)"
    by (simp_all add: sample_env_def word_bf.bitfield_axioms list_pod.pod_array_axioms)
  show ?thesis
    using md_replica_result [OF ref_codec.cereal_axioms e, of "sample_obj (PMd \<lparr>md_ret = [7]\<rparr>)" "sample_obj (PMd \<lparr>md_ret = [0]\<rparr>)" 3]
    by (fastforce simp: sample_obj_def sample_env_def)
qed

text \<open>
  A remote I/O call: the data of the task and its travelling members reach the other
  node unchanged, whatever memory the object is built in there; the handler there
  answers 1 exactly when the first 256 bytes are 10, and that answer is what the caller's
  task holds in the end, with its data unchanged.
\<close>

theorem io_call_roundtrip:
  assumes "cereal C" and "bitfield (se_bits S)" and "is_PIo (pl t)" and "is_PIo (pl (mem (Io_class C S)))"
    and "length (io_data (un_Io (pl t))) = DATA_SIZE" and "length (io_data (un_Io (pl (mem (Io_class C S))))) = DATA_SIZE"
  shows "\<exists>xfer r r1 yfer. sm_SaveStart C S kIo (BinaryOutputArchive_new node) t = Inr xfer \<and>
    res_bind (BinaryInputArchive_new xfer) (sm_LoadStart C S mem kIo) = Inr (Some r) \<and>
    same_call t r \<and> io_data (un_Io (pl r)) = io_data (un_Io (pl t)) \<and>
    sm_Run (se_bits S) kIo r = Inr r1 \<and> IsModuleComplete (se_bits S) r1 \<and>
    sm_SaveEnd C S kIo (BinaryOutputArchive_new node') r1 = Inr yfer \<and>
    res_bind (BinaryInputArchive_new yfer) (\<lambda>ia. sm_LoadEnd C S replica kIo ia t) =
      Inr (pay_upd un_Io PIo io_ret_update (\<lambda>_. if \<forall>j < 256. io_data (un_Io (pl t)) ! j = 10 then 1 else 0) t)"
proof -
  note kinds = bitfield.TaskFlags_kinds(3) [OF assms(2)]
  let ?B = "se_bits S" and ?m = "mem (Io_class C S)"
  define xfer where "xfer = fst (Get ?B (Io_SaveStart C ?B t (BinaryOutputArchive_new node)))"
  define r where "r = pay_upd un_Io PIo io_data_update (\<lambda>_. io_data (un_Io (pl t))) (copy_flds task_serialize t ?m)"
  define ret where "ret = (if \<forall>j < 256. io_data (un_Io (pl t)) ! j = 10 then 1 else (0 :: c_int))"
  define r1 where "r1 = SetModuleComplete ?B (pay_upd un_Io PIo io_ret_update (\<lambda>_. ret) r)"
  have save: "sm_SaveStart C S kIo (BinaryOutputArchive_new node) t = Inr xfer"
    using assms(3) kinds by (simp add: sm_exec_defs lib_SaveStart_def Serialize_task_def sm_class_defs xfer_def)
  have "\<exists>ia'. Io_LoadStart C ?m \<lparr>ia_xfer = xfer, ia_ss = ar_out C task_serialize t, ia_off = 0\<rparr> = Inr (r, ia')"
    unfolding r_def using Io_first_xfer [where B = ?B and C = C and t = t and node = node] assms
    by (intro cereal.Io_LoadStart_ok) (simp_all add: xfer_def DataTransfer_new_def)
  then have load: "res_bind (BinaryInputArchive_new xfer) (sm_LoadStart C S mem kIo) = Inr (Some r)"
    using assms(4) kinds
    by (auto simp: xfer_def Io_open sm_exec_defs lib_LoadStart_def Deserialize_task_def sm_class_defs)
  have r: "is_PIo (pl r)" "io_data (un_Io (pl r)) = io_data (un_Io (pl t))"
    by (simp_all add: r_def pay_upd_def)
  have sc: "same_call t r"
    using assms(3) by (cases "pl t") (simp_all add: same_call_def r_def pay_upd_def copy_task)
  have "Io_scan (io_data (un_Io (pl r))) 0 = Inr ret"
    using assms(5) by (subst Io_scan_spec) (auto simp: r ret_def DATA_SIZE_def)
  then have run: "sm_Run ?B kIo r = Inr r1" using r by (simp add: Io_def r1_def)
  have mc: "IsModuleComplete ?B r1" by (simp add: r1_def bitfield.complete_protocol(3) [OF assms(2)])
  have r1: "is_PIo (pl r1)" "io_ret (un_Io (pl r1)) = ret" by (simp_all add: r1_def pay_upd_def)
  then obtain yfer where send: "lib_SaveEnd C ?B (sm_switch C S) kIo (BinaryOutputArchive_new node') r1 = Inr yfer"
    using kinds by (simp add: lib_SaveEnd_def Serialize_task_def sm_class_defs)
  have "res_bind (BinaryInputArchive_new yfer) (\<lambda>ia. lib_LoadEnd C (sm_switch C S) replica kIo ia t) =
      Inr (copy_flds (Io_SerializeEnd replica) r1 t)"
    by (intro cereal.end_roundtrip [where fs = "Io_SerializeEnd 0", OF assms(1) sm_switch_simps(4) _ _ _ _ _ _ _ _ send])
      (use r1 assms(3) kinds in \<open>auto simp: sm_class_defs Io_SerializeEnd_def\<close>)
  moreover have "copy_flds (Io_SerializeEnd replica) r1 t = pay_upd un_Io PIo io_ret_update (\<lambda>_. ret) t"
    by (simp add: Io_SerializeEnd_def fld32_def r1)
  ultimately have ans: "res_bind (BinaryInputArchive_new yfer) (\<lambda>ia. sm_LoadEnd C S replica kIo ia t) =
      Inr (pay_upd un_Io PIo io_ret_update (\<lambda>_. ret) t)" by (simp add: sm_LoadEnd_def)
  have send': "sm_SaveEnd C S kIo (BinaryOutputArchive_new node') r1 = Inr yfer" using send by (simp add: sm_SaveEnd_def)
  show ?thesis unfolding ret_def [symmetric]
    by (intro exI conjI; (rule save load sc r(2) run mc send' ans)?)
qed

theorem io_call_roundtrip_witness:
  "\<exists>yfer t'. io_ret (un_Io (pl t')) = 1 \<and> res_bind (BinaryInputArchive_new yfer) (\<lambda>ia. sm_LoadEnd ref_cereal sample_env 0 kIo ia
     (IoTask_new sample_env (sample_obj (PIo \<lparr>io_data = [], io_ret = 5\<rparr>)) (TaskNode_new (UniqueId_new 1 5))
       (GetNode word_bitfield 2) (UniqueId_new 1 7))) = Inr t'"
proof -
  let ?t = "IoTask_new sample_env (sample_obj (PIo \<lparr>io_data = [], io_ret = 5\<rparr>)) (TaskNode_new (UniqueId_new 1 5))
       (GetNode word_bitfield 2) (UniqueId_new 1 7)"
  let ?m = "\<lambda>_. sample_obj (PIo \<lparr>io_data = replicate DATA_SIZE 0, io_ret = 9\<rparr>)"
  have e: "bitfield (se_bits sample_env)" by (simp add: sample_env_def word_bf.bitfield_axioms)
  have t: "is_PIo (pl ?t)" "io_data (un_Io (pl ?t)) = replicate DATA_SIZE 10"
    by (simp_all add: IoTask_new_def pay_upd_def)
  have m: "is_PIo (pl (?m c))" "length (io_data (un_Io (pl (?m c)))) = DATA_SIZE" for c
    by (simp_all add: sample_obj_def)
  have l: "length (io_data (un_Io (pl ?t))) = DATA_SIZE" by (simp add: t)
  have ten: "(if \<forall>j < 256. io_data (un_Io (pl ?t)) ! j = 10 then 1 else 0) = (1 :: c_int)"
    by (simp add: t DATA_SIZE_def)
  from io_call_roundtrip [where mem = ?m and node = n and node' = n' and replica = 0 for n n',
      OF ref_codec.cereal_axioms e t(1) m(1) l m(2), unfolded ten]
  obtain yfer where "res_bind (BinaryInputArchive_new yfer) (\<lambda>ia. sm_LoadEnd ref_cereal sample_env 0 kIo ia ?t) =
      Inr (pay_upd un_Io PIo io_ret_update (\<lambda>_. 1) ?t)" by blast
  moreover have "io_ret (un_Io (pl (pay_upd un_Io PIo io_ret_update (\<lambda>_. 1) ?t))) = 1" by (simp add: pay_upd_def)
  ultimately show ?thesis by blast
qed

end
