(* ===== verification/ProcQueue.thy ===== *)
theory ProcQueue
  imports Client
begin

text \<open>
  The library \<^verbatim>\<open>proc_queue\<close>, the per-process queue through which clients submit tasks: the
  push task that wraps another task (\<^verbatim>\<open>proc_queue_tasks.h\<close>), its two-phase handler
  (\<^verbatim>\<open>proc_queue.cc\<close>), its dispatch (\<^verbatim>\<open>proc_queue_lib_exec.h\<close>), its client (\<^verbatim>\<open>proc_queue.h\<close>) and
  the root function of the push macro of \<^verbatim>\<open>hermes_run_client.h\<close>.
\<close>

section \<open>Tasks\<close>

definition pq_kPush :: u32 where "pq_kPush = kLast + 0"

definition pq_ConstructTask_new ::
    "shm_env \<Rightarrow> TaskStateId \<Rightarrow> TaskObj \<Rightarrow> TaskNode \<Rightarrow> DomainId \<Rightarrow> string \<Rightarrow> TaskStateId \<Rightarrow> PriorityInfo list \<Rightarrow> TaskObj" where
  "pq_ConstructTask_new S admin mem tn d state_name i queue_info =
     CreateTaskStateTask_new S admin mem tn d state_name ''proc_queue'' i queue_info"

definition pq_DestructTask_new :: "shm_env \<Rightarrow> TaskStateId \<Rightarrow> TaskObj \<Rightarrow> TaskNode \<Rightarrow> DomainId \<Rightarrow> TaskStateId \<Rightarrow> TaskObj" where
  "pq_DestructTask_new S admin mem tn d i = DestroyTaskStateTask_new S admin mem tn d i"

definition PhaseSchedule :: nat where "PhaseSchedule = 0"
definition PhaseWaitSchedule :: nat where "PhaseWaitSchedule = 1"

text \<open>\<open>tid\<close> and \<open>pid\<close> are the bits of \<^verbatim>\<open>hshm::NodeThreadId\<close> of the calling thread.\<close>

definition TypedPushTask_new ::
    "shm_env \<Rightarrow> u32 \<Rightarrow> u32 \<Rightarrow> TaskObj \<Rightarrow> TaskNode \<Rightarrow> DomainId \<Rightarrow> TaskStateId \<Rightarrow> LPointer \<Rightarrow> TaskObj" where
  "TypedPushTask_new S tid pid mem tn d sid subtask =
     (init_task (se_bits S) mem tn (tid + pid) kLowLatency sid pq_kPush
        (TASK_DATA_OWNER (se_bits S) OR TASK_LOW_LATENCY (se_bits S) OR TASK_REMOTE_DEBUG_MARK (se_bits S)) d)
       \<lparr>pl := PTypedPush ((un_TypedPush (pl mem))\<lparr>sub_cli := subtask, phase := PhaseSchedule\<rparr>)\<rparr>"

text \<open>The destructor deletes the subtask, through the runtime's pointer for a fire-and-forget push.\<close>

definition TypedPush_dtor ::
    "bitfield_lib \<Rightarrow> bool \<Rightarrow> (TaskObj \<Rightarrow> Node \<Rightarrow> Node res) \<Rightarrow> TaskObj \<Rightarrow> Node \<Rightarrow> Node res" where
  "TypedPush_dtor B fr sub_dtor t N =
     (let r = un_TypedPush (pl t); lp = (if \<not> IsFireAndForget B t then sub_cli r else sub_run r)
      in case lp_ptr lp of
           None \<Rightarrow> Inl NullDeref
         | Some p \<Rightarrow> DelTask fr sub_dtor p N)"

definition TypedPush_GetGroup :: "resize_fn \<Rightarrow> TaskObj \<Rightarrow> bytes \<Rightarrow> (u32 \<times> bytes) res" where
  "TypedPush_GetGroup resize t g =
     res_bind (memcpy_to (resize g 4) 0 (word_bytes 4 (lane_hash t))) (\<lambda>g'. Inr (0, g'))"

definition TypedPush_get :: "TaskObj \<Rightarrow> Pointer option" where
  "TypedPush_get t = lp_ptr (sub_cli (un_TypedPush (pl t)))"

definition TypedPush_class :: "shm_env \<Rightarrow> task_class" where
  "TypedPush_class S = (base_class (se_bits S) is_PTypedPush (TF_LOCAL (se_bits S)))
     \<lparr>tc_GetGroup := TypedPush_GetGroup (se_resize S)\<rparr>"

section \<open>Server\<close>

definition pq_Construct :: "bitfield_lib \<Rightarrow> Pointer \<Rightarrow> Node \<Rightarrow> Node res" where
  "pq_Construct B p = upd_task p (SetModuleComplete B)"

definition pq_Destruct :: "bitfield_lib \<Rightarrow> Pointer \<Rightarrow> Node \<Rightarrow> Node res" where
  "pq_Destruct B p = upd_task p (SetModuleComplete B)"

text \<open>The case \<^verbatim>\<open>kSchedule\<close> of the handler, up to where it falls through.\<close>

definition Push_schedule :: "queue_env \<Rightarrow> Pointer \<Rightarrow> TaskObj \<Rightarrow> Node \<Rightarrow> Node res" where
  "Push_schedule E p t N =
     (let r = un_TypedPush (pl t); shm = lp_shm (sub_cli r);
          t1 = t\<lparr>pl := PTypedPush (r\<lparr>sub_run := \<lparr>lp_ptr = GetPrivatePointer shm, lp_shm = shm\<rparr>\<rparr>)\<rparr>;
          N1 = put_task p t1 N
      in case lp_ptr (sub_run (un_TypedPush (pl t1))) of
           None \<Rightarrow> Inl NullDeref
         | Some sp \<Rightarrow>
             res_bind (task_at N1 sp) (\<lambda>sub.
               let N2 = (if IsFireAndForget (qe_bits E) sub then put_task sp (UnsetFireAndForget (qe_bits E) sub) N1 else N1)
               in res_bind (queue_emplace E (UniqueId_copy (task_state sub)) (prio sub) (lane_hash sub) shm N2)
                    (upd_task p (pay_upd un_TypedPush PTypedPush phase_update (\<lambda>_. PhaseWaitSchedule)))))"

text \<open>The case \<^verbatim>\<open>kWaitSchedule\<close>.\<close>

definition Push_wait :: "bitfield_lib \<Rightarrow> Pointer \<Rightarrow> Node \<Rightarrow> Node res" where
  "Push_wait B p N =
     res_bind (task_at N p) (\<lambda>t.
       case lp_ptr (sub_run (un_TypedPush (pl t))) of
         None \<Rightarrow> Inl NullDeref
       | Some sp \<Rightarrow> res_bind (task_at N sp) (\<lambda>sub.
           if \<not> IsComplete B sub then Inr N else upd_task p (SetModuleComplete B) N))"

definition Push :: "queue_env \<Rightarrow> Pointer \<Rightarrow> Node \<Rightarrow> Node res" where
  "Push E p N =
     res_bind (task_at N p) (\<lambda>t.
       if \<not> is_PTypedPush (pl t) then Inl BadCast
       else if phase (un_TypedPush (pl t)) = PhaseSchedule
       then res_bind (Push_schedule E p t N) (Push_wait (qe_bits E) p)
       else if phase (un_TypedPush (pl t)) = PhaseWaitSchedule then Push_wait (qe_bits E) p N
       else Inr N)"

section \<open>Dispatch\<close>

definition pq_switch :: "shm_env \<Rightarrow> method_switch" where
  "pq_switch S m =
     (if m = kConstruct then Some (CreateTaskState_class S)
      else if m = kDestruct then Some (DestroyTaskState_class S)
      else if m = pq_kPush then Some (TypedPush_class S)
      else None)"

definition pq_Run :: "queue_env \<Rightarrow> u32 \<Rightarrow> Pointer \<Rightarrow> Node \<Rightarrow> Node res" where
  "pq_Run E m p N =
     (if m = kConstruct then pq_Construct (qe_bits E) p N
      else if m = kDestruct then pq_Destruct (qe_bits E) p N
      else if m = pq_kPush then Push E p N
      else Inr N)"

text \<open>The server deletes a push task as one whose subtask is a plain \<open>Task\<close>.\<close>

definition pq_Del :: "bitfield_lib \<Rightarrow> bool \<Rightarrow> u32 \<Rightarrow> Pointer \<Rightarrow> Node \<Rightarrow> Node res" where
  "pq_Del B fr m p N =
     (if m = kConstruct \<or> m = kDestruct then DelTask fr trivial_dtor p N
      else if m = pq_kPush then DelTask fr (TypedPush_dtor B fr trivial_dtor) p N
      else Inr N)"

definition pq_ReplicateStart :: "shm_env \<Rightarrow> u32 \<Rightarrow> u32 \<Rightarrow> TaskObj \<Rightarrow> TaskObj res" where
  "pq_ReplicateStart S = lib_ReplicateStart (pq_switch S)"

definition pq_ReplicateEnd :: "shm_env \<Rightarrow> u32 \<Rightarrow> TaskObj \<Rightarrow> TaskObj res" where
  "pq_ReplicateEnd S = lib_ReplicateEnd (pq_switch S)"

definition pq_SaveStart ::
    "cereal_lib \<Rightarrow> shm_env \<Rightarrow> u32 \<Rightarrow> BinaryOutputArchive \<Rightarrow> TaskObj \<Rightarrow> DataTransfer list res" where
  "pq_SaveStart C S = lib_SaveStart C (se_bits S) (pq_switch S)"

definition pq_LoadStart ::
    "cereal_lib \<Rightarrow> shm_env \<Rightarrow> (task_class \<Rightarrow> TaskObj) \<Rightarrow> u32 \<Rightarrow> BinaryInputArchive \<Rightarrow> TaskObj option res" where
  "pq_LoadStart C S = lib_LoadStart C (pq_switch S)"

definition pq_SaveEnd ::
    "cereal_lib \<Rightarrow> shm_env \<Rightarrow> u32 \<Rightarrow> BinaryOutputArchive \<Rightarrow> TaskObj \<Rightarrow> DataTransfer list res" where
  "pq_SaveEnd C S = lib_SaveEnd C (se_bits S) (pq_switch S)"

definition pq_LoadEnd ::
    "cereal_lib \<Rightarrow> shm_env \<Rightarrow> u32 \<Rightarrow> u32 \<Rightarrow> BinaryInputArchive \<Rightarrow> TaskObj \<Rightarrow> TaskObj res" where
  "pq_LoadEnd C S = lib_LoadEnd C (pq_switch S)"

definition pq_GetGroup :: "shm_env \<Rightarrow> u32 \<Rightarrow> TaskObj \<Rightarrow> bytes \<Rightarrow> (u32 \<times> bytes) res" where
  "pq_GetGroup S = lib_GetGroup (pq_switch S)"

section \<open>Client\<close>

definition pq_Client_new :: "'a QueueManager_scheme \<Rightarrow> TaskLibClient" where
  "pq_Client_new qm = \<lparr>tc_id = UniqueId_copy (process_queue qm), tc_queue_id = process_queue qm\<rparr>"

definition AsyncPushConstruct ::
    "shm_env \<Rightarrow> u32 \<Rightarrow> u32 \<Rightarrow> TaskLibClient \<Rightarrow> Pointer \<Rightarrow> TaskNode \<Rightarrow> DomainId \<Rightarrow> LPointer \<Rightarrow> Node \<Rightarrow> Node res" where
  "AsyncPushConstruct S tid pid cl p tn d subtask =
     ConstructTask (\<lambda>mem. TypedPushTask_new S tid pid mem tn d (tc_id cl) subtask) p"

definition AsyncPush ::
    "queue_env \<Rightarrow> alloc_lib \<Rightarrow> shm_env \<Rightarrow> u32 \<Rightarrow> u32 \<Rightarrow> TaskLibClient \<Rightarrow> TaskNode \<Rightarrow> DomainId \<Rightarrow> LPointer \<Rightarrow> Node \<Rightarrow>
     (LPointer \<times> Node) res" where
  "AsyncPush E A S tid pid cl tn d subtask N =
     res_bind (AllocateTask A N) (\<lambda>(lp, N1).
       case lp_ptr lp of
         None \<Rightarrow> Inl NullDeref
       | Some p \<Rightarrow>
           res_bind (AsyncPushConstruct S tid pid cl p tn d subtask N1) (\<lambda>N2.
           res_bind (task_at N2 p) (\<lambda>t.
           res_bind (queue_emplace E (tc_queue_id cl) (prio t) (lane_hash t) (lp_shm lp) N2) (\<lambda>N3. Inr (lp, N3)))))"

text \<open>
  The root function of \<^verbatim>\<open>HERMES_RUN_TASK_NODE_PUSH_ROOT\<close>: the subtask is one level below the
  push task, which is local.
\<close>

definition Async_Push_Root ::
    "queue_env \<Rightarrow> alloc_lib \<Rightarrow> shm_env \<Rightarrow> u32 \<Rightarrow> u32 \<Rightarrow> TaskLibClient \<Rightarrow> (TaskNode \<Rightarrow> TaskObj \<Rightarrow> TaskObj) \<Rightarrow> Node \<Rightarrow>
     (LPointer \<times> Node) res" where
  "Async_Push_Root E A S tid pid pq con N =
     (case MakeTaskNodeId N of (tn, N1) \<Rightarrow>
        res_bind (Async_Alloc A con (TaskNode_plus tn 1) N1) (\<lambda>(task, N2).
          AsyncPush E A S tid pid pq tn (GetLocal (qe_bits E)) task N2))"

section \<open>Facts\<close>

lemma Push_wait_eq:
  assumes "heap N p = Some t" and "lp_ptr (sub_run (un_TypedPush (pl t))) = Some sp" and "heap N sp = Some sub"
  shows "Push_wait B p N = Inr (if IsComplete B sub then put_task p (SetModuleComplete B t) N else N)"
  using assms by (simp add: Push_wait_def task_at_def upd_task_def)

lemma Push_wait_queues: "Push_wait B p N = Inr N' \<Longrightarrow> queues N' = queues N"
  by (auto simp: Push_wait_def upd_task_def res_bind_Inr_iff split: option.splits if_splits)

text \<open>What the handler does to its own members.\<close>

definition push_members :: "Node \<Rightarrow> Pointer \<Rightarrow> TypedPushTask option" where
  "push_members N p = (case heap N p of Some t \<Rightarrow> (case pl t of PTypedPush r \<Rightarrow> Some r | _ \<Rightarrow> None) | None \<Rightarrow> None)"

lemma push_members_iff: "push_members N p = Some r \<longleftrightarrow> (\<exists>t. heap N p = Some t \<and> pl t = PTypedPush r)"
  by (auto simp: push_members_def split: option.splits payload.splits)

lemma pl_set_flags [simp]:
  "pl (SetModuleComplete B t) = pl t" "pl (UnsetFireAndForget B t) = pl t"
  by (simp_all add: task_set_defs)

lemma Push_wait_members: "Push_wait B p N = Inr N' \<Longrightarrow> push_members N' p = push_members N p"
  by (auto simp: Push_wait_def upd_task_def res_bind_Inr_iff push_members_def task_at_def
      split: option.splits if_splits)

lemma queue_emplace_heap: "queue_emplace E qid pr lh p N = Inr N' \<Longrightarrow> heap N' = heap N"
  by (auto simp: queue_emplace_def emplace_slot_def res_bind_Inr_iff)

text \<open>A submission touches the queues only.\<close>

lemma queue_emplace_queues:
  "queue_emplace E qid pr lh p N =
     res_bind (queue_emplace E qid pr lh p (N\<lparr>heap := h\<rparr>)) (\<lambda>N'. Inr (N\<lparr>queues := queues N'\<rparr>))"
  by (cases "GetQueue (queues N) qid"; cases "vec_at (queues N) (unat (unique qid))")
    (auto simp: queue_emplace_def emplace_slot_def res_bind_def split: sum.splits)

lemma Push_schedule_members:
  assumes "Push_schedule E p t N = Inr N1" and "pl t = PTypedPush r"
  shows "push_members N1 p = Some (r\<lparr>sub_run := lptr (lp_shm (sub_cli r)), phase := PhaseWaitSchedule\<rparr>)"
  using assms
  by (auto simp: Push_schedule_def Let_def GetPrivatePointer_def res_bind_Inr_iff upd_task_def push_members_def
      task_at_def pay_upd_def lptr_def dest!: queue_emplace_heap split: option.splits if_splits)

lemma Push_members:
  assumes "push_members N p = Some r" and "Push E p N = Inr N'"
  shows "\<exists>r'. push_members N' p = Some r' \<and> sub_cli r' = sub_cli r \<and>
    (if phase r = PhaseSchedule then phase r' = PhaseWaitSchedule else r' = r \<and> queues N' = queues N)"
proof -
  from assms(1) obtain t where t: "heap N p = Some t" "pl t = PTypedPush r" by (auto simp: push_members_iff)
  show ?thesis
  proof (cases "phase r = PhaseSchedule")
    case True
    with assms(2) t obtain N1 where s: "Push_schedule E p t N = Inr N1" and w: "Push_wait (qe_bits E) p N1 = Inr N'"
      by (auto simp: Push_def task_at_def res_bind_Inr_iff)
    from Push_schedule_members [OF s t(2)] Push_wait_members [OF w] True show ?thesis by simp
  next
    case False
    with assms(2) t have "N' = N \<or> Push_wait (qe_bits E) p N = Inr N'"
      by (auto simp: Push_def task_at_def split: if_splits)
    with False assms(1) show ?thesis using Push_wait_queues Push_wait_members by fastforce
  qed
qed

section \<open>Runs of a push task\<close>

text \<open>
  The node between runs of the handler: other code may do anything except write the members
  of the push task. \<open>k\<close> counts the runs that changed the queues.
\<close>

inductive push_run :: "queue_env \<Rightarrow> Pointer \<Rightarrow> Node \<Rightarrow> nat \<Rightarrow> bool" for E p where
  start: "push_members N p = Some r \<Longrightarrow> phase r = PhaseSchedule \<Longrightarrow> push_run E p N 0"
| other: "push_run E p N k \<Longrightarrow> push_members N' p = push_members N p \<Longrightarrow> push_run E p N' k"
| run: "push_run E p N k \<Longrightarrow> Push E p N = Inr N' \<Longrightarrow>
    push_run E p N' (if queues N' = queues N then k else Suc k)"

lemma push_run_inv:
  "push_run E p N k \<Longrightarrow> \<exists>r. push_members N p = Some r \<and>
     (phase r = PhaseSchedule \<and> k = 0 \<or> phase r = PhaseWaitSchedule \<and> k \<le> 1)"
proof (induction rule: push_run.induct)
  case (run N k N')
  then obtain r where r: "push_members N p = Some r"
      "phase r = PhaseSchedule \<and> k = 0 \<or> phase r = PhaseWaitSchedule \<and> k \<le> 1" by blast
  from Push_members [OF r(1) run.hyps(2)] r(2) show ?case
    by (auto simp: PhaseSchedule_def PhaseWaitSchedule_def split: if_splits)
qed auto

text \<open>The first run of a push: the subtask is submitted, and tested right away.\<close>

lemma Push_schedule_eq:
  assumes "bitfield (qe_bits E)" and "pl t = PTypedPush r" and "lp_shm (sub_cli r) = s" and "s \<noteq> p" and "heap N s = Some u"
  shows "Push_schedule E p t N =
    res_bind (queue_emplace E (task_state u) (prio u) (lane_hash u) s
      (N\<lparr>heap := (heap N)(p \<mapsto> t\<lparr>pl := PTypedPush (r\<lparr>sub_run := lptr s\<rparr>)\<rparr>, s \<mapsto> UnsetFireAndForget (qe_bits E) u)\<rparr>))
      (upd_task p (pay_upd un_TypedPush PTypedPush phase_update (\<lambda>_. PhaseWaitSchedule)))"
proof -
  let ?t0 = "t\<lparr>pl := PTypedPush (r\<lparr>sub_run := lptr s\<rparr>)\<rparr>"
  have ff: "put_task s (UnsetFireAndForget (qe_bits E) u) (put_task p ?t0 N) =
      N\<lparr>heap := (heap N)(p \<mapsto> ?t0, s \<mapsto> UnsetFireAndForget (qe_bits E) u)\<rparr>"
    "\<not> IsFireAndForget (qe_bits E) u \<Longrightarrow>
      put_task p ?t0 N = N\<lparr>heap := (heap N)(p \<mapsto> ?t0, s \<mapsto> UnsetFireAndForget (qe_bits E) u)\<rparr>"
    using assms(4,5) bitfield.UnsetBits_id [OF assms(1)]
    by (auto simp: put_task_def UnsetFireAndForget_def IsFireAndForget_def fun_upd_idem)
  have uid: "UniqueId_copy i = i" for i by (cases i) (simp add: UniqueId_copy_def)
  have lp: "\<lparr>lp_ptr = Some s, lp_shm = s\<rparr> = lptr s" "lp_ptr (lptr s) = Some s" by (simp_all add: lptr_def)
  have at: "task_at (put_task p ?t0 N) s = Inr u" using assms(4,5) by (simp add: task_at_def)
  show ?thesis using assms(2,3) by (simp add: Push_schedule_def Let_def GetPrivatePointer_def lp at ff uid)
qed

lemma Push_schedule_wait:
  assumes "bitfield (qe_bits E)" and "pl t = PTypedPush r" and "lp_shm (sub_cli r) = s" and "s \<noteq> p" and "heap N s = Some u"
  defines "t1 \<equiv> t\<lparr>pl := PTypedPush (r\<lparr>sub_run := lptr s, phase := PhaseWaitSchedule\<rparr>)\<rparr>"
  defines "h \<equiv> (heap N)(p \<mapsto> t1, s \<mapsto> UnsetFireAndForget (qe_bits E) u)"
  shows "res_bind (Push_schedule E p t N) (Push_wait (qe_bits E) p) =
    res_bind (queue_emplace E (task_state u) (prio u) (lane_hash u) s (N\<lparr>heap := h\<rparr>)) (\<lambda>N'.
      Inr (if IsComplete (qe_bits E) u then put_task p (SetModuleComplete (qe_bits E) t1) N' else N'))"
proof -
  let ?B = "qe_bits E" and ?q = "\<lambda>N. queue_emplace E (task_state u) (prio u) (lane_hash u) s N"
  let ?h0 = "(heap N)(p \<mapsto> t\<lparr>pl := PTypedPush (r\<lparr>sub_run := lptr s\<rparr>)\<rparr>, s \<mapsto> UnsetFireAndForget ?B u)"
  show ?thesis
  proof (cases "?q N")
    case (Inl e)
    then have "?q (N\<lparr>heap := ?h0\<rparr>) = Inl e" "?q (N\<lparr>heap := h\<rparr>) = Inl e"
      using queue_emplace_queues [of E "task_state u" "prio u" "lane_hash u" s "N\<lparr>heap := g\<rparr>" "heap N" for g] by simp_all
    then show ?thesis by (simp add: Push_schedule_eq [OF assms(1-5)])
  next
    case (Inr M)
    then have q: "?q (N\<lparr>heap := g\<rparr>) = Inr (N\<lparr>heap := g, queues := queues M\<rparr>)" for g
      using queue_emplace_queues [of E "task_state u" "prio u" "lane_hash u" s "N\<lparr>heap := g\<rparr>" "heap N"] by simp
    have up: "upd_task p (pay_upd un_TypedPush PTypedPush phase_update (\<lambda>_. PhaseWaitSchedule)) (N\<lparr>heap := ?h0, queues := queues M\<rparr>) =
        Inr (N\<lparr>heap := h, queues := queues M\<rparr>)"
      using assms(4) by (simp add: upd_task_def task_at_def put_task_def pay_upd_def t1_def h_def fun_upd_twist)
    have c: "IsComplete ?B (UnsetFireAndForget ?B u) = IsComplete ?B u"
      by (simp add: bitfield.task_test_bits [OF assms(1)] bitfield.task_set_bits [OF assms(1)])
    have w: "Push_wait ?B p (N\<lparr>heap := h, queues := queues M\<rparr>) =
        Inr (if IsComplete ?B u then put_task p (SetModuleComplete ?B t1) (N\<lparr>heap := h, queues := queues M\<rparr>)
             else N\<lparr>heap := h, queues := queues M\<rparr>)"
      using assms(4) by (subst Push_wait_eq [of _ p t1 s "UnsetFireAndForget ?B u"]) (simp_all add: t1_def h_def lptr_def c)
    show ?thesis by (simp add: Push_schedule_eq [OF assms(1-5)] q up w)
  qed
qed

text \<open>A push task at address 3 for the task at address 9.\<close>

definition sample_push :: TypedPushTask where
  "sample_push = \<lparr>sub_cli = lptr 9, sub_run = \<lparr>lp_ptr = None, lp_shm = 0\<rparr>, phase = PhaseSchedule\<rparr>"

definition sample_push_node :: Node where
  "sample_push_node = put_task 3 (sample_obj (PTypedPush sample_push)) sample_node"

lemma sample_push_emplace:
  "queue_emplace (list_env 8) (UniqueId_new 1 0) 0 0 9 (sample_push_node\<lparr>heap := h\<rparr>) =
     Inr (sample_push_node\<lparr>heap := h, queues := [put_lane (queues sample_node ! 0) 0 0
       \<lparr>items = [LaneData_new 9 False, LaneData_new 9 False], lane_flags = 0\<rparr>]\<rparr>)"
  by (simp add: queue_emplace_def GetQueue_def emplace_slot_def sample_push_node_def sample_node_def put_task_def
      UniqueId_new_def Emplace_def Emplace_data_def IsEmplacePlugged_def Emplace_lane_def GetGroup_def GetLane_def
      MultiQueue_new_def make_group_def LaneGroup_new_def PriorityInfo_new_def Let_def list_env_def word_bitfield_def)

section \<open>Properties\<close>

text \<open>
  C13. Running a push task. Its first run clears the fire-and-forget flag of the subtask,
  submits it to the queue of its own task state with its own priority and lane hash, and
  remembers that it did; every run from then on leaves everything alone while the subtask
  is incomplete and completes the push when it is complete. The first run already does
  that last test.
\<close>

theorem push_spec:
  assumes "bitfield (qe_bits E)" and "heap N p = Some t" and "pl t = PTypedPush r"
    and "lp_shm (sub_cli r) = s" and "s \<noteq> p" and "heap N s = Some u"
    and "t1 = t\<lparr>pl := PTypedPush (r\<lparr>sub_run := lptr s, phase := PhaseWaitSchedule\<rparr>)\<rparr>"
    and "h = (heap N)(p \<mapsto> t1, s \<mapsto> UnsetFireAndForget (qe_bits E) u)"
  shows "(phase r = PhaseSchedule \<longrightarrow> Push E p N =
      res_bind (queue_emplace E (task_state u) (prio u) (lane_hash u) s (N\<lparr>heap := h\<rparr>)) (\<lambda>N'.
        Inr (if IsComplete (qe_bits E) u then put_task p (SetModuleComplete (qe_bits E) t1) N' else N'))) \<and>
    (phase r = PhaseWaitSchedule \<and> sub_run r = lptr s \<longrightarrow> Push E p N =
      Inr (if IsComplete (qe_bits E) u then put_task p (SetModuleComplete (qe_bits E) t) N else N))"
proof (intro conjI impI)
  assume "phase r = PhaseWaitSchedule \<and> sub_run r = lptr s"
  with assms(2,3,6) show "Push E p N = Inr (if IsComplete (qe_bits E) u then put_task p (SetModuleComplete (qe_bits E) t) N else N)"
    by (simp add: Push_def task_at_def Push_wait_eq [of N p t s u] lptr_def PhaseSchedule_def PhaseWaitSchedule_def)
next
  assume "phase r = PhaseSchedule"
  with assms(2,3) show "Push E p N = res_bind (queue_emplace E (task_state u) (prio u) (lane_hash u) s (N\<lparr>heap := h\<rparr>)) (\<lambda>N'.
      Inr (if IsComplete (qe_bits E) u then put_task p (SetModuleComplete (qe_bits E) t1) N' else N'))"
    using Push_schedule_wait [OF assms(1,3-6)] unfolding assms(7,8) by (simp add: Push_def task_at_def)
qed

theorem push_spec_witness:
  "\<exists>N'. Push (list_env 8) 3 sample_push_node = Inr N' \<and>
     lane_items (queues N' ! 0) 0 0 = [LaneData_new 9 False, LaneData_new 9 False]"
proof -
  have b: "bitfield (qe_bits (list_env 8))" by (simp add: word_bf.bitfield_axioms)
  have h: "heap sample_push_node 3 = Some (sample_obj (PTypedPush sample_push))"
    "heap sample_push_node 9 = Some (sample_obj PCustom)"
    by (simp_all add: sample_push_node_def sample_node_def)
  have s: "lp_shm (sub_cli sample_push) = 9" "phase sample_push = PhaseSchedule"
    by (simp_all add: sample_push_def lptr_def)
  have o: "pl (sample_obj (PTypedPush sample_push)) = PTypedPush sample_push" "task_state (sample_obj PCustom) = UniqueId_new 1 0"
    "prio (sample_obj PCustom) = 0" "lane_hash (sample_obj PCustom) = 0"
    by (simp_all add: sample_obj_def)
  have li: "lane_items (put_lane (queues sample_node ! 0) 0 0 \<lparr>items = xs, lane_flags = 0\<rparr>) 0 0 = xs" for xs
    by (simp add: lane_items_def put_lane_def sample_node_def)
  from push_spec [OF b h(1) o(1) s(1) _ h(2) refl refl] s(2) o(2-4) li show ?thesis
    by (simp add: sample_push_emplace)
qed



end
