(* ===== verification/Rpc.thy ===== *)
theory Rpc
  imports Ids Config
begin

text \<open>
  \<^verbatim>\<open>network/rpc.h\<close> and the resolution of scheduling domains of \<^verbatim>\<open>api/hermes_run_runtime.h\<close>: the
  table of hosts, the id of this node, addresses of nodes, and the nodes that a domain
  stands for. The name service and the list of network interfaces are arguments.
\<close>

section \<open>Hosts\<close>

record HostInfo =
  hi_node_id :: u32
  hi_hostname :: string
  hi_ip_addr :: string

definition HostInfo_new :: "string \<Rightarrow> string \<Rightarrow> u32 \<Rightarrow> HostInfo" where
  "HostInfo_new hostname ip_addr node = \<lparr>hi_node_id = node, hi_hostname = hostname, hi_ip_addr = ip_addr\<rparr>"

record RpcContext =
  rc_config :: ServerConfig
  rc_port :: int
  rc_protocol :: string
  rc_domain :: string
  rc_node_id :: u32
  rc_num_threads :: int
  rc_hosts :: "HostInfo list"

text \<open>
  \<open>ne_gethost\<close> is \<^verbatim>\<open>gethostbyname_r\<close>: its result and the list of addresses it leaves in the
  answer, \<open>None\<close> where that stays null. \<open>ne_ntop\<close> is \<^verbatim>\<open>inet_ntop\<close>, \<open>None\<close> when it fails.
  \<open>ne_ifaddrs\<close> are the interfaces of this machine, \<open>None\<close> when they cannot be listed, with
  \<open>None\<close> for an interface without an IPv4 address.
\<close>

record name_env =
  ne_gethost :: "string \<Rightarrow> int \<times> u32 list option"
  ne_ntop :: "u32 \<Rightarrow> string option"
  ne_ifaddrs :: "u32 option list option"
  ne_fatal_returns :: bool

text \<open>
  After a fatal record that returns the code goes on: with the null list, with a null
  address, or with the empty text.
\<close>

definition GetIpAddress :: "name_env \<Rightarrow> string \<Rightarrow> string res" where
  "GetIpAddress X host_name =
     (let (rc, addr_list) = ne_gethost X host_name;
          text = (\<lambda>addr. case ne_ntop X addr of
             None \<Rightarrow> helog_fatal (ne_fatal_returns X) ''inet_ntop failed'' (Inr [])
           | Some ip \<Rightarrow> Inr ip);
          go = (case addr_list of
             None \<Rightarrow> Inl NullDeref
           | Some [] \<Rightarrow> helog_fatal (ne_fatal_returns X) ''h_errno'' (Inl NullDeref)
           | Some (addr # _) \<Rightarrow> text addr)
      in if rc \<noteq> 0 then helog_fatal (ne_fatal_returns X) ''h_errno'' go else go)"

fun scan_ifaddrs :: "name_env \<Rightarrow> string \<Rightarrow> u32 option list \<Rightarrow> bool" where
  "scan_ifaddrs X addr [] = False"
| "scan_ifaddrs X addr (None # ifs) = scan_ifaddrs X addr ifs"
| "scan_ifaddrs X addr (Some ip # ifs) =
     (let ipAddress = (case ne_ntop X ip of None \<Rightarrow> [] | Some t \<Rightarrow> t)
      in if addr = ipAddress then True else scan_ifaddrs X addr ifs)"

definition IsAddressLocal :: "name_env \<Rightarrow> string \<Rightarrow> bool" where
  "IsAddressLocal X addr = (case ne_ifaddrs X of None \<Rightarrow> False | Some ifs \<Rightarrow> scan_ifaddrs X addr ifs)"

fun find_host :: "name_env \<Rightarrow> int \<Rightarrow> HostInfo list \<Rightarrow> int res" where
  "find_host X node [] = helog_fatal (ne_fatal_returns X) ''Could not identify this host'' (Inr (- 1))"
| "find_host X node (h # hs) = (if IsAddressLocal X (hi_ip_addr h) then Inr node else find_host X (node + 1) hs)"

definition FindThisHost :: "name_env \<Rightarrow> RpcContext \<Rightarrow> int res" where
  "FindThisHost X C = find_host X 1 (rc_hosts C)"

fun make_hosts :: "name_env \<Rightarrow> u32 \<Rightarrow> string list \<Rightarrow> HostInfo list res" where
  "make_hosts X node [] = Inr []"
| "make_hosts X node (name # names) =
     res_bind (GetIpAddress X name) (\<lambda>ip.
     res_bind (make_hosts X (node + 1) names) (\<lambda>hs. Inr (HostInfo_new name ip node # hs)))"

definition RpcContext_ServerInit :: "name_env \<Rightarrow> ServerConfig \<Rightarrow> RpcContext \<Rightarrow> RpcContext res" where
  "RpcContext_ServerInit X config C =
     (let C1 = C\<lparr>rc_config := config, rc_port := port (rpc config), rc_protocol := protocol (rpc config),
            rc_domain := rpc_domain (rpc config), rc_num_threads := num_threads (rpc config)\<rparr>
      in if length (rc_hosts C1) \<noteq> 0 then Inr C1
         else res_bind (make_hosts X 1 (host_names (rpc config))) (\<lambda>hs.
           let C2 = C1\<lparr>rc_hosts := hs\<rparr>
           in res_bind (FindThisHost X C2) (\<lambda>node.
              let C3 = C2\<lparr>rc_node_id := word_of_int node\<rparr>
              in if rc_node_id C3 = 0 \<or> rc_node_id C3 > of_nat (length (rc_hosts C3))
                 then helog_fatal (ne_fatal_returns X) ''Could not identify this host.'' (Inr C3)
                 else Inr C3)))"

definition GetNumHosts :: "RpcContext \<Rightarrow> size_t" where
  "GetNumHosts C = of_nat (length (rc_hosts C))"

text \<open>Both lookups test the range first; a fatal record that returns lets the access go on.\<close>

definition host_of_node :: "bool \<Rightarrow> RpcContext \<Rightarrow> DomainId \<Rightarrow> HostInfo res" where
  "host_of_node fr C d =
     (let node = dom_id d; look = vec_at (rc_hosts C) (unat (node - 1))
      in if node \<le> 0 \<or> node > of_nat (length (rc_hosts C))
         then helog_fatal fr ''Attempted to get from node out of range'' look else look)"

definition GetHostNameFromNodeId :: "bool \<Rightarrow> RpcContext \<Rightarrow> DomainId \<Rightarrow> string res" where
  "GetHostNameFromNodeId fr C d = res_bind (host_of_node fr C d) (\<lambda>h. Inr (hi_hostname h))"

definition GetIpAddressFromNodeId :: "bool \<Rightarrow> RpcContext \<Rightarrow> DomainId \<Rightarrow> string res" where
  "GetIpAddressFromNodeId fr C d = res_bind (host_of_node fr C d) (\<lambda>h. Inr (hi_ip_addr h))"

definition print_int :: "int \<Rightarrow> string" where
  "print_int i = (if i < 0 then CHR ''-'' # to_string (nat (- i)) else to_string (nat i))"

definition GetRpcAddress :: "bool \<Rightarrow> RpcContext \<Rightarrow> DomainId \<Rightarrow> int \<Rightarrow> string res" where
  "GetRpcAddress fr C d p =
     (let pre = protocol (rpc (rc_config C)) @ ''://'';
          pre = (if rpc_domain (rpc (rc_config C)) \<noteq> [] then pre @ rpc_domain (rpc (rc_config C)) @ ''/'' else pre)
      in res_bind (GetHostNameFromNodeId fr C d) (\<lambda>host. Inr (pre @ host @ '':'' @ print_int p)))"

definition GetMyRpcAddress :: "bitfield_lib \<Rightarrow> bool \<Rightarrow> RpcContext \<Rightarrow> string res" where
  "GetMyRpcAddress B fr C = GetRpcAddress fr C (GetNode B (rc_node_id C)) (rc_port C)"

definition GetProtocol :: "RpcContext \<Rightarrow> string" where
  "GetProtocol C = protocol (rpc (rc_config C))"

section \<open>Domains\<close>

text \<open>As in the source, a named set stands for no node.\<close>

definition ResolveDomainId :: "bitfield_lib \<Rightarrow> RpcContext \<Rightarrow> DomainId \<Rightarrow> DomainId list" where
  "ResolveDomainId B C d =
     (if IsGlobal B d then map (\<lambda>h. GetNode B (hi_node_id h)) (rc_hosts C)
      else if IsNode B d then [d]
      else [])"

section \<open>A concrete host table\<close>

definition sample_names :: name_env where
  "sample_names = \<lparr>ne_gethost = (\<lambda>n. if n = ''localhost'' then (0, Some [0x7F000001]) else (1, None)),
     ne_ntop = (\<lambda>a. if a = 0x7F000001 then Some ''127.0.0.1'' else None),
     ne_ifaddrs = Some [None, Some 0x7F000001], ne_fatal_returns = False\<rparr>"

definition sample_rpc :: RpcContext where
  "sample_rpc = \<lparr>rc_config = sample_config, rc_port = 0, rc_protocol = [], rc_domain = [], rc_node_id = 0, rc_num_threads = 0, rc_hosts = []\<rparr>"

section \<open>Facts\<close>

lemma make_hosts_spec:
  "make_hosts X node names = Inr hs \<Longrightarrow> length hs = length names \<and>
     (\<forall>k < length names. hi_node_id (hs ! k) = node + of_nat k \<and> hi_hostname (hs ! k) = names ! k)"
proof (induction names arbitrary: node hs)
  case Nil
  then show ?case by simp
next
  case (Cons n ns)
  then obtain ip hs' where hs: "make_hosts X (node + 1) ns = Inr hs'" "hs = HostInfo_new n ip node # hs'"
    by (auto simp: res_bind_Inr_iff)
  from Cons.IH [OF hs(1)] hs(2) show ?case
    by (auto simp: nth_Cons HostInfo_new_def algebra_simps split: nat.splits)
qed

lemma find_host_spec:
  "find_host X node hs = Inr r \<Longrightarrow>
     (\<exists>k < length hs. r = node + int k \<and> IsAddressLocal X (hi_ip_addr (hs ! k)) \<and>
        (\<forall>j < k. \<not> IsAddressLocal X (hi_ip_addr (hs ! j)))) \<or>
     (ne_fatal_returns X \<and> r = - 1 \<and> (\<forall>j < length hs. \<not> IsAddressLocal X (hi_ip_addr (hs ! j))))"
proof (induction hs arbitrary: node)
  case Nil
  then show ?case by (auto simp: helog_fatal_def split: if_splits)
next
  case (Cons h hs)
  show ?case
  proof (cases "IsAddressLocal X (hi_ip_addr h)")
    case True
    with Cons.prems show ?thesis by (intro disjI1 exI [of _ 0]) simp
  next
    case False
    with Cons.prems have "find_host X (node + 1) hs = Inr r" by simp
    from Cons.IH [OF this] show ?thesis
    proof (elim disjE exE conjE)
      fix k assume k: "k < length hs" "r = node + 1 + int k" "IsAddressLocal X (hi_ip_addr (hs ! k))"
        "\<forall>j < k. \<not> IsAddressLocal X (hi_ip_addr (hs ! j))"
      then have "\<forall>j < Suc k. \<not> IsAddressLocal X (hi_ip_addr ((h # hs) ! j))"
        using False by (auto simp: less_Suc_eq_0_disj)
      with k show ?thesis by (intro disjI1 exI [of _ "Suc k"]) simp
    qed (use False in \<open>auto simp: less_Suc_eq_0_disj\<close>)
  qed
qed

lemma node_in_range:
  assumes "length hs < 2 ^ 31" and "1 \<le> k" and "k \<le> length hs"
  shows "\<not> (of_nat k \<le> (0 :: u32))" and "\<not> ((of_nat k :: u32) > of_nat (length hs))" and "unat (of_nat k - 1 :: u32) = k - 1"
proof -
  have u: "unat (of_nat k :: u32) = k" "unat (of_nat (length hs) :: u32) = length hs"
    using assms by (auto intro!: unat_of_nat_less)
  then show "\<not> (of_nat k \<le> (0 :: u32))" "\<not> ((of_nat k :: u32) > of_nat (length hs))"
    using assms by (auto simp: word_le_nat_alt word_less_nat_alt)
  have "(of_nat k :: u32) \<noteq> 0" using u(1) assms(2) by (metis not_one_le_zero unat_0)
  then show "unat (of_nat k - 1 :: u32) = k - 1" using u(1) by (simp add: unat_minus_one)
qed

lemma rpc_init_node:
  assumes "RpcContext_ServerInit X config C = Inr C'" and "rc_hosts C = []" and "\<not> ne_fatal_returns X"
  shows "\<exists>hs k. make_hosts X 1 (host_names (rpc config)) = Inr hs \<and> rc_hosts C' = hs \<and> rc_node_id C' = of_nat (Suc k) \<and>
    k < length hs \<and> IsAddressLocal X (hi_ip_addr (hs ! k)) \<and> (\<forall>j < k. \<not> IsAddressLocal X (hi_ip_addr (hs ! j)))"
proof -
  from assms obtain hs node where hs: "make_hosts X 1 (host_names (rpc config)) = Inr hs"
    and fh: "find_host X 1 hs = Inr node" and C': "rc_hosts C' = hs" "rc_node_id C' = word_of_int node"
    by (auto simp: RpcContext_ServerInit_def Let_def FindThisHost_def res_bind_Inr_iff helog_fatal_def split: if_splits)
  from find_host_spec [OF fh] assms(3) obtain k where k: "k < length hs" "node = 1 + int k"
    "IsAddressLocal X (hi_ip_addr (hs ! k))" "\<forall>j < k. \<not> IsAddressLocal X (hi_ip_addr (hs ! j))" by auto
  have "rc_node_id C' = of_nat (Suc k)" using C'(2) k(2) by simp
  with hs C' k show ?thesis by blast
qed

section \<open>Properties\<close>

text \<open>
  C25. Starting the network layer where a fatal record ends the process: the hosts of the
  configuration are numbered from 1 in their order, this node is the first of them whose
  address is one of this machine's, its number is a valid one, and the name of a node is
  that of the host with its number.
\<close>

theorem rpc_init_spec:
  assumes "RpcContext_ServerInit X config C = Inr C'" and "rc_hosts C = []" and "\<not> ne_fatal_returns X"
    and "length (host_names (rpc config)) < 2 ^ 31"
  shows "length (rc_hosts C') = length (host_names (rpc config)) \<and>
    (\<forall>k < length (rc_hosts C'). hi_node_id (rc_hosts C' ! k) = of_nat (Suc k)) \<and>
    (\<exists>k < length (rc_hosts C'). rc_node_id C' = of_nat (Suc k) \<and> IsAddressLocal X (hi_ip_addr (rc_hosts C' ! k)) \<and>
       (\<forall>j < k. \<not> IsAddressLocal X (hi_ip_addr (rc_hosts C' ! j)))) \<and>
    (\<forall>k. 1 \<le> k \<and> k \<le> length (rc_hosts C') \<longrightarrow>
       GetHostNameFromNodeId False C' (GetNode B (of_nat k)) = Inr (host_names (rpc config) ! (k - 1)))"
proof -
  from rpc_init_node [OF assms(1-3)] obtain hs k where hs: "make_hosts X 1 (host_names (rpc config)) = Inr hs"
    and C': "rc_hosts C' = hs" and id: "rc_node_id C' = of_nat (Suc k)" and k: "k < length hs"
    "IsAddressLocal X (hi_ip_addr (hs ! k))" "\<forall>j < k. \<not> IsAddressLocal X (hi_ip_addr (hs ! j))" by blast
  note h = make_hosts_spec [OF hs]
  have name: "GetHostNameFromNodeId False C' (GetNode B (of_nat j)) = Inr (host_names (rpc config) ! (j - 1))"
    if "1 \<le> j" "j \<le> length hs" for j
  proof -
    have "length hs < 2 ^ 31" using h assms(4) by simp
    from node_in_range [OF this that] that h show ?thesis
      by (simp add: GetHostNameFromNodeId_def host_of_node_def C' GetNode_def DomainId_new_def Let_def)
  qed
  show ?thesis using h k id name by (auto simp: C')
qed

theorem rpc_init_spec_witness:
  "\<exists>C'. RpcContext_ServerInit sample_names sample_config sample_rpc = Inr C' \<and> length (rc_hosts C') = 1"
proof -
  obtain C' where C': "RpcContext_ServerInit sample_names sample_config sample_rpc = Inr C'"
    by (simp add: RpcContext_ServerInit_def sample_rpc_def sample_config_def sample_names_def GetIpAddress_def
        FindThisHost_def IsAddressLocal_def HostInfo_new_def Let_def)
  have s: "rc_hosts sample_rpc = []" "\<not> ne_fatal_returns sample_names" "length (host_names (rpc sample_config)) = 1"
    by (simp_all add: sample_rpc_def sample_names_def sample_config_def)
  with rpc_init_spec [OF C' s(1,2)] C' show ?thesis by auto
qed

text \<open>
  C23. Where a task runs, by its domain, on a node of a cluster of more than one host: a local
  task stays; a task for a node stays exactly when the node is this one and otherwise goes
  to that node; a global task goes to every host once. A task for a named set is remote
  but stands for no node, with or without the local node; a task for a node with the local
  node is not a node task any more and never leaves.
\<close>

theorem domain_routing:
  assumes "bitfield B" and "GetNumHosts C \<noteq> 1"
  shows "\<not> DomainId_IsRemote B (GetLocal B) (GetNumHosts C) me \<and>
    (DomainId_IsRemote B (GetNode B k) (GetNumHosts C) me \<longleftrightarrow> k \<noteq> me) \<and> ResolveDomainId B C (GetNode B k) = [GetNode B k] \<and>
    DomainId_IsRemote B (GetGlobal B) (GetNumHosts C) me \<and>
    ResolveDomainId B C (GetGlobal B) = map (\<lambda>h. GetNode B (hi_node_id h)) (rc_hosts C) \<and>
    DomainId_IsRemote B (GetSet B k) (GetNumHosts C) me \<and> ResolveDomainId B C (GetSet B k) = [] \<and>
    DomainId_IsRemote B (GetSetWithLocal B k) (GetNumHosts C) me \<and> ResolveDomainId B C (GetSetWithLocal B k) = [] \<and>
    \<not> DomainId_IsRemote B (GetNodeWithLocal B k) (GetNumHosts C) me \<and> ResolveDomainId B C (GetNodeWithLocal B k) = []"
  using bitfield.ctor_remote_table [OF assms] bitfield.node_with_local_lost(3) [OF assms(1)]
    bitfield.domain_tests [OF assms(1)] bitfield.domain_ctor_bits [OF assms(1)]
  by (simp add: ResolveDomainId_def)

theorem domain_routing_witness:
  "DomainId_IsRemote word_bitfield (GetNode word_bitfield 2) (GetNumHosts sample_rpc) 1 \<and>
   ResolveDomainId word_bitfield sample_rpc (GetSet word_bitfield 5) = []"
proof -
  have "GetNumHosts sample_rpc \<noteq> 1" by (simp add: GetNumHosts_def sample_rpc_def)
  from domain_routing [OF word_bf.bitfield_axioms this, of 1 2] domain_routing [OF word_bf.bitfield_axioms this, of 1 5]
  show ?thesis by simp
qed

end
