(* ===== verification/Thallium.thy ===== *)
theory Thallium
  imports Rpc Worker
begin

text \<open>
  \<^verbatim>\<open>network/rpc_thallium.h\<close>: the wrapper around the network library. The library is the record
  \<open>tl_lib\<close>; an engine and an endpoint are handles of it, an operation that changes an engine
  returns the handle of the changed one, and an exception of the library is a \<open>Thrown\<close>
  value. A call runs on the other node while this one goes on, so it returns the
  local node as it is when the answer arrives.
\<close>

section \<open>The network library\<close>

type_synonym engine = nat
type_synonym endpoint = nat

datatype tl_mode = SERVER_MODE | CLIENT_MODE
datatype bulk_mode = read_only | write_only

text \<open>The argument lists the runtime passes, and memory exposed for bulk transfer.\<close>

datatype rpc_args =
    SmallArgs TaskStateId u32 bytes
  | BulkArgs TaskStateId u32 bytes size_t IoType

type_synonym bulk = bytes

text \<open>
  \<open>tl_bulk_call\<close> also returns what the exposed memory holds at the end. \<open>tl_pull\<close> reads exposed
  memory into a local buffer, \<open>tl_push\<close> writes a local buffer into exposed memory; both
  return the number of bytes moved.
\<close>

record tl_lib =
  tl_engine :: "string \<Rightarrow> tl_mode \<Rightarrow> int \<Rightarrow> engine res"
  tl_define :: "engine \<Rightarrow> string \<Rightarrow> engine"
  tl_serve :: "engine \<Rightarrow> engine res"
  tl_lookup :: "engine \<Rightarrow> string \<Rightarrow> endpoint res"
  tl_shutdown :: "engine \<Rightarrow> endpoint \<Rightarrow> engine res"
  tl_call :: "engine \<Rightarrow> endpoint \<Rightarrow> string \<Rightarrow> rpc_args \<Rightarrow> Node \<Rightarrow> (bytes \<times> Node) res"
  tl_bulk_call :: "engine \<Rightarrow> endpoint \<Rightarrow> string \<Rightarrow> bulk_mode \<Rightarrow> bulk \<Rightarrow> rpc_args \<Rightarrow> Node \<Rightarrow> (bytes \<times> bulk \<times> Node) res"
  tl_pull :: "bulk \<Rightarrow> bytes \<Rightarrow> (nat \<times> bytes) res"
  tl_push :: "bulk \<Rightarrow> bytes \<Rightarrow> (nat \<times> bulk) res"

text \<open>What the library documents of a transfer between regions of the same size.\<close>

locale bulk_transfer =
  fixes TL :: tl_lib
  assumes pull: "length b = length l \<Longrightarrow> tl_pull TL b l = Inr (length l, b)"
    and push: "length b = length l \<Longrightarrow> tl_push TL b l = Inr (length l, l)"

section \<open>State\<close>

record ThalliumRpc =
  client_engine :: "engine option"
  server_engine :: "engine option"
  tr_rpc :: RpcContext

text \<open>Following a pointer to an engine that was never created.\<close>

definition engine_at :: "engine option \<Rightarrow> engine res" where
  "engine_at e = (case e of None \<Rightarrow> Inl NullDeref | Some g \<Rightarrow> Inr g)"

section \<open>Operations\<close>

text \<open>A handler of \<^verbatim>\<open>try\<close>; errors other than exceptions are not caught.\<close>

definition catch :: "'a res \<Rightarrow> 'a res \<Rightarrow> 'a res" where
  "catch m h = (case m of Inl (Thrown _) \<Rightarrow> h | _ \<Rightarrow> m)"

definition ThalliumRpc_ClientInit :: "tl_lib \<Rightarrow> bitfield_lib \<Rightarrow> bool \<Rightarrow> RpcContext \<Rightarrow> ThalliumRpc \<Rightarrow> ThalliumRpc res" where
  "ThalliumRpc_ClientInit TL B fr cx T =
     res_bind (tl_engine TL (GetProtocol cx) CLIENT_MODE 1) (\<lambda>g.
     res_bind (GetHostNameFromNodeId fr cx (GetNode B (rc_node_id cx))) (\<lambda>_.
       Inr (T\<lparr>tr_rpc := cx, client_engine := Some g\<rparr>)))"

definition ThalliumRpc_ServerInit :: "tl_lib \<Rightarrow> bitfield_lib \<Rightarrow> bool \<Rightarrow> RpcContext \<Rightarrow> ThalliumRpc \<Rightarrow> ThalliumRpc res" where
  "ThalliumRpc_ServerInit TL B fr cx T =
     (let T1 = T\<lparr>tr_rpc := cx\<rparr>
      in res_bind (GetMyRpcAddress B fr cx) (\<lambda>addr.
         res_bind (catch (res_bind (tl_engine TL addr SERVER_MODE (rc_num_threads cx)) (\<lambda>g. Inr (T1\<lparr>server_engine := Some g\<rparr>)))
                     (helog_fatal fr ''RPC init failed'' (Inr T1))) (\<lambda>T2.
         res_bind (engine_at (server_engine T2)) (\<lambda>_.
           ThalliumRpc_ClientInit TL B fr cx T2))))"

definition ThalliumRpc_RunDaemon :: "tl_lib \<Rightarrow> ThalliumRpc \<Rightarrow> ThalliumRpc res" where
  "ThalliumRpc_RunDaemon TL T =
     res_bind (engine_at (server_engine T)) (\<lambda>g.
     res_bind (tl_serve TL g) (\<lambda>g'. Inr (T\<lparr>server_engine := Some g'\<rparr>)))"

definition GetServerName :: "bitfield_lib \<Rightarrow> bool \<Rightarrow> ThalliumRpc \<Rightarrow> u32 \<Rightarrow> string res" where
  "GetServerName B fr T node =
     res_bind (GetIpAddressFromNodeId fr (tr_rpc T) (GetNode B node)) (\<lambda>ip.
       Inr (rc_protocol (tr_rpc T) @ ''://'' @ ip @ '':'' @ print_int (rc_port (tr_rpc T))))"

definition StopDaemon :: "tl_lib \<Rightarrow> bitfield_lib \<Rightarrow> bool \<Rightarrow> u32 \<Rightarrow> ThalliumRpc \<Rightarrow> ThalliumRpc res" where
  "StopDaemon TL B fr node T =
     catch (res_bind (GetServerName B fr T node) (\<lambda>server_name.
            res_bind (engine_at (client_engine T)) (\<lambda>g.
            res_bind (tl_lookup TL g server_name) (\<lambda>server.
            res_bind (tl_shutdown TL g server) (\<lambda>g'. Inr (T\<lparr>client_engine := Some g'\<rparr>))))))
       (helog_fatal fr ''Stop daemon failed'' (Inr T))"

definition StopThisDaemon :: "tl_lib \<Rightarrow> bitfield_lib \<Rightarrow> bool \<Rightarrow> ThalliumRpc \<Rightarrow> ThalliumRpc res" where
  "StopThisDaemon TL B fr T = StopDaemon TL B fr (rc_node_id (tr_rpc T)) T"

fun stop_daemons :: "tl_lib \<Rightarrow> bitfield_lib \<Rightarrow> bool \<Rightarrow> nat list \<Rightarrow> ThalliumRpc \<Rightarrow> ThalliumRpc res" where
  "stop_daemons TL B fr [] T = Inr T"
| "stop_daemons TL B fr (k # ks) T = res_bind (StopDaemon TL B fr (of_nat k) T) (stop_daemons TL B fr ks)"

definition StopAllDaemons :: "tl_lib \<Rightarrow> bitfield_lib \<Rightarrow> bool \<Rightarrow> ThalliumRpc \<Rightarrow> ThalliumRpc res" where
  "StopAllDaemons TL B fr T = stop_daemons TL B fr [1..<length (rc_hosts (tr_rpc T)) + 1] T"

definition RegisterRpc :: "tl_lib \<Rightarrow> string \<Rightarrow> ThalliumRpc \<Rightarrow> ThalliumRpc res" where
  "RegisterRpc TL name T =
     res_bind (engine_at (server_engine T)) (\<lambda>g. Inr (T\<lparr>server_engine := Some (tl_define TL g name)\<rparr>))"

text \<open>After the fatal record of a failed call the process exits.\<close>

definition call_failed :: "bool \<Rightarrow> 'a res" where
  "call_failed fr = helog_fatal fr ''Thallium failed on function'' (Inl (Fatal ''exit(1)''))"

definition SyncCall ::
    "tl_lib \<Rightarrow> bitfield_lib \<Rightarrow> bool \<Rightarrow> ThalliumRpc \<Rightarrow> u32 \<Rightarrow> string \<Rightarrow> rpc_args \<Rightarrow> Node \<Rightarrow> (bytes \<times> Node) res" where
  "SyncCall TL B fr T node func_name args N =
     catch (res_bind (GetServerName B fr T node) (\<lambda>server_name.
            res_bind (engine_at (client_engine T)) (\<lambda>g.
            res_bind (tl_lookup TL g server_name) (\<lambda>server. tl_call TL g server func_name args N))))
       (call_failed fr)"

definition SyncIoCall ::
    "tl_lib \<Rightarrow> bitfield_lib \<Rightarrow> bool \<Rightarrow> ThalliumRpc \<Rightarrow> u32 \<Rightarrow> string \<Rightarrow> IoType \<Rightarrow> bytes \<Rightarrow> rpc_args \<Rightarrow> Node \<Rightarrow> (bytes \<times> bytes \<times> Node) res" where
  "SyncIoCall TL B fr T node func_name type data args N =
     catch (res_bind (GetServerName B fr T node) (\<lambda>server_name.
            res_bind (case type of kRead \<Rightarrow> Inr write_only | kWrite \<Rightarrow> Inr read_only
                      | kNone \<Rightarrow> helog_fatal fr ''Cannot have none I/O type'' (Inl (Fatal ''exit(1)''))) (\<lambda>flag.
            res_bind (engine_at (client_engine T)) (\<lambda>g.
            res_bind (tl_lookup TL g server_name) (\<lambda>server.
              tl_bulk_call TL g server func_name flag data args N)))))
       (call_failed fr)"

text \<open>
  The asynchronous calls send the request in the same way and hand back what the library
  returns for it, a response to wait for.
\<close>

record 'r tl_async_lib =
  tl_async :: "engine \<Rightarrow> endpoint \<Rightarrow> string \<Rightarrow> rpc_args \<Rightarrow> Node \<Rightarrow> ('r \<times> Node) res"
  tl_bulk_async :: "engine \<Rightarrow> endpoint \<Rightarrow> string \<Rightarrow> bulk_mode \<Rightarrow> bulk \<Rightarrow> rpc_args \<Rightarrow> Node \<Rightarrow> ('r \<times> Node) res"
  tl_received :: "'r \<Rightarrow> bool"
  tl_response :: "'r \<Rightarrow> bytes res"

definition AsyncCall ::
    "'r tl_async_lib \<Rightarrow> tl_lib \<Rightarrow> bitfield_lib \<Rightarrow> bool \<Rightarrow> ThalliumRpc \<Rightarrow> u32 \<Rightarrow> string \<Rightarrow> rpc_args \<Rightarrow> Node \<Rightarrow> ('r \<times> Node) res" where
  "AsyncCall AL TL B fr T node func_name args N =
     catch (res_bind (GetServerName B fr T node) (\<lambda>server_name.
            res_bind (engine_at (client_engine T)) (\<lambda>g.
            res_bind (tl_lookup TL g server_name) (\<lambda>server. tl_async AL g server func_name args N))))
       (call_failed fr)"

definition AsyncIoCall ::
    "'r tl_async_lib \<Rightarrow> tl_lib \<Rightarrow> bitfield_lib \<Rightarrow> bool \<Rightarrow> ThalliumRpc \<Rightarrow> u32 \<Rightarrow> string \<Rightarrow> IoType \<Rightarrow> bytes \<Rightarrow> rpc_args \<Rightarrow> Node \<Rightarrow> ('r \<times> Node) res" where
  "AsyncIoCall AL TL B fr T node func_name type data args N =
     catch (res_bind (GetServerName B fr T node) (\<lambda>server_name.
            res_bind (case type of kRead \<Rightarrow> Inr write_only | kWrite \<Rightarrow> Inr read_only
                      | kNone \<Rightarrow> helog_fatal fr ''Cannot have none I/O type'' (Inl (Fatal ''exit(1)''))) (\<lambda>flag.
            res_bind (engine_at (client_engine T)) (\<lambda>g.
            res_bind (tl_lookup TL g server_name) (\<lambda>server.
              tl_bulk_async AL g server func_name flag data args N)))))
       (call_failed fr)"

text \<open>Whether the response has arrived, and waiting for it.\<close>

definition IsDone :: "'r tl_async_lib \<Rightarrow> 'r \<Rightarrow> bool" where
  "IsDone AL req = tl_received AL req"

definition rpc_Wait :: "'r tl_async_lib \<Rightarrow> 'r \<Rightarrow> bytes res" where
  "rpc_Wait AL req = tl_response AL req"

text \<open>
  \<^verbatim>\<open>SERIALIZE_ENUM(IoType)\<close>: an argument of that type travels as an \<^verbatim>\<open>int\<close>. An \<^verbatim>\<open>int\<close> that is none of
  the three values gives a value of the enumeration that has no name, \<open>None\<close>.
\<close>

definition IoType_save :: "cereal_lib \<Rightarrow> IoType \<Rightarrow> bytes" where
  "IoType_save C mode = c_enc C (V32 (case mode of kRead \<Rightarrow> 0 | kWrite \<Rightarrow> 1 | kNone \<Rightarrow> 2))"

definition IoType_load :: "cereal_lib \<Rightarrow> bytes \<Rightarrow> (IoType option \<times> bytes) res" where
  "IoType_load C bs = res_bind (c_dec C T32 bs) (\<lambda>(v, rest).
     Inr (case v of V32 x \<Rightarrow> if x = 0 then Some kRead else if x = 1 then Some kWrite else if x = 2 then Some kNone else None
          | _ \<Rightarrow> None, rest))"

text \<open>
  The transfer on the called node: the number of bytes moved, the exposed memory of the
  caller and the local buffer afterwards. The exposed memory has as many bytes as the buffer.
\<close>

definition IoCallServer :: "tl_lib \<Rightarrow> bool \<Rightarrow> bulk \<Rightarrow> IoType \<Rightarrow> bytes \<Rightarrow> (nat \<times> bulk \<times> bytes) res" where
  "IoCallServer TL fr bulk type data =
     res_bind (if type = kNone then helog_fatal fr ''Cannot have none I/O type'' (Inr ()) else Inr ()) (\<lambda>_.
     res_bind (catch (case type of
                  kRead \<Rightarrow> res_bind (tl_push TL bulk data) (\<lambda>(n, bulk'). Inr (n, bulk', data))
                | kWrite \<Rightarrow> res_bind (tl_pull TL bulk data) (\<lambda>(n, data'). Inr (n, bulk, data'))
                | kNone \<Rightarrow> helog_fatal fr ''Cannot have none I/O type'' (Inr (0, bulk, data)))
                (helog_fatal fr ''Failed to perform bulk I/O thallium'' (Inr (0, bulk, data)))) (\<lambda>(n, bulk', data').
       if n \<noteq> length data then helog_fatal fr ''Failed to perform bulk I/O thallium'' (Inr (n, bulk', data'))
       else Inr (n, bulk', data')))"

section \<open>A reference network\<close>

text \<open>
  A library in which every server exists, every call is answered by a given function, and
  an engine counts the procedures and shutdowns it was given.
\<close>

definition ref_net :: "(string \<Rightarrow> rpc_args \<Rightarrow> bytes) \<Rightarrow> tl_lib" where
  "ref_net answer = \<lparr>tl_engine = (\<lambda>_ _ _. Inr 0), tl_define = (\<lambda>g _. Suc g), tl_serve = Inr, tl_lookup = (\<lambda>_ s. Inr (length s)),
     tl_shutdown = (\<lambda>g _. Inr (Suc g)), tl_call = (\<lambda>_ _ f a N. Inr (answer f a, N)),
     tl_bulk_call = (\<lambda>_ _ f _ b a N. Inr (answer f a, b, N)),
     tl_pull = (\<lambda>b l. Inr (length l, b)), tl_push = (\<lambda>b l. Inr (length l, l))\<rparr>"

interpretation ref_transfer: bulk_transfer "ref_net answer" for answer
  by unfold_locales (simp_all add: ref_net_def)

definition sample_thallium :: ThalliumRpc where
  "sample_thallium = \<lparr>client_engine = Some 0, server_engine = Some 0, tr_rpc = sample_rpc\<lparr>rc_protocol := ''tcp'', rc_port := 8080,
     rc_hosts := [HostInfo_new ''a'' ''10.0.0.1'' 1, HostInfo_new ''b'' ''10.0.0.2'' 2]\<rparr>\<rparr>"

section \<open>Facts\<close>

lemma catch_Inr [simp]: "catch (Inr x) h = Inr x"
  by (simp add: catch_def)

lemma catch_Inr_iff: "catch m h = Inr x \<longleftrightarrow> m = Inr x \<or> (\<exists>e. m = Inl (Thrown e)) \<and> h = Inr x"
  by (auto simp: catch_def split: sum.splits error.splits)

lemma engine_at_Some [simp]: "engine_at (Some g) = Inr g"
  by (simp add: engine_at_def)

text \<open>
  When the library answers an asynchronous request with the result the synchronous call would
  have had, the two functions agree, failures included.
\<close>

lemma AsyncCall_eq_SyncCall:
  assumes "\<And>g sv. tl_async AL g sv f a N = tl_call TL g sv f a N"
  shows "AsyncCall AL TL B fr T node f a N = SyncCall TL B fr T node f a N"
  using assms by (simp add: AsyncCall_def SyncCall_def)

context cereal
begin

lemma IoType_load_save: "IoType_load C (IoType_save C mode @ rest) = Inr (Some mode, rest)"
proof -
  have "c_dec C T32 (c_enc C (V32 x) @ rest) = Inr (V32 x, rest)" for x using dec_enc [of "V32 x" rest] by simp
  then show ?thesis by (cases mode) (simp_all add: IoType_load_def IoType_save_def)
qed

end

text \<open>What the library documents of a request: its response is what the call would have returned.\<close>

locale async_rpc =
  fixes AL :: "'r tl_async_lib" and TL :: tl_lib
  assumes response: "tl_async AL g sv f a N = Inr (r, N1) \<Longrightarrow> \<exists>N2. res_bind (tl_response AL r) (\<lambda>x. Inr (x, N2)) = tl_call TL g sv f a N"
    and refused: "tl_async AL g sv f a N = Inl e \<Longrightarrow> tl_call TL g sv f a N = Inl e"
begin

text \<open>Sending a request and waiting for it gives the answer of the blocking call, if there is one.\<close>

lemma Wait_AsyncCall:
  assumes "AsyncCall AL TL B fr T node f a N = Inr (r, N1)" and "SyncCall TL B fr T node f a N = Inr (x, N2)"
  shows "rpc_Wait AL r = Inr x"
proof -
  from assms(1) obtain s g sv where s: "GetServerName B fr T node = Inr s" "engine_at (client_engine T) = Inr g" "tl_lookup TL g s = Inr sv"
    and r: "tl_async AL g sv f a N = Inr (r, N1)"
    by (auto simp: AsyncCall_def catch_Inr_iff call_failed_def helog_fatal_def res_bind_Inr_iff split: if_splits)
  from assms(2) s have "tl_call TL g sv f a N = Inr (x, N2)"
    by (auto simp: SyncCall_def catch_Inr_iff call_failed_def helog_fatal_def split: if_splits)
  with response [OF r] show ?thesis by (auto simp: rpc_Wait_def res_bind_Inr_iff)
qed

end

definition ref_async :: "(string \<Rightarrow> rpc_args \<Rightarrow> bytes) \<Rightarrow> bytes tl_async_lib" where
  "ref_async answer = \<lparr>tl_async = (\<lambda>_ _ f a N. Inr (answer f a, N)), tl_bulk_async = (\<lambda>_ _ f _ _ a N. Inr (answer f a, N)),
     tl_received = (\<lambda>_. True), tl_response = Inr\<rparr>"

interpretation ref_requests: async_rpc "ref_async answer" "ref_net answer" for answer
  by unfold_locales (simp_all add: ref_async_def ref_net_def)

lemma AsyncIoCall_kNone: "AsyncIoCall AL TL B fr T node f kNone data a N \<noteq> Inr x"
  by (auto simp: AsyncIoCall_def catch_Inr_iff res_bind_Inr_iff call_failed_def helog_fatal_def)

context bulk_transfer
begin

text \<open>A write fills the buffer of the called node, a read that of the caller.\<close>

lemma IoCallServer_ok:
  assumes "length bulk = length data"
  shows "IoCallServer TL fr bulk kWrite data = Inr (length data, bulk, bulk)"
    and "IoCallServer TL fr bulk kRead data = Inr (length data, data, data)"
  using pull [OF assms] push [OF assms] by (simp_all add: IoCallServer_def)

end

text \<open>A call that comes back was sent to the address of the node in the host table.\<close>

lemma SyncCall_reaches:
  assumes "SyncCall TL B fr T node f args N = Inr (ret, N')" and "\<not> fr"
  shows "\<exists>ip g server. GetIpAddressFromNodeId False (tr_rpc T) (GetNode B node) = Inr ip \<and> client_engine T = Some g \<and>
    tl_lookup TL g (rc_protocol (tr_rpc T) @ ''://'' @ ip @ '':'' @ print_int (rc_port (tr_rpc T))) = Inr server \<and>
    tl_call TL g server f args N = Inr (ret, N')"
  using assms
  by (auto simp: SyncCall_def catch_Inr_iff call_failed_def helog_fatal_def GetServerName_def res_bind_Inr_iff engine_at_def
      split: option.splits)

end
