(* ===== verification/AdminServer.thy ===== *)
theory AdminServer
  imports Client Sched Thallium
begin

text \<open>
  \<^verbatim>\<open>hermes_run_admin.cc\<close> and \<^verbatim>\<open>hermes_run_admin.h\<close>: the handlers of the administration library
  and the client that calls it. The handlers act on the node, on the work orchestrator and
  on the two scheduler tasks the server remembers. Waiting for a subtask inside a handler
  suspends its coroutine; what the rest of the system does until the subtask is complete is
  the operation \<open>ae_wait\<close> of the environment.
\<close>

section \<open>State\<close>

record Admin =
  queue_sched :: "Pointer option"
  proc_sched :: "Pointer option"
  ad_queue_id :: QueueId
  ad_node :: Node
  ad_worch :: WorkOrchestrator
  ad_thallium :: ThalliumRpc

record admin_env =
  ae_queue :: queue_env
  ae_qvec :: qvec_lib
  ae_group_mem :: LaneGroup
  ae_alloc :: alloc_lib
  ae_shm :: shm_env
  ae_loader :: loader
  ae_create :: "nat option \<Rightarrow> TaskObj \<Rightarrow> string \<Rightarrow> TaskRegistry \<Rightarrow> nat option \<times> TaskObj \<times> TaskRegistry"
  ae_client :: TaskLibClient
  ae_tl :: tl_lib
  ae_fatal_returns :: bool
  ae_wait :: "Pointer \<Rightarrow> Node \<Rightarrow> Node res"

abbreviation "ae_bits X \<equiv> qe_bits (ae_queue X)"

definition Admin_new :: "Admin \<Rightarrow> Admin" where
  "Admin_new mem = mem\<lparr>queue_sched := None, proc_sched := None\<rparr>"

text \<open>A step on the node, and one on the node and a task of a class.\<close>

definition on_node :: "(Node \<Rightarrow> Node res) \<Rightarrow> Admin \<Rightarrow> Admin res" where
  "on_node f A = res_bind (f (ad_node A)) (\<lambda>N. Inr (A\<lparr>ad_node := N\<rparr>))"

definition with_task :: "(payload \<Rightarrow> bool) \<Rightarrow> Pointer \<Rightarrow> (TaskObj \<Rightarrow> Node \<Rightarrow> Node res) \<Rightarrow> Admin \<Rightarrow> Admin res" where
  "with_task is_cls p f = on_node (\<lambda>N. res_bind (task_at N p) (\<lambda>t. if is_cls (pl t) then f t N else Inl BadCast))"

section \<open>Handlers\<close>

definition srv_RegisterTaskLib :: "admin_env \<Rightarrow> Pointer \<Rightarrow> Admin \<Rightarrow> Admin res" where
  "srv_RegisterTaskLib X p = with_task is_PRegisterTaskLib p (\<lambda>t N.
     let lib_name = rl_lib_name (un_RegisterTaskLib (pl t))
     in Inr (put_task p (SetModuleComplete (ae_bits X) t)
              (N\<lparr>registry := fst (snd (RegisterTaskLib (ae_loader X) lib_name (registry N)))\<rparr>)))"

definition srv_DestroyTaskLib :: "admin_env \<Rightarrow> Pointer \<Rightarrow> Admin \<Rightarrow> Admin res" where
  "srv_DestroyTaskLib X p = with_task is_PRegisterTaskLib p (\<lambda>t N.
     let lib_name = rl_lib_name (un_RegisterTaskLib (pl t))
     in Inr (put_task p (SetModuleComplete (ae_bits X) t)
              (N\<lparr>registry := fst (DestroyTaskLib lib_name (registry N))\<rparr>)))"

text \<open>The registry draws a new id from the counter of the shared header.\<close>

definition srv_GetOrCreateTaskStateId :: "admin_env \<Rightarrow> Pointer \<Rightarrow> Admin \<Rightarrow> Admin res" where
  "srv_GetOrCreateTaskStateId X p = with_task is_PGetOrCreateTaskStateId p (\<lambda>t N.
     case GetOrCreateTaskStateId (gc_state_name (un_GetOrCreate (pl t))) (registry N) (hdr_unique (header N)) of
       (i, R, u) \<Rightarrow> Inr (put_task p (SetModuleComplete (ae_bits X)
            (pay_upd un_GetOrCreate PGetOrCreateTaskStateId gc_id_update (\<lambda>_. i) t))
          (N\<lparr>registry := R, header := (header N)\<lparr>hdr_unique := u\<rparr>\<rparr>)))"

text \<open>\<open>CreateTaskState\<close> once the id is known.\<close>

definition create_with_id :: "admin_env \<Rightarrow> Pointer \<Rightarrow> Node \<Rightarrow> Node res" where
  "create_with_id X p N =
     res_bind (task_at N p) (\<lambda>t.
       let r = un_CreateTaskState (pl t); i = cs_id r
       in if UniqueId_IsNull i then Inr (put_task p (SetModuleComplete (ae_bits X) t) N)
          else if TaskStateExists (registry N) i then Inr (put_task p (SetModuleComplete (ae_bits X) t) N)
          else res_bind (CreateQueue (ae_queue X) (ae_qvec X) (ae_group_mem X) (queues N) (UniqueId_copy i) (cs_queue_info r)) (\<lambda>qs.
            let t1 = t\<lparr>method_id := kConstruct\<rparr>
            in case CreateTaskState (ae_bits X) (ae_create X) (cs_lib_name r) (cs_state_name r) i t1 (registry N) of
                 (ret, t2, R) \<Rightarrow>
                   let t3 = (if \<not> ret then SetModuleComplete (ae_bits X) t2 else t2)
                   in Inr (put_task p t3 (N\<lparr>queues := qs, registry := R\<rparr>))))"

text \<open>Asking node 1 for the id of a name, through a subtask.\<close>

definition fetch_id :: "admin_env \<Rightarrow> Pointer \<Rightarrow> TaskObj \<Rightarrow> Node \<Rightarrow> Node res" where
  "fetch_id X p t N =
     res_bind (Async (ae_queue X) (ae_alloc X) (tc_queue_id (ae_client X))
         (\<lambda>tn mem. GetOrCreateTaskStateIdTask_new (ae_shm X) (tc_id (ae_client X)) mem tn
            (GetNode (ae_bits X) 1) (cs_state_name (un_CreateTaskState (pl t))))
         (TaskNode_plus (task_node t) 1) N) (\<lambda>(get_id, N1).
     res_bind (ae_wait X (lp_shm get_id) N1) (\<lambda>N2.
     res_bind (task_at N2 (lp_shm get_id)) (\<lambda>g.
     res_bind (upd_task p (pay_upd un_CreateTaskState PCreateTaskState cs_id_update
         (\<lambda>_. gc_id (un_GetOrCreate (pl g)))) N2) (\<lambda>N3.
       DelTask (ae_fatal_returns X) trivial_dtor (lp_shm get_id) N3))))"

definition srv_CreateTaskState :: "admin_env \<Rightarrow> Pointer \<Rightarrow> Admin \<Rightarrow> Admin res" where
  "srv_CreateTaskState X p = with_task is_PCreateTaskState p (\<lambda>t N.
     let r = un_CreateTaskState (pl t)
     in case GetTaskState_name (registry N) (cs_state_name r) (cs_id r) of
          Some a \<Rightarrow> (case objects (registry N) a of
              None \<Rightarrow> Inl Dangling
            | Some s \<Rightarrow> Inr (put_task p (SetModuleComplete (ae_bits X)
                (pay_upd un_CreateTaskState PCreateTaskState cs_id_update (\<lambda>_. tl_id s) t)) N))
        | None \<Rightarrow>
            res_bind (if UniqueId_IsNull (cs_id r) then fetch_id X p t N else Inr N) (create_with_id X p))"

definition srv_GetTaskStateId :: "admin_env \<Rightarrow> Pointer \<Rightarrow> Admin \<Rightarrow> Admin res" where
  "srv_GetTaskStateId X p = with_task is_PGetTaskStateId p (\<lambda>t N.
     Inr (put_task p (SetModuleComplete (ae_bits X) (pay_upd un_GetTaskStateId PGetTaskStateId gt_id_update
       (\<lambda>_. GetTaskStateId (gt_state_name (un_GetTaskStateId (pl t))) (registry N)) t)) N))"

definition srv_DestroyTaskState :: "admin_env \<Rightarrow> Pointer \<Rightarrow> Admin \<Rightarrow> Admin res" where
  "srv_DestroyTaskState X p = with_task is_PDestroyTaskState p (\<lambda>t N.
     res_bind (DestroyTaskState (ds_id (un_DestroyTaskState (pl t))) (registry N)) (\<lambda>R.
       Inr (put_task p (SetModuleComplete (ae_bits X) t) (N\<lparr>registry := R\<rparr>))))"

definition srv_StopRuntime :: "admin_env \<Rightarrow> Pointer \<Rightarrow> Admin \<Rightarrow> Admin res" where
  "srv_StopRuntime X p A =
     res_bind (StopThisDaemon (ae_tl X) (ae_bits X) (ae_fatal_returns X) (ad_thallium A)) (\<lambda>T.
       on_node (upd_task p (SetModuleComplete (ae_bits X)))
         (A\<lparr>ad_worch := FinalizeRuntime (ad_worch A), ad_thallium := T\<rparr>))"

text \<open>
  The two policy handlers differ in the member they use. The old scheduler is told to end;
  while it has not ended the handler returns without completing its task, so it runs again.
\<close>

definition set_policy ::
    "(Admin \<Rightarrow> Pointer option) \<Rightarrow> ((Pointer option \<Rightarrow> Pointer option) \<Rightarrow> Admin \<Rightarrow> Admin) \<Rightarrow>
     admin_env \<Rightarrow> Pointer \<Rightarrow> Admin \<Rightarrow> Admin res" where
  "set_policy sched sched_update X p A =
     res_bind (task_at (ad_node A) p) (\<lambda>t. if \<not> is_PSetPolicy (pl t) then Inl BadCast else
     res_bind (case sched A of None \<Rightarrow> Inr A | Some q \<Rightarrow> on_node (upd_task q (SetModuleComplete (ae_bits X))) A) (\<lambda>A1.
     res_bind (case sched A1 of None \<Rightarrow> Inr True
               | Some q \<Rightarrow> res_bind (task_at (ad_node A1) q) (\<lambda>s. Inr (IsComplete (ae_bits X) s))) (\<lambda>ended.
       if \<not> ended then Inr A1
       else res_bind (NewTask (ae_alloc X) (\<lambda>mem. ScheduleTask_new (ae_shm X) mem (task_node t)
                (GetLocal (ae_bits X)) (wp_policy_id (un_SetPolicy (pl t)))) (ad_node A1)) (\<lambda>(lp, N1).
            res_bind (queue_emplace (ae_queue X) (ad_queue_id A1) 0 0 (lp_shm lp) N1) (\<lambda>N2.
              on_node (upd_task p (SetModuleComplete (ae_bits X)))
                (sched_update (\<lambda>_. lp_ptr lp) (A1\<lparr>ad_node := N2\<rparr>)))))))"

definition srv_SetWorkOrchQueuePolicy :: "admin_env \<Rightarrow> Pointer \<Rightarrow> Admin \<Rightarrow> Admin res" where
  "srv_SetWorkOrchQueuePolicy = set_policy queue_sched queue_sched_update"

definition srv_SetWorkOrchProcPolicy :: "admin_env \<Rightarrow> Pointer \<Rightarrow> Admin \<Rightarrow> Admin res" where
  "srv_SetWorkOrchProcPolicy = set_policy proc_sched proc_sched_update"

section \<open>Dispatch\<close>

definition admin_Run :: "admin_env \<Rightarrow> u32 \<Rightarrow> Pointer \<Rightarrow> Admin \<Rightarrow> Admin res" where
  "admin_Run X m p A =
     (if m = kCreateTaskState then srv_CreateTaskState X p A
      else if m = kDestroyTaskState then srv_DestroyTaskState X p A
      else if m = kRegisterTaskLib then srv_RegisterTaskLib X p A
      else if m = kDestroyTaskLib then srv_DestroyTaskLib X p A
      else if m = kGetOrCreateTaskStateId then srv_GetOrCreateTaskStateId X p A
      else if m = kGetTaskStateId then srv_GetTaskStateId X p A
      else if m = kStopRuntime then srv_StopRuntime X p A
      else if m = kSetWorkOrchQueuePolicy then srv_SetWorkOrchQueuePolicy X p A
      else if m = kSetWorkOrchProcPolicy then srv_SetWorkOrchProcPolicy X p A
      else Inr A)"

definition admin_Del :: "bool \<Rightarrow> u32 \<Rightarrow> Pointer \<Rightarrow> Node \<Rightarrow> Node res" where
  "admin_Del fr m p N =
     (if m \<in> {kCreateTaskState, kDestroyTaskState, kRegisterTaskLib, kDestroyTaskLib, kGetOrCreateTaskStateId,
              kGetTaskStateId, kStopRuntime, kSetWorkOrchQueuePolicy, kSetWorkOrchProcPolicy}
      then DelTask fr trivial_dtor p N else Inr N)"

section \<open>Client\<close>

definition Admin_Client_new :: "'a QueueManager_scheme \<Rightarrow> TaskLibClient" where
  "Admin_Client_new qm = \<lparr>tc_id = UniqueId_copy (admin_queue qm), tc_queue_id = admin_queue qm\<rparr>"

text \<open>The construct functions of the client, applied to their arguments after the task node.\<close>

definition AsyncRegisterTaskLibConstruct :: "shm_env \<Rightarrow> TaskLibClient \<Rightarrow> DomainId \<Rightarrow> string \<Rightarrow> TaskNode \<Rightarrow> TaskObj \<Rightarrow> TaskObj" where
  "AsyncRegisterTaskLibConstruct S cl d lib_name tn mem = RegisterTaskLibTask_new 0 S (tc_id cl) mem tn d lib_name"

definition AsyncDestroyTaskLibConstruct :: "shm_env \<Rightarrow> TaskLibClient \<Rightarrow> DomainId \<Rightarrow> string \<Rightarrow> TaskNode \<Rightarrow> TaskObj \<Rightarrow> TaskObj" where
  "AsyncDestroyTaskLibConstruct S cl d lib_name tn mem = RegisterTaskLibTask_new 1 S (tc_id cl) mem tn d lib_name"

definition AsyncGetOrCreateTaskStateIdConstruct ::
    "shm_env \<Rightarrow> TaskLibClient \<Rightarrow> DomainId \<Rightarrow> string \<Rightarrow> TaskNode \<Rightarrow> TaskObj \<Rightarrow> TaskObj" where
  "AsyncGetOrCreateTaskStateIdConstruct S cl d name tn mem = GetOrCreateTaskStateIdTask_new S (tc_id cl) mem tn d name"

definition AsyncGetTaskStateIdConstruct ::
    "shm_env \<Rightarrow> TaskLibClient \<Rightarrow> DomainId \<Rightarrow> string \<Rightarrow> TaskNode \<Rightarrow> TaskObj \<Rightarrow> TaskObj" where
  "AsyncGetTaskStateIdConstruct S cl d name tn mem = GetTaskStateIdTask_new S (tc_id cl) mem tn d name"

definition AsyncDestroyTaskStateConstruct ::
    "shm_env \<Rightarrow> TaskLibClient \<Rightarrow> DomainId \<Rightarrow> TaskStateId \<Rightarrow> TaskNode \<Rightarrow> TaskObj \<Rightarrow> TaskObj" where
  "AsyncDestroyTaskStateConstruct S cl d i tn mem = DestroyTaskStateTask_new S (tc_id cl) mem tn d i"

definition AsyncStopRuntimeConstruct :: "shm_env \<Rightarrow> TaskLibClient \<Rightarrow> DomainId \<Rightarrow> TaskNode \<Rightarrow> TaskObj \<Rightarrow> TaskObj" where
  "AsyncStopRuntimeConstruct S cl d tn mem = StopRuntimeTask_new S (tc_id cl) mem tn d"

definition AsyncSetWorkOrchQueuePolicyConstruct ::
    "shm_env \<Rightarrow> TaskLibClient \<Rightarrow> DomainId \<Rightarrow> TaskStateId \<Rightarrow> TaskNode \<Rightarrow> TaskObj \<Rightarrow> TaskObj" where
  "AsyncSetWorkOrchQueuePolicyConstruct S cl d policy tn mem = SetWorkOrchestratorPolicyTask_new 0 S (tc_id cl) mem tn d policy"

definition AsyncSetWorkOrchProcPolicyConstruct ::
    "shm_env \<Rightarrow> TaskLibClient \<Rightarrow> DomainId \<Rightarrow> TaskStateId \<Rightarrow> TaskNode \<Rightarrow> TaskObj \<Rightarrow> TaskObj" where
  "AsyncSetWorkOrchProcPolicyConstruct S cl d policy tn mem = SetWorkOrchestratorPolicyTask_new 1 S (tc_id cl) mem tn d policy"

text \<open>
  A blocking call: submit, wait until the task is complete (\<open>wait\<close>), read the result, delete
  the task. The creation of a state passes its root node on as it is.
\<close>

definition finish_call ::
    "bool \<Rightarrow> (Pointer \<Rightarrow> Node \<Rightarrow> Node res) \<Rightarrow> (TaskObj \<Rightarrow> 'r) \<Rightarrow> LPointer \<times> Node \<Rightarrow> ('r \<times> Node) res" where
  "finish_call fr wait result = (\<lambda>(lp, N1).
     res_bind (wait (lp_shm lp) N1) (\<lambda>N2.
     res_bind (task_at N2 (lp_shm lp)) (\<lambda>t.
     res_bind (DelTask fr trivial_dtor (lp_shm lp) N2) (\<lambda>N3. Inr (result t, N3)))))"

definition AsyncCreateTaskStateConstruct ::
    "(TaskNode \<Rightarrow> TaskObj \<Rightarrow> TaskObj) \<Rightarrow> Pointer \<Rightarrow> TaskNode \<Rightarrow> Node \<Rightarrow> Node res" where
  "AsyncCreateTaskStateConstruct con p tn N = ConstructTask (con tn) p N"

definition AsyncCreateTaskStateAlloc ::
    "alloc_lib \<Rightarrow> (TaskNode \<Rightarrow> TaskObj \<Rightarrow> TaskObj) \<Rightarrow> TaskNode \<Rightarrow> Node \<Rightarrow> (LPointer \<times> Node) res" where
  "AsyncCreateTaskStateAlloc A con tn N =
     res_bind (AllocateTask A N) (\<lambda>(lp, N1).
       case lp_ptr lp of
         None \<Rightarrow> Inl NullDeref
       | Some p \<Rightarrow> res_bind (AsyncCreateTaskStateConstruct con p tn N1) (\<lambda>N2. Inr (lp, N2)))"

definition AsyncCreateTaskState ::
    "queue_env \<Rightarrow> alloc_lib \<Rightarrow> TaskLibClient \<Rightarrow> (TaskNode \<Rightarrow> TaskObj \<Rightarrow> TaskObj) \<Rightarrow> TaskNode \<Rightarrow> Node \<Rightarrow> (LPointer \<times> Node) res" where
  "AsyncCreateTaskState E A cl con tn N =
     res_bind (AsyncCreateTaskStateAlloc A con tn N) (\<lambda>(lp, N1).
     res_bind (task_at N1 (lp_shm lp)) (\<lambda>t.
     res_bind (queue_emplace E (tc_queue_id cl) (prio t) (lane_hash t) (lp_shm lp) N1) (\<lambda>N2. Inr (lp, N2))))"

definition AsyncCreateTaskStateRoot ::
    "queue_env \<Rightarrow> alloc_lib \<Rightarrow> TaskLibClient \<Rightarrow> (TaskNode \<Rightarrow> TaskObj \<Rightarrow> TaskObj) \<Rightarrow> Node \<Rightarrow> (LPointer \<times> Node) res" where
  "AsyncCreateTaskStateRoot E A cl con N = (case MakeTaskNodeId N of (tn, N1) \<Rightarrow> AsyncCreateTaskState E A cl con tn N1)"

definition CreateTaskStateRoot ::
    "queue_env \<Rightarrow> alloc_lib \<Rightarrow> bool \<Rightarrow> (Pointer \<Rightarrow> Node \<Rightarrow> Node res) \<Rightarrow> TaskLibClient \<Rightarrow> (TaskNode \<Rightarrow> TaskObj \<Rightarrow> TaskObj) \<Rightarrow>
     Node \<Rightarrow> (TaskStateId \<times> Node) res" where
  "CreateTaskStateRoot E A fr wait cl con N =
     res_bind (AsyncCreateTaskStateRoot E A cl con N)
       (finish_call fr wait (\<lambda>t. cs_id (un_CreateTaskState (pl t))))"

definition RegisterTaskLibRoot ::
    "queue_env \<Rightarrow> alloc_lib \<Rightarrow> shm_env \<Rightarrow> bool \<Rightarrow> (Pointer \<Rightarrow> Node \<Rightarrow> Node res) \<Rightarrow> TaskLibClient \<Rightarrow> DomainId \<Rightarrow> string \<Rightarrow>
     Node \<Rightarrow> (unit \<times> Node) res" where
  "RegisterTaskLibRoot E A S fr wait cl d lib_name N =
     res_bind (Async_Root E A (tc_queue_id cl) (AsyncRegisterTaskLibConstruct S cl d lib_name) N)
       (finish_call fr wait (\<lambda>_. ()))"

definition DestroyTaskLibRoot ::
    "queue_env \<Rightarrow> alloc_lib \<Rightarrow> shm_env \<Rightarrow> bool \<Rightarrow> (Pointer \<Rightarrow> Node \<Rightarrow> Node res) \<Rightarrow> TaskLibClient \<Rightarrow> DomainId \<Rightarrow> string \<Rightarrow>
     Node \<Rightarrow> (unit \<times> Node) res" where
  "DestroyTaskLibRoot E A S fr wait cl d lib_name N =
     res_bind (Async_Root E A (tc_queue_id cl) (AsyncDestroyTaskLibConstruct S cl d lib_name) N)
       (finish_call fr wait (\<lambda>_. ()))"

definition GetOrCreateTaskStateIdRoot ::
    "queue_env \<Rightarrow> alloc_lib \<Rightarrow> shm_env \<Rightarrow> bool \<Rightarrow> (Pointer \<Rightarrow> Node \<Rightarrow> Node res) \<Rightarrow> TaskLibClient \<Rightarrow> DomainId \<Rightarrow> string \<Rightarrow>
     Node \<Rightarrow> (TaskStateId \<times> Node) res" where
  "GetOrCreateTaskStateIdRoot E A S fr wait cl d name N =
     res_bind (Async_Root E A (tc_queue_id cl) (AsyncGetOrCreateTaskStateIdConstruct S cl d name) N)
       (finish_call fr wait (\<lambda>t. gc_id (un_GetOrCreate (pl t))))"

definition GetTaskStateIdRoot ::
    "queue_env \<Rightarrow> alloc_lib \<Rightarrow> shm_env \<Rightarrow> bool \<Rightarrow> (Pointer \<Rightarrow> Node \<Rightarrow> Node res) \<Rightarrow> TaskLibClient \<Rightarrow> DomainId \<Rightarrow> string \<Rightarrow>
     Node \<Rightarrow> (TaskStateId \<times> Node) res" where
  "GetTaskStateIdRoot E A S fr wait cl d name N =
     res_bind (Async_Root E A (tc_queue_id cl) (AsyncGetTaskStateIdConstruct S cl d name) N)
       (finish_call fr wait (\<lambda>t. gt_id (un_GetTaskStateId (pl t))))"

definition DestroyTaskStateRoot ::
    "queue_env \<Rightarrow> alloc_lib \<Rightarrow> shm_env \<Rightarrow> bool \<Rightarrow> (Pointer \<Rightarrow> Node \<Rightarrow> Node res) \<Rightarrow> TaskLibClient \<Rightarrow> DomainId \<Rightarrow> TaskStateId \<Rightarrow>
     Node \<Rightarrow> (unit \<times> Node) res" where
  "DestroyTaskStateRoot E A S fr wait cl d i N =
     res_bind (Async_Root E A (tc_queue_id cl) (AsyncDestroyTaskStateConstruct S cl d i) N)
       (finish_call fr wait (\<lambda>_. ()))"

definition SetWorkOrchQueuePolicyRoot ::
    "queue_env \<Rightarrow> alloc_lib \<Rightarrow> shm_env \<Rightarrow> bool \<Rightarrow> (Pointer \<Rightarrow> Node \<Rightarrow> Node res) \<Rightarrow> TaskLibClient \<Rightarrow> DomainId \<Rightarrow> TaskStateId \<Rightarrow>
     Node \<Rightarrow> (unit \<times> Node) res" where
  "SetWorkOrchQueuePolicyRoot E A S fr wait cl d policy N =
     res_bind (Async_Root E A (tc_queue_id cl) (AsyncSetWorkOrchQueuePolicyConstruct S cl d policy) N)
       (finish_call fr wait (\<lambda>_. ()))"

definition SetWorkOrchProcPolicyRoot ::
    "queue_env \<Rightarrow> alloc_lib \<Rightarrow> shm_env \<Rightarrow> bool \<Rightarrow> (Pointer \<Rightarrow> Node \<Rightarrow> Node res) \<Rightarrow> TaskLibClient \<Rightarrow> DomainId \<Rightarrow> TaskStateId \<Rightarrow>
     Node \<Rightarrow> (unit \<times> Node) res" where
  "SetWorkOrchProcPolicyRoot E A S fr wait cl d policy N =
     res_bind (Async_Root E A (tc_queue_id cl) (AsyncSetWorkOrchProcPolicyConstruct S cl d policy) N)
       (finish_call fr wait (\<lambda>_. ()))"

section \<open>Facts\<close>

text \<open>A state that does not exist is created or refused; a library that is not loaded has it refused.\<close>

lemma new_state_outcome:
  assumes "state_factory cs" and "CreateTaskState B cs lib name i t R = (ret, t', R')" and "\<not> TaskStateExists R i" and "\<not> UniqueId_IsNull i"
  shows "(libs R lib = None \<longrightarrow> \<not> TaskStateExists R' i) \<and>
    (if TaskStateExists R' i then ret \<and> (\<forall>j. \<not> UniqueId_eq i j \<longrightarrow> GetTaskState R' j = GetTaskState R j) else \<not> ret \<and> R' = R)"
proof (cases "libs R lib")
  case None
  with state_factory.CreateTaskState_fails [OF assms(1,2)] assms(3) show ?thesis by auto
next
  case (Some info)
  from state_factory.CreateTaskState_new [OF assms(1,2,4) Some assms(3)] assms(3) Some show ?thesis
    by (auto simp: TaskStateExists_def GetTaskState_def UniqueId_eq_key split: if_splits)
qed

text \<open>The creation of a state on a well-formed node, once its id is known and not null.\<close>

lemma create_with_id_spec:
  assumes "bitfield (ae_bits X)" and "state_factory (ae_create X)" and "queue_table (ae_qvec X)"
    and "table_wf (queues N)" and "registry_wf (registry N)"
    and "heap N p = Some t" and "pl t = PCreateTaskState r" and "\<not> UniqueId_IsNull (cs_id r)"
    and "create_with_id X p N = Inr N'"
  shows "if TaskStateExists (registry N) (cs_id r)
    then registry N' = registry N \<and> queues N' = queues N \<and> heap N' p = Some (SetModuleComplete (ae_bits X) t)
    else table_wf (queues N') \<and> registry_wf (registry N') \<and>
      unat (unique (cs_id r)) < length (queues N) \<and> \<not> UniqueId_IsNull (mq_id (queues N' ! unat (unique (cs_id r)))) \<and>
      (\<forall>i. i \<noteq> unat (unique (cs_id r)) \<longrightarrow> queues N' ! i = queues N ! i) \<and>
      (libs (registry N) (cs_lib_name r) = None \<longrightarrow> \<not> TaskStateExists (registry N') (cs_id r)) \<and>
      (if TaskStateExists (registry N') (cs_id r)
       then \<forall>j. \<not> UniqueId_eq (cs_id r) j \<longrightarrow> GetTaskState (registry N') j = GetTaskState (registry N) j
       else registry N' = registry N \<and> (\<exists>t'. heap N' p = Some t' \<and> IsModuleComplete (ae_bits X) t'))"
proof (cases "TaskStateExists (registry N) (cs_id r)")
  case True
  with assms(6-9) show ?thesis by (auto simp: create_with_id_def task_at_def)
next
  case False
  let ?i = "cs_id r"
  let ?c = "CreateTaskState (ae_bits X) (ae_create X) (cs_lib_name r) (cs_state_name r) ?i (t\<lparr>method_id := kConstruct\<rparr>) (registry N)"
  obtain ret t2 R where c: "?c = (ret, t2, R)" by (cases ?c) auto
  from assms(6-9) False c obtain qs where q: "CreateQueue (ae_queue X) (ae_qvec X) (ae_group_mem X) (queues N) ?i (cs_queue_info r) = Inr qs"
    and N': "N' = put_task p (if \<not> ret then SetModuleComplete (ae_bits X) t2 else t2) (N\<lparr>queues := qs, registry := R\<rparr>)"
    by (auto simp: create_with_id_def task_at_def Let_def res_bind_Inr_iff)
  have tw: "table_wf qs" using queue_table.CreateQueue_table_wf [OF assms(3,4) q] by simp
  have rw: "registry_wf R" using state_factory.CreateTaskState_wf [OF assms(2,5) c] .
  have slot: "unat (unique ?i) < length (queues N)" using q assms(8) by (auto simp: CreateQueue_def GetQueue_def res_bind_Inr_iff vec_at_Inr_iff)
  have taken: "\<not> UniqueId_IsNull (mq_id (qs ! unat (unique ?i)))"
    using q assms(8) slot queue_table.replace_upd [OF assms(3)]
    by (auto simp: CreateQueue_def GetQueue_def split: if_splits)
  have frame: "\<forall>i. i \<noteq> unat (unique ?i) \<longrightarrow> qs ! i = queues N ! i"
    using queue_table.CreateQueue_frame [OF assms(3) q] by blast
  note reg = new_state_outcome [OF assms(2) c False assms(8)]
  have "IsModuleComplete (ae_bits X) (SetModuleComplete (ae_bits X) t2)"
    by (rule bitfield.complete_protocol(3) [OF assms(1)])
  with False tw rw slot taken frame reg show ?thesis by (auto simp: N')
qed

text \<open>
  The group of a creation: under its own method the task is ordered; once the handler has
  changed the method there is no case, and the answer -1 is not the unordered answer either.
\<close>

lemma admin_create_group:
  assumes "bitfield (se_bits S)" and "charbuf (se_resize S)"
  shows "is_PCreateTaskState (pl t) \<Longrightarrow> \<exists>g'. admin_GetGroup S kCreateTaskState t g = Inr (0, g')"
    and "admin_GetGroup S kConstruct t g = Inr (- 1, g)"
    and "TASK_UNORDERED (se_bits S) \<noteq> 0" and "TASK_UNORDERED (se_bits S) \<noteq> - 1"
proof -
  have b: "bit (TASK_UNORDERED (se_bits S)) i \<longleftrightarrow> i = 7" for i
    using bitfield.bit_BIT_OPT [OF assms(1), of 7 i] by (simp add: TASK_UNORDERED_def)
  show "TASK_UNORDERED (se_bits S) \<noteq> 0" using b [of 7] by auto
  show "TASK_UNORDERED (se_bits S) \<noteq> - 1" using b [of 6] by auto
  show "admin_GetGroup S kConstruct t g = Inr (- 1, g)"
    by (simp add: admin_exec_defs lib_GetGroup_def)
  show "\<exists>g'. admin_GetGroup S kCreateTaskState t g = Inr (0, g')" if "is_PCreateTaskState (pl t)"
    using that charbuf.put_appends [OF assms(2)] charbuf.LocalSerialize_new_empty [OF assms(2)]
    by (simp add: admin_exec_defs lib_GetGroup_def admin_class_defs CreateTaskState_GetGroup_def srl_int_def)
qed

text \<open>A node whose task 3 asks for a state of \<^verbatim>\<open>small_message\<close> with id 1.1.\<close>

definition sample_admin_env :: admin_env where
  "sample_admin_env = \<lparr>ae_queue = list_env 8, ae_qvec = list_qvec, ae_group_mem = zero_group, ae_alloc = sample_alloc,
     ae_shm = sample_env, ae_loader = \<lparr>ld_getenv = (\<lambda>_. None), ld_format = (\<lambda>f _. f), ld_exists = (\<lambda>_. False),
       ld_open = (\<lambda>_. None), ld_sym = (\<lambda>_ _. None), ld_name = (\<lambda>_. [])\<rparr>,
     ae_create = arena_create 2 (\<lambda>a m t. SetModuleComplete word_bitfield t),
     ae_client = \<lparr>tc_id = UniqueId_new 1 0, tc_queue_id = UniqueId_new 1 0\<rparr>, ae_tl = ref_net (\<lambda>_ _. []), ae_fatal_returns = False,
     ae_wait = (\<lambda>p N. Inr N)\<rparr>"

definition sample_create :: CreateTaskStateTask where
  "sample_create = \<lparr>cs_lib_name = ''small_message'', cs_state_name = ''sm'', cs_queue_info = [], cs_id = UniqueId_new 1 1\<rparr>"

definition sample_admin :: "payload \<Rightarrow> Admin" where
  "sample_admin pay = \<lparr>queue_sched = None, proc_sched = None, ad_queue_id = UniqueId_new 1 0,
     ad_node = (put_task 3 (sample_obj pay) sample_node)\<lparr>registry := empty_registry,
       queues := [queues sample_node ! 0, zero_queue]\<rparr>,
     ad_worch = \<lparr>stop_runtime = False, kill_requested = False\<rparr>, ad_thallium = sample_thallium\<rparr>"

lemma sample_admin_node:
  "heap (ad_node (sample_admin pay)) 3 = Some (sample_obj pay)" "registry (ad_node (sample_admin pay)) = empty_registry"
  "queues (ad_node (sample_admin pay)) = [queues sample_node ! 0, zero_queue]"
  "heap (ad_node (sample_admin pay)) = [9 \<mapsto> sample_obj PCustom, 3 \<mapsto> sample_obj pay]"
  by (simp_all add: sample_admin_def sample_node_def)

lemma sample_admin_wf: "table_wf (queues (ad_node (sample_admin pay)))"
  by (simp add: sample_admin_node sample_node_def table_wf_def slot_wf_def queue_wf_def group_wf_def UniqueId_new_def
      MultiQueue_new_def make_group_def LaneGroup_new_def PriorityInfo_new_def Let_def less_Suc_eq zero_queue_def zero_uid_def
      UniqueId_IsNull_def numeral_2_eq_2)

section \<open>Properties\<close>





text \<open>
  C29. Changing the queue scheduling policy. While the scheduler task of the old policy is not
  complete, the handler only tells it to end: nothing is submitted and the request stays
  incomplete, to be run again. When there is none, or it is complete, exactly one new
  scheduler task, for the state of the new policy, is built at a fresh address and
  submitted to the first lane of the administration queue, the server remembers it, and the
  request is complete. So a new scheduler never runs beside an unfinished old one.
\<close>

theorem set_queue_policy_spec:
  assumes "allocator (ae_alloc X)" and "heap (ad_node A) p = Some t" and "pl t = PSetPolicy r"
    and "al_alloc (ae_alloc X) h = Some (a, mem)" and "a \<noteq> p"
    and "h = (case queue_sched A of None \<Rightarrow> heap (ad_node A)
           | Some q \<Rightarrow> (heap (ad_node A))(q \<mapsto> SetModuleComplete (ae_bits X) s))"
    and "\<forall>q. queue_sched A = Some q \<longrightarrow> q \<noteq> p \<and> heap (ad_node A) q = Some s"
    and "c = ScheduleTask_new (ae_shm X) mem (task_node t) (GetLocal (ae_bits X)) (wp_policy_id r)"
    and "queue_emplace (ae_queue X) (ad_queue_id A) 0 0 a ((ad_node A)\<lparr>heap := h(a \<mapsto> c)\<rparr>) = Inr N2"
    and "bitfield (ae_bits X)"
  shows "srv_SetWorkOrchQueuePolicy X p A =
    (if queue_sched A \<noteq> None \<and> \<not> IsComplete (ae_bits X) s
     then Inr (A\<lparr>ad_node := (ad_node A)\<lparr>heap := h\<rparr>\<rparr>)
     else Inr (A\<lparr>queue_sched := Some a, ad_node := put_task p (SetModuleComplete (ae_bits X) t) N2\<rparr>)) \<and>
    h a = None \<and> heap N2 = h(a \<mapsto> c) \<and> task_state c = wp_policy_id r"
proof -
  have fresh: "h a = None" by (rule allocator.alloc_fresh [OF assms(1,4)])
  have hN2: "heap N2 = h(a \<mapsto> c)" using assms(9) by (auto simp: queue_emplace_def emplace_slot_def res_bind_Inr_iff)
  have hp: "h p = Some t" using assms(2,6,7) by (auto split: option.splits)
  let ?N = "(ad_node A)\<lparr>heap := h\<rparr>"
  have tN2: "task_at N2 p = Inr t" using hp assms(5) by (simp add: task_at_def hN2)
  have pre: "(case queue_sched A of None \<Rightarrow> Inr A
      | Some q \<Rightarrow> on_node (upd_task q (SetModuleComplete (ae_bits X))) A) = Inr (A\<lparr>ad_node := ?N\<rparr>)"
    using assms(6,7) by (auto simp: on_node_def upd_task_def task_at_def put_task_def split: option.splits)
  have new: "NewTask (ae_alloc X) (\<lambda>mem. ScheduleTask_new (ae_shm X) mem (task_node t) (GetLocal (ae_bits X)) (wp_policy_id r)) ?N =
      Inr (lptr a, (ad_node A)\<lparr>heap := h(a \<mapsto> c)\<rparr>)"
    using assms(4,8) by (simp add: NewTask_def put_task_def)
  have comp: "IsComplete (ae_bits X) (SetModuleComplete (ae_bits X) s) = IsComplete (ae_bits X) s"
    using bitfield.complete_protocol(4) [OF assms(10), of s] by simp
  have "srv_SetWorkOrchQueuePolicy X p A = (if queue_sched A \<noteq> None \<and> \<not> IsComplete (ae_bits X) s then Inr (A\<lparr>ad_node := ?N\<rparr>)
     else Inr (A\<lparr>queue_sched := Some a, ad_node := put_task p (SetModuleComplete (ae_bits X) t) N2\<rparr>))"
  proof (cases "queue_sched A")
    case None
    with assms(2,3,6,9) new tN2 show ?thesis
      by (simp add: srv_SetWorkOrchQueuePolicy_def set_policy_def task_at_def [of "ad_node A"] on_node_def upd_task_def lptr_def)
  next
    case (Some q)
    then have "res_bind (task_at ?N q) (\<lambda>s. Inr (IsComplete (ae_bits X) s)) = Inr (IsComplete (ae_bits X) s)"
      using assms(6) by (simp add: task_at_def comp)
    with Some assms(2,3,9) pre new tN2 show ?thesis
      by (simp add: srv_SetWorkOrchQueuePolicy_def set_policy_def task_at_def [of "ad_node A"] on_node_def upd_task_def lptr_def)
  qed
  with fresh hN2 show ?thesis by (simp add: assms(8) ScheduleTask_new_def)
qed

theorem set_queue_policy_spec_witness:
  "\<exists>N'. srv_SetWorkOrchQueuePolicy sample_admin_env 3 (sample_admin (PSetPolicy \<lparr>wp_policy_id = UniqueId_new 1 2\<rparr>)) =
     Inr ((sample_admin (PSetPolicy \<lparr>wp_policy_id = UniqueId_new 1 2\<rparr>))\<lparr>queue_sched := Some 0, ad_node := N'\<rparr>)"
proof -
  let ?A = "sample_admin (PSetPolicy \<lparr>wp_policy_id = UniqueId_new 1 2\<rparr>)"
  let ?c = "ScheduleTask_new (ae_shm sample_admin_env) (sample_obj PCustom)
     (task_node (sample_obj (PSetPolicy \<lparr>wp_policy_id = UniqueId_new 1 2\<rparr>))) (GetLocal (ae_bits sample_admin_env)) (wp_policy_id \<lparr>wp_policy_id = UniqueId_new 1 2\<rparr>)"
  have e: "allocator (ae_alloc sample_admin_env)" "bitfield (ae_bits sample_admin_env)"
    by (simp_all add: sample_admin_env_def sample_alloc_def bump.allocator_axioms word_bf.bitfield_axioms)
  have q: "queue_sched ?A = None" by (simp add: sample_admin_def)
  have o: "pl (sample_obj (PSetPolicy \<lparr>wp_policy_id = UniqueId_new 1 2\<rparr>)) = PSetPolicy \<lparr>wp_policy_id = UniqueId_new 1 2\<rparr>"
    by (simp add: sample_obj_def)
  have al: "al_alloc (ae_alloc sample_admin_env) (heap (ad_node ?A)) = Some (0, sample_obj PCustom)"
    by (simp add: sample_admin_env_def sample_alloc_def bump_alloc_def sample_admin_node(4) upt_conv_Cons)
  obtain N2 where em: "queue_emplace (ae_queue sample_admin_env) (ad_queue_id ?A) 0 0 0
      ((ad_node ?A)\<lparr>heap := (heap (ad_node ?A))(0 \<mapsto> ?c)\<rparr>) = Inr N2"
    by (simp add: queue_emplace_def emplace_slot_def GetQueue_def sample_admin_node sample_admin_def sample_admin_env_def
        sample_node_def UniqueId_new_def Emplace_def Emplace_data_def IsEmplacePlugged_def Emplace_lane_def GetGroup_def
        GetLane_def MultiQueue_new_def make_group_def LaneGroup_new_def PriorityInfo_new_def Let_def list_env_def
        word_bitfield_def)
  show ?thesis
    using set_queue_policy_spec [OF e(1) sample_admin_node(1) o al _ _ _ refl em e(2)] q by simp blast
qed

end
