(* ===== verification/RemoteQueue.thy ===== *)
theory RemoteQueue
  imports SmallMessage ProcQueue Thallium
begin

text \<open>
  The library \<^verbatim>\<open>remote_queue\<close>: dispersing a task to other nodes (\<^verbatim>\<open>remote_queue.h\<close>), the push task
  that sends it and collects the answers (\<^verbatim>\<open>remote_queue_tasks.h\<close>, \<^verbatim>\<open>remote_queue.cc\<close>), and the
  two remote procedures that execute it on the receiving node.

  The virtual members of the task state a task belongs to are the record \<open>exec_ops\<close>. The
  bytes a transfer points to are its value.
\<close>

section \<open>Tasks\<close>

definition rq_kPush :: u32 where "rq_kPush = kLast + 0"

definition rq_ConstructTask_new ::
    "shm_env \<Rightarrow> TaskStateId \<Rightarrow> TaskObj \<Rightarrow> TaskNode \<Rightarrow> DomainId \<Rightarrow> string \<Rightarrow> TaskStateId \<Rightarrow> PriorityInfo list \<Rightarrow> TaskObj" where
  "rq_ConstructTask_new S admin mem tn d state_name i queue_info =
     CreateTaskStateTask_new S admin mem tn d state_name ''remote_queue'' i queue_info"

definition rq_DestructTask_new :: "shm_env \<Rightarrow> TaskStateId \<Rightarrow> TaskObj \<Rightarrow> TaskNode \<Rightarrow> DomainId \<Rightarrow> TaskStateId \<Rightarrow> TaskObj" where
  "rq_DestructTask_new S admin mem tn d i = DestroyTaskStateTask_new S admin mem tn d i"

text \<open>The parameters \<^verbatim>\<open>params_\<close> are an empty string until the push runs.\<close>

definition RemotePushTask_new ::
    "shm_env \<Rightarrow> TaskObj \<Rightarrow> TaskNode \<Rightarrow> DomainId \<Rightarrow> TaskStateId \<Rightarrow> DomainId list \<Rightarrow> Pointer \<Rightarrow> nat \<Rightarrow> u32 \<Rightarrow> DataTransfer list \<Rightarrow> TaskObj" where
  "RemotePushTask_new S mem tn d sid ds orig exec m xfer =
     (init_task (se_bits S) mem tn 0 kLowLatency sid rq_kPush
        (TASK_LOW_LATENCY (se_bits S) OR TASK_PREEMPTIVE (se_bits S) OR TASK_REMOTE_DEBUG_MARK (se_bits S)) d)
       \<lparr>pl := PRemotePush \<lparr>domain_ids = ds, orig_task = orig, rp_exec = exec, exec_method = m, rp_xfer = xfer, rp_params = []\<rparr>\<rparr>"

definition RemotePush_class :: "shm_env \<Rightarrow> task_class" where
  "RemotePush_class S = base_class (se_bits S) is_PRemotePush (TF_LOCAL (se_bits S))"

section \<open>The environment\<close>

record exec_ops =
  ex_id :: TaskStateId
  ex_SaveStart :: "u32 \<Rightarrow> BinaryOutputArchive \<Rightarrow> TaskObj \<Rightarrow> DataTransfer list res"
  ex_LoadStart :: "u32 \<Rightarrow> BinaryInputArchive \<Rightarrow> Node \<Rightarrow> (Pointer option \<times> Node) res"
  ex_SaveEnd :: "u32 \<Rightarrow> BinaryOutputArchive \<Rightarrow> TaskObj \<Rightarrow> DataTransfer list res"
  ex_LoadEnd :: "u32 \<Rightarrow> u32 \<Rightarrow> BinaryInputArchive \<Rightarrow> TaskObj \<Rightarrow> TaskObj res"
  ex_ReplicateStart :: "u32 \<Rightarrow> u32 \<Rightarrow> TaskObj \<Rightarrow> TaskObj res"
  ex_ReplicateEnd :: "u32 \<Rightarrow> TaskObj \<Rightarrow> TaskObj res"
  ex_Del :: "u32 \<Rightarrow> Pointer \<Rightarrow> Node \<Rightarrow> Node res"

text \<open>
  \<open>re_buf\<close> is the content of a new buffer, \<open>re_xfer_mem\<close> that of a new transfer. \<open>re_wait\<close> is what
  the workers do until the task is complete; \<open>re_shared\<close> is what a receive buffer holds then,
  since a loaded task may keep a pointer into it.
\<close>

record remote_env =
  re_queue :: queue_env
  re_alloc :: alloc_lib
  re_shm :: shm_env
  re_exec :: "nat \<Rightarrow> exec_ops"
  re_tl :: tl_lib
  re_thallium :: ThalliumRpc
  re_fatal_returns :: bool
  re_xfer_mem :: DataTransfer
  re_buf :: "size_t \<Rightarrow> bytes"
  re_wait :: "Pointer \<Rightarrow> Node \<Rightarrow> Node res"
  re_shared :: "Pointer \<Rightarrow> Node \<Rightarrow> bytes \<Rightarrow> bytes"

abbreviation "re_bits X \<equiv> qe_bits (re_queue X)"

abbreviation "rpc_call X \<equiv> SyncCall (re_tl X) (re_bits X) (re_fatal_returns X) (re_thallium X)"

abbreviation "rpc_io_call X \<equiv> SyncIoCall (re_tl X) (re_bits X) (re_fatal_returns X) (re_thallium X)"

section \<open>Client side\<close>

definition Disperse :: "remote_env \<Rightarrow> TaskLibClient \<Rightarrow> Pointer \<Rightarrow> nat \<Rightarrow> DomainId list \<Rightarrow> Node \<Rightarrow> Node res" where
  "Disperse X cl p exec ds N =
     res_bind (task_at N p) (\<lambda>t.
     let ops = re_exec X exec; ar = BinaryOutputArchive_new (GetNode (re_bits X) (hdr_node_id (header N)))
     in res_bind (ex_SaveStart ops (method_id t) ar t) (\<lambda>xfer.
        res_bind (ex_ReplicateStart ops (method_id t) (of_nat (length ds)) t) (\<lambda>t1.
        res_bind (NewTask (re_alloc X) (\<lambda>mem. RemotePushTask_new (re_shm X) mem (TaskNode_plus (task_node t1) 1)
             (GetLocal (re_bits X)) (tc_id cl) ds p exec (method_id t1) xfer) (put_task p t1 N)) (\<lambda>(lp, N1).
          queue_emplace (re_queue X) (tc_queue_id cl) (prio t1) (lane_hash t1) (lp_shm lp) N1))))"

text \<open>
  \<^verbatim>\<open>std::string((char*) x.data_, x.data_size_)\<close>.
\<close>

definition xfer_string :: "DataTransfer \<Rightarrow> bytes res" where
  "xfer_string x = (case xf_data x of
     None \<Rightarrow> if xf_size x = 0 then Inr [] else Inl NullDeref
   | Some d \<Rightarrow> memcpy_from d 0 (xf_size x))"

text \<open>A vector of transfers around buffers; its other members are uninitialised memory.\<close>

definition wrap_xfer :: "DataTransfer \<Rightarrow> bytes \<Rightarrow> DataTransfer" where
  "wrap_xfer mem b = mem\<lparr>xf_data := Some b, xf_size := length b\<rparr>"

definition ClientHandlePushReplicaOutput :: "remote_env \<Rightarrow> u32 \<Rightarrow> bytes \<Rightarrow> RemotePushTask \<Rightarrow> Node \<Rightarrow> Node res" where
  "ClientHandlePushReplicaOutput X replica ret r N =
     res_bind (BinaryInputArchive_new [wrap_xfer (re_xfer_mem X) ret]) (\<lambda>ar.
     res_bind (task_at N (orig_task r)) (\<lambda>t.
     res_bind (ex_LoadEnd (re_exec X (rp_exec r)) replica (exec_method r) ar t) (\<lambda>t'.
       Inr (put_task (orig_task r) t' N))))"

definition ClientHandlePushReplicaEnd :: "remote_env \<Rightarrow> Pointer \<Rightarrow> RemotePushTask \<Rightarrow> Node \<Rightarrow> Node res" where
  "ClientHandlePushReplicaEnd X p r N =
     res_bind (task_at N (orig_task r)) (\<lambda>t.
     res_bind (ex_ReplicateEnd (re_exec X (rp_exec r)) (method_id t) t) (\<lambda>t'.
     res_bind (upd_task (orig_task r) (\<lambda>_. SetModuleComplete (re_bits X) t') N)
       (upd_task p (SetModuleComplete (re_bits X)))))"

fun small_push_loop :: "remote_env \<Rightarrow> RemotePushTask \<Rightarrow> bytes \<Rightarrow> nat \<Rightarrow> DomainId list \<Rightarrow> Node \<Rightarrow> Node res" where
  "small_push_loop X r params replica [] N = Inr N"
| "small_push_loop X r params replica (d # ds) N =
     res_bind (rpc_call X (dom_id d) ''RpcPushSmall'' (SmallArgs (ex_id (re_exec X (rp_exec r))) (exec_method r) params) N) (\<lambda>(ret, N1).
     res_bind (ClientHandlePushReplicaOutput X (of_nat replica) ret r N1)
       (small_push_loop X r params (Suc replica) ds))"

definition ClientSmallPush :: "remote_env \<Rightarrow> Pointer \<Rightarrow> RemotePushTask \<Rightarrow> Node \<Rightarrow> Node res" where
  "ClientSmallPush X p r N =
     res_bind (vec_at (rp_xfer r) 0) (\<lambda>x.
     res_bind (xfer_string x) (\<lambda>params.
     res_bind (upd_task p (pay_upd un_RemotePush PRemotePush rp_params_update (\<lambda>_. params)) N)
       (small_push_loop X r params 0 (domain_ids r))))"

text \<open>The memory of the first transfer is exposed, so a call may change it.\<close>

fun io_push_loop ::
    "remote_env \<Rightarrow> Pointer \<Rightarrow> RemotePushTask \<Rightarrow> IoType \<Rightarrow> bytes \<Rightarrow> bytes \<Rightarrow> nat \<Rightarrow> DomainId list \<Rightarrow> Node \<Rightarrow> Node res" where
  "io_push_loop X p r io_type data params replica [] N = Inr N"
| "io_push_loop X p r io_type data params replica (d # ds) N =
     res_bind (rpc_io_call X (dom_id d) ''RpcPushBulk'' io_type data
         (BulkArgs (ex_id (re_exec X (rp_exec r))) (exec_method r) params (of_nat (length data)) io_type) N) (\<lambda>(ret, data', N1).
     res_bind (upd_task p (pay_upd un_RemotePush PRemotePush rp_xfer_update
         (\<lambda>xs. xs[0 := (xs ! 0)\<lparr>xf_data := Some data'\<rparr>])) N1) (\<lambda>N2.
     res_bind (ClientHandlePushReplicaOutput X (of_nat replica) ret r N2)
       (io_push_loop X p r io_type data' params (Suc replica) ds)))"

definition ClientIoPush :: "remote_env \<Rightarrow> Pointer \<Rightarrow> RemotePushTask \<Rightarrow> Node \<Rightarrow> Node res" where
  "ClientIoPush X p r N =
     res_bind (vec_at (rp_xfer r) 1) (\<lambda>x1.
     res_bind (xfer_string x1) (\<lambda>params.
     res_bind (vec_at (rp_xfer r) 0) (\<lambda>x0.
     res_bind (xfer_string x0) (\<lambda>data.
     res_bind (upd_task p (pay_upd un_RemotePush PRemotePush rp_params_update (\<lambda>_. params)) N)
       (io_push_loop X p r (if bf_Any (re_bits X) (xf_flags x0) (DT_RECEIVER_READ (re_bits X)) then kWrite else kRead)
          data params 0 (domain_ids r))))))"

definition rq_Push :: "remote_env \<Rightarrow> Pointer \<Rightarrow> Node \<Rightarrow> Node res" where
  "rq_Push X p N =
     res_bind (task_at N p) (\<lambda>t.
       if \<not> is_PRemotePush (pl t) then Inl BadCast
       else let r = un_RemotePush (pl t); n = length (rp_xfer r)
         in res_bind (if n = 1 then ClientSmallPush X p r N
                      else if n = 2 then ClientIoPush X p r N
                      else helog_fatal (re_fatal_returns X) ''The task does not support remote calls'' (Inr N))
              (ClientHandlePushReplicaEnd X p r))"

section \<open>Server side\<close>

text \<open>What \<^verbatim>\<open>RpcExec\<close> strips from the task.\<close>

definition rpc_flags :: "bitfield_lib \<Rightarrow> TaskObj \<Rightarrow> TaskObj" where
  "rpc_flags B t = UnsetLongRunning B (UnsetDataOwner B (UnsetMarked B (UnsetStarted B (UnsetFireAndForget B t))))"

text \<open>
  \<open>None\<close> in the result stands for the early return with an unset task and a null state,
  after an empty answer was sent.
\<close>

definition RpcExec ::
    "remote_env \<Rightarrow> TaskStateId \<Rightarrow> u32 \<Rightarrow> DataTransfer list \<Rightarrow> Node \<Rightarrow> ((Pointer \<times> nat) option \<times> bytes list \<times> Node) res" where
  "RpcExec X state_id m xfer N =
     res_bind (BinaryInputArchive_new xfer) (\<lambda>ar.
       case GetTaskState (registry N) state_id of
         None \<Rightarrow> helog_fatal (re_fatal_returns X) ''Could not find the task state'' (Inr (None, [[]], N))
       | Some exec \<Rightarrow>
           res_bind (ex_LoadStart (re_exec X exec) m ar N) (\<lambda>(op, N1).
             case op of
               None \<Rightarrow> Inl NullDeref
             | Some p \<Rightarrow>
                 res_bind (upd_task p (domain_id_update (\<lambda>_. GetNode (re_bits X) (hdr_node_id (header N1)))) N1) (\<lambda>N2.
                 res_bind (upd_task p (rpc_flags (re_bits X)) N2) (\<lambda>N3.
                 res_bind (task_at N3 p) (\<lambda>t.
                 res_bind (queue_emplace (re_queue X) (UniqueId_copy state_id) (prio t) (lane_hash t) p N3) (\<lambda>N4.
                 res_bind (re_wait X p N4) (\<lambda>N5. Inr (Some (p, exec), [], N5))))))))"

definition RpcComplete ::
    "remote_env \<Rightarrow> u32 \<Rightarrow> Pointer \<Rightarrow> nat \<Rightarrow> bytes list \<Rightarrow> Node \<Rightarrow> (bytes list \<times> Node) res" where
  "RpcComplete X m p exec sent N =
     res_bind (task_at N p) (\<lambda>t.
     res_bind (ex_SaveEnd (re_exec X exec) m (BinaryOutputArchive_new (GetNode (re_bits X) (hdr_node_id (header N)))) t) (\<lambda>out.
     res_bind (vec_at out 0) (\<lambda>x.
     res_bind (DelTask_exec (ex_Del (re_exec X exec)) p N) (\<lambda>N1.
       if length out > 0 \<and> xf_size x > 0
       then res_bind (xfer_string x) (\<lambda>s. Inr (sent @ [s], N1))
       else Inr (sent @ [[]], N1)))))"

text \<open>After the early return \<^verbatim>\<open>RpcComplete\<close> calls a member of the null state.\<close>

definition RpcPushSmall :: "remote_env \<Rightarrow> TaskStateId \<Rightarrow> u32 \<Rightarrow> bytes \<Rightarrow> Node \<Rightarrow> (bytes list \<times> Node) res" where
  "RpcPushSmall X state_id m params N =
     res_bind (RpcExec X state_id m [wrap_xfer (re_xfer_mem X) params] N) (\<lambda>(o', sent, N1).
       case o' of None \<Rightarrow> Inl NullDeref | Some (p, exec) \<Rightarrow> RpcComplete X m p exec sent N1)"

text \<open>
  The data of a write is received into a new buffer before the task runs; for a read the
  buffer is sent after it. The result is what was answered, the exposed memory of the
  caller, and the node.
\<close>

definition RpcPushBulk ::
    "remote_env \<Rightarrow> bulk \<Rightarrow> TaskStateId \<Rightarrow> u32 \<Rightarrow> bytes \<Rightarrow> size_t \<Rightarrow> IoType \<Rightarrow> Node \<Rightarrow> (bytes list \<times> bulk \<times> Node) res" where
  "RpcPushBulk X bulk state_id m params data_size io_type N =
     (let io = (\<lambda>b dat. res_bind (IoCallServer (re_tl X) (re_fatal_returns X) b io_type dat) (\<lambda>(_, b', dat'). Inr (b', dat')))
      in res_bind (if io_type = kWrite then io bulk (re_buf X data_size) else Inr (bulk, re_buf X data_size)) (\<lambda>(bulk1, data1).
         res_bind (RpcExec X state_id m [wrap_xfer (re_xfer_mem X) data1, wrap_xfer (re_xfer_mem X) params] N) (\<lambda>(o', sent, N1).
           let data2 = (case o' of None \<Rightarrow> data1 | Some (p, _) \<Rightarrow> re_shared X p N1 data1)
           in res_bind (if io_type = kRead then io bulk1 data2 else Inr (bulk1, data2)) (\<lambda>(bulk2, _).
              case o' of
                None \<Rightarrow> Inl NullDeref
              | Some (p, exec) \<Rightarrow> res_bind (RpcComplete X m p exec sent N1) (\<lambda>(ans, N2). Inr (ans, bulk2, N2))))))"

section \<open>Dispatch\<close>

definition rq_Construct :: "tl_lib \<Rightarrow> bitfield_lib \<Rightarrow> Pointer \<Rightarrow> ThalliumRpc \<times> Node \<Rightarrow> (ThalliumRpc \<times> Node) res" where
  "rq_Construct TL B p = (\<lambda>(T, N).
     res_bind (RegisterRpc TL ''RpcPushSmall'' T) (\<lambda>T1.
     res_bind (RegisterRpc TL ''RpcPushBulk'' T1) (\<lambda>T2.
     res_bind (upd_task p (SetModuleComplete B) N) (\<lambda>N'. Inr (T2, N')))))"

definition rq_Destruct :: "bitfield_lib \<Rightarrow> Pointer \<Rightarrow> Node \<Rightarrow> Node res" where
  "rq_Destruct B p = upd_task p (SetModuleComplete B)"

definition rq_switch :: "shm_env \<Rightarrow> method_switch" where
  "rq_switch S m =
     (if m = kConstruct then Some (CreateTaskState_class S)
      else if m = kDestruct then Some (DestroyTaskState_class S)
      else if m = rq_kPush then Some (RemotePush_class S)
      else None)"

definition rq_Run :: "remote_env \<Rightarrow> u32 \<Rightarrow> Pointer \<Rightarrow> ThalliumRpc \<times> Node \<Rightarrow> (ThalliumRpc \<times> Node) res" where
  "rq_Run X m p = (\<lambda>(T, N).
     let on_node = (\<lambda>r. res_bind r (\<lambda>N'. Inr (T, N')))
     in if m = kConstruct then rq_Construct (re_tl X) (re_bits X) p (T, N)
        else if m = kDestruct then on_node (rq_Destruct (re_bits X) p N)
        else if m = rq_kPush then on_node (rq_Push (X\<lparr>re_thallium := T\<rparr>) p N)
        else Inr (T, N))"

definition rq_Del :: "bool \<Rightarrow> u32 \<Rightarrow> Pointer \<Rightarrow> Node \<Rightarrow> Node res" where
  "rq_Del fr m p N =
     (if m = kConstruct \<or> m = kDestruct \<or> m = rq_kPush then DelTask fr trivial_dtor p N else Inr N)"

definition rq_ReplicateStart :: "shm_env \<Rightarrow> u32 \<Rightarrow> u32 \<Rightarrow> TaskObj \<Rightarrow> TaskObj res" where
  "rq_ReplicateStart S = lib_ReplicateStart (rq_switch S)"

definition rq_ReplicateEnd :: "shm_env \<Rightarrow> u32 \<Rightarrow> TaskObj \<Rightarrow> TaskObj res" where
  "rq_ReplicateEnd S = lib_ReplicateEnd (rq_switch S)"

definition rq_SaveStart ::
    "cereal_lib \<Rightarrow> shm_env \<Rightarrow> u32 \<Rightarrow> BinaryOutputArchive \<Rightarrow> TaskObj \<Rightarrow> DataTransfer list res" where
  "rq_SaveStart C S = lib_SaveStart C (se_bits S) (rq_switch S)"

definition rq_LoadStart ::
    "cereal_lib \<Rightarrow> shm_env \<Rightarrow> (task_class \<Rightarrow> TaskObj) \<Rightarrow> u32 \<Rightarrow> BinaryInputArchive \<Rightarrow> TaskObj option res" where
  "rq_LoadStart C S = lib_LoadStart C (rq_switch S)"

definition rq_SaveEnd ::
    "cereal_lib \<Rightarrow> shm_env \<Rightarrow> u32 \<Rightarrow> BinaryOutputArchive \<Rightarrow> TaskObj \<Rightarrow> DataTransfer list res" where
  "rq_SaveEnd C S = lib_SaveEnd C (se_bits S) (rq_switch S)"

definition rq_LoadEnd ::
    "cereal_lib \<Rightarrow> shm_env \<Rightarrow> u32 \<Rightarrow> u32 \<Rightarrow> BinaryInputArchive \<Rightarrow> TaskObj \<Rightarrow> TaskObj res" where
  "rq_LoadEnd C S = lib_LoadEnd C (rq_switch S)"

definition rq_GetGroup :: "shm_env \<Rightarrow> u32 \<Rightarrow> TaskObj \<Rightarrow> bytes \<Rightarrow> (u32 \<times> bytes) res" where
  "rq_GetGroup S = lib_GetGroup (rq_switch S)"

section \<open>Facts\<close>

lemma open_wrapped:
  "BinaryInputArchive_new [wrap_xfer mem b] = Inr \<lparr>ia_xfer = [wrap_xfer mem b], ia_ss = b, ia_off = 0\<rparr>"
  by (simp add: BinaryInputArchive_new_def wrap_xfer_def memcpy_from_def)

lemma xfer_string_Get: "xfer_string (last (fst (Get B ar))) = Inr (oa_ss ar)"
  by (simp add: xfer_string_def Get_def Let_def DataTransfer_new_def memcpy_from_def)

text \<open>The members of \<^verbatim>\<open>small_message\<close> as virtual members; \<open>mem\<close> is what new objects are built in.\<close>

definition sm_ops :: "cereal_lib \<Rightarrow> shm_env \<Rightarrow> alloc_lib \<Rightarrow> (task_class \<Rightarrow> TaskObj) \<Rightarrow> bool \<Rightarrow> TaskStateId \<Rightarrow> exec_ops" where
  "sm_ops C S A mem fr i = \<lparr>ex_id = i, ex_SaveStart = sm_SaveStart C S,
     ex_LoadStart = (\<lambda>m ia N. case al_alloc A (heap N) of
         None \<Rightarrow> Inl (Thrown ''Could not allocate buffer'')
       | Some (p, _) \<Rightarrow> res_bind (sm_LoadStart C S mem m ia) (\<lambda>o'. case o' of
           None \<Rightarrow> Inr (None, N) | Some t \<Rightarrow> Inr (Some p, put_task p t N))),
     ex_SaveEnd = sm_SaveEnd C S, ex_LoadEnd = sm_LoadEnd C S, ex_ReplicateStart = sm_ReplicateStart C S,
     ex_ReplicateEnd = sm_ReplicateEnd C S, ex_Del = sm_Del fr\<rparr>"

lemma map_ret_id: "f (ret_of p) = ret_of p \<Longrightarrow> map_ret f p = p"
  by (cases p) simp_all

lemma map_ret_cong: "f (ret_of p) = g (ret_of p) \<Longrightarrow> map_ret f p = map_ret g p"
  by (cases p) simp_all

lemma upd_ret_upd_ret: "upd_ret f (upd_ret g t) = upd_ret (f \<circ> g) t"
  by (simp add: upd_ret_def)

lemma upd_ret_cong: "f (ret_of (pl t)) = g (ret_of (pl t)) \<Longrightarrow> upd_ret f t = upd_ret g t"
  unfolding upd_ret_def by (simp only: map_ret_cong [of f "pl t" g])

context cereal
begin

lemma Md_LoadEnd:
  assumes "bitfield (se_bits S)" and "is_md (pl t)" and "unat replica < length (ret_of (pl t))"
    and "ia_ss ia = c_enc C (V32 x)"
  shows "sm_LoadEnd C S replica kMd ia t = Inr (upd_ret (\<lambda>xs. xs[unat replica := x]) t)"
proof -
  obtain f where f: "Md_SerializeEnd replica t = Inr [f]" "typed f"
    "\<And>r. fget f r = V32 (ret_of (pl r) ! unat replica)"
    "\<And>x r. fset f (V32 x) r = upd_ret (\<lambda>xs. xs[unat replica := x]) r"
    using Md_fields [OF assms(3)] by metis
  have "ty_of (fget f t) = fty f" using f(2) by (simp add: typed_def)
  then have "fty f = T32" by (simp add: f(3))
  then have "c_dec C (fty f) (ia_ss ia) = Inr (V32 x, [])"
    using dec_enc [of "V32 x" "[]"] assms(4) by simp
  then show ?thesis
    using assms(2) f(1,4) bitfield.TaskFlags_kinds(2) [OF assms(1)]
    by (simp add: sm_exec_defs lib_LoadEnd_def Deserialize_task_def sm_class_defs Deserialize_flds_def)
qed

text \<open>
  The loop over the replicas fills the outputs from \<open>k\<close> on with the answers, in order. \<open>I\<close> is
  what the calls rely on and keep of the local node.
\<close>

lemma small_push_md:
  assumes "bitfield (se_bits S)" and "ex_LoadEnd (re_exec X (rp_exec r)) = sm_LoadEnd C S" and "exec_method r = kMd"
    and "\<And>d M. d \<in> set ds \<Longrightarrow> I M \<Longrightarrow> \<exists>M'. rpc_call X (dom_id d) ''RpcPushSmall'' (SmallArgs (ex_id (re_exec X (rp_exec r))) kMd params) M =
           Inr (c_enc C (V32 (v d)), M') \<and> heap M' (orig_task r) = heap M (orig_task r) \<and> heap M' p = heap M p \<and> I M'"
    and "\<And>M t t'. I M \<Longrightarrow> heap M (orig_task r) = Some t \<Longrightarrow> I (put_task (orig_task r) t' M)"
    and "p \<noteq> orig_task r" and "heap N (orig_task r) = Some t" and "is_md (pl t)"
    and "k + length ds \<le> length (ret_of (pl t))" and "k + length ds < 2 ^ 32" and "I N"
  shows "\<exists>N'. small_push_loop X r params k ds N = Inr N' \<and> heap N' p = heap N p \<and>
    heap N' (orig_task r) = Some (upd_ret (\<lambda>xs. take k xs @ map v ds @ drop (k + length ds) xs) t) \<and> I N'"
  using assms(4,7-11)
proof (induction ds arbitrary: k N t)
  case Nil
  then show ?case by (auto simp: upd_ret_def map_ret_id)
next
  case (Cons d ds)
  let ?o = "orig_task r"
  let ?t1 = "upd_ret (\<lambda>xs. xs[k := v d]) t"
  from Cons.prems(1) [of d N] obtain N1 where call: "rpc_call X (dom_id d) ''RpcPushSmall'' (SmallArgs (ex_id (re_exec X (rp_exec r))) kMd params) N =
      Inr (c_enc C (V32 (v d)), N1)" and h1: "heap N1 ?o = Some t" "heap N1 p = heap N p" and I1: "I N1"
    using Cons.prems(2,6) by auto
  have k: "unat (of_nat k :: u32) = k" using Cons.prems(5) by (intro unat_of_nat_less) simp
  have out: "ClientHandlePushReplicaOutput X (of_nat k) (c_enc C (V32 (v d))) r N1 = Inr (put_task ?o ?t1 N1)"
    using Md_LoadEnd [OF assms(1) Cons.prems(3), of "of_nat k" _ "v d"] Cons.prems(4) h1(1) k
    by (simp add: ClientHandlePushReplicaOutput_def open_wrapped task_at_def assms(2,3))
  have hp: "heap (put_task ?o ?t1 N1) ?o = Some ?t1" "heap (put_task ?o ?t1 N1) p = heap N p"
    using assms(6) h1 by simp_all
  have I2: "I (put_task ?o ?t1 N1)" by (rule assms(5) [OF I1 h1(1)])
  have md: "is_md (pl ?t1)" "length (ret_of (pl ?t1)) = length (ret_of (pl t))" using Cons.prems(3) by simp_all
  from Cons.IH [of "put_task ?o ?t1 N1" ?t1 "Suc k"] Cons.prems(1,4,5) hp(1) md I2 obtain N' where
    N': "small_push_loop X r params (Suc k) ds (put_task ?o ?t1 N1) = Inr N'" "heap N' p = heap N p"
      "heap N' ?o = Some (upd_ret (\<lambda>xs. take (Suc k) xs @ map v ds @ drop (Suc k + length ds) xs) ?t1)" "I N'"
    using hp(2) by auto
  have "(take (Suc k) (xs[k := y]) @ ys @ drop (Suc k + m) (xs[k := y])) = take k xs @ (y # ys) @ drop (k + Suc m) xs"
    if "k < length xs" for xs :: "c_int list" and y ys m
    using that by (simp add: take_Suc_conv_app_nth drop_update_cancel)
  then have "upd_ret (\<lambda>xs. take (Suc k) xs @ map v ds @ drop (Suc k + length ds) xs) ?t1 =
      upd_ret (\<lambda>xs. take k xs @ map v (d # ds) @ drop (k + length (d # ds)) xs) t"
    unfolding upd_ret_upd_ret using Cons.prems(4) by (intro upd_ret_cong) simp
  with N' show ?case by (simp add: call out assms(3))
qed

end

lemma rpc_flags_simps [simp]:
  "pl (rpc_flags B t) = pl t" "prio (rpc_flags B t) = prio t" "lane_hash (rpc_flags B t) = lane_hash t"
  "method_id (rpc_flags B t) = method_id t" "delcnt (rpc_flags B t) = delcnt t" "domain_id (rpc_flags B t) = domain_id t"
  by (simp_all add: rpc_flags_def task_set_defs)

text \<open>The path of a task that the receiving node finds a state for.\<close>

lemma RpcExec_runs:
  assumes "BinaryInputArchive_new xfer = Inr ar" and "GetTaskState (registry N) sid = Some exec"
    and "ex_LoadStart (re_exec X exec) m ar N = Inr (Some p, N1)" and "heap N1 p = Some t"
    and "t' = rpc_flags (re_bits X) (t\<lparr>domain_id := GetNode (re_bits X) (hdr_node_id (header N1))\<rparr>)"
    and "queue_emplace (re_queue X) sid (prio t) (lane_hash t) p (put_task p t' N1) = Inr N4"
    and "re_wait X p N4 = Inr N5"
  shows "RpcExec X sid m xfer N = Inr (Some (p, exec), [], N5)" and "heap N4 = (heap N1)(p \<mapsto> t')"
proof -
  have uid: "UniqueId_copy sid = sid" by (cases sid) (simp add: UniqueId_copy_def)
  show "heap N4 = (heap N1)(p \<mapsto> t')" using queue_emplace_heap [OF assms(6)] by simp
  show "RpcExec X sid m xfer N = Inr (Some (p, exec), [], N5)"
    using assms by (simp add: RpcExec_def upd_task_def task_at_def uid)
qed

text \<open>The task as it is submitted on the receiving node.\<close>

abbreviation arrived :: "bitfield_lib \<Rightarrow> Node \<Rightarrow> TaskObj \<Rightarrow> TaskObj" where
  "arrived B N t \<equiv> rpc_flags B (t\<lparr>domain_id := GetNode B (hdr_node_id (header N))\<rparr>)"

text \<open>
  A call of \<^verbatim>\<open>small_message\<close> from its arrival to its answer: \<open>u\<close> is the loaded task, \<open>v\<close> what the
  workers have made of it when it is complete.
\<close>

lemma sm_call_answer:
  assumes "GetTaskState (registry N) sid = Some exec" and "re_exec X exec = sm_ops C S A mem fr i"
    and "BinaryInputArchive_new xfer = Inr ar" and "ex_LoadStart (re_exec X exec) m ar N = Inr (Some p, put_task p u N)"
    and "queue_emplace (re_queue X) sid (prio u) (lane_hash u) p (put_task p (arrived (re_bits X) N u) N) = Inr N4"
    and "re_wait X p N4 = Inr N5" and "heap N5 p = Some v" and "method_id v = m" and "delcnt v = 0"
    and "\<And>N'. sm_Del fr m p N' = DelTask fr trivial_dtor p N'"
    and "\<And>n. \<exists>x. sm_SaveEnd C S m (BinaryOutputArchive_new n) v = Inr [x] \<and> xfer_string x = Inr ans \<and> xf_size x = length ans"
  shows "RpcExec X sid m xfer N = Inr (Some (p, exec), [], N5)"
    and "RpcComplete X m p exec [] N5 = Inr ([ans], N5\<lparr>heap := (heap N5)(p := None)\<rparr>)"
proof -
  let ?B = "re_bits X"
  show "RpcExec X sid m xfer N = Inr (Some (p, exec), [], N5)"
    by (rule RpcExec_runs(1) [OF assms(3,1,4) _ refl _ assms(6)]) (use assms(5) in simp_all)
  from assms(11) obtain x where
    save: "sm_SaveEnd C S m (BinaryOutputArchive_new (GetNode ?B (hdr_node_id (header N5)))) v = Inr [x]"
      "xfer_string x = Inr ans" "xf_size x = length ans" by blast
  have "DelTask_exec (ex_Del (re_exec X exec)) p N5 = Inr (N5\<lparr>heap := (heap N5)(p := None)\<rparr>)"
    using assms(7-9) by (simp add: DelTask_exec_def task_at_def assms(2,10) sm_ops_def DelTask_def trivial_dtor_def free_task_def put_task_def)
  then show "RpcComplete X m p exec [] N5 = Inr ([ans], N5\<lparr>heap := (heap N5)(p := None)\<rparr>)"
    using assms(7) save by (auto simp: RpcComplete_def task_at_def assms(2) sm_ops_def)
qed

text \<open>The two kinds of calls of \<^verbatim>\<open>small_message\<close> as the receiving node loads them.\<close>

lemma Md_load:
  assumes "cereal C" and "bitfield (se_bits S)" and "re_exec X exec = sm_ops C S A mem fr i"
    and "al_alloc A (heap N) = Some (p, mem0)" and "is_md (pl (mem (Md_class S)))"
  shows "ex_LoadStart (re_exec X exec) kMd \<lparr>ia_xfer = xs, ia_ss = ar_out C task_serialize t, ia_off = 0\<rparr> N =
    Inr (Some p, put_task p (copy_flds task_serialize t (mem (Md_class S))) N)"
proof -
  let ?ia = "\<lparr>ia_xfer = xs, ia_ss = ar_out C task_serialize t, ia_off = 0\<rparr>"
  have "Deserialize_flds C task_serialize (mem (Md_class S)) ?ia =
      Inr (copy_flds task_serialize t (mem (Md_class S)), ?ia\<lparr>ia_ss := []\<rparr>)"
    by (rule cereal.flds_roundtrip [OF assms(1)]) (auto simp: serialize_typed(5))
  then show ?thesis
    using assms(4,5) bitfield.TaskFlags_kinds(2) [OF assms(2)]
    by (simp add: assms(3) sm_ops_def sm_exec_defs lib_LoadStart_def Deserialize_task_def sm_class_defs)
qed

lemma Io_load:
  assumes "cereal C" and "bitfield (se_bits S)" and "re_exec X exec = sm_ops C S A mem fr i"
    and "al_alloc A (heap N) = Some (p, mem0)" and "is_PIo (pl t)" and "is_PIo (pl (mem (Io_class C S)))"
    and "length (io_data (un_Io (pl t))) = DATA_SIZE" and "length (io_data (un_Io (pl (mem (Io_class C S))))) = DATA_SIZE"
  shows "ex_LoadStart (re_exec X exec) kIo
      \<lparr>ia_xfer = [wrap_xfer mx (io_data (un_Io (pl t))), x1], ia_ss = ar_out C task_serialize t, ia_off = 0\<rparr> N =
    Inr (Some p, put_task p (pay_upd un_Io PIo io_data_update (\<lambda>_. io_data (un_Io (pl t)))
      (copy_flds task_serialize t (mem (Io_class C S)))) N)"
proof -
  let ?m = "mem (Io_class C S)" and ?d = "io_data (un_Io (pl t))"
  have "\<exists>ia'. Io_LoadStart C ?m \<lparr>ia_xfer = [wrap_xfer mx ?d, x1], ia_ss = ar_out C task_serialize t, ia_off = 0\<rparr> =
      Inr (pay_upd un_Io PIo io_data_update (\<lambda>_. ?d) (copy_flds task_serialize t ?m), ia')"
    using assms(5-8) by (intro cereal.Io_LoadStart_ok [OF assms(1)]) (simp_all add: wrap_xfer_def)
  then show ?thesis
    using assms(4,6) bitfield.TaskFlags_kinds(3) [OF assms(2)]
    by (auto simp: assms(3) sm_ops_def sm_exec_defs lib_LoadStart_def Deserialize_task_def sm_class_defs)
qed

lemma open_bulk:
  "BinaryInputArchive_new [wrap_xfer mx d, wrap_xfer mx b] =
     Inr \<lparr>ia_xfer = [wrap_xfer mx d, wrap_xfer mx b], ia_ss = b, ia_off = 0\<rparr>"
  by (simp add: BinaryInputArchive_new_def wrap_xfer_def memcpy_from_def)

lemma Md_SaveEnd_bytes:
  assumes "bitfield (se_bits S)" and "is_md (pl u)" and "0 < length (ret_of (pl u))"
  shows "\<exists>x. sm_SaveEnd C S kMd (BinaryOutputArchive_new n) u = Inr [x] \<and> xfer_string x = Inr (c_enc C (V32 (ret_of (pl u) ! 0))) \<and>
    xf_size x = length (c_enc C (V32 (ret_of (pl u) ! 0)))"
  using assms(2,3) bitfield.TaskFlags_kinds(2) [OF assms(1)]
  by (simp add: sm_exec_defs lib_SaveEnd_def Serialize_task_def sm_class_defs Md_SerializeEnd_def Get_def Let_def
      Serialize_flds_def BinaryOutputArchive_new_def fld32_def xfer_string_def DataTransfer_new_def memcpy_from_def)

lemma Io_SaveEnd_bytes:
  assumes "bitfield (se_bits S)" and "is_PIo (pl u)"
  shows "\<exists>x. sm_SaveEnd C S kIo (BinaryOutputArchive_new n) u = Inr [x] \<and> xfer_string x = Inr (c_enc C (V32 (io_ret (un_Io (pl u))))) \<and>
    xf_size x = length (c_enc C (V32 (io_ret (un_Io (pl u)))))"
  using assms(2) bitfield.TaskFlags_kinds(3) [OF assms(1)]
  by (simp add: sm_exec_defs lib_SaveEnd_def Serialize_task_def sm_class_defs Io_SerializeEnd_def Get_def Let_def
      Serialize_flds_def BinaryOutputArchive_new_def fld32_def xfer_string_def DataTransfer_new_def memcpy_from_def)

text \<open>
  The push of a dispersed metadata task: if every node that the task was dispersed to answers
  with an output, the push task ends, the original task holds the answers of the replicas in
  their order, and both tasks are complete.
\<close>

lemma rq_Push_md:
  assumes "cereal C" and "bitfield (re_bits X)" and "se_bits S = re_bits X"
    and "re_exec X (rp_exec r) = sm_ops C S A mem fr i" and "exec_method r = kMd" and "p \<noteq> orig_task r"
    and "heap N p = Some u" and "pl u = PRemotePush r" and "rp_xfer r = [x]" and "xfer_string x = Inr params"
    and "heap N (orig_task r) = Some t" and "method_id t = kMd" and "is_md (pl t)"
    and "length (ret_of (pl t)) = length (domain_ids r)" and "length (domain_ids r) < 2 ^ 32"
    and "\<And>d M. d \<in> set (domain_ids r) \<Longrightarrow> I M \<Longrightarrow> \<exists>M'. rpc_call X (dom_id d) ''RpcPushSmall'' (SmallArgs i kMd params) M =
      Inr (c_enc C (V32 (v d)), M') \<and> heap M' (orig_task r) = heap M (orig_task r) \<and> heap M' p = heap M p \<and> I M'"
    and "\<And>M q t t'. I M \<Longrightarrow> heap M q = Some t \<Longrightarrow> I (put_task q t' M)" and "I N"
  shows "\<exists>N' t' u'. rq_Push X p N = Inr N' \<and> heap N' (orig_task r) = Some t' \<and> heap N' p = Some u' \<and>
    ret_of (pl t') = map v (domain_ids r) \<and> IsModuleComplete (re_bits X) t' \<and> IsModuleComplete (re_bits X) u' \<and> I N'"
proof -
  let ?B = "re_bits X" and ?o = "orig_task r"
  note kinds = bitfield.TaskFlags_kinds(2) [OF assms(2)]
  define u1 where "u1 = pay_upd un_RemotePush PRemotePush rp_params_update (\<lambda>_. params) u"
  let ?N1 = "put_task p u1 N"
  have ex: "ex_LoadEnd (re_exec X (rp_exec r)) = sm_LoadEnd C S" "ex_id (re_exec X (rp_exec r)) = i"
    "ex_ReplicateEnd (re_exec X (rp_exec r)) = sm_ReplicateEnd C S" by (simp_all add: assms(4) sm_ops_def)
  have b: "bitfield (se_bits S)" using assms(2,3) by simp
  have I1: "I ?N1" by (rule assms(17) [OF assms(18,7)])
  have "\<exists>N'. small_push_loop X r params 0 (domain_ids r) ?N1 = Inr N' \<and> heap N' p = heap ?N1 p \<and>
      heap N' ?o = Some (upd_ret (\<lambda>xs. take 0 xs @ map v (domain_ids r) @ drop (0 + length (domain_ids r)) xs) t) \<and> I N'"
    by (rule cereal.small_push_md [OF assms(1) b ex(1) assms(5)]) (use assms(6,11,13-17) I1 ex(2) in auto)
  then obtain N2 where loop: "small_push_loop X r params 0 (domain_ids r) ?N1 = Inr N2" "heap N2 p = Some u1" "I N2"
      and t1: "heap N2 ?o = Some (upd_ret (\<lambda>xs. map v (domain_ids r)) t)"
    using upd_ret_cong [of "\<lambda>xs. map v (domain_ids r) @ drop (length (domain_ids r)) xs" t "\<lambda>_. map v (domain_ids r)"] assms(14)
    by auto
  let ?t1 = "upd_ret (\<lambda>xs. map v (domain_ids r)) t"
  let ?N3 = "put_task ?o (SetModuleComplete ?B ?t1) N2"
  have m: "method_id ?t1 = kMd" using assms(12) by (simp add: upd_ret_def)
  have e: "sm_ReplicateEnd C S kMd ?t1 = Inr ?t1"
    using assms(3,13) kinds by (simp add: sm_exec_defs lib_ReplicateEnd_def CALL_REPLICA_END_def sm_class_defs Md_ReplicateEnd_def)
  have "rq_Push X p N = Inr (put_task p (SetModuleComplete ?B u1) ?N3)"
    using assms(6-10) loop t1 m e ex(3)
    by (simp add: rq_Push_def task_at_def ClientSmallPush_def upd_task_def u1_def [symmetric] ClientHandlePushReplicaEnd_def)
  moreover have "I (put_task p (SetModuleComplete ?B u1) ?N3)"
    using assms(6) loop(2) by (intro assms(17) [of ?N3 p u1] assms(17) [OF loop(3) t1]) simp
  moreover have "IsModuleComplete ?B (SetModuleComplete ?B w)" for w :: TaskObj
    by (rule bitfield.complete_protocol(3) [OF assms(2)])
  ultimately show ?thesis using assms(6,13) by simp
qed

text \<open>A small environment in which every state is one of \<^verbatim>\<open>small_message\<close> and every call is answered.\<close>

definition sample_md :: TaskObj where
  "sample_md = (sample_obj (PMd \<lparr>md_ret = [0]\<rparr>))\<lparr>method_id := kMd\<rparr>"

definition sample_remote :: remote_env where
  "sample_remote = \<lparr>re_queue = list_env 8, re_alloc = sample_alloc, re_shm = sample_env,
     re_exec = (\<lambda>_. sm_ops ref_cereal sample_env sample_alloc (\<lambda>_. sample_md) False (UniqueId_new 1 0)),
     re_tl = ref_net (\<lambda>_ _. c_enc ref_cereal (V32 1)), re_thallium = sample_thallium,
     re_fatal_returns = False, re_xfer_mem = DataTransfer_new 0 None 0 (GetLocal word_bitfield),
     re_buf = (\<lambda>n. replicate (unat n) 0),
     re_wait = (\<lambda>p N. res_bind (task_at N p) (\<lambda>u. res_bind (sm_Run word_bitfield (method_id u) u)
       (\<lambda>u'. Inr (put_task p (SetComplete word_bitfield u') N)))),
     re_shared = (\<lambda>p N b. b)\<rparr>"

lemma sample_remote_simps [simp]:
  "re_queue sample_remote = list_env 8" "se_bits sample_env = word_bitfield"
  "re_exec sample_remote a = sm_ops ref_cereal sample_env sample_alloc (\<lambda>_. sample_md) False (UniqueId_new 1 0)"
  by (simp_all add: sample_remote_def sample_env_def)

definition sample_io :: TaskObj where
  "sample_io = (sample_obj (PIo \<lparr>io_data = replicate DATA_SIZE 10, io_ret = 9\<rparr>))\<lparr>method_id := kIo\<rparr>"

section \<open>Properties\<close>



end
