(* ===== verification/SchedLibs.thy ===== *)
theory SchedLibs
  imports AdminServer
begin

text \<open>
  The libraries around the two scheduling policies, \<^verbatim>\<open>worch_queue_round_robin\<close> (prefix \<open>wq\<close>) and
  \<^verbatim>\<open>worch_proc_round_robin\<close> (prefix \<open>wp\<close>): tasks, servers, dispatch and clients. The server of the
  first keeps the count of its policy, which is threaded through its runs.
\<close>

section \<open>Queue scheduling\<close>

text \<open>The destructor task takes its id before its domain.\<close>

definition wq_ConstructTask_new ::
    "shm_env \<Rightarrow> TaskStateId \<Rightarrow> TaskObj \<Rightarrow> TaskNode \<Rightarrow> DomainId \<Rightarrow> string \<Rightarrow> TaskStateId \<Rightarrow> PriorityInfo list \<Rightarrow> TaskObj" where
  "wq_ConstructTask_new S admin mem tn d state_name i queue_info =
     CreateTaskStateTask_new S admin mem tn d state_name ''worch_queue_round_robin'' i queue_info"

definition wq_DestructTask_new :: "shm_env \<Rightarrow> TaskStateId \<Rightarrow> TaskObj \<Rightarrow> TaskNode \<Rightarrow> TaskStateId \<Rightarrow> DomainId \<Rightarrow> TaskObj" where
  "wq_DestructTask_new S admin mem tn i d = DestroyTaskStateTask_new S admin mem tn d i"

definition wq_Construct :: "bitfield_lib \<Rightarrow> Pointer \<Rightarrow> u32 \<times> Node \<Rightarrow> (u32 \<times> Node) res" where
  "wq_Construct B p = (\<lambda>(c, N). res_bind (upd_task p (SetModuleComplete B) N) (\<lambda>N'. Inr (queue_rr_Construct, N')))"

definition wq_Destruct :: "bitfield_lib \<Rightarrow> Pointer \<Rightarrow> u32 \<times> Node \<Rightarrow> (u32 \<times> Node) res" where
  "wq_Destruct B p = (\<lambda>(c, N). res_bind (upd_task p (SetModuleComplete B) N) (\<lambda>N'. Inr (c, N')))"

text \<open>The policy reads nothing of its task, which is never completed by it.\<close>

definition wq_Run :: "bitfield_lib \<Rightarrow> spsc_lib \<Rightarrow> u32 \<Rightarrow> Pointer \<Rightarrow> u32 \<times> Node \<Rightarrow> (u32 \<times> Node) res" where
  "wq_Run B Q m p = (\<lambda>(c, N).
     if m = kConstruct then wq_Construct B p (c, N)
     else if m = kDestruct then wq_Destruct B p (c, N)
     else if m = kSchedule then queue_rr_Schedule B Q c N
     else Inr (c, N))"

definition wq_switch :: "shm_env \<Rightarrow> method_switch" where
  "wq_switch S m =
     (if m = kConstruct then Some (CreateTaskState_class S)
      else if m = kDestruct then Some (DestroyTaskState_class S)
      else if m = kSchedule then Some (Schedule_class S)
      else None)"

definition wq_Del :: "bool \<Rightarrow> u32 \<Rightarrow> Pointer \<Rightarrow> Node \<Rightarrow> Node res" where
  "wq_Del fr m p N =
     (if m = kConstruct \<or> m = kDestruct \<or> m = kSchedule then DelTask fr trivial_dtor p N else Inr N)"

definition wq_ReplicateStart :: "shm_env \<Rightarrow> u32 \<Rightarrow> u32 \<Rightarrow> TaskObj \<Rightarrow> TaskObj res" where
  "wq_ReplicateStart S = lib_ReplicateStart (wq_switch S)"

definition wq_ReplicateEnd :: "shm_env \<Rightarrow> u32 \<Rightarrow> TaskObj \<Rightarrow> TaskObj res" where
  "wq_ReplicateEnd S = lib_ReplicateEnd (wq_switch S)"

definition wq_SaveStart ::
    "cereal_lib \<Rightarrow> shm_env \<Rightarrow> u32 \<Rightarrow> BinaryOutputArchive \<Rightarrow> TaskObj \<Rightarrow> DataTransfer list res" where
  "wq_SaveStart C S = lib_SaveStart C (se_bits S) (wq_switch S)"

definition wq_LoadStart ::
    "cereal_lib \<Rightarrow> shm_env \<Rightarrow> (task_class \<Rightarrow> TaskObj) \<Rightarrow> u32 \<Rightarrow> BinaryInputArchive \<Rightarrow> TaskObj option res" where
  "wq_LoadStart C S = lib_LoadStart C (wq_switch S)"

definition wq_SaveEnd ::
    "cereal_lib \<Rightarrow> shm_env \<Rightarrow> u32 \<Rightarrow> BinaryOutputArchive \<Rightarrow> TaskObj \<Rightarrow> DataTransfer list res" where
  "wq_SaveEnd C S = lib_SaveEnd C (se_bits S) (wq_switch S)"

definition wq_LoadEnd ::
    "cereal_lib \<Rightarrow> shm_env \<Rightarrow> u32 \<Rightarrow> u32 \<Rightarrow> BinaryInputArchive \<Rightarrow> TaskObj \<Rightarrow> TaskObj res" where
  "wq_LoadEnd C S = lib_LoadEnd C (wq_switch S)"

definition wq_GetGroup :: "shm_env \<Rightarrow> u32 \<Rightarrow> TaskObj \<Rightarrow> bytes \<Rightarrow> (u32 \<times> bytes) res" where
  "wq_GetGroup S = lib_GetGroup (wq_switch S)"

definition wq_queue_info :: "PriorityInfo list" where
  "wq_queue_info = [PriorityInfo_new 1 1 4 0]"

definition wq_CreateRoot ::
    "queue_env \<Rightarrow> alloc_lib \<Rightarrow> shm_env \<Rightarrow> bool \<Rightarrow> (Pointer \<Rightarrow> Node \<Rightarrow> Node res) \<Rightarrow> TaskLibClient \<Rightarrow> TaskStateId \<Rightarrow>
     DomainId \<Rightarrow> string \<Rightarrow> TaskLibClient \<times> Node \<Rightarrow> (TaskLibClient \<times> Node) res" where
  "wq_CreateRoot E A S fr wait acl admin d name = (\<lambda>(cl, N).
     let cl1 = cl\<lparr>tc_id := UniqueId_GetNull\<rparr>
     in res_bind (CreateTaskStateRoot E A fr wait acl (\<lambda>tn mem. wq_ConstructTask_new S admin mem tn d name (tc_id cl1) wq_queue_info) N)
          (\<lambda>(i, N1). Inr (cl1\<lparr>tc_id := i\<rparr>, N1)))"

definition wq_DestroyRoot ::
    "queue_env \<Rightarrow> alloc_lib \<Rightarrow> shm_env \<Rightarrow> bool \<Rightarrow> (Pointer \<Rightarrow> Node \<Rightarrow> Node res) \<Rightarrow> TaskLibClient \<Rightarrow> DomainId \<Rightarrow> TaskLibClient \<Rightarrow> Node \<Rightarrow>
     (unit \<times> Node) res" where
  "wq_DestroyRoot E A S fr wait acl d cl N = DestroyTaskStateRoot E A S fr wait acl d (tc_id cl) N"

section \<open>Process scheduling\<close>

definition wp_ConstructTask_new ::
    "shm_env \<Rightarrow> TaskStateId \<Rightarrow> TaskObj \<Rightarrow> TaskNode \<Rightarrow> DomainId \<Rightarrow> string \<Rightarrow> TaskStateId \<Rightarrow> PriorityInfo list \<Rightarrow> TaskObj" where
  "wp_ConstructTask_new S admin mem tn d state_name i queue_info =
     CreateTaskStateTask_new S admin mem tn d state_name ''worch_proc_round_robin'' i queue_info"

definition wp_DestructTask_new :: "shm_env \<Rightarrow> TaskStateId \<Rightarrow> TaskObj \<Rightarrow> TaskNode \<Rightarrow> DomainId \<Rightarrow> TaskStateId \<Rightarrow> TaskObj" where
  "wp_DestructTask_new S admin mem tn d i = DestroyTaskStateTask_new S admin mem tn d i"

definition wp_Construct :: "bitfield_lib \<Rightarrow> Pointer \<Rightarrow> Node \<Rightarrow> Node res" where
  "wp_Construct B p = upd_task p (SetModuleComplete B)"

definition wp_Destruct :: "bitfield_lib \<Rightarrow> Pointer \<Rightarrow> Node \<Rightarrow> Node res" where
  "wp_Destruct B p = upd_task p (SetModuleComplete B)"

text \<open>The result also has the system calls that bind workers to processors.\<close>

definition wp_Run :: "bitfield_lib \<Rightarrow> int \<Rightarrow> u32 \<Rightarrow> Pointer \<Rightarrow> Node \<Rightarrow> ((int \<times> int) list \<times> Node) res" where
  "wp_Run B ncpu m p N =
     (let quiet = (\<lambda>r. res_bind r (\<lambda>N'. Inr ([], N')))
      in if m = kConstruct then quiet (wp_Construct B p N)
         else if m = kDestruct then quiet (wp_Destruct B p N)
         else if m = kSchedule then res_bind (proc_rr_Schedule ncpu N) (\<lambda>cs. Inr (cs, N))
         else Inr ([], N))"

definition wp_switch :: "shm_env \<Rightarrow> method_switch" where
  "wp_switch S m =
     (if m = kConstruct then Some (CreateTaskState_class S)
      else if m = kDestruct then Some (DestroyTaskState_class S)
      else if m = kSchedule then Some (Schedule_class S)
      else None)"

definition wp_Del :: "bool \<Rightarrow> u32 \<Rightarrow> Pointer \<Rightarrow> Node \<Rightarrow> Node res" where
  "wp_Del fr m p N =
     (if m = kConstruct \<or> m = kDestruct \<or> m = kSchedule then DelTask fr trivial_dtor p N else Inr N)"

definition wp_ReplicateStart :: "shm_env \<Rightarrow> u32 \<Rightarrow> u32 \<Rightarrow> TaskObj \<Rightarrow> TaskObj res" where
  "wp_ReplicateStart S = lib_ReplicateStart (wp_switch S)"

definition wp_ReplicateEnd :: "shm_env \<Rightarrow> u32 \<Rightarrow> TaskObj \<Rightarrow> TaskObj res" where
  "wp_ReplicateEnd S = lib_ReplicateEnd (wp_switch S)"

definition wp_SaveStart ::
    "cereal_lib \<Rightarrow> shm_env \<Rightarrow> u32 \<Rightarrow> BinaryOutputArchive \<Rightarrow> TaskObj \<Rightarrow> DataTransfer list res" where
  "wp_SaveStart C S = lib_SaveStart C (se_bits S) (wp_switch S)"

definition wp_LoadStart ::
    "cereal_lib \<Rightarrow> shm_env \<Rightarrow> (task_class \<Rightarrow> TaskObj) \<Rightarrow> u32 \<Rightarrow> BinaryInputArchive \<Rightarrow> TaskObj option res" where
  "wp_LoadStart C S = lib_LoadStart C (wp_switch S)"

definition wp_SaveEnd ::
    "cereal_lib \<Rightarrow> shm_env \<Rightarrow> u32 \<Rightarrow> BinaryOutputArchive \<Rightarrow> TaskObj \<Rightarrow> DataTransfer list res" where
  "wp_SaveEnd C S = lib_SaveEnd C (se_bits S) (wp_switch S)"

definition wp_LoadEnd ::
    "cereal_lib \<Rightarrow> shm_env \<Rightarrow> u32 \<Rightarrow> u32 \<Rightarrow> BinaryInputArchive \<Rightarrow> TaskObj \<Rightarrow> TaskObj res" where
  "wp_LoadEnd C S = lib_LoadEnd C (wp_switch S)"

definition wp_GetGroup :: "shm_env \<Rightarrow> u32 \<Rightarrow> TaskObj \<Rightarrow> bytes \<Rightarrow> (u32 \<times> bytes) res" where
  "wp_GetGroup S = lib_GetGroup (wp_switch S)"

definition wp_queue_info :: "PriorityInfo list" where
  "wp_queue_info = [PriorityInfo_new 1 1 4 0]"

definition wp_CreateRoot ::
    "queue_env \<Rightarrow> alloc_lib \<Rightarrow> shm_env \<Rightarrow> bool \<Rightarrow> (Pointer \<Rightarrow> Node \<Rightarrow> Node res) \<Rightarrow> TaskLibClient \<Rightarrow> TaskStateId \<Rightarrow>
     DomainId \<Rightarrow> string \<Rightarrow> TaskLibClient \<times> Node \<Rightarrow> (TaskLibClient \<times> Node) res" where
  "wp_CreateRoot E A S fr wait acl admin d name = (\<lambda>(cl, N).
     let cl1 = cl\<lparr>tc_id := UniqueId_GetNull\<rparr>
     in res_bind (CreateTaskStateRoot E A fr wait acl (\<lambda>tn mem. wp_ConstructTask_new S admin mem tn d name (tc_id cl1) wp_queue_info) N)
          (\<lambda>(i, N1). Inr (cl1\<lparr>tc_id := i\<rparr>, N1)))"

definition wp_DestroyRoot ::
    "queue_env \<Rightarrow> alloc_lib \<Rightarrow> shm_env \<Rightarrow> bool \<Rightarrow> (Pointer \<Rightarrow> Node \<Rightarrow> Node res) \<Rightarrow> TaskLibClient \<Rightarrow> DomainId \<Rightarrow> TaskLibClient \<Rightarrow> Node \<Rightarrow>
     (unit \<times> Node) res" where
  "wp_DestroyRoot E A S fr wait acl d cl N = DestroyTaskStateRoot E A S fr wait acl d (tc_id cl) N"

end
