(* ===== verification/TaskTemplate.thy ===== *)
theory TaskTemplate
  imports AdminServer ProcQueue
begin

text \<open>
  The template \<^verbatim>\<open>TASK_NAME\<close> that new libraries are generated from: its tasks, server, dispatch and
  client (prefix \<open>tn\<close>). Its \<^verbatim>\<open>CustomTask\<close> has no members of its own. The template member
  \<^verbatim>\<open>CreateRoot\<close> assigns an \<^verbatim>\<open>LPointer\<close> to a plain pointer and cannot be instantiated.
\<close>

section \<open>Tasks\<close>

definition tn_kCustom :: u32 where "tn_kCustom = kLast + 0"

definition tn_ConstructTask_new ::
    "shm_env \<Rightarrow> TaskStateId \<Rightarrow> TaskObj \<Rightarrow> TaskNode \<Rightarrow> DomainId \<Rightarrow> string \<Rightarrow> TaskStateId \<Rightarrow> PriorityInfo list \<Rightarrow> TaskObj" where
  "tn_ConstructTask_new S admin mem tn d state_name i queue_info =
     CreateTaskStateTask_new S admin mem tn d state_name ''TASK_NAME'' i queue_info"

definition tn_DestructTask_new :: "shm_env \<Rightarrow> TaskStateId \<Rightarrow> TaskObj \<Rightarrow> TaskNode \<Rightarrow> DomainId \<Rightarrow> TaskStateId \<Rightarrow> TaskObj" where
  "tn_DestructTask_new S admin mem tn d i = DestroyTaskStateTask_new S admin mem tn d i"

definition CustomTask_new :: "shm_env \<Rightarrow> TaskObj \<Rightarrow> TaskNode \<Rightarrow> DomainId \<Rightarrow> TaskStateId \<Rightarrow> TaskObj" where
  "CustomTask_new S mem tn d sid = (init_task (se_bits S) mem tn 0 kLowLatency sid tn_kCustom 0 d)\<lparr>pl := PCustom\<rparr>"

definition Custom_SerializeStart :: "TaskObj fld list" where
  "Custom_SerializeStart = task_serialize"

definition Custom_SerializeEnd :: "u32 \<Rightarrow> TaskObj fld list" where
  "Custom_SerializeEnd replica = []"

definition Custom_class :: "shm_env \<Rightarrow> task_class" where
  "Custom_class S = (base_class (se_bits S) (\<lambda>p. p = PCustom) (TF_SRL_SYM (se_bits S)))
     \<lparr>tc_SerializeStart := Custom_SerializeStart, tc_SerializeEnd := (\<lambda>r t. Inr (Custom_SerializeEnd r))\<rparr>"

section \<open>Server\<close>

definition tn_Construct :: "bitfield_lib \<Rightarrow> Pointer \<Rightarrow> Node \<Rightarrow> Node res" where
  "tn_Construct B p = upd_task p (SetModuleComplete B)"

definition tn_Destruct :: "bitfield_lib \<Rightarrow> Pointer \<Rightarrow> Node \<Rightarrow> Node res" where
  "tn_Destruct B p = upd_task p (SetModuleComplete B)"

definition Custom :: "bitfield_lib \<Rightarrow> Pointer \<Rightarrow> Node \<Rightarrow> Node res" where
  "Custom B p = upd_task p (SetModuleComplete B)"

definition tn_Run :: "bitfield_lib \<Rightarrow> u32 \<Rightarrow> Pointer \<Rightarrow> Node \<Rightarrow> Node res" where
  "tn_Run B m p N =
     (if m = kConstruct then tn_Construct B p N
      else if m = kDestruct then tn_Destruct B p N
      else if m = tn_kCustom then Custom B p N
      else Inr N)"

definition tn_switch :: "shm_env \<Rightarrow> method_switch" where
  "tn_switch S m =
     (if m = kConstruct then Some (CreateTaskState_class S)
      else if m = kDestruct then Some (DestroyTaskState_class S)
      else if m = tn_kCustom then Some (Custom_class S)
      else None)"

definition tn_Del :: "bool \<Rightarrow> u32 \<Rightarrow> Pointer \<Rightarrow> Node \<Rightarrow> Node res" where
  "tn_Del fr m p N =
     (if m = kConstruct \<or> m = kDestruct \<or> m = tn_kCustom then DelTask fr trivial_dtor p N else Inr N)"

definition tn_ReplicateStart :: "shm_env \<Rightarrow> u32 \<Rightarrow> u32 \<Rightarrow> TaskObj \<Rightarrow> TaskObj res" where
  "tn_ReplicateStart S = lib_ReplicateStart (tn_switch S)"

definition tn_ReplicateEnd :: "shm_env \<Rightarrow> u32 \<Rightarrow> TaskObj \<Rightarrow> TaskObj res" where
  "tn_ReplicateEnd S = lib_ReplicateEnd (tn_switch S)"

definition tn_SaveStart ::
    "cereal_lib \<Rightarrow> shm_env \<Rightarrow> u32 \<Rightarrow> BinaryOutputArchive \<Rightarrow> TaskObj \<Rightarrow> DataTransfer list res" where
  "tn_SaveStart C S = lib_SaveStart C (se_bits S) (tn_switch S)"

definition tn_LoadStart ::
    "cereal_lib \<Rightarrow> shm_env \<Rightarrow> (task_class \<Rightarrow> TaskObj) \<Rightarrow> u32 \<Rightarrow> BinaryInputArchive \<Rightarrow> TaskObj option res" where
  "tn_LoadStart C S = lib_LoadStart C (tn_switch S)"

definition tn_SaveEnd ::
    "cereal_lib \<Rightarrow> shm_env \<Rightarrow> u32 \<Rightarrow> BinaryOutputArchive \<Rightarrow> TaskObj \<Rightarrow> DataTransfer list res" where
  "tn_SaveEnd C S = lib_SaveEnd C (se_bits S) (tn_switch S)"

definition tn_LoadEnd ::
    "cereal_lib \<Rightarrow> shm_env \<Rightarrow> u32 \<Rightarrow> u32 \<Rightarrow> BinaryInputArchive \<Rightarrow> TaskObj \<Rightarrow> TaskObj res" where
  "tn_LoadEnd C S = lib_LoadEnd C (tn_switch S)"

definition tn_GetGroup :: "shm_env \<Rightarrow> u32 \<Rightarrow> TaskObj \<Rightarrow> bytes \<Rightarrow> (u32 \<times> bytes) res" where
  "tn_GetGroup S = lib_GetGroup (tn_switch S)"

section \<open>Client\<close>

definition tn_queue_info :: "bitfield_lib \<Rightarrow> QueueManagerInfo \<Rightarrow> PriorityInfo list" where
  "tn_queue_info B qm = [PriorityInfo_new 1 1 (queue_depth qm) 0,
     PriorityInfo_new 1 1 (queue_depth qm) (QUEUE_LONG_RUNNING B),
     PriorityInfo_new (qm_max_lanes qm) (qm_max_lanes qm) (queue_depth qm) (QUEUE_LOW_LATENCY B)]"

definition tn_AsyncCreate ::
    "queue_env \<Rightarrow> alloc_lib \<Rightarrow> shm_env \<Rightarrow> QueueManagerInfo \<Rightarrow> TaskLibClient \<Rightarrow> TaskStateId \<Rightarrow> DomainId \<Rightarrow> string \<Rightarrow>
     TaskLibClient \<Rightarrow> TaskNode \<Rightarrow> Node \<Rightarrow> (LPointer \<times> TaskLibClient \<times> Node) res" where
  "tn_AsyncCreate E A S qm acl admin d name cl tn N =
     (let cl1 = cl\<lparr>tc_id := UniqueId_GetNull\<rparr>
      in res_bind (AsyncCreateTaskState E A acl (\<lambda>tn mem. tn_ConstructTask_new S admin mem tn d name (tc_id cl1)
             (tn_queue_info (qe_bits E) qm)) tn N) (\<lambda>(lp, N1). Inr (lp, cl1, N1)))"

definition tn_DestroyRoot ::
    "queue_env \<Rightarrow> alloc_lib \<Rightarrow> shm_env \<Rightarrow> bool \<Rightarrow> (Pointer \<Rightarrow> Node \<Rightarrow> Node res) \<Rightarrow> TaskLibClient \<Rightarrow> DomainId \<Rightarrow> TaskLibClient \<Rightarrow> Node \<Rightarrow>
     (unit \<times> Node) res" where
  "tn_DestroyRoot E A S fr wait acl d cl N = DestroyTaskStateRoot E A S fr wait acl d (tc_id cl) N"

definition AsyncCustomConstruct :: "shm_env \<Rightarrow> TaskLibClient \<Rightarrow> DomainId \<Rightarrow> TaskNode \<Rightarrow> TaskObj \<Rightarrow> TaskObj" where
  "AsyncCustomConstruct S cl d tn mem = CustomTask_new S mem tn d (tc_id cl)"

text \<open>As in the source, the push task is not deleted.\<close>

definition CustomRoot ::
    "queue_env \<Rightarrow> alloc_lib \<Rightarrow> shm_env \<Rightarrow> u32 \<Rightarrow> u32 \<Rightarrow> (Pointer \<Rightarrow> Node \<Rightarrow> Node res) \<Rightarrow> TaskLibClient \<Rightarrow> TaskLibClient \<Rightarrow> DomainId \<Rightarrow>
     Node \<Rightarrow> Node res" where
  "CustomRoot E A S tid pid wait pq cl d N =
     res_bind (Async_Push_Root E A S tid pid pq (AsyncCustomConstruct S cl d) N) (\<lambda>(lp, N1). wait (lp_shm lp) N1)"

end
