(* ===== verification/LibClients.thy ===== *)
theory LibClients
  imports AdminServer RemoteQueue
begin

text \<open>
  The parts of the client classes that call the administration library, and the blocking
  calls of \<^verbatim>\<open>small_message.h\<close>. A member function of a client may change the client, which is
  then part of its result. \<open>acl\<close> is the administration client and \<open>admin\<close> the id of its state;
  \<open>wait\<close> is what happens until a task is complete.
\<close>

section \<open>proc_queue.h\<close>

definition pq_queue_info :: "bitfield_lib \<Rightarrow> QueueManagerInfo \<Rightarrow> PriorityInfo list" where
  "pq_queue_info B qm = [PriorityInfo_new 1 1 (queue_depth qm) 0,
     PriorityInfo_new 1 1 (queue_depth qm) (QUEUE_LONG_RUNNING B),
     PriorityInfo_new (qm_max_lanes qm) (qm_max_lanes qm) (queue_depth qm) (QUEUE_LOW_LATENCY B)]"

definition pq_AsyncCreate ::
    "queue_env \<Rightarrow> alloc_lib \<Rightarrow> shm_env \<Rightarrow> QueueManagerInfo \<Rightarrow> TaskLibClient \<Rightarrow> TaskStateId \<Rightarrow> DomainId \<Rightarrow> string \<Rightarrow>
     TaskLibClient \<Rightarrow> TaskNode \<Rightarrow> Node \<Rightarrow> (LPointer \<times> TaskLibClient \<times> Node) res" where
  "pq_AsyncCreate E A S qm acl admin d name cl tn N =
     (let cl1 = cl\<lparr>tc_id := UniqueId_GetNull\<rparr>
      in res_bind (AsyncCreateTaskState E A acl (\<lambda>tn mem. pq_ConstructTask_new S admin mem tn d name (tc_id cl1)
             (pq_queue_info (qe_bits E) qm)) tn N) (\<lambda>(lp, N1). Inr (lp, cl1, N1)))"

definition pq_DestroyRoot ::
    "queue_env \<Rightarrow> alloc_lib \<Rightarrow> shm_env \<Rightarrow> bool \<Rightarrow> (Pointer \<Rightarrow> Node \<Rightarrow> Node res) \<Rightarrow> TaskLibClient \<Rightarrow> DomainId \<Rightarrow> TaskLibClient \<Rightarrow> Node \<Rightarrow>
     (unit \<times> Node) res" where
  "pq_DestroyRoot E A S fr wait acl d cl N = DestroyTaskStateRoot E A S fr wait acl d (tc_id cl) N"

section \<open>remote_queue.h\<close>

definition rq_queue_info :: "bitfield_lib \<Rightarrow> QueueManagerInfo \<Rightarrow> PriorityInfo list" where
  "rq_queue_info B qm = [PriorityInfo_new 1 1 (queue_depth qm) 0,
     PriorityInfo_new 1 1 (queue_depth qm) (QUEUE_LONG_RUNNING B),
     PriorityInfo_new 1 1 (queue_depth qm) (QUEUE_LOW_LATENCY B)]"

definition rq_AsyncCreate ::
    "queue_env \<Rightarrow> alloc_lib \<Rightarrow> shm_env \<Rightarrow> QueueManagerInfo \<Rightarrow> TaskLibClient \<Rightarrow> TaskStateId \<Rightarrow> DomainId \<Rightarrow> string \<Rightarrow> TaskStateId \<Rightarrow>
     TaskLibClient \<Rightarrow> TaskNode \<Rightarrow> Node \<Rightarrow> (LPointer \<times> TaskLibClient \<times> Node) res" where
  "rq_AsyncCreate E A S qm acl admin d name i cl tn N =
     (let cl1 = cl\<lparr>tc_id := i\<rparr>
      in res_bind (AsyncCreateTaskState E A acl (\<lambda>tn mem. rq_ConstructTask_new S admin mem tn d name (tc_id cl1)
             (rq_queue_info (qe_bits E) qm)) tn N) (\<lambda>(lp, N1). Inr (lp, cl1, N1)))"

definition rq_CreateRoot ::
    "queue_env \<Rightarrow> alloc_lib \<Rightarrow> shm_env \<Rightarrow> bool \<Rightarrow> (Pointer \<Rightarrow> Node \<Rightarrow> Node res) \<Rightarrow> QueueManagerInfo \<Rightarrow> TaskLibClient \<Rightarrow> TaskStateId \<Rightarrow>
     DomainId \<Rightarrow> string \<Rightarrow> TaskStateId \<Rightarrow> TaskLibClient \<times> Node \<Rightarrow> (TaskLibClient \<times> Node) res" where
  "rq_CreateRoot E A S fr wait qm acl admin d name i = (\<lambda>(cl, N).
     res_bind (TASK_NODE_ROOT (rq_AsyncCreate E A S qm acl admin d name i cl) N) (\<lambda>(lp, cl1, N1).
     res_bind (finish_call fr wait (\<lambda>t. cs_id (un_CreateTaskState (pl t))) (lp, N1)) (\<lambda>(j, N2).
       Inr (cl1\<lparr>tc_id := j, tc_queue_id := UniqueId_copy j\<rparr>, N2))))"

definition rq_DestroyRoot ::
    "queue_env \<Rightarrow> alloc_lib \<Rightarrow> shm_env \<Rightarrow> bool \<Rightarrow> (Pointer \<Rightarrow> Node \<Rightarrow> Node res) \<Rightarrow> TaskLibClient \<Rightarrow> DomainId \<Rightarrow> TaskLibClient \<Rightarrow> Node \<Rightarrow>
     (unit \<times> Node) res" where
  "rq_DestroyRoot E A S fr wait acl d cl N = DestroyTaskStateRoot E A S fr wait acl d (tc_id cl) N"

section \<open>small_message.h\<close>

definition sm_CreateRoot ::
    "queue_env \<Rightarrow> alloc_lib \<Rightarrow> shm_env \<Rightarrow> bool \<Rightarrow> (Pointer \<Rightarrow> Node \<Rightarrow> Node res) \<Rightarrow> QueueManagerInfo \<Rightarrow> TaskLibClient \<Rightarrow> TaskStateId \<Rightarrow>
     DomainId \<Rightarrow> string \<Rightarrow> TaskLibClient \<times> Node \<Rightarrow> (TaskLibClient \<times> Node) res" where
  "sm_CreateRoot E A S fr wait qm acl admin d name = (\<lambda>(cl, N).
     let cl1 = cl\<lparr>tc_id := UniqueId_GetNull\<rparr>
     in res_bind (CreateTaskStateRoot E A fr wait acl (\<lambda>tn mem. sm_ConstructTask_new S admin mem tn d name (tc_id cl1)
             (sm_queue_info (qe_bits E) qm)) N)
          (\<lambda>(i, N1). Inr (cl1\<lparr>tc_id := i, tc_queue_id := UniqueId_copy i\<rparr>, N1)))"

definition sm_DestroyRoot ::
    "queue_env \<Rightarrow> alloc_lib \<Rightarrow> shm_env \<Rightarrow> bool \<Rightarrow> (Pointer \<Rightarrow> Node \<Rightarrow> Node res) \<Rightarrow> TaskLibClient \<Rightarrow> DomainId \<Rightarrow> TaskLibClient \<Rightarrow> Node \<Rightarrow>
     (unit \<times> Node) res" where
  "sm_DestroyRoot E A S fr wait acl d cl N = DestroyTaskStateRoot E A S fr wait acl d (tc_id cl) N"

definition MdRoot ::
    "queue_env \<Rightarrow> alloc_lib \<Rightarrow> shm_env \<Rightarrow> bool \<Rightarrow> (Pointer \<Rightarrow> Node \<Rightarrow> Node res) \<Rightarrow> TaskLibClient \<Rightarrow> DomainId \<Rightarrow> Node \<Rightarrow> (c_int \<times> Node) res" where
  "MdRoot E A S fr wait cl d N =
     res_bind (TASK_NODE_ROOT (\<lambda>tn. AsyncMd E A S cl tn d) N) (\<lambda>(lp, N1).
     res_bind (wait (lp_shm lp) N1) (\<lambda>N2.
     res_bind (task_at N2 (lp_shm lp)) (\<lambda>t.
     res_bind (vec_at (ret_of (pl t)) 0) (\<lambda>ret.
     res_bind (DelTask fr trivial_dtor (lp_shm lp) N2) (\<lambda>N3. Inr (ret, N3))))))"

text \<open>The answer of a pushed task is read from the subtask before both are deleted.\<close>

definition finish_push ::
    "bitfield_lib \<Rightarrow> bool \<Rightarrow> (Pointer \<Rightarrow> Node \<Rightarrow> Node res) \<Rightarrow> (TaskObj \<Rightarrow> 'r res) \<Rightarrow> LPointer \<times> Node \<Rightarrow> ('r \<times> Node) res" where
  "finish_push B fr wait result = (\<lambda>(lp, N1).
     res_bind (wait (lp_shm lp) N1) (\<lambda>N2.
     res_bind (task_at N2 (lp_shm lp)) (\<lambda>t.
       case TypedPush_get t of
         None \<Rightarrow> Inl NullDeref
       | Some sp \<Rightarrow>
           res_bind (task_at N2 sp) (\<lambda>sub.
           res_bind (result sub) (\<lambda>ret.
           res_bind (DelTask fr (TypedPush_dtor B fr trivial_dtor) (lp_shm lp) N2) (\<lambda>N3. Inr (ret, N3)))))))"

definition MdPushRoot ::
    "queue_env \<Rightarrow> alloc_lib \<Rightarrow> shm_env \<Rightarrow> u32 \<Rightarrow> u32 \<Rightarrow> bool \<Rightarrow> (Pointer \<Rightarrow> Node \<Rightarrow> Node res) \<Rightarrow> TaskLibClient \<Rightarrow> TaskLibClient \<Rightarrow> DomainId \<Rightarrow>
     Node \<Rightarrow> (c_int \<times> Node) res" where
  "MdPushRoot E A S tid pid fr wait pq cl d N =
     res_bind (Async_Push_Root E A S tid pid pq (\<lambda>tn mem. MdPushTask_new S mem tn d (tc_id cl)) N)
       (finish_push (qe_bits E) fr wait (\<lambda>sub. vec_at (ret_of (pl sub)) 0))"

definition IoRoot ::
    "queue_env \<Rightarrow> alloc_lib \<Rightarrow> shm_env \<Rightarrow> u32 \<Rightarrow> u32 \<Rightarrow> bool \<Rightarrow> (Pointer \<Rightarrow> Node \<Rightarrow> Node res) \<Rightarrow> TaskLibClient \<Rightarrow> TaskLibClient \<Rightarrow> DomainId \<Rightarrow>
     Node \<Rightarrow> (c_int \<times> Node) res" where
  "IoRoot E A S tid pid fr wait pq cl d N =
     res_bind (Async_Push_Root E A S tid pid pq (\<lambda>tn mem. IoTask_new S mem tn d (tc_id cl)) N)
       (finish_push (qe_bits E) fr wait (\<lambda>sub. Inr (io_ret (un_Io (pl sub)))))"

section \<open>Facts\<close>

text \<open>Deleting a push task that is not fire-and-forget frees it and its subtask.\<close>

lemma DelTask_push:
  assumes "heap N p = Some t" and "delcnt t = 0" and "\<not> IsFireAndForget B t" and "sub_cli (un_TypedPush (pl t)) = lptr s"
    and "s \<noteq> p" and "heap N s = Some u" and "delcnt u = 0"
  shows "DelTask fr (TypedPush_dtor B fr trivial_dtor) p N = Inr (N\<lparr>heap := (heap N)(s := None, p := None)\<rparr>)"
  using assms
  by (auto simp: DelTask_def task_at_def TypedPush_dtor_def lptr_def trivial_dtor_def free_task_def Let_def IsFireAndForget_def put_task_def)

end
