(* ===== verification/Runtime.thy ===== *)
theory Runtime
  imports LibClients
begin

text \<open>
  \<^verbatim>\<open>api/hermes_run_runtime.h\<close> and the programs that start and stop the daemon: the start-up
  that puts the components together, in the order of the source. The client singleton is a
  member of the runtime's state here, and so are the node, on which the registry, the queue
  table and the workers live, and the members of the class.
\<close>

section \<open>State\<close>

record Runtime = ConfigurationManager +
  rn_node :: Node
  rn_queue_manager :: QueueManagerRuntime
  rn_worch :: WorkOrchestrator
  rn_remote_queue :: TaskLibClient
  rn_rpc :: RpcContext
  rn_thallium :: ThalliumRpc
  rn_remote_created :: bool
  rn_client :: Client

text \<open>
  What start-up takes from outside besides the environments of the components: whether the
  thread library makes its stream (\<open>ru_abt_ok\<close>), the default size of a shared segment, the
  header in a new segment, and a creation task built by its default constructor.
\<close>

record 'y runtime_env =
  ru_boot :: "'y boot_env"
  ru_names :: name_env
  ru_admin :: admin_env
  ru_spsc :: spsc_lib
  ru_resize :: resize_fn
  ru_abt_ok :: bool
  ru_default_size :: size_t
  ru_header_mem :: HermesRunShm
  ru_create_task :: TaskObj

abbreviation "ru_bits X \<equiv> ae_bits (ru_admin X)"
abbreviation "ru_fatal X \<equiv> ae_fatal_returns (ru_admin X)"
abbreviation "ru_config R \<equiv> cm_server_config R"

section \<open>Start-up\<close>

text \<open>A new segment holds no objects.\<close>

definition InitSharedMemory :: "'y runtime_env \<Rightarrow> Runtime \<Rightarrow> Runtime" where
  "InitSharedMemory X R =
     (let qm = queue_manager (ru_config R);
          qm' = (if shm_size qm = 0 then qm\<lparr>shm_size := ru_default_size X\<rparr> else qm)
      in R\<lparr>cm_server_config := (ru_config R)\<lparr>queue_manager := qm'\<rparr>,
           rn_node := (rn_node R)\<lparr>heap := Map.empty, header := ru_header_mem X\<rparr>\<rparr>)"

text \<open>A step that may raise an exception, as a result.\<close>

definition run_step :: "'c step \<Rightarrow> 'c \<Rightarrow> 'c res" where
  "run_step f c = (case f c of (c', None) \<Rightarrow> Inr c' | (c', Some e) \<Rightarrow> Inl e)"

definition init_network :: "'y runtime_env \<Rightarrow> Runtime \<Rightarrow> Runtime res" where
  "init_network X R =
     res_bind (RpcContext_ServerInit (ru_names X) (ru_config R) (rn_rpc R)) (\<lambda>C.
     res_bind (ThalliumRpc_ServerInit (ae_tl (ru_admin X)) (ru_bits X) (ru_fatal X) C (rn_thallium R)) (\<lambda>T.
       Inr (R\<lparr>rn_rpc := C, rn_thallium := T, rn_node := (rn_node R)\<lparr>header :=
         \<lparr>hdr_node_id = rc_node_id C, hdr_unique = 0, hdr_num_nodes = of_nat (length (host_names (rpc (ru_config R))))\<rparr>\<rparr>\<rparr>)))"

definition init_tables :: "'y runtime_env \<Rightarrow> Runtime \<Rightarrow> Runtime res" where
  "init_tables X R =
     (let A = ru_admin X; N = rn_node R;
          reg = fst (TaskRegistry_ServerInit (ae_loader A) (ru_config R) (rc_node_id (rn_rpc R)) (registry N))
      in res_bind (QueueManagerRuntime_ServerInit (ae_queue A) (ae_qvec A) (ae_group_mem A) (rc_node_id (rn_rpc R))
            (ru_config R) (rn_queue_manager R)) (\<lambda>(qm, shm).
           Inr (R\<lparr>rn_queue_manager := qm, rn_node := N\<lparr>registry := reg, queues := queue_map qm\<rparr>\<rparr>)))"

text \<open>The client of the server process finds the segment that was just filled.\<close>

definition init_client :: "'y runtime_env \<Rightarrow> string \<Rightarrow> Runtime \<Rightarrow> Runtime res" where
  "init_client X server_config_path R =
     (let X' = (ru_boot X)\<lparr>be_attach := (\<lambda>_ _. (header (rn_node R), \<lparr>shm_queue_map = queues (rn_node R), shm_tickets = []\<rparr>))\<rparr>
      in res_bind (run_step (Client_Create X' server_config_path [] True) (rn_client R)) (\<lambda>C. Inr (R\<lparr>rn_client := C\<rparr>)))"

definition init_workers :: "'y runtime_env \<Rightarrow> Runtime \<Rightarrow> Runtime res" where
  "init_workers X R =
     res_bind (WorkOrchestrator_ServerInit (ru_bits X) (ru_spsc X) (ru_resize X) (ru_fatal X) (ru_abt_ok X) (ru_config R)
         (admin_queue (rn_queue_manager R)) (rn_node R)) (\<lambda>(W, N). Inr (R\<lparr>rn_worch := W, rn_node := N\<rparr>))"

text \<open>
  A state of the runtime itself: draw an id, load the library, create the state under
  \<open>pick i\<close>, where \<open>i\<close> is the drawn id. The results of loading and creating are not tested.
\<close>

definition boot_state :: "'y runtime_env \<Rightarrow> string \<Rightarrow> (TaskStateId \<Rightarrow> TaskStateId) \<Rightarrow> Node \<Rightarrow> TaskStateId \<times> Node" where
  "boot_state X lib pick N =
     (let A = ru_admin X; (i, N1) = MakeTaskStateId N;
          reg1 = fst (snd (RegisterTaskLib (ae_loader A) lib (registry N1)));
          reg2 = snd (snd (CreateTaskState (ae_bits A) (ae_create A) lib lib (pick i) (ru_create_task X) reg1))
      in (i, N1\<lparr>registry := reg2\<rparr>))"

definition boot_states :: "'y runtime_env \<Rightarrow> Runtime \<Rightarrow> TaskStateId \<times> TaskStateId \<times> Runtime" where
  "boot_states X R =
     (let qm = cl_queue_manager (rn_client R);
          (_, N1) = boot_state X ''hermes_run_admin'' (\<lambda>_. admin_task_state qm) (rn_node R);
          (_, N2) = boot_state X ''proc_queue'' (\<lambda>_. UniqueId_copy (process_queue qm)) N1;
          (queue_sched_id, N3) = boot_state X ''worch_queue_round_robin'' id N2;
          (proc_sched_id, N4) = boot_state X ''worch_proc_round_robin'' id N3
      in (queue_sched_id, proc_sched_id, R\<lparr>rn_node := N4\<rparr>))"

text \<open>The part of start-up that makes no remote or blocking call.\<close>

definition ServerInit_local :: "'y runtime_env \<Rightarrow> string \<Rightarrow> Runtime \<Rightarrow> (TaskStateId \<times> TaskStateId \<times> Runtime) res" where
  "ServerInit_local X server_config_path R =
     res_bind (run_step (LoadServerConfig (ru_boot X) server_config_path) R) (\<lambda>R1.
     res_bind (init_network X (InitSharedMemory X R1)) (\<lambda>R2.
     res_bind (init_tables X R2) (\<lambda>R3.
     res_bind (init_client X server_config_path R3) (\<lambda>R4.
     res_bind (init_workers X R4) (\<lambda>R5. Inr (boot_states X R5))))))"

text \<open>
  The calls at the end. The administration client is a singleton built on its first use,
  from the queue manager of the client.
\<close>

definition ServerInit_calls :: "'y runtime_env \<Rightarrow> TaskStateId \<Rightarrow> TaskStateId \<Rightarrow> Runtime \<Rightarrow> Runtime res" where
  "ServerInit_calls X queue_sched_id proc_sched_id R =
     (let A = ru_admin X; E = ae_queue A; S = ae_shm A; fr = ae_fatal_returns A; w = ae_wait A;
          qm = cl_queue_manager (rn_client R); acl = Admin_Client_new qm; local = GetLocal (ae_bits A)
      in res_bind (SetWorkOrchQueuePolicyRoot E (ae_alloc A) S fr w acl local queue_sched_id (rn_node R)) (\<lambda>(_, N1).
         res_bind (SetWorkOrchProcPolicyRoot E (ae_alloc A) S fr w acl local proc_sched_id N1) (\<lambda>(_, N2).
         let N3 = N2\<lparr>registry := fst (snd (RegisterTaskLib (ae_loader A) ''remote_queue'' (registry N2)))\<rparr>;
             (i, N4) = MakeTaskStateId N3
         in res_bind (rq_CreateRoot E (ae_alloc A) S fr w (queue_manager (cm_server_config (rn_client R))) acl (admin_task_state qm)
                local ''remote_queue'' i (rn_remote_queue R, N4)) (\<lambda>(cl, N5).
              Inr (R\<lparr>rn_node := N5, rn_remote_queue := cl, rn_remote_created := True\<rparr>)))))"

definition Runtime_ServerInit :: "'y runtime_env \<Rightarrow> string \<Rightarrow> Runtime \<Rightarrow> Runtime res" where
  "Runtime_ServerInit X server_config_path R =
     res_bind (ServerInit_local X server_config_path R) (\<lambda>(qs, ps, R1). ServerInit_calls X qs ps R1)"

definition Runtime_Create :: "'y runtime_env \<Rightarrow> string \<Rightarrow> Runtime \<Rightarrow> Runtime res" where
  "Runtime_Create X server_config_path R =
     (if is_initialized R then Inr R
      else res_bind (Runtime_ServerInit X server_config_path (R\<lparr>cm_mode := kServer, is_being_initialized := True\<rparr>)) (\<lambda>R1.
        Inr (R1\<lparr>is_initialized := True, is_being_initialized := False\<rparr>)))"

section \<open>Running and stopping\<close>

definition Runtime_Finalize :: "Runtime \<Rightarrow> Runtime" where
  "Runtime_Finalize R = R"

definition Runtime_RunDaemon :: "tl_lib \<Rightarrow> Runtime \<Rightarrow> Runtime res" where
  "Runtime_RunDaemon TL R =
     res_bind (ThalliumRpc_RunDaemon TL (rn_thallium R)) (\<lambda>T. Inr (R\<lparr>rn_thallium := T, rn_worch := Join (rn_worch R)\<rparr>))"

definition Runtime_StopDaemon :: "Runtime \<Rightarrow> Runtime" where
  "Runtime_StopDaemon R = R\<lparr>rn_worch := FinalizeRuntime (rn_worch R)\<rparr>"

definition start_main :: "'y runtime_env \<Rightarrow> Runtime \<Rightarrow> Runtime res" where
  "start_main X R =
     res_bind (Runtime_Create X [] R) (\<lambda>R1.
     res_bind (Runtime_RunDaemon (ae_tl (ru_admin X)) R1) (\<lambda>R2. Inr (Runtime_Finalize R2)))"

text \<open>
  The stopping program is a client: it submits one task and does not wait for it. When the
  initialisation throws, its exception ends the program.
\<close>

definition stop_main ::
    "'y boot_env \<Rightarrow> queue_env \<Rightarrow> alloc_lib \<Rightarrow> shm_env \<Rightarrow> Client \<Rightarrow> Node \<Rightarrow> (Client \<times> Node) res" where
  "stop_main X E A S C N =
     res_bind (run_step (\<lambda>C. if snd (TRANSPARENT_HERMES_RUN X C) = None then Client_Create X [] [] False C
                            else (fst (TRANSPARENT_HERMES_RUN X C), None)) C) (\<lambda>C1.
          let acl = Admin_Client_new (cl_queue_manager C1)
          in res_bind (Async_Root E A (tc_queue_id acl) (AsyncStopRuntimeConstruct S acl (GetLocal (qe_bits E))) N)
               (\<lambda>(_, N1). Inr (C1, N1)))"

section \<open>Facts\<close>

lemma rn_client_config [simp]:
  "rn_client (R\<lparr>cm_server_config := c\<rparr>) = rn_client R" "ru_config (R\<lparr>rn_client := C\<rparr>) = ru_config R"
  by (cases R; simp)+

lemma InitSharedMemory_simps:
  "rn_client (InitSharedMemory X R) = rn_client R" "rn_rpc (InitSharedMemory X R) = rn_rpc R"
  "rn_node (InitSharedMemory X R) = (rn_node R)\<lparr>heap := Map.empty, header := ru_header_mem X\<rparr>"
  by (simp_all add: InitSharedMemory_def Let_def)

text \<open>The workers take the lanes of the admin queue; nothing else of the node changes.\<close>

lemma poll_lanes_frame:
  "poll_lanes Q wid slot pr ls N = Inr N' \<Longrightarrow>
     queues N' = queues N \<and> registry N' = registry N \<and> header N' = header N \<and> heap N' = heap N \<and>
     length (workers N') = length (workers N)"
  by (induction ls arbitrary: N) (fastforce simp: poll_lane_def put_worker_def res_bind_Inr_iff)+

lemma set_scheduled_facts:
  "registry (set_scheduled s g N) = registry N" "header (set_scheduled s g N) = header N"
  "heap (set_scheduled s g N) = heap N" "workers (set_scheduled s g N) = workers N"
  "map mq_id (queues (set_scheduled s g N)) = map mq_id (queues N)"
  "s < length (queues N) \<Longrightarrow> table_wf (queues N) \<Longrightarrow> table_wf (queues (set_scheduled s g N))"
  using table_wf_group_done [of "queues N" s g] map_update [of mq_id "queues N" s "queues N ! s"]
  by (simp_all add: set_scheduled_def group_done_def map_update)

lemma orchestrator_init_frame:
  assumes "WorkOrchestrator_ServerInit B Q resize fr abt config q N = Inr (W, N')"
    and "table_wf (queues N)"
  shows "table_wf (queues N') \<and> map mq_id (queues N') = map mq_id (queues N) \<and> registry N' = registry N \<and>
    header N' = header N \<and> heap N' = heap N \<and>
    length (workers N') = length (workers N) + unat (max_workers (wo config))"
proof -
  let ?N1 = "N\<lparr>workers := workers N @ map (\<lambda>i. Worker_new_thread B Q resize (of_nat i)) [0..<unat (max_workers (wo config))]\<rparr>"
  from assms(1) obtain mq N2 ls where q: "GetQueue (queues N) q = Inr mq"
    and N2: "poll_lanes Q 0 (unat (unique q)) 0 ls ?N1 = Inr N2" and N': "N' = set_scheduled (unat (unique q)) 0 N2"
    by (auto simp: WorkOrchestrator_ServerInit_def Let_def helog_fatal_def res_bind_Inr_iff split: if_splits)
  from q have "unat (unique q) < length (queues N)" by (simp add: GetQueue_def vec_at_Inr_iff)
  with poll_lanes_frame [OF N2] assms(2) show ?thesis by (simp add: N' set_scheduled_facts)
qed

text \<open>Loading a library touches nothing but the table of libraries.\<close>

lemma RegisterTaskLib_frame:
  "\<exists>ls. fst (snd (RegisterTaskLib L name R)) = R\<lparr>libs := ls\<rparr>"
proof -
  have same: "\<exists>ls. R = R\<lparr>libs := ls\<rparr>" by (intro exI [of _ "libs R"]) simp
  have "\<exists>ls. fst (snd (load_lib L p R)) = R\<lparr>libs := ls\<rparr>" for p
    using same by (auto simp: load_lib_def libs_emplace_def TaskLibInfo_move_def Let_def split: option.splits)
  then show ?thesis
    using same by (simp add: RegisterTaskLib_def search_dirs_first split: option.splits)
qed

lemma register_libs_frame: "\<exists>ls. fst (register_libs L names R) = R\<lparr>libs := ls\<rparr>"
proof (induction names arbitrary: R)
  case Nil
  then show ?case by (intro exI [of _ "libs R"]) simp
next
  case (Cons n ns)
  obtain ok R1 c1 where r: "RegisterTaskLib L n R = (ok, R1, c1)" by (cases "RegisterTaskLib L n R") auto
  from RegisterTaskLib_frame [of L n R] obtain l1 where R1: "R1 = R\<lparr>libs := l1\<rparr>" by (auto simp: r)
  from Cons [of R1] obtain l2 where "fst (register_libs L ns R1) = R1\<lparr>libs := l2\<rparr>" ..
  with R1 show ?case by (auto simp: r split: prod.splits)
qed

lemma registry_wf_libs [simp]: "registry_wf (R\<lparr>libs := ls\<rparr>) = registry_wf R"
  by (simp add: registry_wf_def TaskStateExists_def)

context state_factory
begin

lemma CreateTaskState_frame:
  assumes "CreateTaskState B cs lib name i t R = (ok, t', R')" and "registry_wf R"
  shows "registry_wf R'" and "lib_dirs R' = lib_dirs R"
    and "dom (task_states R') \<subseteq> insert (key_of i) (dom (task_states R))"
    and "dom (task_states R) \<subseteq> dom (task_states R')"
    and "\<exists>a. dom (objects R') \<subseteq> insert a (dom (objects R))"
    and "ok \<Longrightarrow> key_of i \<in> dom (task_states R')"
proof -
  show "registry_wf R'" by (rule CreateTaskState_wf [OF assms(2,1)])
  show "lib_dirs R' = lib_dirs R"
    using assms(1) cs_null cs_new
    by (fastforce simp: CreateTaskState_def Let_def states_emplace_def ids_emplace_def split: if_splits option.splits prod.splits)
  have "dom (task_states R') \<subseteq> insert (key_of i) (dom (task_states R)) \<and> dom (task_states R) \<subseteq> dom (task_states R') \<and>
    (\<exists>a. dom (objects R') \<subseteq> insert a (dom (objects R))) \<and> (ok \<longrightarrow> key_of i \<in> dom (task_states R'))"
  proof (cases "UniqueId_IsNull i \<or> libs R lib = None \<or> TaskStateExists R i")
    case True
    from CreateTaskState_fails [OF assms(1) True] show ?thesis by (auto simp: TaskStateExists_def)
  next
    case False
    then obtain info where "libs R lib = Some info" by auto
    from CreateTaskState_new [OF assms(1) _ this] False show ?thesis by (cases ok) auto
  qed
  then show "dom (task_states R') \<subseteq> insert (key_of i) (dom (task_states R))"
    "dom (task_states R) \<subseteq> dom (task_states R')" "\<exists>a. dom (objects R') \<subseteq> insert a (dom (objects R))"
    "ok \<Longrightarrow> key_of i \<in> dom (task_states R')" by blast+
qed

lemma CreateTaskState_succeeds:
  assumes "\<not> UniqueId_IsNull i" and "libs R lib \<noteq> None" and "\<And>f t n. fst (cs f t n R) \<noteq> None"
  shows "fst (CreateTaskState B cs lib name i t R)"
proof -
  from assms(2) obtain info where l: "libs R lib = Some info" by auto
  let ?t = "pay_upd un_CreateTaskState PCreateTaskState cs_id_update (\<lambda>_. i) t"
  from assms(3) obtain a t1 R1 where "cs (li_create_state info) ?t name R = (Some a, t1, R1)"
    by (metis option.exhaust prod.exhaust_sel)
  with l assms(1) show ?thesis by (simp add: CreateTaskState_def Let_def)
qed

end

text \<open>
  Every search of \<open>dirs\<close> finds the library and registers it under its own name.
\<close>

definition lib_loads :: "loader \<Rightarrow> string list \<Rightarrow> string \<Rightarrow> bool" where
  "lib_loads L dirs lib \<longleftrightarrow> (\<forall>r. lib_dirs r = dirs \<longrightarrow> libs (fst (snd (RegisterTaskLib L lib r))) lib \<noteq> None)"

lemma boot_state_facts:
  assumes "state_factory (ae_create (ru_admin X))" and "registry_wf (registry N)" and "boot_state X lib pick N = (i, N')"
  defines "k \<equiv> key_of (pick i)"
  shows "i = UniqueId_new (hdr_node_id (header N)) (hdr_unique (header N))"
    and "header N' = (header N)\<lparr>hdr_unique := hdr_unique (header N) + 1\<rparr>"
    and "heap N' = heap N" and "queues N' = queues N" and "workers N' = workers N"
    and "registry_wf (registry N')" and "lib_dirs (registry N') = lib_dirs (registry N)"
    and "dom (task_states (registry N')) \<subseteq> insert k (dom (task_states (registry N)))"
    and "dom (task_states (registry N)) \<subseteq> dom (task_states (registry N'))"
    and "\<exists>a. dom (objects (registry N')) \<subseteq> insert a (dom (objects (registry N)))"
    and "\<not> UniqueId_IsNull (pick i) \<Longrightarrow> lib_loads (ae_loader (ru_admin X)) (lib_dirs (registry N)) lib \<Longrightarrow>
      (\<And>f t n r. objects r = objects (registry N) \<Longrightarrow> fst (ae_create (ru_admin X) f t n r) \<noteq> None) \<Longrightarrow>
      k \<in> dom (task_states (registry N'))"
proof -
  let ?A = "ru_admin X"
  obtain ls where r1: "fst (snd (RegisterTaskLib (ae_loader ?A) lib (registry N))) = (registry N)\<lparr>libs := ls\<rparr>"
    using RegisterTaskLib_frame [of "ae_loader ?A" lib "registry N"] by blast
  obtain ok t' R' where c: "CreateTaskState (ae_bits ?A) (ae_create ?A) lib lib (pick i) (ru_create_task X) ((registry N)\<lparr>libs := ls\<rparr>) = (ok, t', R')"
    by (cases "CreateTaskState (ae_bits ?A) (ae_create ?A) lib lib (pick i) (ru_create_task X) ((registry N)\<lparr>libs := ls\<rparr>)") auto
  from assms(3) r1 c have i: "i = UniqueId_new (hdr_node_id (header N)) (hdr_unique (header N))"
    and N': "N' = N\<lparr>header := (header N)\<lparr>hdr_unique := hdr_unique (header N) + 1\<rparr>, registry := R'\<rparr>"
    by (auto simp: boot_state_def Let_def MakeTaskStateId_def fetch_add_unique_def)
  show "i = UniqueId_new (hdr_node_id (header N)) (hdr_unique (header N))" by (fact i)
  show "header N' = (header N)\<lparr>hdr_unique := hdr_unique (header N) + 1\<rparr>" "heap N' = heap N" "queues N' = queues N"
    "workers N' = workers N" by (simp_all add: N')
  have "registry_wf ((registry N)\<lparr>libs := ls\<rparr>)" using assms(2) by simp
  note f = state_factory.CreateTaskState_frame [OF assms(1) c this]
  then show "registry_wf (registry N')" "lib_dirs (registry N') = lib_dirs (registry N)"
    "dom (task_states (registry N')) \<subseteq> insert k (dom (task_states (registry N)))"
    "dom (task_states (registry N)) \<subseteq> dom (task_states (registry N'))"
    "\<exists>a. dom (objects (registry N')) \<subseteq> insert a (dom (objects (registry N)))"
    by (simp_all add: N' k_def)
  assume *: "\<not> UniqueId_IsNull (pick i)" "lib_loads (ae_loader ?A) (lib_dirs (registry N)) lib"
    "\<And>f t n r. objects r = objects (registry N) \<Longrightarrow> fst (ae_create ?A f t n r) \<noteq> None"
  have "ls lib \<noteq> None" using *(2) r1 by (auto simp: lib_loads_def)
  then have "libs ((registry N)\<lparr>libs := ls\<rparr>) lib \<noteq> None" by simp
  moreover have "\<And>f t n. fst (ae_create ?A f t n ((registry N)\<lparr>libs := ls\<rparr>)) \<noteq> None" by (rule *(3)) simp
  ultimately have ok using state_factory.CreateTaskState_succeeds [OF assms(1) *(1)] c by (metis fst_conv)
  with f(6) show "k \<in> dom (task_states (registry N'))" by (simp add: N' k_def)
qed

lemma init_network_facts:
  assumes "init_network X R = Inr R'" and "rc_hosts (rn_rpc R) = []" and "\<not> ne_fatal_returns (ru_names X)"
  defines "hosts \<equiv> host_names (rpc (ru_config R))"
  shows "\<exists>k C T. k < length hosts \<and> rc_node_id C = of_nat (Suc k) \<and>
    R' = R\<lparr>rn_rpc := C, rn_thallium := T, rn_node := (rn_node R)\<lparr>header :=
      \<lparr>hdr_node_id = of_nat (Suc k), hdr_unique = 0, hdr_num_nodes = of_nat (length hosts)\<rparr>\<rparr>\<rparr>"
proof -
  from assms(1) obtain C T where C: "RpcContext_ServerInit (ru_names X) (ru_config R) (rn_rpc R) = Inr C"
    and R': "R' = R\<lparr>rn_rpc := C, rn_thallium := T, rn_node := (rn_node R)\<lparr>header :=
      \<lparr>hdr_node_id = rc_node_id C, hdr_unique = 0, hdr_num_nodes = of_nat (length hosts)\<rparr>\<rparr>\<rparr>"
    by (auto simp: init_network_def res_bind_Inr_iff hosts_def)
  from rpc_init_node [OF C assms(2,3)] obtain hs k where "make_hosts (ru_names X) 1 hosts = Inr hs"
    "rc_node_id C = of_nat (Suc k)" "k < length hs" unfolding hosts_def by blast
  with make_hosts_spec [OF this(1)] R' show ?thesis by auto
qed

lemma init_tables_facts:
  assumes "init_tables X R = Inr R'" and "queue_table (ae_qvec (ru_admin X))"
    and "2 \<le> unat (qm_max_queues (queue_manager (ru_config R)))"
  shows "\<exists>qm reg. R' = R\<lparr>rn_queue_manager := qm, rn_node := (rn_node R)\<lparr>registry := reg, queues := queue_map qm\<rparr>\<rparr> \<and>
    admin_queue qm = UniqueId_new 1 0 \<and> table_wf (queue_map qm) \<and>
    length (queue_map qm) = unat (qm_max_queues (queue_manager (ru_config R))) \<and>
    mq_id (queue_map qm ! 0) = UniqueId_new 1 0 \<and> mq_id (queue_map qm ! 1) = UniqueId_new 1 1 \<and>
    (\<forall>i < length (queue_map qm). 1 < i \<longrightarrow> UniqueId_IsNull (mq_id (queue_map qm ! i))) \<and>
    task_states reg = task_states (registry (rn_node R)) \<and> objects reg = objects (registry (rn_node R)) \<and>
    lib_dirs reg = lib_dirs (registry (rn_node R)) @ getlines (lib_paths (ae_loader (ru_admin X)))"
proof -
  let ?A = "ru_admin X" and ?cfg = "ru_config R"
  define reg where "reg = fst (TaskRegistry_ServerInit (ae_loader ?A) ?cfg (rc_node_id (rn_rpc R)) (registry (rn_node R)))"
  obtain qm shm where q: "QueueManagerRuntime_ServerInit (ae_queue ?A) (ae_qvec ?A) (ae_group_mem ?A) (rc_node_id (rn_rpc R))
      ?cfg (rn_queue_manager R) = Inr (qm, shm)"
    and R': "R' = R\<lparr>rn_queue_manager := qm, rn_node := (rn_node R)\<lparr>registry := reg, queues := queue_map qm\<rparr>\<rparr>"
    using assms(1) by (auto simp: init_tables_def Let_def res_bind_Inr_iff reg_def)
  note t = queue_table.ServerInit_table [OF assms(2,3) q]
  obtain ls where "reg = (registry (rn_node R))\<lparr>rg_node_id := rc_node_id (rn_rpc R),
      lib_dirs := lib_dirs (registry (rn_node R)) @ getlines (lib_paths (ae_loader ?A)), libs := ls\<rparr>"
    using register_libs_frame by (fastforce simp: reg_def TaskRegistry_ServerInit_def)
  then have "task_states reg = task_states (registry (rn_node R))" "objects reg = objects (registry (rn_node R))"
    "lib_dirs reg = lib_dirs (registry (rn_node R)) @ getlines (lib_paths (ae_loader ?A))"
    by simp_all
  with t R' show ?thesis by blast
qed

lemma init_client_facts:
  assumes "init_client X path R = Inr R'" and "\<not> is_initialized (rn_client R)"
  shows "\<exists>C. R' = R\<lparr>rn_client := C\<rparr> \<and> is_initialized C \<and> admin_task_state (cl_queue_manager C) = UniqueId_new 1 0 \<and>
    process_queue (cl_queue_manager C) = UniqueId_new 1 1 \<and> queue_map (cl_queue_manager C) = queues (rn_node R)"
  using assms
  by (auto simp: init_client_def run_step_def Let_def res_bind_Inr_iff Create_fresh ClientInit_def then_step_def
      QueueManagerClient_ClientInit_def QueueManager_Init_def LoadSharedMemory_def split: prod.splits option.splits)

text \<open>The keys of the states that start-up creates on a node.\<close>

definition boot_keys :: "u32 \<Rightarrow> uid_key set" where
  "boot_keys node = key_of ` {UniqueId_new 1 0, UniqueId_new 1 1, UniqueId_new node 2, UniqueId_new node 3}"

definition boot_libs :: "string set" where
  "boot_libs = {''hermes_run_admin'', ''proc_queue'', ''worch_queue_round_robin'', ''worch_proc_round_robin''}"

text \<open>A state is created while the factory has room and the library is found; it takes one object at most.\<close>

definition creates_below :: "'y runtime_env \<Rightarrow> nat \<Rightarrow> bool" where
  "creates_below X n \<longleftrightarrow>
     (\<forall>f t nm r. finite (dom (objects r)) \<and> card (dom (objects r)) < n \<longrightarrow> fst (ae_create (ru_admin X) f t nm r) \<noteq> None)"

definition few_objects :: "nat \<Rightarrow> Node \<Rightarrow> bool" where
  "few_objects n N \<longleftrightarrow> finite (dom (objects (registry N))) \<and> card (dom (objects (registry N))) \<le> n"

lemma boot_state_loads:
  assumes "state_factory (ae_create (ru_admin X))" and "registry_wf (registry N)" and "boot_state X lib pick N = (i, N')"
    and "few_objects n N"
  shows "few_objects (Suc n) N'"
    and "\<not> UniqueId_IsNull (pick i) \<Longrightarrow> lib_loads (ae_loader (ru_admin X)) (lib_dirs (registry N)) lib \<Longrightarrow> creates_below X m \<Longrightarrow>
      n < m \<Longrightarrow> key_of (pick i) \<in> dom (task_states (registry N'))"
proof -
  note f = boot_state_facts [OF assms(1-3)]
  from f(10) obtain a where a: "dom (objects (registry N')) \<subseteq> insert a (dom (objects (registry N)))" by blast
  have "finite (insert a (dom (objects (registry N))))" using assms(4) by (simp add: few_objects_def)
  from card_mono [OF this a] finite_subset [OF a this] assms(4) show "few_objects (Suc n) N'"
    by (auto simp: few_objects_def card_insert_if split: if_splits)
  show "key_of (pick i) \<in> dom (task_states (registry N'))"
    if "\<not> UniqueId_IsNull (pick i)" "lib_loads (ae_loader (ru_admin X)) (lib_dirs (registry N)) lib" "creates_below X m" "n < m"
    using f(11) [OF that(1,2)] that(3,4) assms(4) by (auto simp: creates_below_def few_objects_def)
qed

text \<open>The four states one after the other.\<close>

lemma boot_states_steps:
  fixes R :: Runtime
  assumes sf: "state_factory (ae_create (ru_admin X))" and b: "boot_states X R = (qs, ps, R')" and wf: "registry_wf (registry (rn_node R))"
    and hdr: "header (rn_node R) = \<lparr>hdr_node_id = node, hdr_unique = 0, hdr_num_nodes = n\<rparr>"
    and qm: "admin_task_state (cl_queue_manager (rn_client R)) = UniqueId_new 1 0"
      "process_queue (cl_queue_manager (rn_client R)) = UniqueId_new 1 1"
  obtains i1 N1 i2 N2 N3 N4 where
    "boot_state X ''hermes_run_admin'' (\<lambda>_. UniqueId_new 1 0) (rn_node R) = (i1, N1)" and "registry_wf (registry N1)"
    and "boot_state X ''proc_queue'' (\<lambda>_. UniqueId_new 1 1) N1 = (i2, N2)" and "registry_wf (registry N2)"
    and "boot_state X ''worch_queue_round_robin'' id N2 = (UniqueId_new node 2, N3)" and "registry_wf (registry N3)"
    and "boot_state X ''worch_proc_round_robin'' id N3 = (UniqueId_new node 3, N4)" and "registry_wf (registry N4)"
    and "header N4 = \<lparr>hdr_node_id = node, hdr_unique = 4, hdr_num_nodes = n\<rparr>"
    and "R' = R\<lparr>rn_node := N4\<rparr>" and "qs = UniqueId_new node 2" and "ps = UniqueId_new node 3"
proof -
  obtain i1 N1 where b1: "boot_state X ''hermes_run_admin'' (\<lambda>_. UniqueId_new 1 0) (rn_node R) = (i1, N1)" by fastforce
  obtain i2 N2 where b2: "boot_state X ''proc_queue'' (\<lambda>_. UniqueId_new 1 1) N1 = (i2, N2)" by fastforce
  obtain i3 N3 where b3: "boot_state X ''worch_queue_round_robin'' id N2 = (i3, N3)" by fastforce
  obtain i4 N4 where b4: "boot_state X ''worch_proc_round_robin'' id N3 = (i4, N4)" by fastforce
  from b b1 b2 b3 b4 qm have r: "R' = R\<lparr>rn_node := N4\<rparr>" "qs = i3" "ps = i4"
    by (auto simp: boot_states_def Let_def UniqueId_copy_def UniqueId_new_def)
  note f1 = boot_state_facts [OF sf wf b1]
  note f2 = boot_state_facts [OF sf f1(6) b2]
  note f3 = boot_state_facts [OF sf f2(6) b3]
  note f4 = boot_state_facts [OF sf f3(6) b4]
  have "i3 = UniqueId_new node 2" "i4 = UniqueId_new node 3" "header N4 = \<lparr>hdr_node_id = node, hdr_unique = 4, hdr_num_nodes = n\<rparr>"
    using f1(2) f2(2) f3(1,2) f4(1,2) by (simp_all add: hdr)
  with that b1 f1(6) b2 f2(6) b3 f3(6) b4 f4(6) r show ?thesis by blast
qed

lemma boot_states_facts:
  fixes R :: Runtime
  assumes sf: "state_factory (ae_create (ru_admin X))" and b: "boot_states X R = (qs, ps, R')"
    and init: "task_states (registry (rn_node R)) = Map.empty" "objects (registry (rn_node R)) = Map.empty"
    and hdr: "header (rn_node R) = \<lparr>hdr_node_id = node, hdr_unique = 0, hdr_num_nodes = n\<rparr>"
    and qm: "admin_task_state (cl_queue_manager (rn_client R)) = UniqueId_new 1 0"
      "process_queue (cl_queue_manager (rn_client R)) = UniqueId_new 1 1" and node: "node \<noteq> 0"
  shows "R' = R\<lparr>rn_node := rn_node R'\<rparr>" and "qs = UniqueId_new node 2" and "ps = UniqueId_new node 3"
    and "header (rn_node R') = \<lparr>hdr_node_id = node, hdr_unique = 4, hdr_num_nodes = n\<rparr>" and "heap (rn_node R') = heap (rn_node R)"
    and "lib_dirs (registry (rn_node R')) = lib_dirs (registry (rn_node R))"
    and "queues (rn_node R') = queues (rn_node R)" and "workers (rn_node R') = workers (rn_node R)"
    and "registry_wf (registry (rn_node R'))" and "dom (task_states (registry (rn_node R'))) \<subseteq> boot_keys node"
    and "(\<forall>lib \<in> boot_libs. lib_loads (ae_loader (ru_admin X)) (lib_dirs (registry (rn_node R'))) lib) \<Longrightarrow> creates_below X 4 \<Longrightarrow>
      dom (task_states (registry (rn_node R'))) = boot_keys node"
proof -
  have wf: "registry_wf (registry (rn_node R))" using init by (simp add: registry_wf_def TaskStateExists_def)
  from boot_states_steps [OF sf b this hdr qm] obtain i1 N1 i2 N2 N3 N4 where
    b1: "boot_state X ''hermes_run_admin'' (\<lambda>_. UniqueId_new 1 0) (rn_node R) = (i1, N1)" "registry_wf (registry N1)"
    and b2: "boot_state X ''proc_queue'' (\<lambda>_. UniqueId_new 1 1) N1 = (i2, N2)" "registry_wf (registry N2)"
    and b3: "boot_state X ''worch_queue_round_robin'' id N2 = (UniqueId_new node 2, N3)" "registry_wf (registry N3)"
    and b4: "boot_state X ''worch_proc_round_robin'' id N3 = (UniqueId_new node 3, N4)" "registry_wf (registry N4)"
    and N4: "header N4 = \<lparr>hdr_node_id = node, hdr_unique = 4, hdr_num_nodes = n\<rparr>" "R' = R\<lparr>rn_node := N4\<rparr>"
      "qs = UniqueId_new node 2" "ps = UniqueId_new node 3" by blast
  note f1 = boot_state_facts [OF sf wf b1(1)] and f2 = boot_state_facts [OF sf b1(2) b2(1)]
    and f3 = boot_state_facts [OF sf b2(2) b3(1)] and f4 = boot_state_facts [OF sf b3(2) b4(1)]
  have keys: "boot_keys node = {key_of (UniqueId_new 1 0), key_of (UniqueId_new 1 1), key_of (id (UniqueId_new node 2)), key_of (id (UniqueId_new node 3))}"
    by (simp add: boot_keys_def)
  have sub: "dom (task_states (registry N4)) \<subseteq> boot_keys node"
    unfolding keys using f1(8) f2(8) f3(8) f4(8) unfolding init(1) dom_empty by blast
  show "R' = R\<lparr>rn_node := rn_node R'\<rparr>" "qs = UniqueId_new node 2" "ps = UniqueId_new node 3"
    "header (rn_node R') = \<lparr>hdr_node_id = node, hdr_unique = 4, hdr_num_nodes = n\<rparr>" "heap (rn_node R') = heap (rn_node R)"
    "lib_dirs (registry (rn_node R')) = lib_dirs (registry (rn_node R))"
    "queues (rn_node R') = queues (rn_node R)" "workers (rn_node R') = workers (rn_node R)"
    "registry_wf (registry (rn_node R'))" "dom (task_states (registry (rn_node R'))) \<subseteq> boot_keys node"
    using N4 sub b4(2) f1(3-5) f2(3-5) f3(3-5) f4(3-5) f1(7) f2(7) f3(7) f4(7) by simp_all
  have o: "few_objects 0 (rn_node R)" by (simp add: few_objects_def init(2))
  note l1 = boot_state_loads [OF sf wf b1(1) o]
  note l2 = boot_state_loads [OF sf b1(2) b2(1) l1(1)]
  note l3 = boot_state_loads [OF sf b2(2) b3(1) l2(1)]
  note l4 = boot_state_loads [OF sf b3(2) b4(1) l3(1)]
  assume l: "\<forall>lib \<in> boot_libs. lib_loads (ae_loader (ru_admin X)) (lib_dirs (registry (rn_node R'))) lib" and c: "creates_below X 4"
  have null: "\<not> UniqueId_IsNull (UniqueId_new j u)" if "j \<noteq> 0" for j u using that by (simp add: UniqueId_IsNull_def UniqueId_new_def)
  have "key_of (UniqueId_new 1 0) \<in> dom (task_states (registry N1))" "key_of (UniqueId_new 1 1) \<in> dom (task_states (registry N2))"
    "key_of (id (UniqueId_new node 2)) \<in> dom (task_states (registry N3))" "key_of (id (UniqueId_new node 3)) \<in> dom (task_states (registry N4))"
    by (rule l1(2) [OF null _ c] l2(2) [OF null _ c] l3(2) [OF _ _ c] l4(2) [OF _ _ c];
        use l node in \<open>simp add: null boot_libs_def N4(2) f4(7) f3(7) f2(7) f1(7)\<close>)+
  with f2(9) f3(9) f4(9) have "boot_keys node \<subseteq> dom (task_states (registry N4))" unfolding keys by blast
  with sub N4(2) show "dom (task_states (registry (rn_node R'))) = boot_keys node" by auto
qed

text \<open>The state of the runtime once its tables are there, and before it creates its own task states.\<close>

lemma prepared_tables:
  fixes R R3 :: Runtime
  defines "cfg \<equiv> ru_config R3" and "N \<equiv> rn_node R3"
  assumes qt: "queue_table (ae_qvec (ru_admin X))" and "\<not> ne_fatal_returns (ru_names X)" and "rc_hosts (rn_rpc R) = []"
    and "task_states (registry (rn_node R)) = Map.empty" and "objects (registry (rn_node R)) = Map.empty"
    and "workers (rn_node R) = []" and "\<not> is_initialized (rn_client R)"
    and s: "run_step (LoadServerConfig (ru_boot X) path) R = Inr R1" "init_network X (InitSharedMemory X R1) = Inr R2"
      "init_tables X R2 = Inr R3"
    and "2 \<le> unat (qm_max_queues (queue_manager cfg))"
  shows "\<exists>k < length (host_names (rpc cfg)). header N =
      \<lparr>hdr_node_id = of_nat (Suc k), hdr_unique = 0, hdr_num_nodes = of_nat (length (host_names (rpc cfg)))\<rparr>"
    and "task_states (registry N) = Map.empty" and "objects (registry N) = Map.empty" and "heap N = Map.empty"
    and "lib_dirs (registry N) = lib_dirs (registry (rn_node R)) @ getlines (lib_paths (ae_loader (ru_admin X)))"
    and "table_wf (queues N)" and "length (queues N) = unat (qm_max_queues (queue_manager cfg))"
    and "mq_id (queues N ! 0) = UniqueId_new 1 0" and "mq_id (queues N ! 1) = UniqueId_new 1 1"
    and "\<forall>i < length (queues N). 1 < i \<longrightarrow> UniqueId_IsNull (mq_id (queues N ! i))"
    and "workers N = []" and "\<not> is_initialized (rn_client R3)"
proof -
  from s(1) obtain c1 where R1: "R1 = R\<lparr>cm_server_config := c1\<rparr>"
    by (auto simp: run_step_def LoadServerConfig_def Let_def split: prod.splits option.splits)
  define R1' where "R1' = InitSharedMemory X R1"
  have R1': "rc_hosts (rn_rpc R1') = []" "task_states (registry (rn_node R1')) = Map.empty"
    "objects (registry (rn_node R1')) = Map.empty" "workers (rn_node R1') = []" "\<not> is_initialized (rn_client R1')"
    "heap (rn_node R1') = Map.empty" "lib_dirs (registry (rn_node R1')) = lib_dirs (registry (rn_node R))"
    using assms(5-9) by (simp_all add: R1'_def R1 InitSharedMemory_simps)
  obtain k C T where k: "k < length (host_names (rpc (ru_config R1')))"
    and R2: "R2 = R1'\<lparr>rn_rpc := C, rn_thallium := T, rn_node := (rn_node R1')\<lparr>header := \<lparr>hdr_node_id = of_nat (Suc k),
      hdr_unique = 0, hdr_num_nodes = of_nat (length (host_names (rpc (ru_config R1'))))\<rparr>\<rparr>\<rparr>"
    using init_network_facts [OF s(2) [folded R1'_def] R1'(1) assms(4)] by blast
  have c: "cfg = ru_config R1'" using s(3) by (auto simp: cfg_def R2 init_tables_def Let_def res_bind_Inr_iff split: prod.splits)
  have "2 \<le> unat (qm_max_queues (queue_manager (ru_config R2)))" using assms(13) by (simp add: c R2)
  from init_tables_facts [OF s(3) qt this] obtain qm reg where
    R3: "R3 = R2\<lparr>rn_queue_manager := qm, rn_node := (rn_node R2)\<lparr>registry := reg, queues := queue_map qm\<rparr>\<rparr>"
    and t: "table_wf (queue_map qm)" "length (queue_map qm) = unat (qm_max_queues (queue_manager (ru_config R2)))"
      "mq_id (queue_map qm ! 0) = UniqueId_new 1 0" "mq_id (queue_map qm ! 1) = UniqueId_new 1 1"
      "\<forall>i < length (queue_map qm). 1 < i \<longrightarrow> UniqueId_IsNull (mq_id (queue_map qm ! i))"
      "task_states reg = task_states (registry (rn_node R2))" "objects reg = objects (registry (rn_node R2))"
      "lib_dirs reg = lib_dirs (registry (rn_node R2)) @ getlines (lib_paths (ae_loader (ru_admin X)))" by blast
  from k show "\<exists>k < length (host_names (rpc cfg)). header N =
      \<lparr>hdr_node_id = of_nat (Suc k), hdr_unique = 0, hdr_num_nodes = of_nat (length (host_names (rpc cfg)))\<rparr>"
    by (auto simp: N_def R3 R2 c)
  show "task_states (registry N) = Map.empty" "objects (registry N) = Map.empty" "heap N = Map.empty" "table_wf (queues N)"
    "lib_dirs (registry N) = lib_dirs (registry (rn_node R)) @ getlines (lib_paths (ae_loader (ru_admin X)))"
    "length (queues N) = unat (qm_max_queues (queue_manager cfg))"
    "mq_id (queues N ! 0) = UniqueId_new 1 0" "mq_id (queues N ! 1) = UniqueId_new 1 1"
    "\<forall>i < length (queues N). 1 < i \<longrightarrow> UniqueId_IsNull (mq_id (queues N ! i))" "workers N = []" "\<not> is_initialized (rn_client R3)"
    using R1' t by (simp_all add: N_def R3 R2 c)
qed

lemma prepared_runtime:
  fixes R R5 :: Runtime
  defines "cfg \<equiv> ru_config R5" and "N \<equiv> rn_node R5"
  assumes qt: "queue_table (ae_qvec (ru_admin X))" and "\<not> ne_fatal_returns (ru_names X)" and "rc_hosts (rn_rpc R) = []"
    and "task_states (registry (rn_node R)) = Map.empty" and "objects (registry (rn_node R)) = Map.empty"
    and "workers (rn_node R) = []" and "\<not> is_initialized (rn_client R)"
    and s: "run_step (LoadServerConfig (ru_boot X) path) R = Inr R1" "init_network X (InitSharedMemory X R1) = Inr R2"
      "init_tables X R2 = Inr R3" "init_client X path R3 = Inr R4" "init_workers X R4 = Inr R5"
    and "2 \<le> unat (qm_max_queues (queue_manager cfg))"
  shows "\<exists>k < length (host_names (rpc cfg)). header N =
      \<lparr>hdr_node_id = of_nat (Suc k), hdr_unique = 0, hdr_num_nodes = of_nat (length (host_names (rpc cfg)))\<rparr>"
    and "task_states (registry N) = Map.empty" and "objects (registry N) = Map.empty" and "heap N = Map.empty"
    and "lib_dirs (registry N) = lib_dirs (registry (rn_node R)) @ getlines (lib_paths (ae_loader (ru_admin X)))"
    and "table_wf (queues N)" and "length (queues N) = unat (qm_max_queues (queue_manager cfg))"
    and "mq_id (queues N ! 0) = UniqueId_new 1 0" and "mq_id (queues N ! 1) = UniqueId_new 1 1"
    and "\<forall>i < length (queues N). 1 < i \<longrightarrow> UniqueId_IsNull (mq_id (queues N ! i))"
    and "length (workers N) = unat (max_workers (wo cfg))" and "is_initialized (rn_client R5)"
    and "admin_task_state (cl_queue_manager (rn_client R5)) = UniqueId_new 1 0"
    and "process_queue (cl_queue_manager (rn_client R5)) = UniqueId_new 1 1"
proof -
  have c: "cfg = ru_config R3" using s(4,5)
    by (auto simp: cfg_def init_client_def init_workers_def Let_def res_bind_Inr_iff split: prod.splits)
  note p = prepared_tables [OF assms(3-9) s(1-3) assms(15) [unfolded c]]
  from init_client_facts [OF s(4) p(12)] obtain D where R4: "R4 = R3\<lparr>rn_client := D\<rparr>" and D: "is_initialized D"
    "admin_task_state (cl_queue_manager D) = UniqueId_new 1 0" "process_queue (cl_queue_manager D) = UniqueId_new 1 1" by blast
  from s(5) obtain W N5 where w: "WorkOrchestrator_ServerInit (ru_bits X) (ru_spsc X) (ru_resize X) (ru_fatal X) (ru_abt_ok X)
      (ru_config R4) (admin_queue (rn_queue_manager R4)) (rn_node R4) = Inr (W, N5)" and R5: "R5 = R4\<lparr>rn_worch := W, rn_node := N5\<rparr>"
    by (auto simp: init_workers_def res_bind_Inr_iff)
  have "table_wf (queues (rn_node R4))" using p(6) by (simp add: R4)
  note fr = orchestrator_init_frame [OF w this]
  have "map mq_id (queues N) = map mq_id (queues (rn_node R3))" using fr by (simp add: N_def R5 R4)
  then have ql: "length (queues N) = length (queues (rn_node R3))"
    and qi: "\<And>i. i < length (queues (rn_node R3)) \<Longrightarrow> mq_id (queues N ! i) = mq_id (queues (rn_node R3) ! i)"
    by (metis length_map, metis length_map nth_map)
  show "\<exists>k < length (host_names (rpc cfg)). header N =
      \<lparr>hdr_node_id = of_nat (Suc k), hdr_unique = 0, hdr_num_nodes = of_nat (length (host_names (rpc cfg)))\<rparr>"
    using fr p(1) by (simp add: N_def R5 R4 c)
  show "mq_id (queues N ! 0) = UniqueId_new 1 0" "mq_id (queues N ! 1) = UniqueId_new 1 1"
    "\<forall>i < length (queues N). 1 < i \<longrightarrow> UniqueId_IsNull (mq_id (queues N ! i))"
    "length (queues N) = unat (qm_max_queues (queue_manager cfg))"
    using p(7-10) qi assms(15) by (simp_all add: ql c)
  show "task_states (registry N) = Map.empty" "objects (registry N) = Map.empty" "heap N = Map.empty" "table_wf (queues N)"
    "lib_dirs (registry N) = lib_dirs (registry (rn_node R)) @ getlines (lib_paths (ae_loader (ru_admin X)))"
    "length (workers N) = unat (max_workers (wo cfg))" "is_initialized (rn_client R5)"
    "admin_task_state (cl_queue_manager (rn_client R5)) = UniqueId_new 1 0"
    "process_queue (cl_queue_manager (rn_client R5)) = UniqueId_new 1 1"
    using fr p(2-6,11) D by (simp_all add: N_def R5 R4 c)
qed

section \<open>A concrete daemon\<close>

text \<open>
  A loader whose path format names the library, which is always found and knows its name; the
  scheduling and networking instances of the other theories.
\<close>

definition boot_names :: "string list" where
  "boot_names = [''hermes_run_admin'', ''proc_queue'', ''worch_queue_round_robin'', ''worch_proc_round_robin'', ''hermes_mdm'', ''remote_queue'']"

definition boot_loader :: loader where
  "boot_loader = \<lparr>ld_getenv = (\<lambda>_. None), ld_format = (\<lambda>_ xs. last xs), ld_exists = (\<lambda>_. True),
     ld_open = (\<lambda>p. List.find (\<lambda>i. boot_names ! i = p) [0..<6]), ld_sym = (\<lambda>h _. Some h), ld_name = (\<lambda>h. boot_names ! h)\<rparr>"

definition sample_runtime_env :: "yaml_tree runtime_env" where
  "sample_runtime_env = \<lparr>ru_boot = sample_boot, ru_names = sample_names,
     ru_admin = sample_admin_env\<lparr>ae_loader := boot_loader, ae_create := arena_create 4 (\<lambda>a m t. t)\<rparr>,
     ru_spsc = list_spsc, ru_resize = (\<lambda>_ n. replicate n 0), ru_abt_ok = True, ru_default_size = 0x40000000,
     ru_header_mem = \<lparr>hdr_node_id = 0, hdr_unique = 0, hdr_num_nodes = 0\<rparr>, ru_create_task = sample_obj PCustom\<rparr>"

definition sample_daemon :: Runtime where
  "sample_daemon = \<lparr>cm_mode = kModeNone, cm_client_config = \<lparr>thread_model = []\<rparr>, cm_server_config = sample_config,
     is_being_initialized = False, is_initialized = False, is_terminated = False, is_transparent = False,
     rn_node = \<lparr>heap = Map.empty, queues = [], registry = empty_registry\<lparr>libs := Map.empty\<rparr>, workers = [],
       header = \<lparr>hdr_node_id = 0, hdr_unique = 0, hdr_num_nodes = 0\<rparr>\<rparr>,
     rn_queue_manager = sample_runtime, rn_worch = \<lparr>stop_runtime = False, kill_requested = False\<rparr>,
     rn_remote_queue = \<lparr>tc_id = UniqueId_GetNull, tc_queue_id = UniqueId_GetNull\<rparr>, rn_rpc = sample_rpc,
     rn_thallium = sample_thallium, rn_remote_created = False, rn_client = sample_client\<rparr>"

section \<open>Properties\<close>

text \<open>
  C5. Starting a daemon, up to its first blocking call, when it succeeds where a fatal record
  ends the process: the node is one of the configured hosts and the header says so, with four ids
  drawn; the task heap is empty; the queue table is well-formed, with the admin queue in slot 0,
  the process queue in slot 1 and every other slot free; every worker exists; the client of
  the process is initialised; the two scheduling policies have the ids 2 and 3 of this node; and
  no other states are registered than the admin state, the process queue and the two policies,
  all four of them when their libraries load and their objects can be made.
\<close>

theorem runtime_start_spec:
  assumes "state_factory (ae_create (ru_admin X))" and "queue_table (ae_qvec (ru_admin X))"
    and "\<not> ne_fatal_returns (ru_names X)" and "rc_hosts (rn_rpc R) = []"
    and "task_states (registry (rn_node R)) = Map.empty" and "objects (registry (rn_node R)) = Map.empty"
    and "workers (rn_node R) = []" and "\<not> is_initialized (rn_client R)"
    and "ServerInit_local X path R = Inr (qs, ps, R')"
    and "length (host_names (rpc (ru_config R'))) < 2 ^ 31"
    and "2 \<le> unat (qm_max_queues (queue_manager (ru_config R')))"
  shows "\<exists>N node. rn_node R' = N \<and> (\<exists>k < length (host_names (rpc (ru_config R'))). node = of_nat (Suc k)) \<and>
    header N = \<lparr>hdr_node_id = node, hdr_unique = 4, hdr_num_nodes = of_nat (length (host_names (rpc (ru_config R'))))\<rparr> \<and>
    heap N = Map.empty \<and> table_wf (queues N) \<and> registry_wf (registry N) \<and>
    lib_dirs (registry N) = lib_dirs (registry (rn_node R)) @ getlines (lib_paths (ae_loader (ru_admin X))) \<and>
    length (queues N) = unat (qm_max_queues (queue_manager (ru_config R'))) \<and>
    mq_id (queues N ! 0) = UniqueId_new 1 0 \<and> mq_id (queues N ! 1) = UniqueId_new 1 1 \<and>
    (\<forall>i < length (queues N). 1 < i \<longrightarrow> UniqueId_IsNull (mq_id (queues N ! i))) \<and>
    length (workers N) = unat (max_workers (wo (ru_config R'))) \<and> is_initialized (rn_client R') \<and>
    qs = UniqueId_new node 2 \<and> ps = UniqueId_new node 3 \<and> dom (task_states (registry N)) \<subseteq> boot_keys node \<and>
    ((\<forall>lib \<in> boot_libs. lib_loads (ae_loader (ru_admin X)) (lib_dirs (registry N)) lib) \<and>
     creates_below X 4 \<longrightarrow> dom (task_states (registry N)) = boot_keys node)"
proof -
  from assms(9) obtain R1 R2 R3 R4 R5 where s: "run_step (LoadServerConfig (ru_boot X) path) R = Inr R1"
    "init_network X (InitSharedMemory X R1) = Inr R2" "init_tables X R2 = Inr R3" "init_client X path R3 = Inr R4"
    "init_workers X R4 = Inr R5" and b: "boot_states X R5 = (qs, ps, R')"
    by (auto simp: ServerInit_local_def res_bind_Inr_iff)
  from b obtain N where "R' = R5\<lparr>rn_node := N\<rparr>" by (auto simp: boot_states_def Let_def split: prod.splits)
  then have cfg: "ru_config R5 = ru_config R'" and cl: "rn_client R' = rn_client R5" by simp_all
  with assms(11) have "2 \<le> unat (qm_max_queues (queue_manager (ru_config R5)))" by simp
  note p = prepared_runtime [OF assms(2-8) s this, unfolded cfg]
  from p(1) obtain k where k: "k < length (host_names (rpc (ru_config R')))" and hdr: "header (rn_node R5) =
    \<lparr>hdr_node_id = of_nat (Suc k), hdr_unique = 0, hdr_num_nodes = of_nat (length (host_names (rpc (ru_config R'))))\<rparr>" by blast
  have "unat (of_nat (Suc k) :: u32) = Suc k" using k assms(10) by (intro unat_of_nat_less) simp
  then have "(of_nat (Suc k) :: u32) \<noteq> 0" by (metis nat.simps(3) unat_0)
  note bf = boot_states_facts [OF assms(1) b p(2,3) hdr p(13,14) this]
  from bf(11) have all: "(\<forall>lib \<in> boot_libs. lib_loads (ae_loader (ru_admin X)) (lib_dirs (registry (rn_node R'))) lib) \<and> creates_below X 4 \<longrightarrow>
    dom (task_states (registry (rn_node R'))) = boot_keys (of_nat (Suc k))" by blast
  show ?thesis
    by (intro exI [of _ "rn_node R'"] exI [of _ "of_nat (Suc k)"] conjI exI [of _ k])
      (use bf(2-10) all k p(4-12) cl in \<open>simp_all only: bf(5-8)\<close>)
qed

lemma sample_load:
  "LoadServerConfig (sample_boot\<lparr>be_attach := a\<rparr>) [] M = (M, None)" "LoadClientConfig (sample_boot\<lparr>be_attach := a\<rparr>) [] M = (M, None)"
  by (simp_all add: LoadServerConfig_def LoadClientConfig_def LoadFromFile_def LoadDefault_def LoadText_body_def then_step_def sample_boot_def GetEnvSafe_def Let_def)

lemma sample_network:
  assumes "ru_config R = sample_config\<lparr>queue_manager := q\<rparr>" and "rn_rpc R = sample_rpc"
  shows "\<exists>R'. init_network sample_runtime_env R = Inr R' \<and> ru_config R' = ru_config R"
  using assms by (simp add: init_network_def sample_runtime_env_def InitSharedMemory_def sample_daemon_def RpcContext_ServerInit_def sample_rpc_def sample_config_def sample_names_def GetIpAddress_def
        FindThisHost_def IsAddressLocal_def HostInfo_new_def Let_def ThalliumRpc_ServerInit_def sample_admin_env_def ref_net_def GetMyRpcAddress_def GetRpcAddress_def GetHostNameFromNodeId_def host_of_node_def
   GetNode_def DomainId_new_def catch_def ThalliumRpc_ClientInit_def engine_at_def)

lemma sample_tables:
  assumes "ru_config R = sample_config\<lparr>queue_manager := q\<rparr>" and "q = (queue_manager sample_config)\<lparr>shm_size := z\<rparr>"
  shows "\<exists>R'. init_tables sample_runtime_env R = Inr R' \<and> ru_config R' = ru_config R \<and> admin_queue (rn_queue_manager R') = UniqueId_new 1 0 \<and>
    0 < length (queues (rn_node R')) \<and>
    queues (rn_node R') ! 0 = MultiQueue_new (list_env 8) zero_group (UniqueId_new 1 0) (admin_queue_info word_bitfield q)"
proof -
  let ?A = "ru_admin sample_runtime_env"
  have E: "ae_queue ?A = list_env 8" "ae_qvec ?A = list_qvec" "ae_group_mem ?A = zero_group" "qe_bits (list_env 8) = word_bitfield"
    by (simp_all add: sample_runtime_env_def sample_admin_env_def list_env_def)
  have two: "2 \<le> unat (qm_max_queues (queue_manager (ru_config R)))" and n: "unat (qm_max_queues (queue_manager (ru_config R))) = 1024"
    using assms by (simp_all add: sample_config_def)
  obtain qm shm where q: "QueueManagerRuntime_ServerInit (list_env 8) list_qvec zero_group (rc_node_id (rn_rpc R)) (ru_config R) (rn_queue_manager R) = Inr (qm, shm)"
    and m: "queue_map qm = (qv_resize list_qvec [] 1024) [0 := MultiQueue_new (list_env 8) zero_group (UniqueId_new 1 0) (admin_queue_info word_bitfield (queue_manager (ru_config R))),
     1 := MultiQueue_new (list_env 8) zero_group (UniqueId_new 1 1) (process_queue_info word_bitfield (queue_manager (ru_config R)))]"
    using list_table.ServerInit_ok [OF two, of "list_env 8" zero_group "rc_node_id (rn_rpc R)" "rn_queue_manager R"] unfolding n E by blast
  have l: "0 < length (queue_map qm)" "queue_map qm ! 0 = MultiQueue_new (list_env 8) zero_group (UniqueId_new 1 0) (admin_queue_info word_bitfield (queue_manager (ru_config R)))"
    by (simp_all add: m)
  with q list_table.ServerInit_table(1) [OF two q] show ?thesis using assms by (simp add: init_tables_def E Let_def)
qed

lemma sample_workers:
  assumes "ru_config R = sample_config\<lparr>queue_manager := q\<rparr>" and "admin_queue (rn_queue_manager R) = UniqueId_new 1 0"
    and "0 < length (queues (rn_node R))"
    and "queues (rn_node R) ! 0 = MultiQueue_new (list_env 8) zero_group (UniqueId_new 1 0) (admin_queue_info word_bitfield q)"
  shows "\<exists>R'. init_workers sample_runtime_env R = Inr R' \<and> ru_config R' = ru_config R"
proof -
  let ?q = "queues (rn_node R) ! 0"
  have g: "GetGroup ?q 0 = Inr (groups ?q ! 0)" "num_lanes (groups ?q ! 0) = 1" "length (lanes (groups ?q ! 0)) = 1"
    by (simp_all add: assms(4) GetGroup_def admin_queue_info_def MultiQueue_new_def make_group_def PriorityInfo_new_def LaneGroup_new_def)
  have u: "unat (unique (UniqueId_new 1 0)) = 0" by (simp add: UniqueId_new_def)
  have w: "unat (max_workers (wo (ru_config R))) = 4" using assms(1) by (simp add: sample_config_def)
  have "vec_at (workers (rn_node R) @ ws) 0 = Inr ((workers (rn_node R) @ ws) ! 0)" if "ws \<noteq> []" for ws
    using that by (cases "workers (rn_node R)") auto
  then show ?thesis using g assms(3)
    by (simp add: init_workers_def WorkOrchestrator_ServerInit_def Let_def assms(2) u w GetQueue_def poll_lane_def WorkEntry_new_def GetLane_def sample_runtime_env_def)
qed

lemma sample_start: "\<exists>qs ps R'. ServerInit_local sample_runtime_env [] sample_daemon = Inr (qs, ps, R') \<and>
  host_names (rpc (ru_config R')) = [''localhost''] \<and> qm_max_queues (queue_manager (ru_config R')) = 1024"
proof -
  let ?X = sample_runtime_env
  have b: "ru_boot ?X = sample_boot" by (simp add: sample_runtime_env_def)
  have s1: "run_step (LoadServerConfig sample_boot []) sample_daemon = Inr sample_daemon"
    using sample_load(1) [of "be_attach sample_boot" sample_daemon] by (simp add: run_step_def)
  let ?z = "(queue_manager sample_config)\<lparr>shm_size := ru_default_size ?X\<rparr>"
  let ?R1 = "InitSharedMemory ?X sample_daemon"
  have c: "ru_config ?R1 = sample_config\<lparr>queue_manager := ?z\<rparr>"
    by (simp add: InitSharedMemory_def sample_daemon_def sample_config_def Let_def)
  have "rn_rpc ?R1 = sample_rpc" by (simp add: InitSharedMemory_simps sample_daemon_def)
  from sample_network [OF c this] obtain R2 where R2: "init_network ?X ?R1 = Inr R2" "ru_config R2 = ru_config ?R1" by blast
  from sample_tables [OF _ refl, of R2] R2 c obtain R3 where R3: "init_tables ?X R2 = Inr R3" "ru_config R3 = ru_config ?R1"
    "admin_queue (rn_queue_manager R3) = UniqueId_new 1 0" "0 < length (queues (rn_node R3))"
    "queues (rn_node R3) ! 0 = MultiQueue_new (list_env 8) zero_group (UniqueId_new 1 0) (admin_queue_info word_bitfield ?z)" by auto
  let ?B = "sample_boot\<lparr>be_attach := \<lambda>_ _. (header (rn_node R3), \<lparr>shm_queue_map = queues (rn_node R3), shm_tickets = []\<rparr>)\<rparr>"
  obtain C where "run_step (Client_Create ?B [] [] True) (rn_client R3) = Inr C"
    by (cases "is_initialized (rn_client R3)")
      (simp_all add: run_step_def Let_def Create_fresh ClientInit_def sample_load then_step_def Client_Create_def)
  then have "init_client ?X [] R3 = Inr (R3\<lparr>rn_client := C\<rparr>)" by (simp add: init_client_def b)
  moreover obtain R5 where R5: "init_workers ?X (R3\<lparr>rn_client := C\<rparr>) = Inr R5" "ru_config R5 = ru_config ?R1"
    using sample_workers [of "R3\<lparr>rn_client := C\<rparr>" ?z] R3 c by auto
  moreover obtain qs ps R' where b5: "boot_states ?X R5 = (qs, ps, R')" by (cases "boot_states ?X R5") auto
  moreover from b5 have "ru_config R' = ru_config R5" by (auto simp: boot_states_def Let_def split: prod.splits)
  ultimately show ?thesis
    using s1 R2 R3 c by (simp add: ServerInit_local_def b sample_config_def)
qed

lemma boot_loader_loads: "lib \<in> boot_libs \<Longrightarrow> dirs \<noteq> [] \<Longrightarrow> lib_loads boot_loader dirs lib"
  by (cases dirs) (auto simp: boot_libs_def lib_loads_def RegisterTaskLib_def boot_loader_def load_lib_def boot_names_def
      TaskLibInfo_move_def libs_emplace_def Let_def upt_rec split: if_splits)

lemma sample_dirs: "lib_dirs (registry (rn_node sample_daemon)) @ getlines (lib_paths boot_loader) = [[]]"
  using getlines_sep [of "[]" "[]"] by (simp add: sample_daemon_def empty_registry_def lib_paths_def boot_loader_def)

lemma arena_room:
  assumes "finite (dom (objects r))" and "card (dom (objects r)) < cap"
  shows "fst (arena_create cap Run f t n r) \<noteq> None"
proof -
  have "\<not> {0..<cap} \<subseteq> dom (objects r)" using card_mono [OF assms(1), of "{0..<cap}"] assms(2) by auto
  then obtain a where "List.find (\<lambda>a. objects r a = None) [0..<cap] = Some a"
    by (cases "List.find (\<lambda>a. objects r a = None) [0..<cap]") (auto simp: find_None_iff)
  then show ?thesis by (simp add: arena_create_def split: prod.splits)
qed

theorem runtime_start_spec_witness:
  "\<exists>qs ps R'. ServerInit_local sample_runtime_env [] sample_daemon = Inr (qs, ps, R') \<and>
     qs = UniqueId_new 1 2 \<and> dom (task_states (registry (rn_node R'))) = boot_keys 1"
proof -
  obtain qs ps R' where s: "ServerInit_local sample_runtime_env [] sample_daemon = Inr (qs, ps, R')"
    and h: "host_names (rpc (ru_config R')) = [''localhost'']" and q: "qm_max_queues (queue_manager (ru_config R')) = 1024"
    using sample_start by blast
  let ?A = "ru_admin sample_runtime_env"
  have A: "ae_create ?A = arena_create 4 (\<lambda>a m t. t)" "ae_qvec ?A = list_qvec" "ae_loader ?A = boot_loader"
    by (simp_all add: sample_runtime_env_def sample_admin_env_def)
  have st: "\<not> ne_fatal_returns (ru_names sample_runtime_env)" "rc_hosts (rn_rpc sample_daemon) = []"
    "task_states (registry (rn_node sample_daemon)) = Map.empty" "objects (registry (rn_node sample_daemon)) = Map.empty"
    "workers (rn_node sample_daemon) = []" "\<not> is_initialized (rn_client sample_daemon)"
    by (simp_all add: sample_runtime_env_def sample_names_def sample_daemon_def sample_rpc_def empty_registry_def sample_client_def)
  have "length (host_names (rpc (ru_config R'))) < 2 ^ 31" "2 \<le> unat (qm_max_queues (queue_manager (ru_config R')))"
    by (simp_all add: h q)
  note w = runtime_start_spec [OF _ _ st s this, unfolded A h, OF arena.state_factory_axioms list_table.queue_table_axioms]
  then obtain node where node: "node = 1" "dom (task_states (registry (rn_node R'))) = boot_keys node" "qs = UniqueId_new node 2"
    using arena_room [where cap = 4] boot_loader_loads by (auto simp: sample_dirs creates_below_def A)
  with s show ?thesis by blast
qed

end
