(* ===== verification/Progress.thy ===== *)
theory Progress
  imports SmallMessage
begin

text \<open>
  Progress of the workers: what one poll of a lane achieves when the handlers of the tasks in it
  end their tasks. The locale states what is relied on of the libraries; it is interpreted on
  the handlers of \<^verbatim>\<open>small_message\<close>.
\<close>

section \<open>Handlers that complete their tasks\<close>

text \<open>
  \<open>H ex m u\<close>: task state \<open>ex\<close> has a handler for method \<open>m\<close> that completes a task with the
  members \<open>u\<close> and leaves the members \<open>R ex m u\<close>; \<open>G ex m\<close> is what the group function of such a
  task returns, and deleting it frees its object.
\<close>

locale completing_env = lane_queues "wv_queue V" + charbuf "wv_resize V" for V :: worker_env +
  fixes H :: "nat \<Rightarrow> u32 \<Rightarrow> payload \<Rightarrow> bool"
    and R :: "nat \<Rightarrow> u32 \<Rightarrow> payload \<Rightarrow> payload"
    and G :: "nat \<Rightarrow> u32 \<Rightarrow> u32"
  assumes H_result: "H ex m u \<Longrightarrow> H ex m (R ex m u)"
    and Run_completes: "heap N p = Some t \<Longrightarrow> H ex (method_id t) (pl t) \<Longrightarrow>
      wv_Run V ex (method_id t) p N =
        Inr (put_task p (SetModuleComplete (wv_bits V) (t\<lparr>pl := R ex (method_id t) (pl t)\<rparr>)) N)"
    and GetGroup_const: "H ex (method_id t) (pl t) \<Longrightarrow> \<exists>g'. wv_GetGroup V ex (method_id t) t g = Inr (G ex (method_id t), g')"
    and Del_frees: "heap N p = Some t \<Longrightarrow> H ex (method_id t) (pl t) \<Longrightarrow> delcnt t = 0 \<Longrightarrow>
      wv_Del V ex (method_id t) p N = Inr (N\<lparr>heap := (heap N)(p := None)\<rparr>)"

text \<open>A task that belongs to no group, by its class or by its flags.\<close>

definition ungrouped :: "bitfield_lib \<Rightarrow> (nat \<Rightarrow> u32 \<Rightarrow> u32) \<Rightarrow> nat \<Rightarrow> TaskObj \<Rightarrow> bool" where
  "ungrouped B G ex t \<longleftrightarrow> G ex (method_id t) = TASK_UNORDERED B \<or> IsUnordered B t"

text \<open>
  A task a worker can run to its end at once: its state is registered and has a handler that
  completes it, it is for this node, it runs on the worker's own stack, and if it belongs to a
  group it has not entered it yet.
\<close>

definition ready ::
    "worker_env \<Rightarrow> (nat \<Rightarrow> u32 \<Rightarrow> payload \<Rightarrow> bool) \<Rightarrow> (nat \<Rightarrow> u32 \<Rightarrow> u32) \<Rightarrow> TaskRegistry \<Rightarrow> TaskObj \<Rightarrow> bool" where
  "ready V H G reg t \<longleftrightarrow> (\<exists>ex. GetTaskState reg (task_state t) = Some ex \<and> H ex (method_id t) (pl t) \<and>
       (ungrouped (wv_bits V) G ex t \<or> \<not> IsStarted (wv_bits V) t)) \<and>
     \<not> DomainId_IsRemote (wv_bits V) (domain_id t) (wv_num_hosts V) (wv_node_id V) \<and> delcnt t = 0 \<and>
     \<not> IsRunDisabled (wv_bits V) t \<and> \<not> IsCoroutine (wv_bits V) t \<and> \<not> IsPreemptive (wv_bits V) t"

text \<open>
  What becomes of a task that has ended: it is freed if nobody waits for it, and otherwise
  complete, with the members \<open>u\<close> its handler left.
\<close>

definition ended :: "bitfield_lib \<Rightarrow> payload \<Rightarrow> TaskObj \<Rightarrow> TaskObj option \<Rightarrow> bool" where
  "ended B u t o' \<longleftrightarrow> (if IsFireAndForget B t then o' = None
     else (\<exists>t'. o' = Some t' \<and> IsComplete B t' \<and> pl t' = u \<and> method_id t' = method_id t \<and> delcnt t' = delcnt t))"

text \<open>The members the handler of a registered task leaves.\<close>

definition outcome :: "(nat \<Rightarrow> u32 \<Rightarrow> payload \<Rightarrow> payload) \<Rightarrow> TaskRegistry \<Rightarrow> TaskObj \<Rightarrow> payload" where
  "outcome R reg t = (case GetTaskState reg (task_state t) of None \<Rightarrow> pl t | Some ex \<Rightarrow> R ex (method_id t) (pl t))"

lemma set_lane_simps [simp]:
  "heap (set_lane r l N) = heap N" "registry (set_lane r l N) = registry N" "workers (set_lane r l N) = workers N"
  "header (set_lane r l N) = header N"
  by (cases r; simp add: set_lane_def)+

lemma put_worker_simps [simp]:
  "heap (put_worker w wk N) = heap N" "registry (put_worker w wk N) = registry N" "queues (put_worker w wk N) = queues N"
  "length (workers (put_worker w wk N)) = length (workers N)" "header (put_worker w wk N) = header N"
  "w < length (workers N) \<Longrightarrow> workers (put_worker w wk N) ! w = wk"
  by (simp_all add: put_worker_def)

text \<open>Of the queues only the lane at \<open>r\<close> has changed, to \<open>l\<close>, and neither the registry nor the header has.\<close>

definition lane_frame :: "lane_ref \<Rightarrow> Lane \<Rightarrow> Node \<Rightarrow> Node \<Rightarrow> bool" where
  "lane_frame r l N N' \<longleftrightarrow> queues N' = queues (set_lane r l N) \<and> header N' = header N \<and> registry N' = registry N \<and>
     length (workers N') = length (workers N)"

lemma lane_frame_lane: "lane_at N r = Inr l \<Longrightarrow> lane_frame r l' N N' \<Longrightarrow> lane_at N' r = Inr l'"
  using lane_at_set_lane [of N r l l'] by (simp add: lane_frame_def lane_at_def)

lemma lane_frame_refl: "lane_at N r = Inr l \<Longrightarrow> lane_frame r l N N"
  by (cases r) (auto simp: lane_frame_def set_lane_def put_lane_def lane_at_def res_bind_Inr_iff vec_at_Inr_iff)

lemma lane_frame_trans:
  assumes "lane_at N r = Inr l" and "lane_frame r a N N1" and "lane_frame r b N1 N2"
  shows "lane_frame r b N N2"
  using assms
  by (cases r) (auto simp: lane_frame_def set_lane_def put_lane_def lane_at_def res_bind_Inr_iff vec_at_Inr_iff)

lemma lane_frame_registry: "lane_frame r l N N' \<Longrightarrow> registry N' = registry N"
  by (simp add: lane_frame_def)

text \<open>The groups of the lane a worker polls: none has been entered.\<close>

abbreviation group_of_lane :: "Node \<Rightarrow> nat \<Rightarrow> u32 \<Rightarrow> TaskNode option" where
  "group_of_lane N w l \<equiv> group_map (workers N ! w) (lane_key l)"

context completing_env
begin

lemma check_group_ok:
  assumes "w < length (workers N)" and "H ex (method_id t) (pl t)" and "ungrouped (wv_bits V) G ex t \<or> \<not> IsStarted (wv_bits V) t"
    and "ungrouped (wv_bits V) G ex t \<or> group_of_lane N w l = None"
  shows "\<exists>wk. check_group V w ex t l False N = Inr (True, put_worker w wk N) \<and>
    group_map wk = (if ungrouped (wv_bits V) G ex t then group_map (workers N ! w)
      else (group_map (workers N ! w))(lane_key l \<mapsto> (task_node t)\<lparr>node_depth := 1\<rparr>))"
proof -
  obtain g' where g: "wv_GetGroup V ex (method_id t) t (group_buf (workers N ! w)) = Inr (G ex (method_id t), g')"
    using GetGroup_const [OF assms(2)] by blast
  show ?thesis
  proof (cases "ungrouped (wv_bits V) G ex t")
    case True
    then show ?thesis
      using assms(1) g by (cases "IsStarted (wv_bits V) t") (auto simp: check_group_def CheckTaskGroup_def ungrouped_def)
  next
    case False
    then have o: "ordered_task (wv_bits V) (wv_GetGroup V ex) t (workers N ! w)" "\<not> IsStarted (wv_bits V) t"
      using g assms(3) by (auto simp: ordered_task_def ungrouped_def)
    show ?thesis
      using assms(1,4) False Check_ordered [OF o, of l "task_node t"]
      by (auto simp: check_group_def Let_def intro!: exI)
  qed
qed

lemma remove_group_ok:
  assumes "w < length (workers N)" and "H ex (method_id t) (pl t)"
    and "ungrouped (wv_bits V) G ex t \<or> group_of_lane N w l = Some n \<and> node_depth n = 1"
  shows "\<exists>wk. remove_group V w ex t l False N = Inr (put_worker w wk N) \<and>
    group_map wk = (if ungrouped (wv_bits V) G ex t then group_map (workers N ! w)
      else (group_map (workers N ! w))(lane_key l := None))"
  using assms GetGroup_const [OF assms(2), of "group_buf (workers N ! w)"]
  by (auto simp: remove_group_def RemoveTaskGroup_def ungrouped_def group_key_lane Let_def)

lemma EndTask_head:
  assumes "lane_at N r = Inr l" and "heap N p = Some t" and "H ex (method_id t) (pl t)" and "delcnt t = 0"
  shows "\<exists>N' l'. EndTask V r (Some ex) p 0 N = Inr (0, N') \<and> lane_frame r l' N N' \<and> items l' = tl (items l) \<and>
    workers N' = workers N \<and> ended (wv_bits V) (pl t) t (heap N' p) \<and>
    (\<forall>q. q \<noteq> p \<longrightarrow> heap N' q = heap N q)"
proof -
  let ?N = "set_lane r (mpsc_pop (wv_queue V) l) N"
  have d: "wv_Del V ex (method_id t) p ?N = Inr (?N\<lparr>heap := (heap N)(p := None)\<rparr>)" using Del_frees [of ?N p t ex] assms(2-4) by simp
  have h: "lane_frame r (mpsc_pop (wv_queue V) l) N (?N\<lparr>heap := h\<rparr>)" for h by (simp add: lane_frame_def)
  have c: "pl (SetComplete (wv_bits V) t) = pl t" "method_id (SetComplete (wv_bits V) t) = method_id t"
    "delcnt (SetComplete (wv_bits V) t) = delcnt t" by (simp_all add: SetComplete_def)
  have "\<exists>N'. EndTask V r (Some ex) p 0 N = Inr (0, N') \<and> lane_frame r (mpsc_pop (wv_queue V) l) N N' \<and>
    workers N' = workers N \<and> ended (wv_bits V) (pl t) t (heap N' p) \<and> (\<forall>q. q \<noteq> p \<longrightarrow> heap N' q = heap N q)"
    using assms h d c
    by (cases "IsFireAndForget (wv_bits V) t")
      (auto simp: EndTask_def PopTask_def task_at_def ended_def complete_protocol put_task_def)
  moreover have "items (mpsc_pop (wv_queue V) l) = tl (items l)" by simp
  ultimately show ?thesis by blast
qed

lemma run_flags:
  fixes t :: TaskObj and u :: payload
  defines "t' \<equiv> SetModuleComplete (wv_bits V) ((SetStarted (wv_bits V) t)\<lparr>pl := u\<rparr>)"
  shows "IsModuleComplete (wv_bits V) t'" "IsCoroutine (wv_bits V) t' = IsCoroutine (wv_bits V) t"
    "IsPreemptive (wv_bits V) t' = IsPreemptive (wv_bits V) t" "pl t' = u" "delcnt t' = delcnt t"
    "IsFireAndForget (wv_bits V) t' = IsFireAndForget (wv_bits V) t" "ctx t' = ctx t" "method_id t' = method_id t"
    "IsUnordered (wv_bits V) t' = IsUnordered (wv_bits V) t"
  unfolding t'_def by (simp_all add: flag_simps) (simp_all add: task_set_defs)

lemma finish_head:
  assumes "lane_at N (we_lane e) = Inr l" and "items l \<noteq> []" and "heap N p = Some t" and "w < length (workers N)"
    and "IsModuleComplete (wv_bits V) t" and "\<not> IsCoroutine (wv_bits V) t" and "\<not> IsPreemptive (wv_bits V) t"
    and "H ex (method_id t) (pl t)" and "delcnt t = 0" and "ctx_exec (ctx t) = Some ex"
    and "ungrouped (wv_bits V) G ex t \<or> group_of_lane N w (we_lane_id e) = Some n \<and> node_depth n = 1"
  shows "\<exists>N' l'. finish_task V w e 0 p False N = Inr (0, N') \<and> lane_frame (we_lane e) l' N N' \<and> items l' = tl (items l) \<and>
    ended (wv_bits V) (pl t) t (heap N' p) \<and>
    group_map (workers N' ! w) = (if ungrouped (wv_bits V) G ex t then group_map (workers N ! w)
      else (group_map (workers N ! w))(lane_key (we_lane_id e) := None)) \<and>
    (\<forall>q. q \<noteq> p \<longrightarrow> heap N' q = heap N q)"
proof -
  let ?r = "we_lane e"
  define l1 where "l1 = mpsc_poke (wv_queue V) l 0 ((items l ! 0)\<lparr>ld_complete := True\<rparr>)"
  define N1 where "N1 = set_lane ?r l1 N"
  have p1: "poke_entry V ?r 0 (\<lambda>d. d\<lparr>ld_complete := True\<rparr>) N = Inr N1"
    using assms(1,2) by (simp add: poke_entry_def N1_def l1_def)
  have w1: "w < length (workers N1)" "workers N1 = workers N" using assms(4) by (simp_all add: N1_def)
  from remove_group_ok [OF w1(1) assms(8), of "we_lane_id e" n] assms(11) w1(2) obtain wk where
    g: "remove_group V w ex t (we_lane_id e) False N1 = Inr (put_worker w wk N1)" and
    gm: "group_map wk = (if ungrouped (wv_bits V) G ex t then group_map (workers N ! w)
      else (group_map (workers N ! w))(lane_key (we_lane_id e) := None))" by auto
  let ?N2 = "put_worker w wk N1"
  have "lane_at ?N2 ?r = Inr l1" "heap ?N2 p = Some t"
    using lane_at_set_lane [OF assms(1)] assms(3) by (simp_all add: N1_def)
  from EndTask_head [OF this assms(8,9)] obtain N' l' where E: "EndTask V ?r (Some ex) p 0 ?N2 = Inr (0, N')"
    "lane_frame ?r l' ?N2 N'" "items l' = tl (items l1)" "workers N' = workers ?N2"
    "ended (wv_bits V) (pl t) t (heap N' p)" "\<forall>q. q \<noteq> p \<longrightarrow> heap N' q = heap ?N2 q" by blast
  have "finish_task V w e 0 p False N = Inr (0, N')"
    using assms(3,5-7,10) p1 g E(1) by (simp add: finish_task_def task_at_def N1_def)
  moreover have "items l' = tl (items l)" using E(3) assms(2) by (cases "items l") (simp_all add: l1_def)
  moreover have "lane_frame ?r l1 N ?N2" by (simp add: lane_frame_def N1_def)
  ultimately show ?thesis using lane_frame_trans [OF assms(1) _ E(2)] E(4-6) w1 gm by (auto simp: N1_def)
qed

text \<open>The state in which the handler of a ready task has run, with its group entered.\<close>

lemma dispatch_head:
  assumes "heap N p = Some t" and "w < length (workers N)" and "GetTaskState (registry N) (task_state t) = Some ex"
    and "ready V H G (registry N) t" and "ungrouped (wv_bits V) G ex t \<or> group_of_lane N w (we_lane_id e) = None"
  defines "t1 \<equiv> t\<lparr>ctx := (ctx t)\<lparr>ctx_lane_id := we_lane_id e, ctx_exec := Some ex\<rparr>\<rparr>"
  defines "t3 \<equiv> SetModuleComplete (wv_bits V) ((SetStarted (wv_bits V) t1)\<lparr>pl := R ex (method_id t) (pl t)\<rparr>)"
  shows "\<exists>wk. PollEntry V w e 0 p N = finish_task V w e 0 p False (put_task p t3 (put_worker w wk N)) \<and>
    group_map wk = (if ungrouped (wv_bits V) G ex t then group_map (workers N ! w)
      else (group_map (workers N ! w))(lane_key (we_lane_id e) \<mapsto> (task_node t)\<lparr>node_depth := 1\<rparr>))"
proof -
  let ?B = "wv_bits V"
  from assms(3,4) have f: "\<not> DomainId_IsRemote ?B (domain_id t) (wv_num_hosts V) (wv_node_id V)" "H ex (method_id t) (pl t)"
      "ungrouped ?B G ex t \<or> \<not> IsStarted ?B t" "\<not> IsRunDisabled ?B t" "\<not> IsCoroutine ?B t" "\<not> IsPreemptive ?B t"
    by (auto simp: ready_def)
  let ?N1 = "put_task p t1 N"
  have t1: "method_id t1 = method_id t" "pl t1 = pl t" "task_node t1 = task_node t" "domain_id t1 = domain_id t"
    "ungrouped ?B G ex t1 = ungrouped ?B G ex t" "task_flags t1 = task_flags t"
    by (simp_all add: t1_def ungrouped_def task_test_defs)
  then have fl: "IsStarted ?B t1 = IsStarted ?B t" "IsRunDisabled ?B t1 = IsRunDisabled ?B t"
    "IsCoroutine ?B t1 = IsCoroutine ?B t" "IsPreemptive ?B t1 = IsPreemptive ?B t" by (simp_all add: task_test_defs)
  have "w < length (workers ?N1)" "ungrouped ?B G ex t1 \<or> group_of_lane ?N1 w (we_lane_id e) = None" "H ex (method_id t1) (pl t1)"
    using assms(2,5) f(2) t1 by (simp_all add: put_task_def)
  from check_group_ok [OF this(1,3) _ this(2)] f(3) t1 fl(1) obtain wk where
    g: "check_group V w ex t1 (we_lane_id e) False ?N1 = Inr (True, put_worker w wk ?N1)"
    and gm: "group_map wk = (if ungrouped ?B G ex t then group_map (workers N ! w)
      else (group_map (workers N ! w))(lane_key (we_lane_id e) \<mapsto> (task_node t)\<lparr>node_depth := 1\<rparr>))"
    by (auto simp: put_task_def)
  let ?N2 = "put_task p (SetStarted ?B t1) (put_worker w wk ?N1)"
  have "wv_Run V ex (method_id t) p ?N2 = Inr (put_task p t3 ?N2)"
    using Run_completes [of ?N2 p "SetStarted ?B t1" ex] f(2) t1 by (simp add: put_task_def t3_def SetStarted_def)
  then have "PollEntry V w e 0 p N = finish_task V w e 0 p False (put_task p t3 (put_worker w wk ?N1))"
    using assms(1,3) f t1 fl g
    by (simp add: PollEntry_def task_at_def dispatch_task_def Let_def t1_def [symmetric])
  moreover have "put_task p t3 (put_worker w wk ?N1) = put_task p t3 (put_worker w wk N)"
    by (simp add: put_task_def put_worker_def)
  ultimately show ?thesis using gm by auto
qed

lemma PollEntry_head:
  assumes "lane_at N (we_lane e) = Inr l" and "items l \<noteq> []" and "heap N p = Some t" and "w < length (workers N)"
    and "ready V H G (registry N) t"
    and "\<And>ex. GetTaskState (registry N) (task_state t) = Some ex \<Longrightarrow> ungrouped (wv_bits V) G ex t \<or> group_of_lane N w (we_lane_id e) = None"
  shows "\<exists>N' l'. PollEntry V w e 0 p N = Inr (0, N') \<and> lane_frame (we_lane e) l' N N' \<and> items l' = tl (items l) \<and>
    ended (wv_bits V) (outcome R (registry N) t) t (heap N' p) \<and>
    group_map (workers N' ! w) = group_map (workers N ! w) \<and> (\<forall>q. q \<noteq> p \<longrightarrow> heap N' q = heap N q)"
proof -
  let ?B = "wv_bits V"
  from assms(5) obtain ex where ex: "GetTaskState (registry N) (task_state t) = Some ex" and H: "H ex (method_id t) (pl t)"
    by (auto simp: ready_def)
  define u where "u = R ex (method_id t) (pl t)"
  define t1 where "t1 = t\<lparr>ctx := (ctx t)\<lparr>ctx_lane_id := we_lane_id e, ctx_exec := Some ex\<rparr>\<rparr>"
  define t3 where "t3 = SetModuleComplete ?B ((SetStarted ?B t1)\<lparr>pl := u\<rparr>)"
  note free = assms(6) [OF ex]
  from dispatch_head [OF assms(3,4) ex assms(5) free, folded t1_def u_def, folded t3_def] obtain wk where
    P: "PollEntry V w e 0 p N = finish_task V w e 0 p False (put_task p t3 (put_worker w wk N))" and
    gm: "group_map wk = (if ungrouped ?B G ex t then group_map (workers N ! w)
      else (group_map (workers N ! w))(lane_key (we_lane_id e) \<mapsto> (task_node t)\<lparr>node_depth := 1\<rparr>))" by blast
  note rf = run_flags [of u t1, folded t3_def]
  let ?N3 = "put_task p t3 (put_worker w wk N)"
  have t3: "method_id t3 = method_id t" "delcnt t3 = 0" "\<not> IsCoroutine ?B t3" "\<not> IsPreemptive ?B t3" "ctx_exec (ctx t3) = Some ex"
    "ungrouped ?B G ex t3 = ungrouped ?B G ex t" "IsFireAndForget ?B t3 = IsFireAndForget ?B t" "H ex (method_id t3) (pl t3)"
    using assms(5) rf H_result [OF H] by (auto simp: ready_def t1_def task_test_defs ungrouped_def u_def)
  have "lane_at ?N3 (we_lane e) = Inr l" "heap ?N3 p = Some t3" "w < length (workers ?N3)" "workers ?N3 ! w = wk"
    using assms(1,4) by (simp_all add: put_task_def lane_at_def)
  from finish_head [OF this(1) assms(2) this(2,3) rf(1) t3(3,4,8,2,5), of "(task_node t)\<lparr>node_depth := 1\<rparr>"] this(4) t3(6) gm
  obtain N' l' where N': "finish_task V w e 0 p False ?N3 = Inr (0, N')" "lane_frame (we_lane e) l' ?N3 N'" "items l' = tl (items l)"
    "ended ?B (pl t3) t3 (heap N' p)"
    "group_map (workers N' ! w) = (if ungrouped ?B G ex t then group_map wk else (group_map wk)(lane_key (we_lane_id e) := None))"
    "\<forall>q. q \<noteq> p \<longrightarrow> heap N' q = heap ?N3 q" by auto
  have "ended ?B (outcome R (registry N) t) t (heap N' p)"
    using N'(4) t3(1,2,7) rf(4) assms(5) by (simp add: ended_def outcome_def ex u_def ready_def) metis
  moreover have "group_map (workers N' ! w) = group_map (workers N ! w)" using N'(5) gm free by (auto simp: fun_upd_idem)
  moreover have "lane_frame (we_lane e) l' N N'"
    using N'(2) by (cases "we_lane e") (simp add: lane_frame_def set_lane_def put_task_def)
  ultimately show ?thesis using P N' by (auto simp: put_task_def)
qed

end

text \<open>What a poll leaves, given what was there: the outcome of every pending entry and nothing else.\<close>

definition drained ::
    "bitfield_lib \<Rightarrow> (nat \<Rightarrow> u32 \<Rightarrow> payload \<Rightarrow> payload) \<Rightarrow> LaneData list \<Rightarrow> Node \<Rightarrow> Node \<Rightarrow> bool" where
  "drained B R ds N N' \<longleftrightarrow>
     (\<forall>d \<in> set ds. \<forall>t. \<not> ld_complete d \<and> heap N (ld_p d) = Some t \<longrightarrow> ended B (outcome R (registry N) t) t (heap N' (ld_p d))) \<and>
     (\<forall>q. q \<notin> ld_p ` {d \<in> set ds. \<not> ld_complete d} \<longrightarrow> heap N' q = heap N q)"

lemma drained_skip:
  "ld_complete d \<Longrightarrow> heap N1 = heap N \<Longrightarrow> registry N1 = registry N \<Longrightarrow> drained B R ds N1 N' \<Longrightarrow> drained B R (d # ds) N N'"
  by (auto simp: drained_def)

lemma drained_run:
  assumes "drained B R ds N1 N'" and "ld_p d \<notin> ld_p ` set ds" and "heap N (ld_p d) = Some t"
    and "ended B (outcome R (registry N) t) t (heap N1 (ld_p d))" and "\<forall>q. q \<noteq> ld_p d \<longrightarrow> heap N1 q = heap N q"
    and "registry N1 = registry N" and "\<not> ld_complete d"
  shows "drained B R (d # ds) N N'"
proof -
  have d: "heap N' (ld_p d) = heap N1 (ld_p d)" using assms(1,2) by (auto simp: drained_def)
  have keep: "heap N1 (ld_p d') = heap N (ld_p d')" if "d' \<in> set ds" for d'
    using assms(2,5) that by (metis image_eqI)
  have "heap N' q = heap N q" if "q \<notin> ld_p ` {d' \<in> set (d # ds). \<not> ld_complete d'}" for q
  proof -
    from that assms(7) have "q \<notin> ld_p ` {d \<in> set ds. \<not> ld_complete d}" "q \<noteq> ld_p d" by auto
    with assms(1,5) show ?thesis by (simp add: drained_def)
  qed
  with d keep assms show ?thesis unfolding drained_def by auto
qed

context completing_env
begin

lemma poll_iters_drain:
  assumes "lane_at N (we_lane e) = Inr l" and "length (items l) \<le> n" and "distinct (map ld_p (items l))"
    and "w < length (workers N)" and "group_of_lane N w (we_lane_id e) = None"
    and "\<And>d. d \<in> set (items l) \<Longrightarrow> \<not> ld_complete d \<Longrightarrow> \<exists>t. heap N (ld_p d) = Some t \<and> ready V H G (registry N) t"
  shows "\<exists>N' l'. poll_iters V w e n 0 N = Inr N' \<and> lane_frame (we_lane e) l' N N' \<and> items l' = [] \<and>
    drained (wv_bits V) R (items l) N N' \<and> group_map (workers N' ! w) = group_map (workers N ! w)"
  using assms
proof (induction "items l" arbitrary: l n N)
  case Nil
  then show ?case using lane_frame_refl [OF Nil.prems(1)] by (cases n) (auto simp: drained_def)
next
  case (Cons d ds)
  from Cons.hyps(2) have il: "items l = d # ds" by simp
  with Cons.prems(2) obtain m where n: "n = Suc m" "length ds \<le> m" by (cases n) auto
  have dist: "distinct (map ld_p ds)" "ld_p d \<notin> ld_p ` set ds" using Cons.prems(3) il by auto
  show ?case
  proof (cases "ld_complete d")
    case True
    let ?l = "mpsc_pop (wv_queue V) l" and ?N = "set_lane (we_lane e) (mpsc_pop (wv_queue V) l) N"
    have i: "items ?l = ds" by (simp add: il)
    have "lane_at ?N (we_lane e) = Inr ?l" by (rule lane_at_set_lane [OF Cons.prems(1)])
    from Cons.hyps(1) [OF i [symmetric] this, of m] Cons.prems(4-6) dist(1) n(2)
    obtain N' l' where N': "poll_iters V w e m 0 ?N = Inr N'" "lane_frame (we_lane e) l' ?N N'" "items l' = []"
      "drained (wv_bits V) R ds ?N N'" "group_map (workers N' ! w) = group_map (workers N ! w)"
      unfolding i by (auto simp: il)
    moreover have "poll_iters V w e n 0 N = Inr N'" using N'(1) Cons.prems(1) True by (simp add: n(1) il PopTask_def)
    moreover have "lane_frame (we_lane e) ?l N ?N" by (simp add: lane_frame_def)
    ultimately show ?thesis using drained_skip [OF True _ _ N'(4)] lane_frame_trans [OF Cons.prems(1) _ N'(2)] by (auto simp: il)
  next
    case False
    with Cons.prems(6) [of d] obtain t where t: "heap N (ld_p d) = Some t" "ready V H G (registry N) t" by (auto simp: il)
    from PollEntry_head [OF Cons.prems(1) _ t(1) Cons.prems(4) t(2)] Cons.prems(5) obtain N1 l1 where
      N1: "PollEntry V w e 0 (ld_p d) N = Inr (0, N1)" "lane_frame (we_lane e) l1 N N1" "items l1 = ds" "ended (wv_bits V) (outcome R (registry N) t) t (heap N1 (ld_p d))"
      "group_map (workers N1 ! w) = group_map (workers N ! w)" "\<forall>q. q \<noteq> ld_p d \<longrightarrow> heap N1 q = heap N q"
      by (auto simp: il)
    have reg: "registry N1 = registry N" "length (workers N1) = length (workers N)" using N1(2) by (simp_all add: lane_frame_def)
    have keep: "heap N1 (ld_p d') = heap N (ld_p d')" if "d' \<in> set ds" for d'
      using N1(6) dist(2) that by (metis image_eqI)
    from Cons.hyps(1) [OF N1(3) [symmetric] lane_frame_lane [OF Cons.prems(1) N1(2)], of m] Cons.prems(4-6) dist(1) n(2) keep
    obtain N' l' where N': "poll_iters V w e m 0 N1 = Inr N'" "lane_frame (we_lane e) l' N1 N'" "items l' = []"
      "drained (wv_bits V) R ds N1 N'" "group_map (workers N' ! w) = group_map (workers N ! w)"
      unfolding N1(3,5) reg by (auto simp: il)
    have "poll_iters V w e n 0 N = Inr N'" using N'(1) N1(1) Cons.prems(1) False by (simp add: n(1) il)
    with N' drained_run [OF N'(4) dist(2) t(1) N1(4,6) reg(1) False] lane_frame_trans [OF Cons.prems(1) N1(2) N'(2)] show ?thesis by (auto simp: il)
  qed
qed

end

section \<open>The handlers of the message library\<close>

text \<open>A worker whose task states all are states of \<^verbatim>\<open>small_message\<close>.\<close>

definition sm_env :: worker_env where
  "sm_env = plain_env\<lparr>wv_GetGroup := (\<lambda>ex. sm_GetGroup ref_cereal sample_env),
     wv_Run := (\<lambda>ex m p N. res_bind (task_at N p) (\<lambda>t. res_bind (sm_Run word_bitfield m t) (\<lambda>t'. Inr (put_task p t' N)))),
     wv_Del := (\<lambda>ex. sm_Del False)\<rparr>"

text \<open>
  Its metadata calls with room for a result and its I/O calls with a full page of data, and the
  tasks that construct and destroy a state; the first of these are ordered.
\<close>

definition sm_completes :: "nat \<Rightarrow> u32 \<Rightarrow> payload \<Rightarrow> bool" where
  "sm_completes ex m u \<longleftrightarrow> m = kMd \<and> is_md u \<and> ret_of u \<noteq> [] \<or> m = kIo \<and> is_PIo u \<and> 256 \<le> length (io_data (un_Io u)) \<or>
     m = kConstruct \<and> is_PCreateTaskState u \<or> m = kDestruct \<and> is_PDestroyTaskState u"

definition sm_result :: "nat \<Rightarrow> u32 \<Rightarrow> payload \<Rightarrow> payload" where
  "sm_result ex m u =
     (if m = kMd then map_ret (\<lambda>r. r[0 := 1]) u
      else if m = kIo then PIo ((un_Io u)\<lparr>io_ret := if \<forall>j < 256. io_data (un_Io u) ! j = 10 then 1 else 0\<rparr>)
      else u)"

definition sm_group :: "nat \<Rightarrow> u32 \<Rightarrow> u32" where
  "sm_group ex m = (if m = kConstruct then 0 else TASK_UNORDERED word_bitfield)"

lemma sm_env_simps:
  "wv_queue sm_env = list_env 8" "qe_bits (list_env 8) = word_bitfield"
  "wv_GetGroup sm_env ex = sm_GetGroup ref_cereal sample_env" "wv_Del sm_env ex = sm_Del False"
  "wv_Run sm_env ex m p N = res_bind (task_at N p) (\<lambda>t. res_bind (sm_Run word_bitfield m t) (\<lambda>t'. Inr (put_task p t' N)))"
  "wv_num_hosts sm_env = 1" "wv_resize sm_env = list_resize"
  by (simp_all add: sm_env_def plain_env_def list_env_def)

lemma sm_methods_differ [simp]:
  "kMd \<noteq> kConstruct" "kIo \<noteq> kConstruct" "kDestruct \<noteq> kConstruct" "kMd \<noteq> kIo" "kIo \<noteq> kMd"
  "kConstruct \<noteq> kMd" "kConstruct \<noteq> kIo" "kConstruct \<noteq> kDestruct" "kDestruct \<noteq> kMd" "kDestruct \<noteq> kIo"
  by (simp_all add: sm_method_defs)

lemma sm_completes_cases [consumes 1, case_names md io construct destruct]:
  assumes "sm_completes ex m u"
  obtains "m = kMd" and "is_md u" and "ret_of u \<noteq> []"
    | x where "m = kIo" and "u = PIo x" and "256 \<le> length (io_data x)"
    | "m = kConstruct" and "is_PCreateTaskState u"
    | "m = kDestruct" and "is_PDestroyTaskState u"
  using assms by (cases u) (auto simp: sm_completes_def)

lemma ret_of_nonempty: "is_md u \<Longrightarrow> ret_of u \<noteq> [] \<Longrightarrow> ret_of (map_ret (\<lambda>r. r[0 := x]) u) \<noteq> []"
  by simp

lemma sm_completes_result: "sm_completes ex m u \<Longrightarrow> sm_completes ex m (sm_result ex m u)"
  by (erule sm_completes_cases) (simp_all add: sm_completes_def sm_result_def ret_of_nonempty)

lemma sm_Run_completes:
  assumes "sm_completes ex (method_id t) (pl t)"
  shows "sm_Run B (method_id t) t = Inr (SetModuleComplete B (t\<lparr>pl := sm_result ex (method_id t) (pl t)\<rparr>))"
  using assms
  by (cases rule: sm_completes_cases)
    (auto simp: Md_def Io_def upd_ret_def pay_upd_def sm_result_def Io_scan_spec sm_Construct_def sm_Destruct_def)

lemma sm_GetGroup_const:
  assumes "sm_completes ex (method_id t) (pl t)"
  shows "\<exists>g'. sm_GetGroup ref_cereal sample_env (method_id t) t g = Inr (sm_group ex (method_id t), g')"
proof -
  have "\<exists>g'. CreateTaskState_GetGroup (se_resize sample_env) g = Inr (0, g')"
    by (simp add: CreateTaskState_GetGroup_def sample_env_def list_charbuf.put_appends srl_int_def)
  with assms show ?thesis
    by (auto simp: sm_completes_def sm_group_def sm_GetGroup_def lib_GetGroup_def sm_class_defs CreateTaskState_class_def
        DestroyTaskState_class_def Task_GetGroup_def sample_env_def)
qed

lemma sm_Del_frees:
  assumes "heap N p = Some t" and "sm_completes ex (method_id t) (pl t)" and "delcnt t = 0"
  shows "sm_Del fr (method_id t) p N = Inr (N\<lparr>heap := (heap N)(p := None)\<rparr>)"
  using assms by (auto simp: sm_completes_def sm_Del_def DelTask_def task_at_def trivial_dtor_def free_task_def put_task_def Let_def)

interpretation sm_completing: completing_env sm_env sm_completes sm_result sm_group
  by (intro completing_env.intro completing_env_axioms.intro)
    (simp_all add: sm_env_simps list_lanes.lane_queues_axioms list_charbuf.charbuf_axioms sm_completes_result sm_Run_completes sm_GetGroup_const
      sm_Del_frees task_at_def)

section \<open>Properties\<close>

text \<open>
  C3. Progress: when the handlers of the tasks in a lane complete their tasks, one poll by a
  worker drains a lane of up to 1024 entries of distinct ready or completed tasks, grouped or
  not, as long as no task from elsewhere holds the group of the lane. It returns, the lane is
  empty and no other lane has changed, every task that was pending has ended (it is complete with the result of its handler,
  or freed if it is fire-and-forget), no other task has changed, and the worker has left every
  group it entered.
\<close>

theorem poll_drains_lane:
  assumes "completing_env V H R G" and "lane_at N (we_lane e) = Inr l" and "length (items l) \<le> 1024"
    and "distinct (map ld_p (items l))" and "w < length (workers N)"
    and "group_map (workers N ! w) (lane_key (we_lane_id e)) = None"
    and "\<forall>d \<in> set (items l). ld_complete d \<or> (\<exists>t. heap N (ld_p d) = Some t \<and> ready V H G (registry N) t)"
  shows "\<exists>N' l'. PollGrouped V w e N = Inr N' \<and> lane_frame (we_lane e) l' N N' \<and> items l' = [] \<and>
    (\<forall>d \<in> set (items l). \<forall>t. \<not> ld_complete d \<and> heap N (ld_p d) = Some t \<longrightarrow>
      ended (wv_bits V) (outcome R (registry N) t) t (heap N' (ld_p d))) \<and>
    (\<forall>q. q \<notin> ld_p ` {d \<in> set (items l). \<not> ld_complete d} \<longrightarrow> heap N' q = heap N q) \<and>
    group_map (workers N' ! w) = group_map (workers N ! w)"
proof -
  have "\<exists>N' l'. poll_iters V w e 1024 0 N = Inr N' \<and> lane_frame (we_lane e) l' N N' \<and> items l' = [] \<and>
      drained (wv_bits V) R (items l) N N' \<and> group_map (workers N' ! w) = group_map (workers N ! w)"
    by (rule completing_env.poll_iters_drain [OF assms(1-6)]) (use assms(7) in blast)
  then show ?thesis unfolding PollGrouped_def drained_def by blast
qed

theorem poll_drains_lane_witness:
  "\<exists>N' l'. PollGrouped sm_env 0 sample_entry
       (sample_node\<lparr>heap := [9 \<mapsto> (sample_obj (PMd \<lparr>md_ret = [0]\<rparr>))\<lparr>method_id := kMd\<rparr>]\<rparr>) = Inr N' \<and>
     lane_at N' (0, 0, 0) = Inr l' \<and> items l' = []"
proof -
  let ?t = "(sample_obj (PMd \<lparr>md_ret = [0]\<rparr>))\<lparr>method_id := kMd\<rparr>"
  let ?N = "sample_node\<lparr>heap := [9 \<mapsto> ?t]\<rparr>"
  have l: "lane_at ?N (we_lane sample_entry) = Inr \<lparr>items = [LaneData_new 9 False], lane_flags = 0\<rparr>"
    by (simp add: lane_at_def sample_node_def sample_entry_def)
  have "ready sm_env sm_completes sm_group (registry ?N) ?t"
    by (simp add: ready_def sample_node_def sample_obj_def GetTaskState_def DomainId_IsRemote_def sm_env_simps sm_completes_def
        sm_method_defs task_test_defs task_flag_defs word_bitfield_def)
  moreover have "0 < length (workers ?N)" "group_map (workers ?N ! 0) (lane_key (we_lane_id sample_entry)) = None"
    by (simp_all add: sample_node_def sample_worker_def Worker_new_def)
  ultimately show ?thesis
    using poll_drains_lane [OF sm_completing.completing_env_axioms l, of 0] lane_frame_lane [OF l]
    by (simp add: LaneData_new_def sample_entry_def) blast
qed

end
