(* ===== verification/Cluster.thy ===== *)
theory Cluster
  imports LibClients Progress
begin

text \<open>
  Calls between nodes, end to end. The first part puts the procedures of \<^verbatim>\<open>remote_queue\<close> on the
  receiving node together with the worker that runs the task they submit; the second part puts
  the caller together with the nodes it calls.
\<close>

section \<open>A node that serves calls\<close>

text \<open>The lane a task of state \<open>sid\<close> is submitted to.\<close>

definition lane_of :: "TaskStateId \<Rightarrow> Node \<Rightarrow> TaskObj \<Rightarrow> lane_ref" where
  "lane_of sid N t = (unat (unique sid), unat (prio t),
     unat (lane_hash t mod num_lanes (groups (queues N ! unat (unique sid)) ! unat (prio t))))"

text \<open>
  A node whose worker \<open>w\<close> polls the lane of entry \<open>e\<close> and that can take a call for state \<open>sid\<close>: the
  queue of the state is there and not plugged, the lane is idle, no group is entered, the state
  is registered and there is memory for the task.
\<close>

definition serving :: "worker_env \<Rightarrow> alloc_lib \<Rightarrow> nat \<Rightarrow> WorkEntry \<Rightarrow> TaskStateId \<Rightarrow> nat \<Rightarrow> Node \<Rightarrow> bool" where
  "serving V A w e sid exec N \<longleftrightarrow>
     table_wf (queues N) \<and> fst (we_lane e) = unat (unique sid) \<and> \<not> IsEmplacePlugged (wv_bits V) (queues N ! unat (unique sid)) \<and>
     (\<exists>l. lane_at N (we_lane e) = Inr l \<and> items l = []) \<and> w < length (workers N) \<and> group_of_lane N w (we_lane_id e) = None \<and>
     GetTaskState (registry N) sid = Some exec \<and> hdr_node_id (header N) = wv_node_id V \<and>
     (\<forall>h. dom h = dom (heap N) \<longrightarrow> al_alloc A h \<noteq> None)"

text \<open>A task of that state that goes to that lane and that a worker runs on its own stack.\<close>

definition callable :: "bitfield_lib \<Rightarrow> WorkEntry \<Rightarrow> TaskStateId \<Rightarrow> Node \<Rightarrow> TaskObj \<Rightarrow> bool" where
  "callable B e sid N t \<longleftrightarrow> task_state t = sid \<and> we_lane e = lane_of sid N t \<and>
     \<not> IsRunDisabled B t \<and> \<not> IsCoroutine B t \<and> \<not> IsPreemptive B t"

text \<open>What a served call leaves behind: nothing in memory, nothing in the lane, no group.\<close>

definition served :: "nat \<Rightarrow> WorkEntry \<Rightarrow> Node \<Rightarrow> Node \<Rightarrow> bool" where
  "served w e N N' \<longleftrightarrow> heap N' = heap N \<and> group_map (workers N' ! w) = group_map (workers N ! w) \<and>
     (\<exists>l. lane_frame (we_lane e) l N N' \<and> items l = [])"

lemma lane_at_iff:
  "lane_at N (s, g, i) = Inr l \<longleftrightarrow> s < length (queues N) \<and> g < length (groups (queues N ! s)) \<and>
     i < length (lanes (groups (queues N ! s) ! g)) \<and> l = lanes (groups (queues N ! s) ! g) ! i"
  by (auto simp: lane_at_def res_bind_Inr_iff vec_at_Inr_iff)

lemma lane_at_heap [simp]: "lane_at (N\<lparr>heap := h\<rparr>) r = lane_at N r"
  by (simp add: lane_at_def)

lemma num_lanes_put_lane [simp]: "num_lanes (groups (put_lane q g i l) ! g') = num_lanes (groups q ! g')"
  by (cases "g < length (groups q)") (auto simp: put_lane_def nth_list_update list_update_beyond)

text \<open>Putting a lane back keeps the shape of the table of queues.\<close>

lemma lane_frame_shape:
  assumes "lane_frame (s, g, i) l N N'"
  shows "table_wf (queues N) \<Longrightarrow> table_wf (queues N')" "mq_flags (queues N' ! s') = mq_flags (queues N ! s')"
    "num_lanes (groups (queues N' ! s') ! g') = num_lanes (groups (queues N ! s') ! g')"
  using assms
  by (cases "s < length (queues N)";
      auto simp: lane_frame_def set_lane_def table_wf_def slot_wf_def nth_list_update list_update_beyond put_lane_wf)+

lemma served_serving:
  assumes "serving V A w e sid exec N" and "served w e N N'"
  shows "serving V A w e sid exec N'"
proof -
  obtain s g i where e: "we_lane e = (s, g, i)" by (cases "we_lane e")
  from assms(2) obtain l where f: "lane_frame (s, g, i) l N N'" and l: "items l = []" by (auto simp: served_def e)
  show ?thesis
    using assms lane_frame_shape [OF f] lane_frame_lane [OF _ f] l f
    by (auto simp: serving_def served_def e lane_frame_def IsEmplacePlugged_def)
qed

lemma served_callable:
  assumes "served w e N N'" shows "callable B e sid N' t \<longleftrightarrow> callable B e sid N t"
proof -
  obtain s g i where e: "we_lane e = (s, g, i)" by (cases "we_lane e")
  from assms obtain l where "lane_frame (s, g, i) l N N'" by (auto simp: served_def e)
  from lane_frame_shape(3) [OF this] show ?thesis by (simp add: callable_def lane_of_def)
qed

lemma put_task_serving:
  "serving V A w e sid exec N \<Longrightarrow> heap N p = Some t \<Longrightarrow> serving V A w e sid exec (put_task p t' N)"
  by (simp add: serving_def lane_at_def insert_absorb domI)

context lane_queues
begin

text \<open>A submission to the idle lane of an unplugged queue puts the task there.\<close>

lemma queue_emplace_lane:
  assumes "table_wf (queues N)" and "lane_at N (lane_of sid N t) = Inr l"
    and "\<not> IsEmplacePlugged (qe_bits E) (queues N ! unat (unique sid))"
  shows "queue_emplace E sid (prio t) (lane_hash t) p N =
    Inr (set_lane (lane_of sid N t) (fst (mpsc_emplace E l (LaneData_new p False))) N)"
proof -
  let ?q = "queues N ! unat (unique sid)"
  from assms(2) have b: "unat (unique sid) < length (queues N)" "unat (prio t) < length (groups ?q)"
    and l: "unat (lane_hash t mod num_lanes (groups ?q ! unat (prio t))) < length (lanes (groups ?q ! unat (prio t)))"
      "l = lanes (groups ?q ! unat (prio t)) ! unat (lane_hash t mod num_lanes (groups ?q ! unat (prio t)))"
    by (auto simp: lane_of_def lane_at_iff)
  have wf: "queue_wf ?q" using assms(1) b(1) by (simp add: table_wf_def slot_wf_def)
  then have "num_lanes (groups ?q ! unat (prio t)) \<noteq> 0" using b(2) l(1) by (auto simp: queue_wf_def group_wf_def)
  from Emplace_lane_ok(1) [OF wf b(2) this] show ?thesis
    using b(1) l(2) by (simp add: queue_emplace_def GetQueue_def emplace_slot_def Emplace_def Emplace_data_unplugged [OF assms(3)]
        set_lane_def lane_of_def)
qed

end

text \<open>
  A node with a state \<open>sid\<close> of \<^verbatim>\<open>small_message\<close>, object \<open>exec\<close>, whose worker \<open>w\<close> polls the lane of \<open>e\<close>. An idle
  lane has room for one entry.
\<close>

locale local_worker = completing_env V sm_completes sm_result sm_group + allocator A
  for V :: worker_env and A :: alloc_lib +
  fixes w :: nat and e :: WorkEntry and sid :: TaskStateId and exec :: nat
  assumes room: "items l = [] \<Longrightarrow> snd (mpsc_emplace (wv_queue V) l d)"
begin

text \<open>The poll of the worker completes the one task that was submitted to the idle lane.\<close>

lemma poll_submitted:
  assumes "serving V A w e sid exec N" and "lane_at N (we_lane e) = Inr l" and "items l = []" and "heap N p = None"
    and "ready V sm_completes sm_group (registry N) t" and "\<not> IsFireAndForget (wv_bits V) t"
  defines "N4 \<equiv> set_lane (we_lane e) (fst (mpsc_emplace (wv_queue V) l (LaneData_new p False))) (put_task p t N)"
  shows "\<exists>N5 v. PollGrouped V w e N4 = Inr N5 \<and> heap N5 = (heap N)(p \<mapsto> v) \<and> method_id v = method_id t \<and> delcnt v = delcnt t \<and>
    pl v = outcome sm_result (registry N) t \<and> served w e N (N5\<lparr>heap := (heap N5)(p := None)\<rparr>)"
proof -
  define l1 where "l1 = fst (mpsc_emplace (wv_queue V) l (LaneData_new p False))"
  have i: "items l1 = [LaneData_new p False]" using room [OF assms(3)] assms(3) by (simp add: l1_def items_emplace)
  have f4: "lane_frame (we_lane e) l1 N N4" and h4: "heap N4 = (heap N)(p \<mapsto> t)" "workers N4 = workers N"
    by (cases "we_lane e"; simp add: lane_frame_def N4_def l1_def set_lane_def)+
  have l4: "lane_at N4 (we_lane e) = Inr l1" and reg: "registry N4 = registry N"
    using lane_frame_lane [OF assms(2) f4] lane_frame_registry [OF f4] by simp_all
  have "\<exists>N' l'. poll_iters V w e 1024 0 N4 = Inr N' \<and> lane_frame (we_lane e) l' N4 N' \<and> items l' = [] \<and>
      drained (wv_bits V) sm_result (items l1) N4 N' \<and> group_map (workers N' ! w) = group_map (workers N4 ! w)"
    by (rule poll_iters_drain [OF l4]) (use assms(1,5) h4 reg in \<open>auto simp: i serving_def LaneData_new_def\<close>)
  then obtain N5 l5 where N5: "PollGrouped V w e N4 = Inr N5" "lane_frame (we_lane e) l5 N4 N5" "items l5 = []"
      "drained (wv_bits V) sm_result (items l1) N4 N5" "group_map (workers N5 ! w) = group_map (workers N ! w)"
    unfolding PollGrouped_def h4 by blast
  from N5(4) have "ended (wv_bits V) (outcome sm_result (registry N) t) t (heap N5 p)" and
    rest: "\<And>q. q \<noteq> p \<Longrightarrow> heap N5 q = heap N q"
    by (auto simp: drained_def i h4 LaneData_new_def reg)
  with assms(6) obtain v where v: "heap N5 p = Some v" "method_id v = method_id t" "delcnt v = delcnt t"
    "pl v = outcome sm_result (registry N) t" by (auto simp: ended_def)
  have h5: "heap N5 = (heap N)(p \<mapsto> v)" using rest v(1) by auto
  then have h: "(heap N5)(p := None) = heap N" using assms(4) by auto
  have "lane_frame (we_lane e) l5 N (N5\<lparr>heap := (heap N5)(p := None)\<rparr>)"
    using lane_frame_trans [OF assms(2) f4 N5(2)] by (simp add: lane_frame_def)
  then have "served w e N (N5\<lparr>heap := (heap N5)(p := None)\<rparr>)" using N5(3,5) h by (auto simp: served_def)
  with N5(1) v h5 show ?thesis by blast
qed

end

text \<open>
  A server: such a node, whose remote procedures wait while the worker polls; \<open>mem\<close> is what new
  objects hold.
\<close>

locale sm_server = local_worker V A w e sid exec + cereal C + bulk_transfer "re_tl X"
  for V :: worker_env and A :: alloc_lib and w :: nat and e :: WorkEntry and sid :: TaskStateId and exec :: nat
    and C :: cereal_lib and X :: remote_env +
  fixes S :: shm_env and mem :: "task_class \<Rightarrow> TaskObj" and fr :: bool
  assumes queue [simp]: "re_queue X = wv_queue V" and bits [simp]: "se_bits S = wv_bits V"
    and ops: "re_exec X exec = sm_ops C S A mem fr sid"
    and mem_md: "is_md (pl (mem (Md_class S)))" "ret_of (pl (mem (Md_class S))) \<noteq> []" "delcnt (mem (Md_class S)) = 0"
    and mem_io: "is_PIo (pl (mem (Io_class C S)))" "length (io_data (un_Io (pl (mem (Io_class C S))))) = DATA_SIZE"
      "delcnt (mem (Io_class C S)) = 0"
    and buf: "length (re_buf X n) = unat n"
    and wait: "re_wait X p N = PollGrouped V w e N"
begin

lemma bits_S: "bitfield (se_bits S)"
  using bitfield_axioms by simp

lemma arrived_ready:
  assumes "serving V A w e sid exec N" and "callable (wv_bits V) e sid N u" and "sm_completes exec (method_id u) (pl u)"
    and "delcnt u = 0"
  shows "ready V sm_completes sm_group (registry N) (arrived (wv_bits V) N u)"
    and "\<not> IsFireAndForget (wv_bits V) (arrived (wv_bits V) N u)"
    and "outcome sm_result (registry N) (arrived (wv_bits V) N u) = sm_result exec (method_id u) (pl u)"
proof -
  let ?v = "u\<lparr>domain_id := GetNode (wv_bits V) (hdr_node_id (header N))\<rparr>"
  let ?u = "arrived (wv_bits V) N u"
  note r = rpc_reset_flags [of ?v, folded rpc_flags_def]
  show "\<not> IsFireAndForget (wv_bits V) ?u" by (rule r(1))
  have "task_state ?u = sid" using assms(2) by (simp add: callable_def rpc_flags_def task_set_defs)
  then have g: "GetTaskState (registry N) (task_state ?u) = Some exec" using assms(1) by (simp add: serving_def)
  then show "outcome sm_result (registry N) ?u = sm_result exec (method_id u) (pl u)" by (simp add: outcome_def)
  have "\<not> DomainId_IsRemote (wv_bits V) (domain_id ?u) (wv_num_hosts V) (wv_node_id V)"
    using assms(1) ctor_remote_table(2) by (cases "wv_num_hosts V = 1") (auto simp: DomainId_IsRemote_def serving_def)
  moreover have "\<not> IsRunDisabled (wv_bits V) ?u" "\<not> IsCoroutine (wv_bits V) ?u" "\<not> IsPreemptive (wv_bits V) ?u"
    unfolding r using assms(2) by (simp_all add: callable_def task_test_defs)
  ultimately show "ready V sm_completes sm_group (registry N) ?u"
    using g r(2) assms(3,4) by (simp add: ready_def)
qed

text \<open>A call from its arrival to its answer: \<open>u\<close> is the task as it is loaded.\<close>

lemma serve:
  assumes "serving V A w e sid exec N" and "BinaryInputArchive_new xfer = Inr ar" and "al_alloc A (heap N) = Some (p, mem0)"
    and "ex_LoadStart (re_exec X exec) m ar N = Inr (Some p, put_task p u N)" and "callable (wv_bits V) e sid N u"
    and "method_id u = m" and "sm_completes exec m (pl u)" and "delcnt u = 0"
    and "\<And>N'. sm_Del fr m p N' = DelTask fr trivial_dtor p N'"
    and "\<And>n v. pl v = sm_result exec m (pl u) \<Longrightarrow>
      \<exists>x. sm_SaveEnd C S m (BinaryOutputArchive_new n) v = Inr [x] \<and> xfer_string x = Inr ans \<and> xf_size x = length ans"
  shows "\<exists>N5 N'. RpcExec X sid m xfer N = Inr (Some (p, exec), [], N5) \<and> RpcComplete X m p exec [] N5 = Inr ([ans], N') \<and> served w e N N'"
proof -
  let ?u = "arrived (wv_bits V) N u"
  from assms(1) obtain l where l: "lane_at N (we_lane e) = Inr l" "items l = []" by (auto simp: serving_def)
  have fresh: "heap N p = None" by (rule alloc_fresh [OF assms(3)])
  note a = arrived_ready [OF assms(1,5) _ assms(8), unfolded assms(6), OF assms(7)]
  from poll_submitted [OF assms(1) l fresh a(1,2)] a(3) assms(6,8) obtain N5 v where
    N5: "PollGrouped V w e (set_lane (we_lane e) (fst (mpsc_emplace (wv_queue V) l (LaneData_new p False))) (put_task p ?u N)) = Inr N5"
      "heap N5 p = Some v" "method_id v = m" "delcnt v = 0" "pl v = sm_result exec m (pl u)"
      "served w e N (N5\<lparr>heap := (heap N5)(p := None)\<rparr>)" by auto
  have lo: "lane_of sid (put_task p ?u N) u = we_lane e" using assms(5) by (simp add: callable_def lane_of_def)
  then have "lane_at (put_task p ?u N) (lane_of sid (put_task p ?u N) u) = Inr l" using l(1) by simp
  from queue_emplace_lane [OF _ this, of p] lo assms(1)
  have em: "queue_emplace (re_queue X) sid (prio u) (lane_hash u) p (put_task p (arrived (re_bits X) N u) N) =
      Inr (set_lane (we_lane e) (fst (mpsc_emplace (wv_queue V) l (LaneData_new p False))) (put_task p ?u N))"
    by (simp add: serving_def)
  have g: "GetTaskState (registry N) sid = Some exec" using assms(1) by (simp add: serving_def)
  have w: "re_wait X p (set_lane (we_lane e) (fst (mpsc_emplace (wv_queue V) l (LaneData_new p False))) (put_task p ?u N)) = Inr N5"
    using N5(1) by (simp add: wait)
  from sm_call_answer [OF g ops assms(2,4) em w N5(2-4) assms(9) assms(10) [OF N5(5)]] N5(6)
  show ?thesis by blast
qed

lemma callable_copy: "callable B e sid N (copy_flds task_serialize t m) \<longleftrightarrow> callable B e sid N t"
  by (simp add: callable_def lane_of_def copy_task task_test_defs)

lemma serve_md:
  assumes "serving V A w e sid exec N" and "callable (wv_bits V) e sid N t" and "method_id t = kMd"
  shows "\<exists>N'. RpcPushSmall X sid kMd (ar_out C task_serialize t) N = Inr ([c_enc C (V32 1)], N') \<and> served w e N N'"
proof -
  let ?u = "copy_flds task_serialize t (mem (Md_class S))"
  let ?xs = "[wrap_xfer (re_xfer_mem X) (ar_out C task_serialize t)]"
  from assms(1) obtain p mem0 where al: "al_alloc A (heap N) = Some (p, mem0)" by (auto simp: serving_def)
  have u: "pl ?u = pl (mem (Md_class S))" "method_id ?u = kMd" "delcnt ?u = 0" using assms(3) mem_md by (simp_all add: copy_task)
  have c: "callable (wv_bits V) e sid N ?u" using assms(2) by (simp add: callable_copy)
  have h: "sm_completes exec kMd (pl ?u)" using mem_md by (simp add: u sm_completes_def)
  have save: "\<exists>x. sm_SaveEnd C S kMd (BinaryOutputArchive_new n) v = Inr [x] \<and> xfer_string x = Inr (c_enc C (V32 1)) \<and>
      xf_size x = length (c_enc C (V32 1))" if "pl v = sm_result exec kMd (pl ?u)" for n v
    using Md_SaveEnd_bytes [OF bits_S, of v C n] mem_md that by (simp add: u sm_result_def)
  have "\<exists>N5 N'. RpcExec X sid kMd ?xs N = Inr (Some (p, exec), [], N5) \<and> RpcComplete X kMd p exec [] N5 = Inr ([c_enc C (V32 1)], N') \<and>
      served w e N N'"
    by (rule serve [OF assms(1) open_wrapped al Md_load [OF cereal_axioms bits_S ops al mem_md(1)] c u(2) h u(3)])
      (simp_all add: sm_Del_def save)
  then show ?thesis by (auto simp: RpcPushSmall_def)
qed

lemma serve_io:
  assumes "serving V A w e sid exec N" and "callable (wv_bits V) e sid N t" and "method_id t = kIo"
    and "is_PIo (pl t)" and "length (io_data (un_Io (pl t))) = DATA_SIZE"
  shows "\<exists>N'. RpcPushBulk X (io_data (un_Io (pl t))) sid kIo (ar_out C task_serialize t) (of_nat DATA_SIZE) kWrite N =
    Inr ([c_enc C (V32 (if \<forall>j < 256. io_data (un_Io (pl t)) ! j = 10 then 1 else 0))], io_data (un_Io (pl t)), N') \<and> served w e N N'"
proof -
  let ?d = "io_data (un_Io (pl t))" and ?b = "ar_out C task_serialize t"
  define ret where "ret = (if \<forall>j < 256. ?d ! j = 10 then 1 else (0 :: c_int))"
  let ?u = "pay_upd un_Io PIo io_data_update (\<lambda>_. ?d) (copy_flds task_serialize t (mem (Io_class C S)))"
  from assms(1) obtain p mem0 where al: "al_alloc A (heap N) = Some (p, mem0)" by (auto simp: serving_def)
  have u: "is_PIo (pl ?u)" "io_data (un_Io (pl ?u)) = ?d" "method_id ?u = kIo" "delcnt ?u = 0"
    using assms(3) mem_io by (simp_all add: copy_task pay_upd_def)
  have c: "callable (wv_bits V) e sid N ?u"
    using assms(2) by (simp add: callable_def lane_of_def copy_task task_test_defs pay_upd_def)
  have h: "sm_completes exec kIo (pl ?u)" using u(1,2) assms(5) by (simp add: sm_completes_def DATA_SIZE_def)
  have save: "\<exists>x. sm_SaveEnd C S kIo (BinaryOutputArchive_new n) v = Inr [x] \<and> xfer_string x = Inr (c_enc C (V32 ret)) \<and>
      xf_size x = length (c_enc C (V32 ret))" if "pl v = sm_result exec kIo (pl ?u)" for n v
    using Io_SaveEnd_bytes [OF bits_S, of v C n] that u(2) by (simp add: sm_result_def ret_def)
  have "\<exists>N5 N'. RpcExec X sid kIo [wrap_xfer (re_xfer_mem X) ?d, wrap_xfer (re_xfer_mem X) ?b] N = Inr (Some (p, exec), [], N5) \<and>
      RpcComplete X kIo p exec [] N5 = Inr ([c_enc C (V32 ret)], N') \<and> served w e N N'"
    by (rule serve [OF assms(1) open_bulk al Io_load [OF cereal_axioms bits_S ops al assms(4) mem_io(1) assms(5) mem_io(2)] c u(3) h u(4)])
      (simp_all add: sm_Del_def save)
  moreover have "IoCallServer (re_tl X) (re_fatal_returns X) ?d kWrite (re_buf X (of_nat DATA_SIZE)) = Inr (DATA_SIZE, ?d, ?d)"
    using IoCallServer_ok(1) [of ?d "re_buf X (of_nat DATA_SIZE)"] buf [of "of_nat DATA_SIZE"] assms(5) by (simp add: DATA_SIZE_def)
  ultimately show ?thesis unfolding ret_def [symmetric] by (auto simp: RpcPushBulk_def)
qed

end

section \<open>A client on the node itself\<close>

lemma MakeTaskNodeId_serving:
  "MakeTaskNodeId N = (tn, N1) \<Longrightarrow> serving V A w e sid exec N \<Longrightarrow> serving V A w e sid exec N1 \<and> heap N1 = heap N \<and> queues N1 = queues N"
  by (auto simp: MakeTaskNodeId_def fetch_add_unique_def serving_def lane_at_def)

context local_worker
begin

lemma MdTask_ready:
  fixes mem :: TaskObj and tn :: TaskNode
  assumes "serving V A w e sid exec N" and "se_bits S = wv_bits V" and "pod_array (se_pods S)"
    and "\<not> DomainId_IsRemote (wv_bits V) d (wv_num_hosts V) (wv_node_id V)"
  defines "t \<equiv> MdTask_new S mem tn d sid"
  shows "ready V sm_completes sm_group (registry N) t" and "\<not> IsFireAndForget (wv_bits V) t"
    and "outcome sm_result (registry N) t = PMd \<lparr>md_ret = [1]\<rparr>" and "delcnt t = 0" and "method_id t = kMd"
proof -
  have g: "GetTaskState (registry N) sid = Some exec" using assms(1) by (simp add: serving_def)
  obtain x where "pod_construct (se_pods S) 1 = [x]"
    using pod_array.length_construct [OF assms(3), of 1] by (auto simp: length_Suc_conv)
  then have t: "task_state t = sid" "method_id t = kMd" "pl t = PMd \<lparr>md_ret = [x]\<rparr>" "domain_id t = d" "delcnt t = 0"
    "task_flags t = bf_SetBits (wv_bits V) (bf_init (wv_bits V)) (TASK_LOW_LATENCY (wv_bits V))"
    by (simp_all add: t_def MdTask_new_def init_task_def Task_new_def assms(2))
  show "\<not> IsFireAndForget (wv_bits V) t" by (simp add: task_test_defs t(6) task_flag_defs flag_simps)
  have "\<not> IsRunDisabled (wv_bits V) t" "\<not> IsCoroutine (wv_bits V) t" "\<not> IsPreemptive (wv_bits V) t" "\<not> IsStarted (wv_bits V) t"
    by (simp_all add: task_test_defs t(6) task_flag_defs flag_simps)
  with g t assms(4) show "ready V sm_completes sm_group (registry N) t" by (simp add: ready_def sm_completes_def)
  show "outcome sm_result (registry N) t = PMd \<lparr>md_ret = [1]\<rparr>" using g t by (simp add: outcome_def sm_result_def)
  show "delcnt t = 0" "method_id t = kMd" by (fact t)+
qed

text \<open>The blocking metadata call while the worker polls the lane it submits to.\<close>

lemma MdRoot_served:
  assumes "serving V A w e sid exec N" and "se_bits S = wv_bits V" and "pod_array (se_pods S)"
    and "\<not> DomainId_IsRemote (wv_bits V) d (wv_num_hosts V) (wv_node_id V)" and "tc_id cl = sid" and "tc_queue_id cl = sid"
    and "we_lane e = lane_of sid N (u\<lparr>prio := kLowLatency, lane_hash := 3\<rparr>)"
  shows "\<exists>N'. MdRoot (wv_queue V) A S fr (\<lambda>p. PollGrouped V w e) cl d N = Inr (1, N') \<and> served w e (snd (MakeTaskNodeId N)) N'"
proof -
  obtain tn N1 where m: "MakeTaskNodeId N = (tn, N1)" by (cases "MakeTaskNodeId N")
  from MakeTaskNodeId_serving [OF this assms(1)] have s1: "serving V A w e sid exec N1" and q1: "queues N1 = queues N" by simp_all
  from s1 obtain l p m0 where l: "lane_at N1 (we_lane e) = Inr l" "items l = []" and al: "al_alloc A (heap N1) = Some (p, m0)"
    by (auto simp: serving_def)
  define t where "t = MdTask_new S m0 tn d sid"
  note r = MdTask_ready [OF s1 assms(2-4), of m0 tn, folded t_def]
  let ?N2 = "put_task p t N1" and ?v = "u\<lparr>prio := kLowLatency, lane_hash := 3\<rparr>"
  have lo: "lane_of sid ?N2 ?v = we_lane e" using assms(7) q1 by (simp add: lane_of_def)
  have q: "queue_emplace (wv_queue V) sid kLowLatency 3 p ?N2 =
      Inr (set_lane (we_lane e) (fst (mpsc_emplace (wv_queue V) l (LaneData_new p False))) ?N2)"
    using queue_emplace_lane [of ?N2 sid ?v l p] lo l(1) s1 by (simp add: serving_def)
  from poll_submitted [OF s1 l alloc_fresh [OF al] r(1,2)] obtain N5 v where
    N5: "PollGrouped V w e (set_lane (we_lane e) (fst (mpsc_emplace (wv_queue V) l (LaneData_new p False))) ?N2) = Inr N5"
      "heap N5 p = Some v" "delcnt v = 0" "pl v = PMd \<lparr>md_ret = [1]\<rparr>" "served w e N1 (N5\<lparr>heap := (heap N5)(p := None)\<rparr>)"
    unfolding r(3,4) by auto
  have g: "GetQueue (queues N1) sid = Inr (queues N1 ! unat (unique sid))"
    using s1 by (cases "we_lane e") (auto simp: serving_def GetQueue_def lane_at_iff)
  have "AsyncMd (wv_queue V) A S cl tn d N1 =
      Inr (lptr p, set_lane (we_lane e) (fst (mpsc_emplace (wv_queue V) l (LaneData_new p False))) ?N2)"
    using g al q assms(5,6) by (simp add: AsyncMd_def NewTask_def t_def lptr_def)
  moreover have "DelTask fr trivial_dtor p N5 = Inr (N5\<lparr>heap := (heap N5)(p := None)\<rparr>)"
    using N5(2,3) by (simp add: DelTask_def task_at_def trivial_dtor_def free_task_def put_task_def)
  ultimately have "MdRoot (wv_queue V) A S fr (\<lambda>p. PollGrouped V w e) cl d N = Inr (1, N5\<lparr>heap := (heap N5)(p := None)\<rparr>)"
    using N5(1,2,4) by (simp add: MdRoot_def TASK_NODE_ROOT_def m lptr_def task_at_def)
  with N5(5) m show ?thesis by simp
qed

end

section \<open>Sequences of requests\<close>

text \<open>
  The procedures \<^verbatim>\<open>Construct\<close> registers, by name: what is answered to a request with the exposed
  memory \<open>b\<close> of its caller, that memory and the node afterwards. A request for another name or
  with other arguments finds no procedure.
\<close>

definition rpc_procedure :: "remote_env \<Rightarrow> string \<Rightarrow> rpc_args \<Rightarrow> bulk \<Rightarrow> Node \<Rightarrow> (bytes list \<times> bulk \<times> Node) res" where
  "rpc_procedure X name args b N = (case args of
     SmallArgs sid m params \<Rightarrow>
       if name = ''RpcPushSmall'' then res_bind (RpcPushSmall X sid m params N) (\<lambda>(ans, N'). Inr (ans, b, N'))
       else Inl (Thrown ''no such procedure'')
   | BulkArgs sid m params n ty \<Rightarrow>
       if name = ''RpcPushBulk'' then RpcPushBulk X b sid m params n ty N else Inl (Thrown ''no such procedure''))"

fun serve_all :: "remote_env \<Rightarrow> (string \<times> rpc_args \<times> bulk) list \<Rightarrow> Node \<Rightarrow> ((bytes list \<times> bulk) list \<times> Node) res" where
  "serve_all X [] N = Inr ([], N)"
| "serve_all X ((name, args, b) # rs) N =
     res_bind (rpc_procedure X name args b N) (\<lambda>(ans, b', N1).
     res_bind (serve_all X rs N1) (\<lambda>(rest, N2). Inr ((ans, b') # rest, N2)))"

text \<open>The tasks of \<^verbatim>\<open>small_message\<close>, the request a caller sends for one, and its right answer.\<close>

definition sm_task :: "TaskObj \<Rightarrow> bool" where
  "sm_task t \<longleftrightarrow> method_id t = kMd \<and> is_md (pl t) \<or>
     method_id t = kIo \<and> is_PIo (pl t) \<and> length (io_data (un_Io (pl t))) = DATA_SIZE"

definition request_of :: "cereal_lib \<Rightarrow> TaskStateId \<Rightarrow> TaskObj \<Rightarrow> string \<times> rpc_args \<times> bulk" where
  "request_of C sid t =
     (if method_id t = kMd then (''RpcPushSmall'', SmallArgs sid kMd (ar_out C task_serialize t), [])
      else (''RpcPushBulk'', BulkArgs sid kIo (ar_out C task_serialize t) (of_nat DATA_SIZE) kWrite, io_data (un_Io (pl t))))"

definition answer_of :: "TaskObj \<Rightarrow> c_int" where
  "answer_of t = (if method_id t = kMd then 1 else if \<forall>j < 256. io_data (un_Io (pl t)) ! j = 10 then 1 else 0)"

definition reply_to :: "cereal_lib \<Rightarrow> TaskObj \<Rightarrow> bytes list \<times> bulk" where
  "reply_to C t = ([c_enc C (V32 (answer_of t))], if method_id t = kMd then [] else io_data (un_Io (pl t)))"

lemma served_trans: "lane_at N (we_lane e) = Inr l \<Longrightarrow> served w e N N1 \<Longrightarrow> served w e N1 N2 \<Longrightarrow> served w e N N2"
  by (auto simp: served_def dest: lane_frame_trans)

lemma serving_lane: "serving V A w e sid exec N \<Longrightarrow> \<exists>l. lane_at N (we_lane e) = Inr l \<and> items l = []"
  by (simp add: serving_def)

context sm_server
begin

lemma serve_request:
  assumes "serving V A w e sid exec N" and "callable (wv_bits V) e sid N t" and "sm_task t"
  shows "\<exists>N'. (case request_of C sid t of (name, args, b) \<Rightarrow> rpc_procedure X name args b N) =
    Inr (fst (reply_to C t), snd (reply_to C t), N') \<and> served w e N N'"
proof (cases "method_id t = kMd")
  case True
  with serve_md [OF assms(1,2)] show ?thesis by (auto simp: request_of_def rpc_procedure_def reply_to_def answer_of_def)
next
  case False
  with assms(3) have io: "method_id t = kIo" "is_PIo (pl t)" "length (io_data (un_Io (pl t))) = DATA_SIZE" by (auto simp: sm_task_def)
  from serve_io [OF assms(1,2) io] show ?thesis
    by (simp add: request_of_def rpc_procedure_def reply_to_def answer_of_def io(1))
qed

lemma serve_all_requests:
  assumes "serving V A w e sid exec N" and "\<And>t. t \<in> set ts \<Longrightarrow> callable (wv_bits V) e sid N t \<and> sm_task t"
  shows "\<exists>N'. serve_all X (map (request_of C sid) ts) N = Inr (map (reply_to C) ts, N') \<and> served w e N N'"
  using assms
proof (induction ts arbitrary: N)
  case Nil
  from serving_lane [OF Nil.prems(1)] lane_frame_refl show ?case by (fastforce simp: served_def)
next
  case (Cons t ts)
  obtain name args b where r: "request_of C sid t = (name, args, b)" by (cases "request_of C sid t")
  from serve_request [OF Cons.prems(1), of t] Cons.prems(2) [of t] r obtain N1 where
    N1: "rpc_procedure X name args b N = Inr (fst (reply_to C t), snd (reply_to C t), N1)" "served w e N N1" by auto
  from Cons.IH [OF served_serving [OF Cons.prems(1) N1(2)]] Cons.prems(2) served_callable [OF N1(2)] obtain N2 where
    N2: "serve_all X (map (request_of C sid) ts) N1 = Inr (map (reply_to C) ts, N2)" "served w e N1 N2" by auto
  from serving_lane [OF Cons.prems(1)] served_trans N1(2) N2(2) have "served w e N N2" by blast
  with N1(1) N2(1) show ?case by (simp add: r)
qed

end

section \<open>The cluster\<close>

text \<open>A host: the environment of its worker and of its remote procedures, and who serves.\<close>

record host =
  h_worker_env :: worker_env
  h_alloc :: alloc_lib
  h_remote :: remote_env
  h_shm :: shm_env
  h_mem :: "task_class \<Rightarrow> TaskObj"
  h_fatal_returns :: bool
  h_worker :: nat
  h_entry :: WorkEntry
  h_exec :: nat

definition is_server :: "cereal_lib \<Rightarrow> TaskStateId \<Rightarrow> host \<Rightarrow> bool" where
  "is_server C sid h \<longleftrightarrow> sm_server (h_worker_env h) (h_alloc h) (h_worker h) (h_entry h) sid (h_exec h) C (h_remote h)
     (h_shm h) (h_mem h) (h_fatal_returns h)"

text \<open>The node of a host is in a state in which it can take a call with task \<open>t\<close>.\<close>

definition can_take :: "TaskStateId \<Rightarrow> TaskObj \<Rightarrow> host \<Rightarrow> Node \<Rightarrow> bool" where
  "can_take sid t h N \<longleftrightarrow> serving (h_worker_env h) (h_alloc h) (h_worker h) (h_entry h) sid (h_exec h) N \<and>
     callable (wv_bits (h_worker_env h)) (h_entry h) sid N t"

text \<open>
  What the caller relies on of the network: the name of a node leads to its endpoint; a call to
  another node is answered by its procedure, run on a node in a state that \<open>Q\<close> describes, and
  leaves the local node alone; a call to this node runs the procedure here.
\<close>

locale rpc_cluster =
  fixes TL :: tl_lib and B :: bitfield_lib and T :: ThalliumRpc and fr :: bool
    and env :: "u32 \<Rightarrow> remote_env" and Q :: "u32 \<Rightarrow> Node \<Rightarrow> bool" and me :: u32 and ks :: "u32 set"
    and g :: engine and ep :: "u32 \<Rightarrow> endpoint"
  assumes engine: "client_engine T = Some g"
    and reach: "k \<in> ks \<Longrightarrow> \<exists>s. GetServerName B fr T k = Inr s \<and> tl_lookup TL g s = Inr (ep k)"
    and remote: "k \<in> ks \<Longrightarrow> k \<noteq> me \<Longrightarrow> \<exists>M. Q k M \<and> (\<forall>a b M'. rpc_procedure (env k) name args [] M = Inr ([a], b, M') \<longrightarrow>
      tl_call TL g (ep k) name args N = Inr (a, N))"
    and own: "me \<in> ks \<Longrightarrow> rpc_procedure (env me) name args [] N = Inr ([a], b, N') \<Longrightarrow> tl_call TL g (ep me) name args N = Inr (a, N')"
begin

lemma SyncCall_delivered:
  assumes "k \<in> ks" and "tl_call TL g (ep k) name args N = Inr (a, N')"
  shows "SyncCall TL B fr T k name args N = Inr (a, N')"
  using reach [OF assms(1)] assms(2) by (auto simp: SyncCall_def engine_at_def engine catch_def)

text \<open>A procedure that answers, and keeps \<open>Q\<close>, on every node \<open>Q\<close> describes.\<close>

lemma SyncCall_answer:
  assumes "k \<in> ks" and "\<And>M. Q k M \<Longrightarrow> \<exists>b M'. rpc_procedure (env k) name args [] M = Inr ([a], b, M') \<and> heap M' = heap M \<and> Q k M'"
    and "Q me N"
  shows "\<exists>N'. SyncCall TL B fr T k name args N = Inr (a, N') \<and> heap N' = heap N \<and> Q me N'"
proof (cases "k = me")
  case True
  with assms obtain b N' where "rpc_procedure (env me) name args [] N = Inr ([a], b, N')" "heap N' = heap N" "Q me N'" by metis
  with own assms(1) SyncCall_delivered [OF assms(1)] True show ?thesis by blast
next
  case False
  from remote [OF assms(1) False, of name args N] obtain M where "Q k M"
    and M: "\<forall>a b M'. rpc_procedure (env k) name args [] M = Inr ([a], b, M') \<longrightarrow> tl_call TL g (ep k) name args N = Inr (a, N)" by blast
  with assms(2) [of M] have "tl_call TL g (ep k) name args N = Inr (a, N)" by blast
  from SyncCall_delivered [OF assms(1) this] assms(3) show ?thesis by blast
qed

end

text \<open>The same of calls that expose memory, which the called node may have changed when they return.\<close>

locale bulk_cluster = rpc_cluster +
  assumes remote_bulk: "k \<in> ks \<Longrightarrow> k \<noteq> me \<Longrightarrow> \<exists>M. Q k M \<and> (\<forall>a b' M'. rpc_procedure (env k) name args b M = Inr ([a], b', M') \<longrightarrow>
      tl_bulk_call TL g (ep k) name mode b args N = Inr (a, b', N))"
    and own_bulk: "me \<in> ks \<Longrightarrow> rpc_procedure (env me) name args b N = Inr ([a], b', N') \<Longrightarrow>
      tl_bulk_call TL g (ep me) name mode b args N = Inr (a, b', N')"
begin

lemma SyncIoCall_answer:
  assumes "k \<in> ks" and "\<And>M. Q k M \<Longrightarrow> \<exists>M'. rpc_procedure (env k) name args b M = Inr ([a], b', M') \<and> heap M' = heap M \<and> Q k M'"
    and "Q me N"
  shows "\<exists>N'. SyncIoCall TL B fr T k name kWrite b args N = Inr (a, b', N') \<and> heap N' = heap N \<and> Q me N'"
proof -
  from reach [OF assms(1)] obtain s where s: "GetServerName B fr T k = Inr s" "tl_lookup TL g s = Inr (ep k)" by blast
  have "\<exists>N'. tl_bulk_call TL g (ep k) name read_only b args N = Inr (a, b', N') \<and> heap N' = heap N \<and> Q me N'"
  proof (cases "k = me")
    case True
    with assms own_bulk show ?thesis by metis
  next
    case False
    from remote_bulk [OF assms(1) False, of name args b read_only N] obtain M where "Q k M" and
      M: "\<forall>a b' M'. rpc_procedure (env k) name args b M = Inr ([a], b', M') \<longrightarrow> tl_bulk_call TL g (ep k) name read_only b args N = Inr (a, b', N)"
      by blast
    with assms(2) [of M] assms(3) show ?thesis by blast
  qed
  with s show ?thesis by (auto simp: SyncIoCall_def engine_at_def engine catch_def)
qed

end

lemma rpc_md:
  assumes "is_server C sid h" and "can_take sid t h N" and "method_id t = kMd"
  shows "\<exists>b N'. rpc_procedure (h_remote h) ''RpcPushSmall'' (SmallArgs sid kMd (ar_out C task_serialize t)) [] N =
    Inr ([c_enc C (V32 1)], b, N') \<and> heap N' = heap N \<and> can_take sid t h N'"
proof -
  from sm_server.serve_md [OF assms(1) [unfolded is_server_def], of N t] assms(2,3) obtain N' where
    N': "RpcPushSmall (h_remote h) sid kMd (ar_out C task_serialize t) N = Inr ([c_enc C (V32 1)], N')"
      "served (h_worker h) (h_entry h) N N'" by (auto simp: can_take_def)
  have "can_take sid t h N'"
    using assms(2) served_serving [OF _ N'(2)] served_callable [OF N'(2)] by (simp add: can_take_def)
  with N' show ?thesis by (simp add: rpc_procedure_def served_def)
qed

lemma rpc_io:
  assumes "is_server C sid h" and "can_take sid t h N" and "method_id t = kIo" and "is_PIo (pl t)"
    and "length (io_data (un_Io (pl t))) = DATA_SIZE"
  shows "\<exists>N'. rpc_procedure (h_remote h) ''RpcPushBulk'' (BulkArgs sid kIo (ar_out C task_serialize t) (of_nat DATA_SIZE) kWrite)
      (io_data (un_Io (pl t))) N = Inr ([c_enc C (V32 (answer_of t))], io_data (un_Io (pl t)), N') \<and> heap N' = heap N \<and> can_take sid t h N'"
proof -
  from sm_server.serve_io [OF assms(1) [unfolded is_server_def], of N t] assms(2-5) obtain N' where
    N': "RpcPushBulk (h_remote h) (io_data (un_Io (pl t))) sid kIo (ar_out C task_serialize t) (of_nat DATA_SIZE) kWrite N =
        Inr ([c_enc C (V32 (if \<forall>j < 256. io_data (un_Io (pl t)) ! j = 10 then 1 else 0))], io_data (un_Io (pl t)), N')"
      "served (h_worker h) (h_entry h) N N'" by (auto simp: can_take_def)
  have "can_take sid t h N'"
    using assms(2) served_serving [OF _ N'(2)] served_callable [OF N'(2)] by (simp add: can_take_def)
  with N' show ?thesis by (simp add: rpc_procedure_def served_def answer_of_def assms(3))
qed

text \<open>Work in another queue and new objects do not keep a node from serving.\<close>

lemma can_take_other:
  assumes "can_take sid t h N" and "lane_frame (s, g, i) l N N'" and "s \<noteq> unat (unique sid)" and "workers N' = workers N"
    and "\<forall>h'. dom h' = dom (heap N') \<longrightarrow> al_alloc (h_alloc h) h' \<noteq> None"
  shows "can_take sid t h N'"
proof -
  have q: "queues N' ! s' = queues N ! s'" if "s' \<noteq> s" for s' using assms(2) that by (simp add: lane_frame_def set_lane_def)
  have "lane_at N' (s', g', i') = lane_at N (s', g', i')" if "s' \<noteq> s" for s' g' i'
    using assms(2) q [OF that] by (auto simp: lane_at_def vec_at_def lane_frame_def set_lane_def)
  then have "lane_at N' (we_lane (h_entry h)) = lane_at N (we_lane (h_entry h))"
    using assms(1,3) by (cases "we_lane (h_entry h)") (auto simp: can_take_def serving_def)
  then show ?thesis
    using assms lane_frame_shape [OF assms(2)] q
    by (auto simp: can_take_def serving_def callable_def lane_of_def lane_frame_def IsEmplacePlugged_def)
qed

section \<open>The caller\<close>

context sm_server
begin

lemma Md_SaveStart_bytes:
  assumes "is_md (pl t)"
  shows "\<exists>x. sm_SaveStart C S kMd (BinaryOutputArchive_new n) t = Inr [x] \<and> xfer_string x = Inr (ar_out C task_serialize t)"
  using assms TaskFlags_kinds(2)
  by (simp add: sm_exec_defs lib_SaveStart_def Serialize_task_def sm_class_defs Get_def Let_def
      Serialize_flds_def BinaryOutputArchive_new_def xfer_string_def DataTransfer_new_def memcpy_from_def)

lemma Md_replicated:
  assumes "is_md (pl t)" and "pod_array (se_pods S)" and "n < 2 ^ 32"
  shows "\<exists>t1. sm_ReplicateStart C S kMd (of_nat n) t = Inr t1 \<and> is_md (pl t1) \<and> length (ret_of (pl t1)) = n \<and>
    method_id t1 = method_id t \<and> prio t1 = prio t \<and> lane_hash t1 = lane_hash t"
  using assms TaskFlags_kinds(2) pod_array.length_pod_resize [OF assms(2)]
  by (simp add: sm_exec_defs lib_ReplicateStart_def CALL_REPLICA_START_def sm_class_defs Md_ReplicateStart_def upd_ret_def
      unat_of_nat_less)

lemma Io_SaveStart_xfers:
  assumes "is_PIo (pl t)" and "length (io_data (un_Io (pl t))) = DATA_SIZE"
  shows "\<exists>x y. sm_SaveStart C S kIo (BinaryOutputArchive_new n) t = Inr [x, y] \<and> xfer_string x = Inr (io_data (un_Io (pl t))) \<and>
    bf_Any (wv_bits V) (xf_flags x) (DT_RECEIVER_READ (wv_bits V)) \<and> xfer_string y = Inr (ar_out C task_serialize t)"
  using assms TaskFlags_kinds(3)
  by (simp add: sm_exec_defs lib_SaveStart_def Serialize_task_def sm_class_defs Get_def Let_def Io_SaveStart_def Serialize_xfer_def
      Serialize_flds_def BinaryOutputArchive_new_def xfer_string_def DataTransfer_new_def memcpy_from_def dt_flag_defs flag_simps)

lemma Io_not_replicated:
  assumes "is_PIo (pl t)" shows "sm_ReplicateStart C S kIo n t = Inr t" "sm_ReplicateEnd C S kIo t = Inr t"
  using assms TaskFlags_kinds(3)
  by (simp_all add: sm_exec_defs lib_ReplicateStart_def lib_ReplicateEnd_def CALL_REPLICA_START_def CALL_REPLICA_END_def sm_class_defs)

text \<open>
  Dispersing a task: a push task with the transfers of the task is at the end of its lane of the
  queue of \<^verbatim>\<open>remote_queue\<close>.
\<close>

lemma Disperse_ok:
  assumes "heap N p = Some t" and "sm_SaveStart C S (method_id t) (BinaryOutputArchive_new (GetNode (re_bits X) (hdr_node_id (header N)))) t = Inr xfer"
    and "sm_ReplicateStart C S (method_id t) (of_nat (length ds)) t = Inr t1"
    and "method_id t1 = method_id t" and "prio t1 = prio t" and "lane_hash t1 = lane_hash t"
    and "re_alloc X = A" and "al_alloc A ((heap N)(p \<mapsto> t1)) \<noteq> None"
    and "table_wf (queues N)" and "lane_at N (lane_of (tc_queue_id cl) N t) = Inr l"
    and "\<not> IsEmplacePlugged (wv_bits V) (queues N ! unat (unique (tc_queue_id cl)))"
    and "\<forall>d. snd (mpsc_emplace (wv_queue V) l d)"
  shows "\<exists>N1 q u l1. Disperse X cl p exec ds N = Inr N1 \<and> heap N q = None \<and> q \<noteq> p \<and> heap N1 = (heap N)(p \<mapsto> t1, q \<mapsto> u) \<and>
    workers N1 = workers N \<and> lane_frame (lane_of (tc_queue_id cl) N t) l1 N N1 \<and> items l1 = items l @ [LaneData_new q False] \<and>
    pl u = PRemotePush \<lparr>domain_ids = ds, orig_task = p, rp_exec = exec, exec_method = method_id t, rp_xfer = xfer, rp_params = []\<rparr>"
proof -
  let ?B = "re_bits X" and ?r = "lane_of (tc_queue_id cl) N t"
  from assms(8) obtain q m0 where al: "al_alloc A ((heap N)(p \<mapsto> t1)) = Some (q, m0)" by auto
  from alloc_fresh [OF al] have q: "heap N q = None" "q \<noteq> p" by (auto split: if_splits)
  define u where "u = RemotePushTask_new (re_shm X) m0 (TaskNode_plus (task_node t1) 1) (GetLocal ?B) (tc_id cl) ds p exec (method_id t) xfer"
  let ?N = "put_task q u (put_task p t1 N)" and ?l = "fst (mpsc_emplace (wv_queue V) l (LaneData_new q False))"
  have lo: "lane_of (tc_queue_id cl) ?N t1 = ?r" "lane_at ?N ?r = Inr l" using assms(5,6,10) by (simp_all add: lane_of_def)
  have "queue_emplace (wv_queue V) (tc_queue_id cl) (prio t1) (lane_hash t1) q ?N = Inr (set_lane ?r ?l ?N)"
    using queue_emplace_lane [of ?N "tc_queue_id cl" t1 l q] assms(9,11) lo by simp
  then have D: "Disperse X cl p exec ds N = Inr (set_lane ?r ?l ?N)"
    using assms(1-4,7) al by (simp add: Disperse_def task_at_def NewTask_def lptr_def u_def ops sm_ops_def)
  have "lane_frame ?r ?l N (set_lane ?r ?l ?N)" by (cases ?r) (simp add: lane_frame_def set_lane_def)
  moreover have "items ?l = items l @ [LaneData_new q False]" using assms(12) by (simp add: items_emplace)
  moreover have "pl u = PRemotePush \<lparr>domain_ids = ds, orig_task = p, rp_exec = exec, exec_method = method_id t, rp_xfer = xfer, rp_params = []\<rparr>"
    by (simp add: u_def RemotePushTask_new_def)
  ultimately show ?thesis
    using D q by (intro exI [of _ "set_lane ?r ?l ?N"] exI [of _ q] exI [of _ u] exI [of _ ?l]) simp
qed

text \<open>The push task sends the bytes to the nodes \<open>ks\<close> and collects their answers.\<close>

lemma push_md:
  assumes "rpc_cluster (re_tl X) (re_bits X) (re_thallium X) (re_fatal_returns X) env Q me (set ks) g ep"
    and "\<And>k M. k \<in> set ks \<Longrightarrow> Q k M \<Longrightarrow> \<exists>b M'. rpc_procedure (env k) ''RpcPushSmall'' (SmallArgs sid kMd params) [] M =
      Inr ([c_enc C (V32 1)], b, M') \<and> heap M' = heap M \<and> Q k M'"
    and "\<And>M q t t'. Q me M \<Longrightarrow> heap M q = Some t \<Longrightarrow> Q me (put_task q t' M)"
    and "heap N q = Some u" and "q \<noteq> p" and "heap N p = Some t" and "method_id t = kMd" and "is_md (pl t)"
    and "length (ret_of (pl t)) = length ks" and "length ks < 2 ^ 32" and "Q me N"
    and "pl u = PRemotePush \<lparr>domain_ids = map (GetNode (re_bits X)) ks, orig_task = p, rp_exec = exec, exec_method = kMd,
      rp_xfer = [x], rp_params = []\<rparr>" and "xfer_string x = Inr params"
  shows "\<exists>N' t' u'. rq_Push X q N = Inr N' \<and> heap N' p = Some t' \<and> heap N' q = Some u' \<and> ret_of (pl t') = replicate (length ks) 1 \<and>
    IsModuleComplete (re_bits X) t' \<and> IsModuleComplete (re_bits X) u' \<and> Q me N'"
proof -
  let ?r = "\<lparr>domain_ids = map (GetNode (re_bits X)) ks, orig_task = p, rp_exec = exec, exec_method = kMd, rp_xfer = [x], rp_params = []\<rparr>"
  have b: "bitfield (re_bits X)" "se_bits S = re_bits X" using bitfield_axioms by simp_all
  have "\<exists>N' t' u'. rq_Push X q N = Inr N' \<and> heap N' (orig_task ?r) = Some t' \<and> heap N' q = Some u' \<and>
      ret_of (pl t') = map (\<lambda>_. 1) (domain_ids ?r) \<and> IsModuleComplete (re_bits X) t' \<and> IsModuleComplete (re_bits X) u' \<and> Q me N'"
  proof (rule rq_Push_md [where r = ?r and i = sid and x = x, OF cereal_axioms b _ _ _ assms(4,12) _ assms(13) _ assms(7,8) _ _ _ assms(3,11)])
    fix d M assume d: "d \<in> set (domain_ids ?r)" and M: "Q me M"
    from d obtain k where k: "k \<in> set ks" "dom_id d = k" by (auto simp: GetNode_def Let_def)
    from rpc_cluster.SyncCall_answer [OF assms(1) k(1) assms(2) [OF k(1)] M]
    show "\<exists>M'. rpc_call X (dom_id d) ''RpcPushSmall'' (SmallArgs sid kMd params) M = Inr (c_enc C (V32 1), M') \<and>
        heap M' (orig_task ?r) = heap M (orig_task ?r) \<and> heap M' q = heap M q \<and> Q me M'"
      unfolding k(2) by auto
  qed (use assms(5,6,9,10) ops in simp_all)
  then show ?thesis by (simp add: map_replicate_const)
qed

lemma Io_LoadEnd:
  assumes "is_PIo (pl t)" and "ia_ss ia = c_enc C (V32 x)"
  shows "sm_LoadEnd C S replica kIo ia t = Inr (pay_upd un_Io PIo io_ret_update (\<lambda>_. x) t)"
proof -
  have "c_dec C T32 (ia_ss ia) = Inr (V32 x, [])" using dec_enc [of "V32 x" "[]"] assms(2) by simp
  then show ?thesis
    using assms(1) TaskFlags_kinds(3)
    by (simp add: sm_exec_defs lib_LoadEnd_def Deserialize_task_def sm_class_defs Deserialize_flds_def Io_SerializeEnd_def fld32_def)
qed

text \<open>The loop over the replicas of an I/O call: every answer overwrites the output.\<close>

lemma io_push_loop_ok:
  assumes "rp_exec r = exec" and "exec_method r = kIo"
    and "\<And>d M. d \<in> set ds \<Longrightarrow> I M \<Longrightarrow> \<exists>M'. rpc_io_call X (dom_id d) ''RpcPushBulk'' kWrite data
      (BulkArgs sid kIo params (of_nat (length data)) kWrite) M = Inr (c_enc C (V32 v), data, M') \<and> heap M' = heap M \<and> I M'"
    and "\<And>M a b c. I M \<Longrightarrow> heap M a = Some c \<Longrightarrow> I (put_task a b M)" and "q \<noteq> orig_task r"
    and "heap N q = Some u" and "heap N (orig_task r) = Some t" and "is_PIo (pl t)" and "I N"
  shows "\<exists>N' u'. io_push_loop X q r kWrite data params k ds N = Inr N' \<and> heap N' q = Some u' \<and> I N' \<and>
    heap N' (orig_task r) = Some (if ds = [] then t else pay_upd un_Io PIo io_ret_update (\<lambda>_. v) t)"
  using assms(3,6-9)
proof (induction ds arbitrary: k N t u)
  case Nil
  then show ?case by simp
next
  case (Cons d ds)
  let ?o = "orig_task r" and ?t = "pay_upd un_Io PIo io_ret_update (\<lambda>_. v) t"
  let ?u = "pay_upd un_RemotePush PRemotePush rp_xfer_update (\<lambda>xs. xs[0 := (xs ! 0)\<lparr>xf_data := Some data\<rparr>]) u"
  from Cons.prems(1) [of d N] Cons.prems(5) obtain N1 where N1: "rpc_io_call X (dom_id d) ''RpcPushBulk'' kWrite data
      (BulkArgs sid kIo params (of_nat (length data)) kWrite) N = Inr (c_enc C (V32 v), data, N1)" "heap N1 = heap N" "I N1" by auto
  let ?N2 = "put_task q ?u N1" and ?N3 = "put_task ?o ?t (put_task q ?u N1)"
  have I2: "I ?N2" by (rule assms(4) [OF N1(3)]) (simp add: N1(2) Cons.prems(2))
  have I3: "I ?N3" by (rule assms(4) [OF I2]) (use assms(5) Cons.prems(3) N1(2) in auto)
  have out: "ClientHandlePushReplicaOutput X (of_nat k) (c_enc C (V32 v)) r ?N2 = Inr ?N3"
    using Io_LoadEnd [OF Cons.prems(4)] Cons.prems(3) assms(1,2,5) N1(2)
    by (simp add: ClientHandlePushReplicaOutput_def open_wrapped task_at_def ops sm_ops_def)
  have io: "is_PIo (pl ?t)" by (simp add: pay_upd_def)
  have h3: "heap ?N3 q = Some ?u" "heap ?N3 ?o = Some ?t" using assms(5) by simp_all
  from Cons.IH [OF Cons.prems(1) h3 io I3, of "Suc k"] obtain N' u' where
    N': "io_push_loop X q r kWrite data params (Suc k) ds ?N3 = Inr N'" "heap N' q = Some u'" "I N'"
      "heap N' ?o = Some (if ds = [] then ?t else pay_upd un_Io PIo io_ret_update (\<lambda>_. v) ?t)" by auto
  have "pay_upd un_Io PIo io_ret_update (\<lambda>_. v) ?t = ?t" by (simp add: pay_upd_def)
  moreover have "io_push_loop X q r kWrite data params k (d # ds) N = Inr N'"
    using N1(1,2) out N'(1) Cons.prems(2) assms(1,2) by (simp add: ops sm_ops_def upd_task_def task_at_def)
  ultimately show ?case using N'(2-4) by auto
qed

lemma push_io:
  assumes "bulk_cluster (re_tl X) (re_bits X) (re_thallium X) (re_fatal_returns X) env Q me (set ks) g ep"
    and "\<And>k M. k \<in> set ks \<Longrightarrow> Q k M \<Longrightarrow> \<exists>M'. rpc_procedure (env k) ''RpcPushBulk'' (BulkArgs sid kIo params (of_nat (length data)) kWrite) data M =
      Inr ([c_enc C (V32 v)], data, M') \<and> heap M' = heap M \<and> Q k M'"
    and "\<And>M a b c. Q me M \<Longrightarrow> heap M a = Some c \<Longrightarrow> Q me (put_task a b M)"
    and "heap N q = Some u" and "q \<noteq> p" and "heap N p = Some t" and "method_id t = kIo" and "is_PIo (pl t)" and "ks \<noteq> []" and "Q me N"
    and "pl u = PRemotePush \<lparr>domain_ids = map (GetNode (re_bits X)) ks, orig_task = p, rp_exec = exec, exec_method = kIo,
      rp_xfer = [x, y], rp_params = []\<rparr>"
    and "xfer_string x = Inr data" and "bf_Any (wv_bits V) (xf_flags x) (DT_RECEIVER_READ (wv_bits V))" and "xfer_string y = Inr params"
  shows "\<exists>N' t' u'. rq_Push X q N = Inr N' \<and> heap N' p = Some t' \<and> heap N' q = Some u' \<and> is_PIo (pl t') \<and>
    io_ret (un_Io (pl t')) = v \<and> io_data (un_Io (pl t')) = io_data (un_Io (pl t)) \<and>
    IsModuleComplete (re_bits X) t' \<and> IsModuleComplete (re_bits X) u' \<and> Q me N'"
proof -
  let ?r = "\<lparr>domain_ids = map (GetNode (re_bits X)) ks, orig_task = p, rp_exec = exec, exec_method = kIo, rp_xfer = [x, y], rp_params = []\<rparr>"
  let ?u = "pay_upd un_RemotePush PRemotePush rp_params_update (\<lambda>_. params) u" and ?B = "re_bits X"
  let ?t = "pay_upd un_Io PIo io_ret_update (\<lambda>_. v) t"
  have Q1: "Q me (put_task q ?u N)" by (rule assms(3) [OF assms(10,4)])
  have "\<exists>N' u'. io_push_loop X q ?r kWrite data params 0 (domain_ids ?r) (put_task q ?u N) = Inr N' \<and> heap N' q = Some u' \<and> Q me N' \<and>
      heap N' (orig_task ?r) = Some (if domain_ids ?r = [] then t else ?t)"
  proof (rule io_push_loop_ok [where I = "Q me", OF _ _ _ assms(3)])
    fix d M assume d: "d \<in> set (domain_ids ?r)" and M: "Q me M"
    from d obtain k where k: "k \<in> set ks" "dom_id d = k" by (auto simp: GetNode_def Let_def)
    from bulk_cluster.SyncIoCall_answer [OF assms(1) k(1) assms(2) [OF k(1)] M]
    show "\<exists>M'. rpc_io_call X (dom_id d) ''RpcPushBulk'' kWrite data (BulkArgs sid kIo params (of_nat (length data)) kWrite) M =
        Inr (c_enc C (V32 v), data, M') \<and> heap M' = heap M \<and> Q me M'" unfolding k(2) by simp
  qed (use assms(5,6,8) Q1 in simp_all)
  then obtain N2 u2 where N2: "io_push_loop X q ?r kWrite data params 0 (domain_ids ?r) (put_task q ?u N) = Inr N2"
    "heap N2 q = Some u2" "Q me N2" "heap N2 p = Some ?t" using assms(9) by auto
  have t: "method_id ?t = kIo" "is_PIo (pl ?t)" using assms(7) by (simp_all add: pay_upd_def)
  let ?N3 = "put_task p (SetModuleComplete ?B ?t) N2" and ?N' = "put_task q (SetModuleComplete ?B u2) (put_task p (SetModuleComplete ?B ?t) N2)"
  have "rq_Push X q N = Inr ?N'"
    using N2 assms(4,5,11-14) t Io_not_replicated(2) [OF t(2)]
    by (simp add: rq_Push_def task_at_def ClientIoPush_def upd_task_def ClientHandlePushReplicaEnd_def ops sm_ops_def)
  moreover have "Q me ?N'" using assms(5) N2(2) by (intro assms(3) [of ?N3 q u2] assms(3) [OF N2(3,4)]) simp
  moreover have "IsModuleComplete ?B (SetModuleComplete ?B w)" for w :: TaskObj using complete_protocol(3) by simp
  ultimately show ?thesis using assms(5,8) t by (simp add: pay_upd_def)
qed

end

text \<open>
  A host that can disperse the task: it has memory for two more objects, and the queue of the
  remote queue, which is not that of the state, takes another entry in the lane of the task.
\<close>

definition can_disperse :: "TaskStateId \<Rightarrow> TaskLibClient \<Rightarrow> TaskObj \<Rightarrow> host \<Rightarrow> Node \<Rightarrow> bool" where
  "can_disperse sid cl t h N \<longleftrightarrow> re_alloc (h_remote h) = h_alloc h \<and>
     (\<forall>h' q. dom h' = insert q (dom (heap N)) \<longrightarrow> al_alloc (h_alloc h) h' \<noteq> None) \<and>
     unat (unique (tc_queue_id cl)) \<noteq> unat (unique sid) \<and>
     \<not> IsEmplacePlugged (re_bits (h_remote h)) (queues N ! unat (unique (tc_queue_id cl))) \<and>
     (\<exists>l. lane_at N (lane_of (tc_queue_id cl) N t) = Inr l \<and> (\<forall>d. snd (mpsc_emplace (re_queue (h_remote h)) l d)))"

text \<open>The push task \<open>q\<close> of a dispersed task has been added at the end of its lane.\<close>

definition submitted :: "TaskLibClient \<Rightarrow> TaskObj \<Rightarrow> Pointer \<Rightarrow> Node \<Rightarrow> Node \<Rightarrow> bool" where
  "submitted cl t q N N1 \<longleftrightarrow> heap N q = None \<and>
     (\<exists>l l1. lane_at N (lane_of (tc_queue_id cl) N t) = Inr l \<and> lane_at N1 (lane_of (tc_queue_id cl) N t) = Inr l1 \<and>
        items l1 = items l @ [LaneData_new q False])"

lemma put_task_can_take: "can_take sid t h N \<Longrightarrow> heap N p = Some u \<Longrightarrow> can_take sid t h (put_task p u' N)"
  using put_task_serving by (auto simp: can_take_def callable_def lane_of_def)

lemma Disperse_submits:
  assumes "is_server C sid h" and "can_take sid t h N" and "can_disperse sid cl t h N" and "heap N p = Some t"
    and "sm_SaveStart C (h_shm h) (method_id t) (BinaryOutputArchive_new (GetNode (re_bits (h_remote h)) (hdr_node_id (header N)))) t = Inr xfer"
    and "sm_ReplicateStart C (h_shm h) (method_id t) (of_nat (length ds)) t = Inr t1"
    and "method_id t1 = method_id t" and "prio t1 = prio t" and "lane_hash t1 = lane_hash t"
  shows "\<exists>N1 q u. Disperse (h_remote h) cl p (h_exec h) ds N = Inr N1 \<and> submitted cl t q N N1 \<and> q \<noteq> p \<and>
    heap N1 p = Some t1 \<and> heap N1 q = Some u \<and> can_take sid t h N1 \<and>
    pl u = PRemotePush \<lparr>domain_ids = ds, orig_task = p, rp_exec = h_exec h, exec_method = method_id t, rp_xfer = xfer, rp_params = []\<rparr>"
proof -
  note srv = assms(1) [unfolded is_server_def]
  have rq: "re_queue (h_remote h) = wv_queue (h_worker_env h)" by (rule sm_server.queue [OF srv])
  from assms(3) obtain l where c: "re_alloc (h_remote h) = h_alloc h" "unat (unique (tc_queue_id cl)) \<noteq> unat (unique sid)"
    "\<And>h' q. dom h' = insert q (dom (heap N)) \<Longrightarrow> al_alloc (h_alloc h) h' \<noteq> None"
    "\<not> IsEmplacePlugged (wv_bits (h_worker_env h)) (queues N ! unat (unique (tc_queue_id cl)))"
    "lane_at N (lane_of (tc_queue_id cl) N t) = Inr l" "\<forall>d. snd (mpsc_emplace (wv_queue (h_worker_env h)) l d)"
    unfolding can_disperse_def rq by blast
  have al: "al_alloc (h_alloc h) ((heap N)(p \<mapsto> t1)) \<noteq> None" by (rule c(3) [of _ p]) simp
  have wf: "table_wf (queues N)" using assms(2) by (simp add: can_take_def serving_def)
  from sm_server.Disperse_ok [OF srv assms(4-9) c(1) al wf c(5,4,6)] obtain N1 q u l1 where
    D: "Disperse (h_remote h) cl p (h_exec h) ds N = Inr N1" "heap N q = None" "q \<noteq> p" "heap N1 = (heap N)(p \<mapsto> t1, q \<mapsto> u)"
      "workers N1 = workers N" "lane_frame (lane_of (tc_queue_id cl) N t) l1 N N1" "items l1 = items l @ [LaneData_new q False]"
      "pl u = PRemotePush \<lparr>domain_ids = ds, orig_task = p, rp_exec = h_exec h, exec_method = method_id t, rp_xfer = xfer, rp_params = []\<rparr>"
    by blast
  have "dom (heap N1) = insert q (dom (heap N))" using D(4) assms(4) by auto
  then have "can_take sid t h N1"
    using can_take_other [OF assms(2) D(6) [unfolded lane_of_def] c(2) D(5)] c(3) by simp
  moreover have "submitted cl t q N N1" using D(2,7) c(5) lane_frame_lane [OF c(5) D(6)] by (auto simp: submitted_def)
  moreover have "heap N1 q = Some u" "heap N1 p = Some t1" using D(3,4) by simp_all
  ultimately show ?thesis using D(1,3,8) by blast
qed

section \<open>A cluster of two nodes\<close>

text \<open>
  A network that finds its endpoints in a table and runs the procedures of the nodes: those
  elsewhere on the state \<open>st\<close> gives for them, that of this node on the local state.
\<close>

definition first_answer :: "bytes list \<Rightarrow> bytes res" where
  "first_answer ans = (case ans of [] \<Rightarrow> Inl (Thrown ''no answer'') | x # _ \<Rightarrow> Inr x)"

definition cluster_net :: "(string \<Rightarrow> endpoint res) \<Rightarrow> (endpoint \<Rightarrow> remote_env) \<Rightarrow> (endpoint \<Rightarrow> Node option) \<Rightarrow> tl_lib" where
  "cluster_net look env st = (ref_net (\<lambda>_ _. []))\<lparr>tl_lookup := (\<lambda>_. look),
     tl_call := (\<lambda>_ k f a N. res_bind (rpc_procedure (env k) f a [] (case st k of None \<Rightarrow> N | Some M \<Rightarrow> M)) (\<lambda>(ans, _, N').
       res_bind (first_answer ans) (\<lambda>x. Inr (x, if st k = None then N' else N)))),
     tl_bulk_call := (\<lambda>_ k f _ b a N. res_bind (rpc_procedure (env k) f a b (case st k of None \<Rightarrow> N | Some M \<Rightarrow> M)) (\<lambda>(ans, b', N').
       res_bind (first_answer ans) (\<lambda>x. Inr (x, b', if st k = None then N' else N))))\<rparr>"

definition host_worker_env :: "u32 \<Rightarrow> worker_env" where
  "host_worker_env k = sm_env\<lparr>wv_num_hosts := 2, wv_node_id := k\<rparr>"

definition host_mem :: "task_class \<Rightarrow> TaskObj" where
  "host_mem c = (if tc_is c (PMd \<lparr>md_ret = [0]\<rparr>) then sample_md else sample_io)"

definition host_env :: "u32 \<Rightarrow> remote_env" where
  "host_env k = sample_remote\<lparr>
     re_exec := (\<lambda>_. sm_ops ref_cereal sample_env sample_alloc host_mem False (UniqueId_new 1 0)),
     re_tl := ref_net (\<lambda>_ _. []), re_wait := (\<lambda>p. PollGrouped (host_worker_env k) 0 sample_entry)\<rparr>"

text \<open>The node of host \<open>k\<close>: the queue of the message state, the queue of the remote queue, one worker.\<close>

definition host_node :: "u32 \<Rightarrow> Node" where
  "host_node k = \<lparr>heap = [9 \<mapsto> sample_md],
     queues = [MultiQueue_new (list_env 8) zero_group (UniqueId_new 1 0) [PriorityInfo_new 1 1 8 0],
               MultiQueue_new (list_env 8) zero_group (UniqueId_new 1 1) [PriorityInfo_new 1 1 8 0]],
     registry = empty_registry\<lparr>task_states := [key_of (UniqueId_new 1 0) \<mapsto> 4]\<rparr>,
     workers = [sample_worker], header = \<lparr>hdr_node_id = k, hdr_unique = 2, hdr_num_nodes = 2\<rparr>\<rparr>"

definition two_nodes :: tl_lib where
  "two_nodes = cluster_net
     (\<lambda>s. if s = ''tcp://10.0.0.1:8080'' then Inr 1 else if s = ''tcp://10.0.0.2:8080'' then Inr 2 else Inl (Thrown ''unknown server''))
     (\<lambda>k. host_env (of_nat k)) (\<lambda>k. if k = 1 then None else Some (host_node (of_nat k)))"

definition sample_host :: "u32 \<Rightarrow> host" where
  "sample_host k = \<lparr>h_worker_env = host_worker_env k, h_alloc = sample_alloc, h_remote = (host_env k)\<lparr>re_tl := two_nodes\<rparr>,
     h_shm = sample_env, h_mem = host_mem, h_fatal_returns = False, h_worker = 0, h_entry = sample_entry, h_exec = 4\<rparr>"

text \<open>The procedures of a node use the network for the transfer of bulk data only.\<close>

lemma rpc_procedure_net:
  assumes "tl_pull TL = tl_pull (re_tl X)" and "tl_push TL = tl_push (re_tl X)"
  shows "rpc_procedure (X\<lparr>re_tl := TL\<rparr>) name args b N = rpc_procedure X name args b N"
proof -
  have field: "re_queue (X\<lparr>re_tl := TL\<rparr>) = re_queue X" "re_exec (X\<lparr>re_tl := TL\<rparr>) = re_exec X" "re_tl (X\<lparr>re_tl := TL\<rparr>) = TL"
    "re_fatal_returns (X\<lparr>re_tl := TL\<rparr>) = re_fatal_returns X" "re_xfer_mem (X\<lparr>re_tl := TL\<rparr>) = re_xfer_mem X"
    "re_buf (X\<lparr>re_tl := TL\<rparr>) = re_buf X" "re_wait (X\<lparr>re_tl := TL\<rparr>) = re_wait X" "re_shared (X\<lparr>re_tl := TL\<rparr>) = re_shared X"
    by simp_all
  have io: "IoCallServer TL fr = IoCallServer (re_tl X) fr" for fr by (intro ext) (simp only: IoCallServer_def assms)
  have ex: "RpcExec (X\<lparr>re_tl := TL\<rparr>) = RpcExec X" by (intro ext) (simp only: RpcExec_def field)
  have co: "RpcComplete (X\<lparr>re_tl := TL\<rparr>) = RpcComplete X" by (intro ext) (simp only: RpcComplete_def field)
  show ?thesis
    by (cases args) (simp_all only: rpc_procedure_def RpcPushSmall_def RpcPushBulk_def ex co io field rpc_args.case)
qed

lemma host_completing: "completing_env (host_worker_env k) sm_completes sm_result sm_group"
  using sm_completing.completing_env_axioms
  by (simp add: completing_env_def completing_env_axioms_def host_worker_env_def)

lemma two_nodes_transfer: "bulk_transfer two_nodes"
  by (simp add: bulk_transfer_def two_nodes_def cluster_net_def ref_net_def)

interpretation sample_server: sm_server "host_worker_env k" sample_alloc 0 sample_entry "UniqueId_new 1 0" 4 ref_cereal
    "(host_env k)\<lparr>re_tl := two_nodes\<rparr>" sample_env host_mem False for k
proof (intro sm_server.intro local_worker.intro local_worker_axioms.intro sm_server_axioms.intro)
  show "completing_env (host_worker_env k) sm_completes sm_result sm_group" by (rule host_completing)
qed (simp_all add: ref_codec.cereal_axioms sample_alloc_def bump.allocator_axioms two_nodes_transfer host_env_def host_worker_env_def
    sm_env_simps host_mem_def sm_class_defs sample_md_def sample_io_def sample_obj_def base_class_def list_env_def sample_remote_def)

lemma sample_is_server: "is_server ref_cereal (UniqueId_new 1 0) (sample_host k)"
  by (simp add: is_server_def sample_host_def sample_server.sm_server_axioms)

lemma sample_room:
  assumes "dom h = insert q {9}" shows "al_alloc sample_alloc h \<noteq> None"
proof -
  have "(0 :: nat) < 16 \<and> 0 \<notin> dom h \<or> (1 :: nat) < 16 \<and> 1 \<notin> dom h" using assms by (cases "q = 0") simp_all
  then obtain p where p: "p < (16 :: nat)" "p \<notin> dom h" by blast
  then have "filter (\<lambda>p. h p = None) [0..<16] \<noteq> []" by (auto simp: filter_empty_conv)
  then show ?thesis by (auto simp: sample_alloc_def bump_alloc_def split: list.splits)
qed

lemma sample_can_take:
  assumes "task_state t = UniqueId_new 1 0" and "prio t = 0" and "lane_hash t = 0" and "task_flags t = 0"
  shows "can_take (UniqueId_new 1 0) t (sample_host k) (host_node k)"
proof -
  have m: "al_alloc sample_alloc h \<noteq> None" if "dom h = {9}" for h using sample_room [of h 9] that by simp
  have l: "lane_at (host_node k) (0, 0, 0) = Inr \<lparr>items = [], lane_flags = 0\<rparr>"
    by (simp add: lane_at_def host_node_def MultiQueue_new_def make_group_def LaneGroup_new_def PriorityInfo_new_def Let_def list_env_def)
  have w: "table_wf (queues (host_node k))"
    by (auto simp: table_wf_def slot_wf_def host_node_def less_Suc_eq MultiQueue_new_wf UniqueId_new_def)
  show ?thesis
    using l w m assms
    by (simp add: can_take_def serving_def sample_host_def sample_entry_def callable_def lane_of_def)
      (simp add: host_node_def host_worker_env_def sm_env_simps UniqueId_new_def IsEmplacePlugged_def MultiQueue_new_def
        sample_worker_def Worker_new_def GetTaskState_def task_test_defs word_bitfield_def)
qed

lemma two_nodes_call:
  "tl_call two_nodes g k f a N =
     res_bind (rpc_procedure ((host_env (of_nat k))\<lparr>re_tl := two_nodes\<rparr>) f a [] (if k = 1 then N else host_node (of_nat k))) (\<lambda>(ans, _, N').
       res_bind (first_answer ans) (\<lambda>x. Inr (x, if k = 1 then N' else N)))"
  "tl_bulk_call two_nodes g k f m b a N =
     res_bind (rpc_procedure ((host_env (of_nat k))\<lparr>re_tl := two_nodes\<rparr>) f a b (if k = 1 then N else host_node (of_nat k))) (\<lambda>(ans, b', N').
       res_bind (first_answer ans) (\<lambda>x. Inr (x, b', if k = 1 then N' else N)))"
proof -
  have "tl_pull two_nodes = tl_pull (re_tl (host_env (of_nat k)))" "tl_push two_nodes = tl_push (re_tl (host_env (of_nat k)))"
    by (simp_all add: two_nodes_def cluster_net_def host_env_def ref_net_def)
  note net = rpc_procedure_net [OF this]
  show "tl_call two_nodes g k f a N =
     res_bind (rpc_procedure ((host_env (of_nat k))\<lparr>re_tl := two_nodes\<rparr>) f a [] (if k = 1 then N else host_node (of_nat k))) (\<lambda>(ans, _, N').
       res_bind (first_answer ans) (\<lambda>x. Inr (x, if k = 1 then N' else N)))"
    "tl_bulk_call two_nodes g k f m b a N =
     res_bind (rpc_procedure ((host_env (of_nat k))\<lparr>re_tl := two_nodes\<rparr>) f a b (if k = 1 then N else host_node (of_nat k))) (\<lambda>(ans, b', N').
       res_bind (first_answer ans) (\<lambda>x. Inr (x, b', if k = 1 then N' else N)))"
    unfolding net by (cases "k = 1"; simp add: two_nodes_def cluster_net_def)+
qed

lemma sample_server_names:
  "GetServerName word_bitfield False sample_thallium 1 = Inr ''tcp://10.0.0.1:8080''"
  "GetServerName word_bitfield False sample_thallium 2 = Inr ''tcp://10.0.0.2:8080''"
proof -
  have "print_int 8080 = ''8080''" by (simp add: print_int_def to_string.simps digit_char_def char_of_def bit_0)
  then show "GetServerName word_bitfield False sample_thallium 1 = Inr ''tcp://10.0.0.1:8080''"
    "GetServerName word_bitfield False sample_thallium 2 = Inr ''tcp://10.0.0.2:8080''"
    by (simp_all add: GetServerName_def GetIpAddressFromNodeId_def host_of_node_def sample_thallium_def sample_rpc_def
        HostInfo_new_def GetNode_def DomainId_new_def)
qed

lemma two_nodes_lookup: "tl_lookup two_nodes g ''tcp://10.0.0.1:8080'' = Inr 1" "tl_lookup two_nodes g ''tcp://10.0.0.2:8080'' = Inr 2"
  by (simp_all add: two_nodes_def cluster_net_def)

definition sample_task :: "TaskObj \<Rightarrow> bool" where
  "sample_task t \<longleftrightarrow> task_state t = UniqueId_new 1 0 \<and> prio t = 0 \<and> lane_hash t = 0 \<and> task_flags t = 0"

lemma sample_tasks: "sample_task sample_md" "sample_task sample_io"
  by (simp_all add: sample_task_def sample_md_def sample_io_def sample_obj_def)

lemma sample_take: "sample_task t \<Longrightarrow> can_take (UniqueId_new 1 0) t (sample_host k) (host_node k)"
  by (rule sample_can_take) (simp_all add: sample_task_def)

lemma sample_bulk_cluster:
  assumes "sample_task t"
  shows "bulk_cluster two_nodes word_bitfield sample_thallium False (\<lambda>k. h_remote (sample_host k))
    (\<lambda>k. can_take (UniqueId_new 1 0) t (sample_host k)) 1 {1, 2} 0 unat"
proof
  show "client_engine sample_thallium = Some 0" by (simp add: sample_thallium_def)
  show "\<exists>s. GetServerName word_bitfield False sample_thallium k = Inr s \<and> tl_lookup two_nodes 0 s = Inr (unat k)" if "k \<in> {1, 2}" for k
    using that by (auto simp: sample_server_names two_nodes_lookup)
  show "\<exists>M. can_take (UniqueId_new 1 0) t (sample_host k) M \<and> (\<forall>a b M'. rpc_procedure (h_remote (sample_host k)) name args [] M = Inr ([a], b, M') \<longrightarrow>
      tl_call two_nodes 0 (unat k) name args N = Inr (a, N))" if "k \<in> {1, 2}" "k \<noteq> 1" for k name args N
    using that sample_take [OF assms, of k] by (intro exI [of _ "host_node k"]) (auto simp: two_nodes_call first_answer_def sample_host_def)
  show "\<exists>M. can_take (UniqueId_new 1 0) t (sample_host k) M \<and> (\<forall>a b' M'. rpc_procedure (h_remote (sample_host k)) name args b M = Inr ([a], b', M') \<longrightarrow>
      tl_bulk_call two_nodes 0 (unat k) name mode b args N = Inr (a, b', N))" if "k \<in> {1, 2}" "k \<noteq> 1" for k name args b mode N
    using that sample_take [OF assms, of k] by (intro exI [of _ "host_node k"]) (auto simp: two_nodes_call first_answer_def sample_host_def)
qed (simp_all add: two_nodes_call first_answer_def sample_host_def)

interpretation sample_cluster: bulk_cluster two_nodes word_bitfield sample_thallium False "\<lambda>k. h_remote (sample_host k)"
    "\<lambda>k. can_take (UniqueId_new 1 0) sample_md (sample_host k)" 1 "{1, 2}" 0 unat
  by (rule sample_bulk_cluster [OF sample_tasks(1)])

definition remote_client :: TaskLibClient where
  "remote_client = \<lparr>tc_id = UniqueId_new 1 1, tc_queue_id = UniqueId_new 1 1\<rparr>"

lemma sample_host_simps:
  "re_tl (h_remote (sample_host k)) = two_nodes" "re_bits (h_remote (sample_host k)) = word_bitfield" "h_exec (sample_host k) = 4"
  "re_thallium (h_remote (sample_host k)) = sample_thallium" "re_fatal_returns (h_remote (sample_host k)) = False"
  by (simp_all add: sample_host_def host_env_def sample_remote_def)

lemma sample_can_disperse:
  assumes "sample_task t" and "dom h = {9}"
  shows "can_disperse (UniqueId_new 1 0) remote_client t (sample_host k) ((host_node k)\<lparr>heap := h\<rparr>)"
  using assms sample_room
  by (simp add: can_disperse_def sample_task_def sample_host_def host_env_def sample_remote_def remote_client_def lane_at_def lane_of_def
      host_node_def MultiQueue_new_def make_group_def LaneGroup_new_def PriorityInfo_new_def Let_def list_env_def IsEmplacePlugged_def
      UniqueId_new_def word_bitfield_def)

lemma sample_take_heap:
  assumes "sample_task t" and "dom h = {9}"
  shows "can_take (UniqueId_new 1 0) t (sample_host k) ((host_node k)\<lparr>heap := h\<rparr>)"
proof -
  have "dom (heap (host_node k)) = {9}" by (simp add: host_node_def)
  with sample_take [OF assms(1), of k] assms(2) show ?thesis by (auto simp: can_take_def serving_def callable_def lane_of_def)
qed

text \<open>A client beside the worker: the queue of the state has a lane of low latency, which the worker polls.\<close>

definition client_node :: Node where
  "client_node = (host_node 1)\<lparr>queues :=
     [MultiQueue_new (list_env 8) zero_group (UniqueId_new 1 0)
        [PriorityInfo_new 1 1 8 0, PriorityInfo_new 1 1 8 0, PriorityInfo_new 1 1 8 0]]\<rparr>"

definition client_entry :: WorkEntry where
  "client_entry = sample_entry\<lparr>we_lane := (0, 2, 0)\<rparr>"

interpretation client_worker: local_worker "host_worker_env 1" sample_alloc 0 client_entry "UniqueId_new 1 0" 4
proof (intro local_worker.intro local_worker_axioms.intro)
  show "completing_env (host_worker_env 1) sm_completes sm_result sm_group" by (rule host_completing)
qed (simp_all add: sample_alloc_def bump.allocator_axioms host_worker_env_def sm_env_simps list_env_def)

lemma client_serving: "serving (host_worker_env 1) sample_alloc 0 client_entry (UniqueId_new 1 0) 4 client_node"
proof -
  have m: "al_alloc sample_alloc h \<noteq> None" if "dom h = {9}" for h using sample_room [of h 9] that by simp
  have l: "lane_at client_node (0, 2, 0) = Inr \<lparr>items = [], lane_flags = 0\<rparr>"
    by (simp add: lane_at_def client_node_def MultiQueue_new_def make_group_def LaneGroup_new_def PriorityInfo_new_def Let_def list_env_def)
  have w: "table_wf (queues client_node)"
    by (auto simp: table_wf_def slot_wf_def client_node_def MultiQueue_new_wf UniqueId_new_def)
  show ?thesis
    using l w m
    by (simp add: serving_def client_entry_def sample_entry_def)
      (simp add: client_node_def host_node_def host_worker_env_def sm_env_simps UniqueId_new_def IsEmplacePlugged_def MultiQueue_new_def
        sample_worker_def Worker_new_def GetTaskState_def task_test_defs word_bitfield_def)
qed

section \<open>Properties\<close>

text \<open>
  C20. A blocking metadata call of a client, with the worker of the node polling the lane of low
  latency the call submits to: the call returns 1, nothing of it is left in memory or in the
  lane, and the node can take the next call.
\<close>

theorem md_root_call:
  assumes "local_worker V A" and "serving V A w e sid exec N" and "se_bits S = wv_bits V" and "pod_array (se_pods S)"
    and "\<not> DomainId_IsRemote (wv_bits V) d (wv_num_hosts V) (wv_node_id V)" and "tc_id cl = sid" and "tc_queue_id cl = sid"
    and "we_lane e = (unat (unique sid), unat kLowLatency, unat (3 mod num_lanes (groups (queues N ! unat (unique sid)) ! unat kLowLatency)))"
  shows "\<exists>N'. MdRoot (wv_queue V) A S fr (\<lambda>p. PollGrouped V w e) cl d N = Inr (1, N') \<and> heap N' = heap N \<and> serving V A w e sid exec N'"
proof -
  have "we_lane e = lane_of sid N (undefined\<lparr>prio := kLowLatency, lane_hash := 3\<rparr>)" using assms(8) by (simp add: lane_of_def)
  from local_worker.MdRoot_served [OF assms(1-7) this] obtain N' where
    N': "MdRoot (wv_queue V) A S fr (\<lambda>p. PollGrouped V w e) cl d N = Inr (1, N')" "served w e (snd (MakeTaskNodeId N)) N'" by blast
  from MakeTaskNodeId_serving [OF prod.collapse [symmetric] assms(2)] served_serving [OF _ N'(2)] N'(2)
  have "serving V A w e sid exec N'" "heap N' = heap N" by (auto simp: served_def)
  with N'(1) show ?thesis by blast
qed

theorem md_root_call_witness:
  "\<exists>N'. MdRoot (wv_queue (host_worker_env 1)) sample_alloc sample_env False (\<lambda>p. PollGrouped (host_worker_env 1) 0 client_entry)
     (remote_client\<lparr>tc_id := UniqueId_new 1 0, tc_queue_id := UniqueId_new 1 0\<rparr>) (GetLocal word_bitfield) client_node = Inr (1, N') \<and>
     heap N' = heap client_node"
proof -
  have r: "\<not> DomainId_IsRemote (wv_bits (host_worker_env 1)) (GetLocal word_bitfield) (wv_num_hosts (host_worker_env 1)) (wv_node_id (host_worker_env 1))"
    by (simp add: host_worker_env_def sm_env_simps word_bf.ctor_remote_table)
  have l: "we_lane client_entry = (unat (unique (UniqueId_new 1 0)), unat kLowLatency,
      unat (3 mod num_lanes (groups (queues client_node ! unat (unique (UniqueId_new 1 0))) ! unat kLowLatency)))"
    by (simp add: client_entry_def client_node_def MultiQueue_new_def make_group_def LaneGroup_new_def PriorityInfo_new_def Let_def
        list_env_def UniqueId_new_def kLowLatency_def)
  have "\<exists>N'. MdRoot (wv_queue (host_worker_env 1)) sample_alloc sample_env False (\<lambda>p. PollGrouped (host_worker_env 1) 0 client_entry)
      (remote_client\<lparr>tc_id := UniqueId_new 1 0, tc_queue_id := UniqueId_new 1 0\<rparr>) (GetLocal word_bitfield) client_node = Inr (1, N') \<and>
      heap N' = heap client_node \<and> serving (host_worker_env 1) sample_alloc 0 client_entry (UniqueId_new 1 0) 4 N'"
    by (rule md_root_call [OF client_worker.local_worker_axioms client_serving _ _ r _ _ l])
      (simp_all add: host_worker_env_def sm_env_simps sample_env_def list_pod.pod_array_axioms)
  then show ?thesis by blast
qed

text \<open>
  C19. A node serves any number of calls: every request of a sequence of metadata and I/O calls
  is run by the worker and answered exactly once, a metadata call with 1, an I/O call with
  whether its first 256 bytes are 10 and with its data unchanged; afterwards no task is left,
  the lane is idle, no other lane and no group of the worker has changed, and the node can take
  the next call.
\<close>

theorem requests_served:
  assumes "sm_server V A w e sid exec C X S mem fr" and "serving V A w e sid exec N"
    and "\<forall>t \<in> set ts. callable (wv_bits V) e sid N t \<and> sm_task t"
  shows "\<exists>N'. serve_all X (map (request_of C sid) ts) N = Inr (map (reply_to C) ts, N') \<and> served w e N N' \<and>
    serving V A w e sid exec N'"
  using sm_server.serve_all_requests [OF assms(1,2), of ts] served_serving [OF assms(2)] assms(3) by blast

theorem requests_served_witness:
  "\<exists>N'. serve_all ((host_env 1)\<lparr>re_tl := two_nodes\<rparr>) (map (request_of ref_cereal (UniqueId_new 1 0)) [sample_md, sample_io, sample_md])
      (host_node 1) = Inr (map (reply_to ref_cereal) [sample_md, sample_io, sample_md], N') \<and> heap N' = heap (host_node 1)"
proof -
  have c: "can_take (UniqueId_new 1 0) t (sample_host 1) (host_node 1)" if "t \<in> set [sample_md, sample_io, sample_md]" for t
    using that by (intro sample_can_take) (auto simp: sample_md_def sample_io_def sample_obj_def)
  have s: "sm_task t" if "t \<in> set [sample_md, sample_io, sample_md]" for t
    using that by (auto simp: sm_task_def sample_md_def sample_io_def sample_obj_def)
  from requests_served [OF sample_server.sm_server_axioms, of 1 "host_node 1" "[sample_md, sample_io, sample_md]"] c s
  show ?thesis by (auto simp: can_take_def sample_host_def served_def)
qed





end
