(* ===== verification/PushCalls.thy ===== *)
theory PushCalls
  imports Cluster
begin

text \<open>
  Calls of a client through the process queue, end to end: the push task in a lane of the
  process queue, the subtask it submits to the lane of its own state, and the worker that polls
  both lanes in any order.
\<close>

section \<open>Nodes of which some lanes have changed\<close>

definition lanes_kept :: "lane_ref set \<Rightarrow> Node \<Rightarrow> Node \<Rightarrow> bool" where
  "lanes_kept rs N N' \<longleftrightarrow> (table_wf (queues N) \<longrightarrow> table_wf (queues N')) \<and>
     (\<forall>s. mq_flags (queues N' ! s) = mq_flags (queues N ! s)) \<and>
     (\<forall>s g. num_lanes (groups (queues N' ! s) ! g) = num_lanes (groups (queues N ! s) ! g)) \<and>
     (\<forall>r. r \<notin> rs \<longrightarrow> lane_at N' r = lane_at N r) \<and>
     header N' = header N \<and> registry N' = registry N \<and> length (workers N') = length (workers N)"

lemma lanes_kept_refl [simp]: "lanes_kept rs N N"
  by (simp add: lanes_kept_def)

lemma lanes_kept_trans: "lanes_kept rs N N1 \<Longrightarrow> lanes_kept rs N1 N2 \<Longrightarrow> lanes_kept rs N N2"
  by (simp add: lanes_kept_def)

lemma lanes_kept_mono: "lanes_kept rs N N' \<Longrightarrow> rs \<subseteq> rs' \<Longrightarrow> lanes_kept rs' N N'"
  unfolding lanes_kept_def by blast

lemma lanes_keptD: "lanes_kept rs N N' \<Longrightarrow> r \<notin> rs \<Longrightarrow> lane_at N' r = lane_at N r"
  unfolding lanes_kept_def by blast

lemma lanes_kept_put [simp]:
  "lanes_kept rs N (put_task p t N') = lanes_kept rs N N'" "lanes_kept rs N (put_worker w wk N') = lanes_kept rs N N'"
  "lanes_kept rs (put_task p t N) N' = lanes_kept rs N N'" "lanes_kept rs (put_worker w wk N) N' = lanes_kept rs N N'"
  by (simp_all add: lanes_kept_def put_task_def put_worker_def lane_at_def)

lemma lane_at_set_other: "lane_at N r = Inr l \<Longrightarrow> r' \<noteq> r \<Longrightarrow> lane_at (set_lane r l' N) r' = lane_at N r'"
  by (cases r; cases r') (auto simp: lane_at_def set_lane_def put_lane_def vec_at_def nth_list_update res_bind_Inr_iff split: if_splits)

lemma lane_frame_kept: "lane_at N r = Inr l \<Longrightarrow> lane_frame r l' N N' \<Longrightarrow> lanes_kept {r} N N'"
proof -
  assume l: "lane_at N r = Inr l" and f: "lane_frame r l' N N'"
  obtain s g i where r: "r = (s, g, i)" by (cases r)
  have "lane_at N' r' = lane_at N r'" if "r' \<noteq> r" for r'
    using lane_at_set_other [OF l that, of l'] f by (simp add: lane_frame_def lane_at_def)
  with lane_frame_shape [OF f [unfolded r]] f show ?thesis by (simp add: lanes_kept_def lane_frame_def)
qed

lemma lane_of_kept: "lanes_kept rs N N' \<Longrightarrow> lane_of sid N' t = lane_of sid N t"
  by (simp add: lanes_kept_def lane_of_def)

section \<open>A push and its subtask\<close>

text \<open>A push task of state \<open>pid\<close> for the task at \<open>s\<close>, before its first run or after it.\<close>

definition push_obj :: "bitfield_lib \<Rightarrow> TaskStateId \<Rightarrow> Pointer \<Rightarrow> bool \<Rightarrow> TaskObj \<Rightarrow> bool" where
  "push_obj B pid s started t \<longleftrightarrow> task_state t = pid \<and> method_id t = pq_kPush \<and> delcnt t = 0 \<and> domain_id t = GetLocal B \<and>
     is_PTypedPush (pl t) \<and> sub_cli (un_TypedPush (pl t)) = lptr s \<and>
     (if started then phase (un_TypedPush (pl t)) = PhaseWaitSchedule \<and> sub_run (un_TypedPush (pl t)) = lptr s
      else phase (un_TypedPush (pl t)) = PhaseSchedule) \<and>
     IsStarted B t = started \<and> \<not> IsModuleComplete B t \<and> \<not> IsRunDisabled B t \<and> \<not> IsCoroutine B t \<and> \<not> IsPreemptive B t \<and>
     \<not> IsUnordered B t \<and> \<not> IsFireAndForget B t"

definition push_done :: "bitfield_lib \<Rightarrow> Pointer \<Rightarrow> TaskObj \<Rightarrow> bool" where
  "push_done B s t \<longleftrightarrow> IsComplete B t \<and> delcnt t = 0 \<and> \<not> IsFireAndForget B t \<and> is_PTypedPush (pl t) \<and>
     sub_cli (un_TypedPush (pl t)) = lptr s"

text \<open>
  How far a call is on a node that was \<open>N0\<close> before it: 0, the push is submitted; 1, its subtask
  \<open>u\<close> is; 2, the subtask has ended with the members \<open>res\<close>; 3, the push has ended. While the push runs it
  holds the group of its lane.
\<close>

definition call_state ::
    "worker_env \<Rightarrow> nat \<Rightarrow> WorkEntry \<Rightarrow> WorkEntry \<Rightarrow> TaskStateId \<Rightarrow> Pointer \<Rightarrow> Pointer \<Rightarrow> TaskObj \<Rightarrow> payload \<Rightarrow> Node \<Rightarrow> nat \<Rightarrow> Node \<Rightarrow> bool" where
  "call_state V w e1 e2 pid p s u res N0 k N \<longleftrightarrow> lanes_kept {we_lane e1, we_lane e2} N0 N \<and>
     (\<exists>t v l1 l2. heap N = (heap N0)(p \<mapsto> t, s \<mapsto> v) \<and> lane_at N (we_lane e1) = Inr l1 \<and> lane_at N (we_lane e2) = Inr l2 \<and>
        (if k < 3 then map ld_p (items l1) = [p] \<and> (\<forall>d \<in> set (items l1). \<not> ld_complete d) \<and> push_obj (wv_bits V) pid s (k \<noteq> 0) t
         else items l1 = [] \<and> push_done (wv_bits V) s t) \<and>
        items l2 = (if k = 1 then [LaneData_new s False] else []) \<and>
        (if k < 2 then v = u else ended (wv_bits V) res u (Some v))) \<and>
     (if k = 1 \<or> k = 2
      then \<exists>n. node_depth n = 1 \<and> group_map (workers N ! w) = (group_map (workers N0 ! w))(lane_key (we_lane_id e1) \<mapsto> n)
      else group_map (workers N ! w) = group_map (workers N0 ! w))"

text \<open>What is needed of the node before the call: two idle lanes of two unplugged queues, the two states, no group.\<close>

definition push_lanes :: "worker_env \<Rightarrow> nat \<Rightarrow> WorkEntry \<Rightarrow> WorkEntry \<Rightarrow> TaskStateId \<Rightarrow> nat \<Rightarrow> TaskStateId \<Rightarrow> nat \<Rightarrow> Node \<Rightarrow> bool" where
  "push_lanes V w e1 e2 pid pexec sid exec N \<longleftrightarrow> table_wf (queues N) \<and> w < length (workers N) \<and>
     group_of_lane N w (we_lane_id e1) = None \<and> we_lane e1 \<noteq> we_lane e2 \<and>
     (\<exists>l1 l2. lane_at N (we_lane e1) = Inr l1 \<and> items l1 = [] \<and> lane_at N (we_lane e2) = Inr l2 \<and> items l2 = []) \<and>
     \<not> IsEmplacePlugged (wv_bits V) (queues N ! unat (unique pid)) \<and> \<not> IsEmplacePlugged (wv_bits V) (queues N ! unat (unique sid)) \<and>
     GetTaskState (registry N) pid = Some pexec \<and> GetTaskState (registry N) sid = Some exec"

lemma push_lanes_kept:
  assumes "push_lanes V w e1 e2 pid pexec sid exec N" and "lanes_kept {we_lane e1, we_lane e2} N N'"
    and "lane_at N' (we_lane e1) = Inr l1" and "items l1 = []" and "lane_at N' (we_lane e2) = Inr l2" and "items l2 = []"
    and "group_map (workers N' ! w) = group_map (workers N ! w)"
  shows "push_lanes V w e1 e2 pid pexec sid exec N'"
  using assms by (auto simp: push_lanes_def lanes_kept_def IsEmplacePlugged_def)

text \<open>Memory for two more objects.\<close>

definition push_room :: "alloc_lib \<Rightarrow> Node \<Rightarrow> bool" where
  "push_room A N \<longleftrightarrow> (\<forall>h. dom h = dom (heap N) \<or> (\<exists>q. dom h = insert q (dom (heap N))) \<longrightarrow> al_alloc A h \<noteq> None)"

text \<open>A subtask that a worker can run at once, without a group, and that goes to the second lane.\<close>

definition sub_ok ::
    "worker_env \<Rightarrow> (nat \<Rightarrow> u32 \<Rightarrow> payload \<Rightarrow> bool) \<Rightarrow> (nat \<Rightarrow> u32 \<Rightarrow> u32) \<Rightarrow> WorkEntry \<Rightarrow> TaskStateId \<Rightarrow> nat \<Rightarrow> Node \<Rightarrow> TaskObj \<Rightarrow> bool" where
  "sub_ok V H G e2 sid exec N u \<longleftrightarrow> task_state u = sid \<and> ready V H G (registry N) u \<and> ungrouped (wv_bits V) G exec u \<and>
     \<not> IsFireAndForget (wv_bits V) u \<and> \<not> IsComplete (wv_bits V) u \<and> lane_of sid N u = we_lane e2"

section \<open>The worker\<close>

text \<open>
  A worker with the state \<open>pexec\<close> of \<^verbatim>\<open>proc_queue\<close> and states whose handlers complete their tasks. An idle lane
  has room for one entry.
\<close>

locale push_worker = completing_env V H R G + allocator A
  for V :: worker_env and H :: "nat \<Rightarrow> u32 \<Rightarrow> payload \<Rightarrow> bool" and R :: "nat \<Rightarrow> u32 \<Rightarrow> payload \<Rightarrow> payload" and G :: "nat \<Rightarrow> u32 \<Rightarrow> u32"
    and A :: alloc_lib +
  fixes S :: shm_env and pexec :: nat
  assumes Run_push: "wv_Run V pexec = pq_Run (wv_queue V)" and GetGroup_push: "wv_GetGroup V pexec = pq_GetGroup S"
    and shm [simp]: "se_bits S = wv_bits V" "se_resize S = wv_resize V"
    and room: "items l = [] \<Longrightarrow> snd (mpsc_emplace (wv_queue V) l d)"
begin

lemma num_1024: "(1024 :: nat) = Suc 1023"
  by simp

lemma poll_idle:
  assumes "lane_at N (we_lane e) = Inr l" and "items l = []" shows "PollGrouped V w e N = Inr N"
proof -
  have "poll_iters V w e (Suc n) 0 N = Inr N" for n using assms by simp
  then show ?thesis unfolding PollGrouped_def num_1024 .
qed

text \<open>A poll that looks at one entry and finds nothing behind it.\<close>

lemma poll_one:
  assumes "lane_at N (we_lane e) = Inr l" and "map ld_p (items l) = [p]" and "\<forall>d \<in> set (items l). \<not> ld_complete d"
    and "PollEntry V w e 0 p N = Inr (off, N')" and "lane_at N' (we_lane e) = Inr l'" and "length (items l') \<le> off"
  shows "PollGrouped V w e N = Inr N'"
proof -
  have i: "poll_iters V w e n off N' = Inr N'" for n using assms(5,6) by (cases n) simp_all
  have "poll_iters V w e (Suc n) 0 N = Inr N'" for n using assms(1-4) i by (cases "items l") simp_all
  then show ?thesis unfolding PollGrouped_def num_1024 .
qed

lemma push_group: "method_id t = pq_kPush \<Longrightarrow> is_PTypedPush (pl t) \<Longrightarrow> \<exists>g'. wv_GetGroup V pexec (method_id t) t g = Inr (0, g')"
  by (simp add: GetGroup_push pq_GetGroup_def lib_GetGroup_def pq_switch_def TypedPush_class_def TypedPush_GetGroup_def memcpy_to_def
      pq_kPush_def base_method_defs base_class_def)

lemma zero_ordered: "0 \<noteq> TASK_UNORDERED (wv_bits V)"
proof
  assume "0 = TASK_UNORDERED (wv_bits V)"
  then have "bit (0 :: u32) 7 = bit (TASK_UNORDERED (wv_bits V)) 7" by simp
  then show False by (simp add: task_flag_defs flag_simps)
qed

text \<open>The task as the handler of the push sees it.\<close>

abbreviation (input) run_push :: "WorkEntry \<Rightarrow> TaskObj \<Rightarrow> TaskObj" where
  "run_push e t \<equiv> SetStarted (wv_bits V) (t\<lparr>ctx := (ctx t)\<lparr>ctx_lane_id := we_lane_id e, ctx_exec := Some pexec\<rparr>\<rparr>)"

lemma push_obj_run:
  assumes "push_obj (wv_bits V) pid s st t"
  shows "pl (run_push e t) = pl t" "delcnt (run_push e t) = 0" "ctx_exec (ctx (run_push e t)) = Some pexec" "method_id (run_push e t) = pq_kPush"
    "\<not> IsModuleComplete (wv_bits V) (run_push e t)" "\<not> IsCoroutine (wv_bits V) (run_push e t)"
    "\<not> IsPreemptive (wv_bits V) (run_push e t)" "\<not> IsFireAndForget (wv_bits V) (run_push e t)" "\<not> IsUnordered (wv_bits V) (run_push e t)"
    "st \<Longrightarrow> push_obj (wv_bits V) pid s True (run_push e t)"
    "push_obj (wv_bits V) pid s True ((run_push e t)\<lparr>pl := PTypedPush ((un_TypedPush (pl t))\<lparr>sub_run := lptr s, phase := PhaseWaitSchedule\<rparr>)\<rparr>)"
  using assms by (simp_all add: push_obj_def flag_simps) (simp_all add: SetStarted_def)

lemma push_entry:
  assumes "heap N p = Some t" and "w < length (workers N)" and "GetTaskState (registry N) pid = Some pexec"
    and "push_obj (wv_bits V) pid s st t" and "st \<or> group_of_lane N w (we_lane_id e) = None"
  shows "\<exists>wk. PollEntry V w e 0 p N =
      res_bind (Push (wv_queue V) p (put_task p (run_push e t) (put_worker w wk N))) (finish_task V w e 0 p False) \<and>
    group_map wk = (if st then group_map (workers N ! w)
      else (group_map (workers N ! w))(lane_key (we_lane_id e) \<mapsto> (task_node t)\<lparr>node_depth := 1\<rparr>))"
proof -
  let ?B = "wv_bits V"
  define t1 where "t1 = t\<lparr>ctx := (ctx t)\<lparr>ctx_lane_id := we_lane_id e, ctx_exec := Some pexec\<rparr>\<rparr>"
  let ?N1 = "put_task p t1 N"
  have t1: "method_id t1 = pq_kPush" "is_PTypedPush (pl t1)" "\<not> IsRunDisabled ?B t1" "\<not> IsCoroutine ?B t1" "\<not> IsPreemptive ?B t1"
    "IsStarted ?B t1 = st" "\<not> IsUnordered ?B t1" "task_node t1 = task_node t" "task_state t = pid" "domain_id t1 = GetLocal ?B"
    using assms(4) by (simp_all add: push_obj_def t1_def task_test_defs)
  have loc: "\<not> DomainId_IsRemote ?B (GetLocal ?B) (wv_num_hosts V) (wv_node_id V)"
    using ctor_remote_table(1) by (cases "wv_num_hosts V = 1") (simp_all add: DomainId_IsRemote_def)
  have w: "w < length (workers ?N1)" "workers ?N1 ! w = workers N ! w" using assms(2) by (simp_all add: put_task_def)
  have "\<exists>wk. check_group V w pexec t1 (we_lane_id e) False ?N1 = Inr (True, put_worker w wk ?N1) \<and>
      group_map wk = (if st then group_map (workers N ! w)
        else (group_map (workers N ! w))(lane_key (we_lane_id e) \<mapsto> (task_node t)\<lparr>node_depth := 1\<rparr>))"
  proof (cases st)
    case True
    then show ?thesis using w t1(6) by (auto simp: check_group_def CheckTaskGroup_def)
  next
    case False
    from push_group [OF t1(1,2), of "group_buf (workers N ! w)"] t1(7)
    have o: "ordered_task ?B (wv_GetGroup V pexec) t1 (workers N ! w)" by (auto simp: ordered_task_def zero_ordered)
    have "\<not> IsStarted ?B t1" using False t1(6) by simp
    from Check_ordered [OF o this, of "we_lane_id e" "task_node t1"] False assms(5) w t1(8) show ?thesis
      by (auto simp: check_group_def Let_def)
  qed
  then obtain wk where g: "check_group V w pexec t1 (we_lane_id e) False ?N1 = Inr (True, put_worker w wk ?N1)"
    and gm: "group_map wk = (if st then group_map (workers N ! w)
        else (group_map (workers N ! w))(lane_key (we_lane_id e) \<mapsto> (task_node t)\<lparr>node_depth := 1\<rparr>))" by blast
  have "put_task p (SetStarted ?B t1) (put_worker w wk ?N1) = put_task p (SetStarted ?B t1) (put_worker w wk N)"
    by (simp add: put_task_def put_worker_def)
  moreover have "pq_kPush \<noteq> kConstruct" "pq_kPush \<noteq> kDestruct" by (simp_all add: pq_kPush_def base_method_defs)
  ultimately have "PollEntry V w e 0 p N =
      res_bind (Push (wv_queue V) p (put_task p (SetStarted ?B t1) (put_worker w wk N))) (finish_task V w e 0 p False)"
    using assms(1,3) t1 loc g
    by (simp add: PollEntry_def task_at_def Let_def t1_def [symmetric] dispatch_task_def Run_push pq_Run_def)
  with gm show ?thesis unfolding t1_def by blast
qed

text \<open>The first run of the push submits its subtask and leaves the push in its lane.\<close>

lemma push_first:
  assumes "heap N p = Some t" and "push_obj (wv_bits V) pid s False t" and "s \<noteq> p" and "heap N s = Some u"
    and "\<not> IsFireAndForget (wv_bits V) u" and "\<not> IsComplete (wv_bits V) u"
    and "table_wf (queues N)" and "lane_at N (lane_of (task_state u) N u) = Inr l"
    and "\<not> IsEmplacePlugged (wv_bits V) (queues N ! unat (unique (task_state u)))"
  shows "\<exists>t'. res_bind (Push (wv_queue V) p (put_task p (run_push e t) N)) (finish_task V w e 0 p False) =
      Inr (1, set_lane (lane_of (task_state u) N u) (fst (mpsc_emplace (wv_queue V) l (LaneData_new s False))) (put_task p t' N)) \<and>
    push_obj (wv_bits V) pid s True t'"
proof -
  let ?B = "wv_bits V" and ?t = "run_push e t" and ?r = "un_TypedPush (pl t)"
  let ?N = "put_task p ?t N"
  let ?t' = "?t\<lparr>pl := PTypedPush (?r\<lparr>sub_run := lptr s, phase := PhaseWaitSchedule\<rparr>)\<rparr>"
  note po = push_obj_run [OF assms(2), of e]
  have pl: "pl ?t = PTypedPush ?r" "phase ?r = PhaseSchedule" "lp_shm (sub_cli ?r) = s"
    using assms(2) po(1) by (cases "pl t"; simp add: push_obj_def lptr_def)+
  have u: "heap ?N s = Some u" "UnsetFireAndForget ?B u = u"
    using assms(3-5) UnsetBits_id by (simp_all add: UnsetFireAndForget_def IsFireAndForget_def)
  let ?M = "put_task p ?t' N"
  have M: "?N\<lparr>heap := (heap ?N)(p \<mapsto> ?t', s \<mapsto> u)\<rparr> = ?M" using assms(3,4) by (auto simp: put_task_def fun_upd_twist fun_upd_idem)
  have "queue_emplace (wv_queue V) (task_state u) (prio u) (lane_hash u) s ?M =
      Inr (set_lane (lane_of (task_state u) N u) (fst (mpsc_emplace (wv_queue V) l (LaneData_new s False))) ?M)"
    using queue_emplace_lane [of ?M "task_state u" u l s] assms(7-9) by (simp add: lane_of_def)
  then have "Push (wv_queue V) p ?N = Inr (set_lane (lane_of (task_state u) N u) (fst (mpsc_emplace (wv_queue V) l (LaneData_new s False))) ?M)"
    using Push_schedule_wait [OF bitfield_axioms pl(1,3) assms(3) u(1)] pl assms(6) unfolding u(2) M
    by (simp add: Push_def task_at_def)
  moreover have "\<not> IsModuleComplete ?B ?t'" using po(11) by (simp add: push_obj_def)
  ultimately show ?thesis using po(11) by (auto simp: finish_task_def task_at_def intro!: exI [of _ ?t'])
qed

text \<open>Every later run before the subtask is complete changes nothing but the run context of the push.\<close>

lemma push_again:
  assumes "heap N p = Some t" and "push_obj (wv_bits V) pid s True t" and "s \<noteq> p" and "heap N s = Some v" and "\<not> IsComplete (wv_bits V) v"
  shows "\<exists>t'. res_bind (Push (wv_queue V) p (put_task p (run_push e t) N)) (finish_task V w e 0 p False) = Inr (1, put_task p t' N) \<and>
    push_obj (wv_bits V) pid s True t'"
proof -
  let ?t = "run_push e t"
  note po = push_obj_run [OF assms(2), of e]
  have "phase (un_TypedPush (pl t)) \<noteq> PhaseSchedule" "phase (un_TypedPush (pl t)) = PhaseWaitSchedule" "is_PTypedPush (pl t)"
    "sub_run (un_TypedPush (pl t)) = lptr s"
    using assms(2) by (simp_all add: push_obj_def PhaseSchedule_def PhaseWaitSchedule_def)
  then have "Push (wv_queue V) p (put_task p ?t N) = Inr (put_task p ?t N)"
    using assms(3-5) po(1) by (simp add: Push_def task_at_def Push_wait_eq [of _ p ?t s v] lptr_def)
  with po(5,10) show ?thesis by (auto simp: finish_task_def task_at_def)
qed

text \<open>The run after the subtask is complete ends the push and leaves its group.\<close>

lemma push_last:
  assumes "heap N p = Some t" and "push_obj (wv_bits V) pid s True t" and "s \<noteq> p" and "heap N s = Some v" and "IsComplete (wv_bits V) v"
    and "lane_at N (we_lane e) = Inr l" and "items l \<noteq> []" and "w < length (workers N)"
    and "group_of_lane N w (we_lane_id e) = Some n" and "node_depth n = 1"
  shows "\<exists>t' l' wk. res_bind (Push (wv_queue V) p (put_task p (run_push e t) N)) (finish_task V w e 0 p False) =
      Inr (0, put_task p t' (put_worker w wk (set_lane (we_lane e) l' N))) \<and> items l' = tl (items l) \<and> push_done (wv_bits V) s t' \<and>
    group_map wk = (group_map (workers N ! w))(lane_key (we_lane_id e) := None)"
proof -
  let ?B = "wv_bits V" and ?t = "run_push e t" and ?r = "we_lane e"
  note po = push_obj_run [OF assms(2), of e]
  let ?t2 = "SetModuleComplete ?B ?t"
  have ph: "phase (un_TypedPush (pl t)) \<noteq> PhaseSchedule" "phase (un_TypedPush (pl t)) = PhaseWaitSchedule" "is_PTypedPush (pl t)"
    "sub_run (un_TypedPush (pl t)) = lptr s" "sub_cli (un_TypedPush (pl t)) = lptr s"
    using assms(2) by (simp_all add: push_obj_def PhaseSchedule_def PhaseWaitSchedule_def)
  have P: "Push (wv_queue V) p (put_task p ?t N) = Inr (put_task p ?t2 N)"
    using assms(3-5) po(1) ph by (simp add: Push_def task_at_def Push_wait_eq [of _ p ?t s v] lptr_def)
  have t2: "IsModuleComplete ?B ?t2" "\<not> IsCoroutine ?B ?t2" "\<not> IsPreemptive ?B ?t2" "\<not> IsUnordered ?B ?t2" "\<not> IsFireAndForget ?B ?t2"
    using po(6-9) by (simp_all add: flag_simps)
  have t2': "ctx_exec (ctx ?t2) = Some pexec" "method_id ?t2 = pq_kPush" "pl ?t2 = pl t" "delcnt ?t2 = 0"
    using po(1-4) by (simp_all add: SetModuleComplete_def)
  define l1 where "l1 = mpsc_poke (wv_queue V) l 0 ((items l ! 0)\<lparr>ld_complete := True\<rparr>)"
  let ?N1 = "set_lane ?r l1 (put_task p ?t2 N)"
  have p1: "poke_entry V ?r 0 (\<lambda>d. d\<lparr>ld_complete := True\<rparr>) (put_task p ?t2 N) = Inr ?N1"
    using assms(6,7) by (simp add: poke_entry_def l1_def)
  have w1: "workers ?N1 = workers N" by (simp add: put_task_def)
  from push_group [OF t2'(2), of "group_buf (workers N ! w)"] t2'(3) ph(3) t2(4)
  have o: "ordered_task ?B (wv_GetGroup V pexec) ?t2 (workers N ! w)" by (auto simp: ordered_task_def zero_ordered)
  obtain wk where g: "remove_group V w pexec ?t2 (we_lane_id e) False ?N1 = Inr (put_worker w wk ?N1)"
    and gm: "group_map wk = (group_map (workers N ! w))(lane_key (we_lane_id e) := None)"
    using Remove_ordered [OF o assms(9)] assms(8,10) w1 by (simp add: remove_group_def)
  have l2: "lane_at (put_worker w wk ?N1) ?r = Inr l1" using lane_at_set_lane assms(6) by simp
  let ?l' = "mpsc_pop (wv_queue V) l1"
  have "EndTask V ?r (Some pexec) p 0 (put_worker w wk ?N1) =
      Inr (0, put_task p (SetComplete ?B ?t2) (set_lane ?r ?l' (put_worker w wk ?N1)))"
    using l2 t2(5) by (simp add: EndTask_def PopTask_def task_at_def put_task_def)
  moreover have "put_task p (SetComplete ?B ?t2) (set_lane ?r ?l' (put_worker w wk ?N1)) =
      put_task p (SetComplete ?B ?t2) (put_worker w wk (set_lane ?r ?l' N))"
    using assms(6) by (cases ?r) (simp add: put_task_def put_worker_def set_lane_def put_lane_def lane_at_iff)
  ultimately have "res_bind (Push (wv_queue V) p (put_task p ?t N)) (finish_task V w e 0 p False) =
      Inr (0, put_task p (SetComplete ?B ?t2) (put_worker w wk (set_lane ?r ?l' N)))"
    using P p1 g t2(1-3) t2'(1) by (simp add: finish_task_def task_at_def)
  moreover have "items ?l' = tl (items l)" using assms(7) by (cases "items l") (simp_all add: l1_def)
  moreover have "push_done ?B s (SetComplete ?B ?t2)"
    using t2(5) t2'(3,4) ph(3,5) by (simp add: push_done_def complete_protocol) (simp add: SetComplete_def)
  ultimately show ?thesis using gm by blast
qed

text \<open>How far a poll of either lane brings the call.\<close>

lemma set_lane_kept: "lane_at N r = Inr l \<Longrightarrow> lanes_kept {r} N (set_lane r l' N)"
  by (erule lane_frame_kept) (simp add: lane_frame_def)

lemma poll_start:
  assumes "push_lanes V w e1 e2 pid pexec sid exec N0" and "sub_ok V H G e2 sid exec N0 u" and "s \<noteq> p"
    and "call_state V w e1 e2 pid p s u res N0 0 N"
  shows "\<exists>N'. PollGrouped V w e1 N = Inr N' \<and> call_state V w e1 e2 pid p s u res N0 1 N'"
proof -
  from assms(4) obtain t l1 l2 where k: "lanes_kept {we_lane e1, we_lane e2} N0 N" and h: "heap N = (heap N0)(p \<mapsto> t, s \<mapsto> u)"
    and l: "lane_at N (we_lane e1) = Inr l1" "map ld_p (items l1) = [p]" "\<forall>d \<in> set (items l1). \<not> ld_complete d"
      "lane_at N (we_lane e2) = Inr l2" "items l2 = []"
    and po: "push_obj (wv_bits V) pid s False t" and g: "group_map (workers N ! w) = group_map (workers N0 ! w)"
    by (auto simp: call_state_def)
  from assms(1) k have n: "w < length (workers N)" "GetTaskState (registry N) pid = Some pexec" "table_wf (queues N)"
    "\<not> IsEmplacePlugged (wv_bits V) (queues N ! unat (unique sid))" "we_lane e1 \<noteq> we_lane e2"
    "group_of_lane N w (we_lane_id e1) = None"
    by (auto simp: push_lanes_def lanes_kept_def IsEmplacePlugged_def g)
  have u: "task_state u = sid" "lane_of sid N u = we_lane e2" "\<not> IsFireAndForget (wv_bits V) u" "\<not> IsComplete (wv_bits V) u"
    using assms(2) lane_of_kept [OF k] by (simp_all add: sub_ok_def)
  have hp: "heap N p = Some t" "heap N s = Some u" using h assms(3) by simp_all
  from push_entry [OF hp(1) n(1,2) po] n(6) obtain wk where
    P: "PollEntry V w e1 0 p N = res_bind (Push (wv_queue V) p (put_task p (run_push e1 t) (put_worker w wk N))) (finish_task V w e1 0 p False)"
    and gm: "group_map wk = (group_map (workers N ! w))(lane_key (we_lane_id e1) \<mapsto> (task_node t)\<lparr>node_depth := 1\<rparr>)" by auto
  define l2' where "l2' = fst (mpsc_emplace (wv_queue V) l2 (LaneData_new s False))"
  have i2: "items l2' = [LaneData_new s False]" using room [OF l(5)] l(5) by (simp add: l2'_def items_emplace)
  let ?M = "put_worker w wk N"
  have lo: "lane_of (task_state u) ?M u = we_lane e2" using u(1,2) by (simp add: lane_of_def)
  have M: "heap ?M p = Some t" "heap ?M s = Some u" "table_wf (queues ?M)" "lane_at ?M (lane_of (task_state u) ?M u) = Inr l2"
    "\<not> IsEmplacePlugged (wv_bits V) (queues ?M ! unat (unique (task_state u)))"
    unfolding lo using hp n(3,4) l(4) u(1) by simp_all
  from push_first [OF M(1) po assms(3) M(2) u(3,4) M(3-5), unfolded lo, folded l2'_def, of e1 w] P obtain t' where
    E: "PollEntry V w e1 0 p N = Inr (1, set_lane (we_lane e2) l2' (put_task p t' ?M))" and po': "push_obj (wv_bits V) pid s True t'"
    by auto
  let ?N' = "set_lane (we_lane e2) l2' (put_task p t' ?M)"
  have lM: "lane_at (put_task p t' ?M) (we_lane e2) = Inr l2" using l(4) by simp
  have l': "lane_at ?N' (we_lane e1) = Inr l1" "lane_at ?N' (we_lane e2) = Inr l2'"
    using lane_at_set_other [OF lM n(5)] lane_at_set_lane [OF lM] l(1) by simp_all
  have "length (items l1) \<le> 1" using l(2) by (metis length_map One_nat_def le_refl length_Cons list.size(3))
  note poll = poll_one [OF l(1-3) E l'(1) this]
  have "lanes_kept {we_lane e1, we_lane e2} N ?N'"
    using lanes_kept_mono [OF set_lane_kept [OF lM, of l2'], of "{we_lane e1, we_lane e2}"] by simp
  moreover have "heap ?N' = (heap N0)(p \<mapsto> t', s \<mapsto> u)" using h assms(3) by (simp add: put_task_def fun_upd_twist)
  moreover have "\<exists>m. node_depth m = 1 \<and> group_map (workers ?N' ! w) = (group_map (workers N0 ! w))(lane_key (we_lane_id e1) \<mapsto> m)"
    using gm g n(1) by (intro exI [of _ "(task_node t)\<lparr>node_depth := 1\<rparr>"]) (simp add: put_task_def)
  ultimately have "call_state V w e1 e2 pid p s u res N0 1 ?N'"
    unfolding call_state_def using lanes_kept_trans [OF k] l' l(2,3) i2 po' by (intro conjI exI [of _ t'] exI [of _ u] exI [of _ l1] exI [of _ l2']) simp_all
  with poll show ?thesis by blast
qed

lemma poll_sub:
  assumes "push_lanes V w e1 e2 pid pexec sid exec N0" and "sub_ok V H G e2 sid exec N0 u" and "s \<noteq> p"
    and "call_state V w e1 e2 pid p s u (outcome R (registry N0) u) N0 1 N"
  shows "\<exists>N'. PollGrouped V w e2 N = Inr N' \<and> call_state V w e1 e2 pid p s u (outcome R (registry N0) u) N0 2 N'"
proof -
  from assms(4) obtain t l1 l2 n where k: "lanes_kept {we_lane e1, we_lane e2} N0 N" and h: "heap N = (heap N0)(p \<mapsto> t, s \<mapsto> u)"
    and l: "lane_at N (we_lane e1) = Inr l1" "map ld_p (items l1) = [p]" "\<forall>d \<in> set (items l1). \<not> ld_complete d"
      "lane_at N (we_lane e2) = Inr l2" "items l2 = [LaneData_new s False]"
    and po: "push_obj (wv_bits V) pid s True t"
    and g: "node_depth n = 1" "group_map (workers N ! w) = (group_map (workers N0 ! w))(lane_key (we_lane_id e1) \<mapsto> n)"
    by (auto simp: call_state_def)
  have reg: "registry N = registry N0" and w: "w < length (workers N)" and ne: "we_lane e1 \<noteq> we_lane e2"
    using assms(1) k by (simp_all add: push_lanes_def lanes_kept_def)
  have u: "ready V H G (registry N) u" "\<And>ex. GetTaskState (registry N) (task_state u) = Some ex \<Longrightarrow> ungrouped (wv_bits V) G ex u"
    "\<not> IsFireAndForget (wv_bits V) u"
    using assms(1,2) by (auto simp: reg sub_ok_def push_lanes_def)
  have s: "heap N s = Some u" using h by simp
  from PollEntry_head [OF l(4) _ s w u(1)] u(2) obtain N' l' where E: "PollEntry V w e2 0 s N = Inr (0, N')" "lane_frame (we_lane e2) l' N N'"
    "items l' = []" "ended (wv_bits V) (outcome R (registry N0) u) u (heap N' s)" "group_map (workers N' ! w) = group_map (workers N ! w)"
    "\<forall>q. q \<noteq> s \<longrightarrow> heap N' q = heap N q" by (auto simp: l(5) reg)
  note kN = lane_frame_kept [OF l(4) E(2)]
  have l': "lane_at N' (we_lane e1) = Inr l1" "lane_at N' (we_lane e2) = Inr l'"
    using lanes_keptD [OF kN, of "we_lane e1"] l(1) ne lane_frame_lane [OF l(4) E(2)] by simp_all
  have poll: "PollGrouped V w e2 N = Inr N'" by (rule poll_one [OF l(4) _ _ E(1) l'(2)]) (simp_all add: l(5) E(3) LaneData_new_def)
  from E(4) u(3) obtain v where v: "heap N' s = Some v" by (auto simp: ended_def)
  then have "heap N' = (heap N0)(p \<mapsto> t, s \<mapsto> v)" using E(6) h by (auto simp: fun_eq_iff)
  moreover have "lanes_kept {we_lane e1, we_lane e2} N0 N'" using lanes_kept_trans [OF k lanes_kept_mono [OF kN]] by simp
  moreover have "ended (wv_bits V) (outcome R (registry N0) u) u (Some v)" using E(4) v by simp
  ultimately have "call_state V w e1 e2 pid p s u (outcome R (registry N0) u) N0 2 N'"
    unfolding call_state_def using l' l(2,3) E(3,5) po g by (intro conjI exI [of _ t] exI [of _ v] exI [of _ l1] exI [of _ l']) auto
  with poll show ?thesis by blast
qed

lemma poll_again:
  assumes "push_lanes V w e1 e2 pid pexec sid exec N0" and "sub_ok V H G e2 sid exec N0 u" and "s \<noteq> p"
    and "call_state V w e1 e2 pid p s u res N0 1 N"
  shows "\<exists>N'. PollGrouped V w e1 N = Inr N' \<and> call_state V w e1 e2 pid p s u res N0 1 N'"
proof -
  from assms(4) obtain t l1 l2 n where k: "lanes_kept {we_lane e1, we_lane e2} N0 N" and h: "heap N = (heap N0)(p \<mapsto> t, s \<mapsto> u)"
    and l: "lane_at N (we_lane e1) = Inr l1" "map ld_p (items l1) = [p]" "\<forall>d \<in> set (items l1). \<not> ld_complete d"
      "lane_at N (we_lane e2) = Inr l2" "items l2 = [LaneData_new s False]"
    and po: "push_obj (wv_bits V) pid s True t"
    and g: "node_depth n = 1" "group_map (workers N ! w) = (group_map (workers N0 ! w))(lane_key (we_lane_id e1) \<mapsto> n)"
    by (auto simp: call_state_def)
  have r: "GetTaskState (registry N) pid = Some pexec" and w: "w < length (workers N)"
    using assms(1) k by (simp_all add: push_lanes_def lanes_kept_def)
  have hp: "heap N p = Some t" "heap N s = Some u" "\<not> IsComplete (wv_bits V) u" using h assms(2,3) by (simp_all add: sub_ok_def)
  from push_entry [OF hp(1) w r po] obtain wk where
    P: "PollEntry V w e1 0 p N = res_bind (Push (wv_queue V) p (put_task p (run_push e1 t) (put_worker w wk N))) (finish_task V w e1 0 p False)"
    and gm: "group_map wk = group_map (workers N ! w)" by auto
  have M: "heap (put_worker w wk N) p = Some t" "heap (put_worker w wk N) s = Some u" using hp by simp_all
  from push_again [OF M(1) po assms(3) M(2) hp(3), of e1 w] P obtain t' where
    E: "PollEntry V w e1 0 p N = Inr (1, put_task p t' (put_worker w wk N))" and po': "push_obj (wv_bits V) pid s True t'" by auto
  let ?N' = "put_task p t' (put_worker w wk N)"
  have l': "lane_at ?N' (we_lane e1) = Inr l1" "lane_at ?N' (we_lane e2) = Inr l2" using l by simp_all
  have "length (items l1) \<le> 1" using l(2) by (metis length_map One_nat_def le_refl length_Cons list.size(3))
  note poll = poll_one [OF l(1-3) E l'(1) this]
  have "heap ?N' = (heap N0)(p \<mapsto> t', s \<mapsto> u)" using h assms(3) by (simp add: put_task_def fun_upd_twist)
  moreover have "group_map (workers ?N' ! w) = group_map (workers N ! w)" using gm w by (simp add: put_task_def)
  ultimately have "call_state V w e1 e2 pid p s u res N0 1 ?N'"
    unfolding call_state_def using l' l(2,3,5) po' k g by (intro conjI exI [of _ t'] exI [of _ u] exI [of _ l1] exI [of _ l2]) auto
  with poll show ?thesis by blast
qed

lemma poll_end:
  assumes "push_lanes V w e1 e2 pid pexec sid exec N0" and "sub_ok V H G e2 sid exec N0 u" and "s \<noteq> p"
    and "call_state V w e1 e2 pid p s u res N0 2 N"
  shows "\<exists>N'. PollGrouped V w e1 N = Inr N' \<and> call_state V w e1 e2 pid p s u res N0 3 N'"
proof -
  from assms(4) obtain t v l1 l2 n where k: "lanes_kept {we_lane e1, we_lane e2} N0 N" and h: "heap N = (heap N0)(p \<mapsto> t, s \<mapsto> v)"
    and l: "lane_at N (we_lane e1) = Inr l1" "map ld_p (items l1) = [p]" "\<forall>d \<in> set (items l1). \<not> ld_complete d"
      "lane_at N (we_lane e2) = Inr l2" "items l2 = []"
    and po: "push_obj (wv_bits V) pid s True t" and v: "ended (wv_bits V) res u (Some v)"
    and g: "node_depth n = 1" "group_map (workers N ! w) = (group_map (workers N0 ! w))(lane_key (we_lane_id e1) \<mapsto> n)"
    by (auto simp: call_state_def)
  have r: "GetTaskState (registry N) pid = Some pexec" and w: "w < length (workers N)" and ne: "we_lane e2 \<noteq> we_lane e1"
    and g0: "group_of_lane N0 w (we_lane_id e1) = None"
    using assms(1) k by (auto simp: push_lanes_def lanes_kept_def)
  have hp: "heap N p = Some t" "heap N s = Some v" "IsComplete (wv_bits V) v"
    using h assms(2,3) v by (auto simp: sub_ok_def ended_def)
  from push_entry [OF hp(1) w r po] obtain wk where
    P: "PollEntry V w e1 0 p N = res_bind (Push (wv_queue V) p (put_task p (run_push e1 t) (put_worker w wk N))) (finish_task V w e1 0 p False)"
    and gm: "group_map wk = group_map (workers N ! w)" by auto
  let ?M = "put_worker w wk N"
  have M: "heap ?M p = Some t" "heap ?M s = Some v" "lane_at ?M (we_lane e1) = Inr l1" "w < length (workers ?M)"
    "group_of_lane ?M w (we_lane_id e1) = Some n" "items l1 \<noteq> []"
    using hp l(1,2) w g gm by auto
  from push_last [OF M(1) po assms(3) M(2) hp(3) M(3,6,4,5) g(1)] P obtain t' l' wk' where
    E: "PollEntry V w e1 0 p N = Inr (0, put_task p t' (put_worker w wk' (set_lane (we_lane e1) l' ?M)))"
    and i: "items l' = tl (items l1)" and d: "push_done (wv_bits V) s t'"
    and gm': "group_map wk' = (group_map (workers ?M ! w))(lane_key (we_lane_id e1) := None)" by auto
  let ?N' = "put_task p t' (put_worker w wk' (set_lane (we_lane e1) l' ?M))"
  have i': "items l' = []" using i l(2) by (cases "items l1") auto
  have l': "lane_at ?N' (we_lane e1) = Inr l'" "lane_at ?N' (we_lane e2) = Inr l2"
    using lane_at_set_lane [OF M(3)] lane_at_set_other [OF M(3) ne] l(4) by simp_all
  have "length (items l') \<le> 0" by (simp add: i')
  note poll = poll_one [OF l(1-3) E l'(1) this]
  have "heap ?N' = (heap N0)(p \<mapsto> t', s \<mapsto> v)" using h assms(3) by (simp add: put_task_def fun_upd_twist)
  moreover have "group_map (workers ?N' ! w) = group_map (workers N0 ! w)" using gm gm' g w g0 by (simp add: put_task_def fun_upd_idem)
  moreover have "lanes_kept {we_lane e1, we_lane e2} N0 ?N'"
    using lanes_kept_trans [OF k] lanes_kept_mono [OF set_lane_kept [OF M(3), of l'], of "{we_lane e1, we_lane e2}"] by simp
  ultimately have "call_state V w e1 e2 pid p s u res N0 3 ?N'"
    unfolding call_state_def using l' i' l(5) d v by (intro conjI exI [of _ t'] exI [of _ v] exI [of _ l'] exI [of _ l2]) auto
  with poll show ?thesis by blast
qed

lemma call_state_idle:
  assumes "call_state V w e1 e2 pid p s u res N0 k N"
  shows "k \<noteq> 1 \<Longrightarrow> PollGrouped V w e2 N = Inr N" and "3 \<le> k \<Longrightarrow> PollGrouped V w e1 N = Inr N"
  using assms by (auto simp: call_state_def intro: poll_idle)

end

text \<open>How far a poll of the first or of the second lane brings a call.\<close>

definition call_next :: "bool \<Rightarrow> nat \<Rightarrow> nat" where
  "call_next first k = (if first then (if k = 0 then 1 else if k = 2 then 3 else k) else if k = 1 then 2 else k)"

lemma call_next_le: "k \<le> 3 \<Longrightarrow> call_next b k \<le> 3"
  by (auto simp: call_next_def)

text \<open>Whatever else is polled between, a poll of the first, the second and the first lane brings it to its end.\<close>

lemma call_ends:
  assumes "subseq (drop k [a, b, a]) es" and "k \<le> 3" and "set es \<subseteq> {a, b}" and "a \<noteq> b"
  shows "fold (\<lambda>e. call_next (e = a)) es k = 3"
  using assms
proof (induction es arbitrary: k rule: list.induct)
  case Nil
  then have "drop k [a, b, a] = []" by (simp only: list_emb_Nil2)
  then have "length [a, b, a] \<le> k" by (simp only: drop_eq_Nil)
  with Nil.prems(2) show ?case by simp
next
  case (Cons e es)
  then have k: "k = 0 \<or> k = 1 \<or> k = 2 \<or> k = 3" and e: "e = a \<or> e = b" by auto
  have "subseq (drop (call_next (e = a) k) [a, b, a]) es"
    using Cons.prems(1,4) k e subseq_Cons2_neq [where x = a and y = b and ys = es] subseq_Cons2_neq [where x = b and y = a and ys = es]
    by (elim disjE) (simp_all add: call_next_def)
  from Cons.IH [OF this call_next_le] Cons.prems show ?case by simp
qed

text \<open>A worker that polls entries in the order of a list.\<close>

fun polls :: "worker_env \<Rightarrow> nat \<Rightarrow> WorkEntry list \<Rightarrow> Node \<Rightarrow> Node res" where
  "polls V w [] N = Inr N"
| "polls V w (e # es) N = res_bind (PollGrouped V w e N) (polls V w es)"

context push_worker
begin

lemma poll_step:
  assumes "push_lanes V w e1 e2 pid pexec sid exec N0" and "sub_ok V H G e2 sid exec N0 u" and "s \<noteq> p"
    and "call_state V w e1 e2 pid p s u (outcome R (registry N0) u) N0 k N" and "k \<le> 3" and "e = e1 \<or> e = e2"
  shows "\<exists>N'. PollGrouped V w e N = Inr N' \<and> call_state V w e1 e2 pid p s u (outcome R (registry N0) u) N0 (call_next (e = e1) k) N'"
proof -
  have ne: "e1 \<noteq> e2" using assms(1) by (auto simp: push_lanes_def)
  note step = assms(1-4)
  from assms(5) consider "k = 0" | "k = 1" | "k = 2" | "k = 3" by linarith
  then show ?thesis
  proof cases
    case 1
    with poll_start [OF step [unfolded 1]] call_state_idle [OF assms(4)] assms(4,6) ne show ?thesis by (auto simp: call_next_def)
  next
    case 2
    with poll_again [OF step [unfolded 2]] poll_sub [OF step [unfolded 2]] assms(6) ne show ?thesis by (auto simp: call_next_def)
  next
    case 3
    with poll_end [OF step [unfolded 3]] call_state_idle [OF assms(4)] assms(4,6) ne show ?thesis by (auto simp: call_next_def)
  next
    case 4
    with call_state_idle [OF assms(4)] assms(4,6) ne show ?thesis by (auto simp: call_next_def)
  qed
qed

lemma polls_call:
  assumes "push_lanes V w e1 e2 pid pexec sid exec N0" and "sub_ok V H G e2 sid exec N0 u" and "s \<noteq> p" and "set es \<subseteq> {e1, e2}"
    and "call_state V w e1 e2 pid p s u (outcome R (registry N0) u) N0 k N" and "k \<le> 3"
  shows "\<exists>N'. polls V w es N = Inr N' \<and>
    call_state V w e1 e2 pid p s u (outcome R (registry N0) u) N0 (fold (\<lambda>e. call_next (e = e1)) es k) N'"
  using assms(4-)
proof (induction es arbitrary: k N)
  case (Cons e es)
  then have "e = e1 \<or> e = e2" "set es \<subseteq> {e1, e2}" by auto
  from poll_step [OF assms(1-3) Cons.prems(2,3) this(1)] Cons.IH [OF this(2) _ call_next_le [OF Cons.prems(3)]] show ?case
    by fastforce
qed simp

text \<open>The submission of a call.\<close>

lemma push_obj_new:
  "push_obj (wv_bits V) pid s False (TypedPushTask_new S tid prid mem tn (GetLocal (wv_bits V)) pid (lptr s))"
  by (simp add: push_obj_def TypedPushTask_new_def flag_simps task_flag_defs bit_or_iff lptr_def)

lemma push_submits:
  assumes "push_lanes V w e1 e2 pid pexec sid exec N0" and "MakeTaskNodeId N = (tn, N0)"
    and "al_alloc A (heap N0) = Some (s, m1)" and "al_alloc A ((heap N0)(s \<mapsto> con (TaskNode_plus tn 1) m1)) = Some (p, m2)"
    and "tc_id pq = pid" and "tc_queue_id pq = pid"
    and "we_lane e1 = lane_of pid N0 (x\<lparr>prio := kLowLatency, lane_hash := tid + prid\<rparr>)"
  shows "\<exists>N1. Async_Push_Root (wv_queue V) A S tid prid pq con N = Inr (lptr p, N1) \<and> s \<noteq> p \<and> heap N0 s = None \<and> heap N0 p = None \<and>
    call_state V w e1 e2 pid p s (con (TaskNode_plus tn 1) m1) res N0 0 N1"
proof -
  let ?u = "con (TaskNode_plus tn 1) m1" and ?t = "TypedPushTask_new S tid prid m2 tn (GetLocal (wv_bits V)) pid (lptr s)"
  let ?y = "x\<lparr>prio := kLowLatency, lane_hash := tid + prid\<rparr>"
  have f: "heap N0 s = None" "s \<noteq> p" "heap N0 p = None" using alloc_fresh [OF assms(3)] alloc_fresh [OF assms(4)] by (auto split: if_splits)
  from assms(1) obtain l1 l2 where l: "lane_at N0 (we_lane e1) = Inr l1" "items l1 = []" "lane_at N0 (we_lane e2) = Inr l2" "items l2 = []"
    and ne: "we_lane e2 \<noteq> we_lane e1" and wf: "table_wf (queues N0)" "\<not> IsEmplacePlugged (wv_bits V) (queues N0 ! unat (unique pid))"
    by (auto simp: push_lanes_def)
  let ?M = "put_task p ?t (put_task s ?u N0)"
  define l1' where "l1' = fst (mpsc_emplace (wv_queue V) l1 (LaneData_new p False))"
  have i: "items l1' = [LaneData_new p False]" using room [OF l(2)] l(2) by (simp add: l1'_def items_emplace)
  have lo: "lane_of pid ?M ?y = we_lane e1" using assms(7) by (simp add: lane_of_def)
  have em: "queue_emplace (wv_queue V) pid kLowLatency (tid + prid) p ?M = Inr (set_lane (we_lane e1) l1' ?M)"
    using queue_emplace_lane [of ?M pid ?y l1 p] l(1) wf unfolding lo by (simp add: l1'_def)
  have t: "prio ?t = kLowLatency" "lane_hash ?t = tid + prid" by (simp_all add: TypedPushTask_new_def)
  let ?N1 = "set_lane (we_lane e1) l1' ?M"
  have "Async_Push_Root (wv_queue V) A S tid prid pq con N = Inr (lptr p, ?N1)"
    using assms(2-6) em t
    by (simp add: Async_Push_Root_def Async_Alloc_eq AsyncPush_def AllocateTask_def AsyncPushConstruct_def ConstructTask_def upd_task_def
        task_at_def lptr_def)
  moreover have lM: "lane_at ?M (we_lane e1) = Inr l1" using l(1) by simp
  have l': "lane_at ?N1 (we_lane e1) = Inr l1'" "lane_at ?N1 (we_lane e2) = Inr l2"
    using lane_at_set_lane [OF lM] lane_at_set_other [OF lM ne] l(3) by simp_all
  have "lanes_kept {we_lane e1, we_lane e2} N0 ?N1"
    using lanes_kept_mono [OF set_lane_kept [OF lM, of l1'], of "{we_lane e1, we_lane e2}"] by simp
  then have "call_state V w e1 e2 pid p s ?u res N0 0 ?N1"
    unfolding call_state_def using l' i l(4) push_obj_new [of pid s tid prid m2 tn] f(2)
    by (intro conjI exI [of _ ?t] exI [of _ ?u] exI [of _ l1'] exI [of _ l2]) (simp_all add: LaneData_new_def put_task_def fun_upd_twist)
  ultimately show ?thesis using f by blast
qed

text \<open>The whole call: a push of a task, the polls of the worker, and the answer.\<close>

lemma push_call:
  assumes "push_lanes V w e1 e2 pid pexec sid exec N" and "push_room A N" and "tc_id pq = pid" and "tc_queue_id pq = pid"
    and "we_lane e1 = lane_of pid N (x\<lparr>prio := kLowLatency, lane_hash := tid + prid\<rparr>)"
    and "\<And>tn m. sub_ok V H G e2 sid exec N (con tn m)" and "\<And>tn m. delcnt (con tn m) = 0"
    and "\<And>tn m v. pl v = R exec (method_id (con tn m)) (pl (con tn m)) \<Longrightarrow> result v = Inr ret"
    and "set es \<subseteq> {e1, e2}" and "subseq [e1, e2, e1] es"
  shows "\<exists>N'. res_bind (Async_Push_Root (wv_queue V) A S tid prid pq con N) (finish_push (wv_bits V) fr (\<lambda>p. polls V w es) result) = Inr (ret, N') \<and>
    heap N' = heap N \<and> push_lanes V w e1 e2 pid pexec sid exec N'"
proof -
  obtain tn N0 where m: "MakeTaskNodeId N = (tn, N0)" by (cases "MakeTaskNodeId N")
  then have N0: "heap N0 = heap N" "queues N0 = queues N" "registry N0 = registry N" "workers N0 = workers N"
    by (auto simp: MakeTaskNodeId_def fetch_add_unique_def)
  have pl: "push_lanes V w e1 e2 pid pexec sid exec N0" using assms(1) N0 by (simp add: push_lanes_def lane_at_def)
  obtain s m1 where s: "al_alloc A (heap N0) = Some (s, m1)" using assms(2) N0 by (fastforce simp: push_room_def)
  define u where "u = con (TaskNode_plus tn 1) m1"
  have "dom ((heap N0)(s \<mapsto> u)) = insert s (dom (heap N))" by (simp add: N0(1))
  with assms(2) have "al_alloc A ((heap N0)(s \<mapsto> u)) \<noteq> None" unfolding push_room_def by blast
  then obtain p m2 where p: "al_alloc A ((heap N0)(s \<mapsto> u)) = Some (p, m2)" by auto
  have e1: "we_lane e1 = lane_of pid N0 (x\<lparr>prio := kLowLatency, lane_hash := tid + prid\<rparr>)" using assms(5) N0 by (simp add: lane_of_def)
  have so: "sub_ok V H G e2 sid exec N0 u" using assms(6) [of "TaskNode_plus tn 1" m1] N0 by (simp add: sub_ok_def lane_of_def u_def)
  from push_submits [where con = con, OF pl m s p [unfolded u_def] assms(3,4) e1, folded u_def] obtain N1 where
    N1: "Async_Push_Root (wv_queue V) A S tid prid pq con N = Inr (lptr p, N1)" "s \<noteq> p" "heap N0 s = None" "heap N0 p = None"
      "call_state V w e1 e2 pid p s u (outcome R (registry N0) u) N0 0 N1" by blast
  have "fold (\<lambda>e. call_next (e = e1)) es 0 = 3"
    using call_ends [of 0 e1 e2 es] assms(9,10) pl by (auto simp: push_lanes_def)
  with polls_call [OF pl so N1(2) assms(9) N1(5)] obtain N2 where
    N2: "polls V w es N1 = Inr N2" "call_state V w e1 e2 pid p s u (outcome R (registry N0) u) N0 3 N2" by auto
  from N2(2) obtain t v l1 l2 where k: "lanes_kept {we_lane e1, we_lane e2} N0 N2" "group_map (workers N2 ! w) = group_map (workers N0 ! w)"
    and h: "heap N2 = (heap N0)(p \<mapsto> t, s \<mapsto> v)" and l: "lane_at N2 (we_lane e1) = Inr l1" "items l1 = []"
      "lane_at N2 (we_lane e2) = Inr l2" "items l2 = []"
    and d: "push_done (wv_bits V) s t" "ended (wv_bits V) (outcome R (registry N0) u) u (Some v)" by (auto simp: call_state_def)
  have v: "pl v = R exec (method_id u) (pl u)" "delcnt v = 0"
    using d(2) so pl assms(7) by (auto simp: ended_def sub_ok_def outcome_def push_lanes_def u_def)
  have hp: "heap N2 p = Some t" "heap N2 s = Some v" using h N1(2) by simp_all
  let ?N3 = "N2\<lparr>heap := (heap N2)(s := None, p := None)\<rparr>"
  have "DelTask fr (TypedPush_dtor (wv_bits V) fr trivial_dtor) p N2 = Inr ?N3"
    using DelTask_push [OF hp(1) _ _ _ N1(2) hp(2) v(2)] d(1) by (simp add: push_done_def)
  then have "res_bind (Async_Push_Root (wv_queue V) A S tid prid pq con N) (finish_push (wv_bits V) fr (\<lambda>p. polls V w es) result) = Inr (ret, ?N3)"
    using N1(1) N2(1) hp assms(8) [OF v(1) [unfolded u_def]] d(1)
    by (simp add: finish_push_def task_at_def TypedPush_get_def push_done_def lptr_def)
  moreover have "heap ?N3 = heap N" using h N1(2-4) N0(1) by auto
  moreover have "push_lanes V w e1 e2 pid pexec sid exec ?N3"
    by (rule push_lanes_kept [OF pl _ _ l(2) _ l(4)]) (use k l in \<open>simp_all add: lanes_kept_def lane_at_def\<close>)
  ultimately show ?thesis by blast
qed

end

section \<open>The calls of the message library\<close>

text \<open>The states of \<^verbatim>\<open>small_message\<close> beside the state of the process queue.\<close>

definition msg_completes :: "nat \<Rightarrow> nat \<Rightarrow> u32 \<Rightarrow> payload \<Rightarrow> bool" where
  "msg_completes pexec ex m u \<longleftrightarrow> ex \<noteq> pexec \<and> sm_completes ex m u"

context bitfield
begin

lemma TASK_UNORDERED_word: "TASK_UNORDERED B = TASK_UNORDERED word_bitfield"
  by (rule bit_eqI) (simp add: task_flag_defs flag_simps word_bf.bit_BIT_OPT)

end

lemma msg_sub_ok:
  assumes "bitfield (wv_bits V)" and "GetTaskState (registry N) sid = Some exec" and "exec \<noteq> pexec"
    and "\<not> DomainId_IsRemote (wv_bits V) (domain_id u) (wv_num_hosts V) (wv_node_id V)"
    and "sm_completes exec (method_id u) (pl u)" and "method_id u \<noteq> kConstruct" and "task_state u = sid" and "delcnt u = 0"
    and "task_flags u = bf_SetBits (wv_bits V) (bf_init (wv_bits V)) fl" and "\<And>i. bit fl i \<Longrightarrow> i = 4"
    and "lane_of sid N u = we_lane e2"
  shows "sub_ok V (msg_completes pexec) sm_group e2 sid exec N u"
proof -
  have f: "bit (task_flags u) i \<Longrightarrow> i = 4" for i using assms(9,10)
    by (simp add: bitfield.bit_SetBits [OF assms(1)] bitfield.bit_init [OF assms(1)])
  have "\<not> IsFireAndForget (wv_bits V) u" "\<not> IsComplete (wv_bits V) u" "\<not> IsRunDisabled (wv_bits V) u" "\<not> IsCoroutine (wv_bits V) u"
    "\<not> IsPreemptive (wv_bits V) u"
    by (auto simp: bitfield.task_test_bits [OF assms(1)] dest!: f)
  moreover have "ungrouped (wv_bits V) sm_group exec u"
    using assms(6) by (simp add: ungrouped_def sm_group_def bitfield.TASK_UNORDERED_word [OF assms(1)])
  ultimately show ?thesis using assms by (auto simp: sub_ok_def ready_def msg_completes_def)
qed

section \<open>A concrete node\<close>

text \<open>A worker with a state of the process queue, object 5, beside states of the message library.\<close>

definition push_env :: worker_env where
  "push_env = sm_env\<lparr>wv_Run := (\<lambda>ex. if ex = 5 then pq_Run (list_env 8) else wv_Run sm_env ex),
     wv_GetGroup := (\<lambda>ex. if ex = 5 then pq_GetGroup sample_env else wv_GetGroup sm_env ex),
     wv_Del := (\<lambda>ex. if ex = 5 then pq_Del word_bitfield False else wv_Del sm_env ex)\<rparr>"

definition push_node :: Node where
  "push_node = (host_node 1)\<lparr>queues :=
       [MultiQueue_new (list_env 8) zero_group (UniqueId_new 1 0) [PriorityInfo_new 1 1 8 0, PriorityInfo_new 1 1 8 0, PriorityInfo_new 1 1 8 0],
        MultiQueue_new (list_env 8) zero_group (UniqueId_new 1 1) [PriorityInfo_new 1 1 8 0, PriorityInfo_new 1 1 8 0, PriorityInfo_new 1 1 8 0]],
     registry := empty_registry\<lparr>task_states := [key_of (UniqueId_new 1 0) \<mapsto> 4, key_of (UniqueId_new 1 1) \<mapsto> 5]\<rparr>\<rparr>"

definition push_entry_of :: "nat \<Rightarrow> WorkEntry" where
  "push_entry_of i = sample_entry\<lparr>we_lane := (i, 2, 0)\<rparr>"

lemma push_env_simps:
  "wv_queue push_env = list_env 8" "wv_resize push_env = list_resize" "wv_num_hosts push_env = 1"
  "wv_Run push_env 5 = pq_Run (list_env 8)" "wv_GetGroup push_env 5 = pq_GetGroup sample_env"
  "ex \<noteq> 5 \<Longrightarrow> wv_Run push_env ex = wv_Run sm_env ex" "ex \<noteq> 5 \<Longrightarrow> wv_GetGroup push_env ex = wv_GetGroup sm_env ex"
  "ex \<noteq> 5 \<Longrightarrow> wv_Del push_env ex = wv_Del sm_env ex"
  by (simp_all add: push_env_def sm_env_simps)

lemma push_env_completing: "completing_env push_env (msg_completes 5) sm_result sm_group"
  using sm_completing.completing_env_axioms
  by (auto simp: completing_env_def completing_env_axioms_def push_env_simps sm_env_simps(1,7) msg_completes_def)

interpretation sample_push_worker: push_worker push_env "msg_completes 5" sm_result sm_group sample_alloc sample_env 5
  by (intro push_worker.intro push_worker_axioms.intro push_env_completing)
    (simp_all add: push_env_simps sample_env_def sample_alloc_def bump.allocator_axioms list_env_def)

lemma push_node_lanes:
  "push_lanes push_env 0 (push_entry_of 1) (push_entry_of 0) (UniqueId_new 1 1) 5 (UniqueId_new 1 0) 4 push_node" "push_room sample_alloc push_node"
proof -
  have l: "lane_at push_node (0, 2, 0) = Inr \<lparr>items = [], lane_flags = 0\<rparr>" "lane_at push_node (1, 2, 0) = Inr \<lparr>items = [], lane_flags = 0\<rparr>"
    by (simp_all add: lane_at_def push_node_def MultiQueue_new_def make_group_def LaneGroup_new_def PriorityInfo_new_def Let_def list_env_def)
  have w: "table_wf (queues push_node)"
    by (auto simp: table_wf_def slot_wf_def push_node_def less_Suc_eq MultiQueue_new_wf UniqueId_new_def)
  show "push_lanes push_env 0 (push_entry_of 1) (push_entry_of 0) (UniqueId_new 1 1) 5 (UniqueId_new 1 0) 4 push_node"
    using l w
    by (simp add: push_lanes_def push_entry_of_def sample_entry_def)
      (simp add: push_node_def host_node_def push_env_def sm_env_simps UniqueId_new_def IsEmplacePlugged_def MultiQueue_new_def
        sample_worker_def Worker_new_def GetTaskState_def word_bitfield_def key_of_def)
  have "dom (heap push_node) = {9}" by (simp add: push_node_def host_node_def)
  then show "push_room sample_alloc push_node" using sample_room sample_room [where q = 9] by (auto simp: push_room_def)
qed

section \<open>Properties\<close>

text \<open>
  C15. The blocking calls of a client that go through the process queue, end to end. The push task
  and the task of the call are built and the push is submitted; whatever the order in which
  the worker polls the lane of the process queue and the lane of the message state, once it has
  polled the first, the second and the first again, the call returns: an I/O call with 1, since its task carries the bytes
  the handler looks for, a metadata call with 1. Nothing of the call is left in memory, in
  the lanes or in the groups of the worker, and the node can take the next call.
\<close>

theorem push_calls_served:
  assumes "push_worker V (msg_completes pexec) sm_result sm_group A S pexec" and "exec \<noteq> pexec"
    and "push_lanes V w e1 e2 pid pexec sid exec N" and "push_room A N" and "pod_array (se_pods S)"
    and "tc_id pq = pid" and "tc_queue_id pq = pid" and "tc_id cl = sid"
    and "\<not> DomainId_IsRemote (wv_bits V) d (wv_num_hosts V) (wv_node_id V)"
    and "we_lane e1 = (unat (unique pid), unat kLowLatency, unat ((tid + prid) mod num_lanes (groups (queues N ! unat (unique pid)) ! unat kLowLatency)))"
    and "set es \<subseteq> {e1, e2}" and "subseq [e1, e2, e1] es"
  shows "(we_lane e2 = (unat (unique sid), unat kLowLatency, unat (3 mod num_lanes (groups (queues N ! unat (unique sid)) ! unat kLowLatency))) \<longrightarrow>
      (\<exists>N'. IoRoot (wv_queue V) A S tid prid fr (\<lambda>p. polls V w es) pq cl d N = Inr (1, N') \<and> heap N' = heap N \<and>
        push_lanes V w e1 e2 pid pexec sid exec N')) \<and>
    (we_lane e2 = (unat (unique sid), unat kLowLatency, 0) \<longrightarrow>
      (\<exists>N'. MdPushRoot (wv_queue V) A S tid prid fr (\<lambda>p. polls V w es) pq cl d N = Inr (1, N') \<and> heap N' = heap N \<and>
        push_lanes V w e1 e2 pid pexec sid exec N'))"
proof (intro conjI impI)
  have B: "bitfield (wv_bits V)" and S: "se_bits S = wv_bits V"
    using push_worker.shm(1) [OF assms(1)] push_worker.axioms(1) [OF assms(1)]
    by (auto simp: completing_env_def lane_queues_def)
  have st: "GetTaskState (registry N) sid = Some exec" using assms(3) by (simp add: push_lanes_def)
  have e1: "we_lane e1 = lane_of pid N (undefined\<lparr>prio := kLowLatency, lane_hash := tid + prid\<rparr>)" using assms(10) by (simp add: lane_of_def)
  note call = push_worker.push_call [OF assms(1,3,4,6,7) e1 _ _ _ assms(11,12)]
  {
    assume l: "we_lane e2 = (unat (unique sid), unat kLowLatency, unat (3 mod num_lanes (groups (queues N ! unat (unique sid)) ! unat kLowLatency)))"
    let ?u = "\<lambda>tn m. IoTask_new S m tn d sid"
    have u: "sub_ok V (msg_completes pexec) sm_group e2 sid exec N (?u tn m)" for tn m
      by (rule msg_sub_ok [OF B st assms(2), where fl = 0])
        (use assms(9) l in \<open>simp_all add: IoTask_new_def pay_upd_def sm_completes_def DATA_SIZE_def lane_of_def init_task_def Task_new_def S\<close>)
    show "\<exists>N'. IoRoot (wv_queue V) A S tid prid fr (\<lambda>p. polls V w es) pq cl d N = Inr (1, N') \<and> heap N' = heap N \<and>
        push_lanes V w e1 e2 pid pexec sid exec N'"
      unfolding IoRoot_def assms(8)
      by (rule call [OF u]) (simp_all add: IoTask_new_def pay_upd_def sm_result_def DATA_SIZE_def)
  next
    assume l: "we_lane e2 = (unat (unique sid), unat kLowLatency, 0)"
    obtain x where x: "pod_construct (se_pods S) (Suc 0) = [x]"
      using pod_array.length_construct [OF assms(5), of "Suc 0"] by (auto simp: length_Suc_conv)
    let ?u = "\<lambda>tn m. MdPushTask_new S m tn d sid"
    have u: "sub_ok V (msg_completes pexec) sm_group e2 sid exec N (?u tn m)" for tn m
      by (rule msg_sub_ok [OF B st assms(2), where fl = "TASK_LOW_LATENCY (wv_bits V)"])
        (use assms(9) l x in \<open>simp_all add: MdPushTask_new_def sm_completes_def lane_of_def init_task_def Task_new_def S task_flag_defs
          bitfield.bit_BIT_OPT [OF B]\<close>)
    show "\<exists>N'. MdPushRoot (wv_queue V) A S tid prid fr (\<lambda>p. polls V w es) pq cl d N = Inr (1, N') \<and> heap N' = heap N \<and>
        push_lanes V w e1 e2 pid pexec sid exec N'"
      unfolding MdPushRoot_def assms(8)
      by (rule call [OF u]) (simp_all add: MdPushTask_new_def sm_result_def x)
  }
qed

theorem push_calls_served_witness:
  "\<exists>N' N''. IoRoot (list_env 8) sample_alloc sample_env 3 4 False
       (\<lambda>p. polls push_env 0 [push_entry_of 0, push_entry_of 1, push_entry_of 1, push_entry_of 0, push_entry_of 1])
       \<lparr>tc_id = UniqueId_new 1 1, tc_queue_id = UniqueId_new 1 1\<rparr> \<lparr>tc_id = UniqueId_new 1 0, tc_queue_id = UniqueId_new 1 0\<rparr>
       (GetLocal word_bitfield) push_node = Inr (1, N') \<and> heap N' = heap push_node \<and>
     MdPushRoot (list_env 8) sample_alloc sample_env 3 4 False
       (\<lambda>p. polls push_env 0 [push_entry_of 0, push_entry_of 1, push_entry_of 1, push_entry_of 0, push_entry_of 1])
       \<lparr>tc_id = UniqueId_new 1 1, tc_queue_id = UniqueId_new 1 1\<rparr> \<lparr>tc_id = UniqueId_new 1 0, tc_queue_id = UniqueId_new 1 0\<rparr>
       (GetLocal word_bitfield) push_node = Inr (1, N'') \<and> heap N'' = heap push_node"
proof -
  let ?es = "[push_entry_of 0, push_entry_of 1, push_entry_of 1, push_entry_of 0, push_entry_of 1]"
  let ?pq = "\<lparr>tc_id = UniqueId_new 1 1, tc_queue_id = UniqueId_new 1 1\<rparr>" and ?cl = "\<lparr>tc_id = UniqueId_new 1 0, tc_queue_id = UniqueId_new 1 0\<rparr>"
  have r: "\<not> DomainId_IsRemote (wv_bits push_env) (GetLocal word_bitfield) (wv_num_hosts push_env) (wv_node_id push_env)"
    by (simp add: push_env_def sm_env_simps DomainId_IsRemote_def)
  have n: "num_lanes (groups (queues push_node ! i) ! unat kLowLatency) = 1" if "i < 2" for i
    using that by (auto simp: less_2_cases_iff push_node_def MultiQueue_new_def make_group_def LaneGroup_new_def PriorityInfo_new_def Let_def
        kLowLatency_def)
  have u: "unat (unique (UniqueId_new 1 0)) = 0" "unat (unique (UniqueId_new 1 1)) = 1" by (simp_all add: UniqueId_new_def)
  have ev: "we_lane (push_entry_of i) = (i, unat kLowLatency, 0)" for i by (simp add: push_entry_of_def kLowLatency_def)
  have q: "wv_queue push_env = list_env 8" by (simp add: push_env_def sm_env_simps)
  note c = push_calls_served [OF sample_push_worker.push_worker_axioms _ push_node_lanes, of ?pq ?cl "GetLocal word_bitfield" 3 4 ?es False,
      unfolded ev u q]
  have e: "set ?es \<subseteq> {push_entry_of 1, push_entry_of 0}" "subseq [push_entry_of 1, push_entry_of 0, push_entry_of 1] ?es" by simp_all
  from c [OF _ _ _ _ _ r [unfolded q] _ e] n [of 0] n [of 1] show ?thesis
    by (simp only: sample_env_def) (auto simp: list_pod.pod_array_axioms)
qed

end
