(* ===== verification/AdminCalls.thy ===== *)
theory AdminCalls
  imports Runtime
begin

text \<open>
  Creation of task states by name. A creation whose task carries the null id sends a subtask to
  node 1, where the id of the name is looked up or drawn, waits for it and creates the state
  under that id. \<open>name_service\<close> is what the handler relies on while it waits: the subtask,
  which is in the lane of the administration queue, has been run and carries the answer \<open>ask\<close>.
  On node 1 the answer is that of its own registry, on the other nodes it is that of the
  registry of node 1.
\<close>

section \<open>The answer to a request for an id\<close>

abbreviation "admin_slot X \<equiv> unat (unique (tc_queue_id (ae_client X)))"

locale name_service = lane_queues "ae_queue X" + allocator "ae_alloc X" + queue_table "ae_qvec X" + state_factory "ae_create X"
  for X :: admin_env +
  fixes ask :: "string \<Rightarrow> TaskRegistry \<Rightarrow> u64 \<Rightarrow> TaskStateId \<times> TaskRegistry \<times> u64"
  assumes create_keeps: "pl (fst (snd (ae_create X f t n R))) = pl t"
    and ask_registry: "ask n R u = (i, R', u') \<Longrightarrow>
      task_states R' = task_states R \<and> objects R' = objects R \<and> libs R' = libs R \<and>
      (task_state_ids R n = None \<longrightarrow> task_state_ids R' n \<in> {None, Some i})"
    and wait_answers: "\<lbrakk>heap M q = Some g; pl g = PGetOrCreateTaskStateId r; table_wf (queues M);
      LaneData_new q False \<in> set (lane_items (queues M ! admin_slot X) (unat kAdmin) 0);
      ask (gc_state_name r) (registry M) (hdr_unique (header M)) = (i, R, u)\<rbrakk> \<Longrightarrow>
      \<exists>M' g'. ae_wait X q M = Inr M' \<and> heap M' = (heap M)(q \<mapsto> g') \<and> pl g' = PGetOrCreateTaskStateId (r\<lparr>gc_id := i\<rparr>) \<and>
        delcnt g' = delcnt g \<and> registry M' = R \<and> header M' = (header M)\<lparr>hdr_unique := u\<rparr> \<and>
        table_wf (queues M') \<and> map mq_id (queues M') = map mq_id (queues M)"

text \<open>
  A node that can create a state of a new name: memory for the subtask, an administration queue
  that takes it, the library, a new object, and a free slot for the id \<open>i\<close> that the name will have.
\<close>

definition create_ready :: "admin_env \<Rightarrow> Node \<Rightarrow> Pointer \<Rightarrow> string \<Rightarrow> string \<Rightarrow> PriorityInfo list \<Rightarrow> TaskStateId \<Rightarrow> bool" where
  "create_ready X N p name lib info i \<longleftrightarrow>
     table_wf (queues N) \<and> registry_wf (registry N) \<and>
     (\<exists>t r. heap N p = Some t \<and> pl t = PCreateTaskState r \<and> UniqueId_IsNull (cs_id r) \<and> cs_state_name r = name \<and>
        cs_lib_name r = lib \<and> cs_queue_info r = info) \<and>
     task_state_ids (registry N) name = None \<and> libs (registry N) lib \<noteq> None \<and>
     (\<forall>f t n R. objects R = objects (registry N) \<longrightarrow> fst (ae_create X f t n R) \<noteq> None) \<and>
     al_alloc (ae_alloc X) (heap N) \<noteq> None \<and>
     admin_slot X < length (queues N) \<and> \<not> IsEmplacePlugged (ae_bits X) (queues N ! admin_slot X) \<and>
     unat kAdmin < length (groups (queues N ! admin_slot X)) \<and>
     num_lanes (groups (queues N ! admin_slot X) ! unat kAdmin) \<noteq> 0 \<and>
     (\<forall>x. snd (mpsc_emplace (ae_queue X) (lanes (groups (queues N ! admin_slot X) ! unat kAdmin) ! 0) x)) \<and>
     \<not> UniqueId_IsNull i \<and> unat (unique i) < length (queues N) \<and>
     UniqueId_IsNull (mq_id (queues N ! unat (unique i))) \<and> \<not> TaskStateExists (registry N) i"

text \<open>
  What a creation leaves behind: a new object under the id, which the name finds, one new queue in
  the slot of the id, the id in the task, and no other change to objects, ids of queues or states.
\<close>

definition state_created :: "admin_env \<Rightarrow> Node \<Rightarrow> Node \<Rightarrow> Pointer \<Rightarrow> string \<Rightarrow> PriorityInfo list \<Rightarrow> TaskStateId \<Rightarrow> bool" where
  "state_created X N N' p name info i \<longleftrightarrow>
     table_wf (queues N') \<and> registry_wf (registry N') \<and>
     (\<exists>t' r'. heap N' = (heap N)(p \<mapsto> t') \<and> pl t' = PCreateTaskState r' \<and> cs_id r' = i) \<and>
     (\<exists>a s. objects (registry N) a = None \<and> objects (registry N') = (objects (registry N))(a \<mapsto> s) \<and>
        tl_id s = i \<and> tl_name s = name \<and> GetTaskState (registry N') i = Some a) \<and>
     GetTaskStateId name (registry N') = i \<and>
     (\<forall>j. \<not> UniqueId_eq i j \<longrightarrow> GetTaskState (registry N') j = GetTaskState (registry N) j) \<and>
     queues N' ! unat (unique i) = MultiQueue_new (ae_queue X) (ae_group_mem X) i info \<and>
     map mq_id (queues N') = (map mq_id (queues N))[unat (unique i) := i]"

lemma state_created_name: "state_created X N N' p name info i \<Longrightarrow> GetTaskStateId name (registry N') = i"
  by (simp add: state_created_def)

text \<open>The request as it is submitted.\<close>

lemma GetOrCreateTask_fields [simp]:
  "prio (GetOrCreateTaskStateIdTask_new S adm mem tn d name) = kAdmin"
  "lane_hash (GetOrCreateTaskStateIdTask_new S adm mem tn d name) = 0"
  "delcnt (GetOrCreateTaskStateIdTask_new S adm mem tn d name) = 0"
  "\<exists>r. pl (GetOrCreateTaskStateIdTask_new S adm mem tn d name) = PGetOrCreateTaskStateId r \<and> gc_state_name r = name"
  by (simp_all add: GetOrCreateTaskStateIdTask_new_def pay_upd_def)

context name_service
begin

text \<open>The request for the id: afterwards the task carries it and the subtask is gone.\<close>

lemma fetch_id_answer:
  assumes "create_ready X N p name lib info i" and "heap N p = Some t" and "pl t = PCreateTaskState r"
    and "ask name (registry N) (hdr_unique (header N)) = (i, R, u)"
  shows "\<exists>M. fetch_id X p t N = Inr M \<and> heap M = (heap N)(p \<mapsto> t\<lparr>pl := PCreateTaskState (r\<lparr>cs_id := i\<rparr>)\<rparr>) \<and>
    registry M = R \<and> header M = (header N)\<lparr>hdr_unique := u\<rparr> \<and> table_wf (queues M) \<and> map mq_id (queues M) = map mq_id (queues N)"
proof -
  let ?s = "admin_slot X"
  from assms(1) obtain q mem where al: "al_alloc (ae_alloc X) (heap N) = Some (q, mem)" by (auto simp: create_ready_def)
  from assms(1-3) have nm: "cs_state_name r = name" by (auto simp: create_ready_def)
  have fresh: "heap N q = None" by (rule alloc_fresh [OF al])
  with assms(2) have qp: "q \<noteq> p" by auto
  define g where "g = GetOrCreateTaskStateIdTask_new (ae_shm X) (tc_id (ae_client X)) mem (TaskNode_plus (task_node t) 1)
    (GetNode (ae_bits X) 1) name"
  have gf: "prio g = kAdmin" "lane_hash g = 0" "delcnt g = 0" by (simp_all add: g_def)
  obtain r1 where gp: "pl g = PGetOrCreateTaskStateId r1" "gc_state_name r1 = name" using GetOrCreateTask_fields(4) by (metis g_def)
  let ?N1 = "put_task q g N"
  have ready: "table_wf (queues ?N1)" "?s < length (queues ?N1)" "\<not> IsEmplacePlugged (ae_bits X) (queues ?N1 ! ?s)"
    "unat kAdmin < length (groups (queues ?N1 ! ?s))" "num_lanes (groups (queues ?N1 ! ?s) ! unat kAdmin) \<noteq> 0"
    using assms(1) by (simp_all add: create_ready_def)
  from queue_emplace_ok [OF ready, of 0 q] assms(1) obtain q' where
    e: "queue_emplace (ae_queue X) (tc_queue_id (ae_client X)) kAdmin 0 q ?N1 = Inr (?N1\<lparr>queues := (queues N)[?s := q']\<rparr>)"
    and q': "queue_wf q'" "mq_id q' = mq_id (queues N ! ?s)" "LaneData_new q False \<in> set (lane_items q' (unat kAdmin) 0)"
    by (auto simp: create_ready_def)
  let ?N2 = "?N1\<lparr>queues := (queues N)[?s := q']\<rparr>"
  have "Async (ae_queue X) (ae_alloc X) (tc_queue_id (ae_client X))
      (\<lambda>tn mem. GetOrCreateTaskStateIdTask_new (ae_shm X) (tc_id (ae_client X)) mem tn (GetNode (ae_bits X) 1) name)
      (TaskNode_plus (task_node t) 1) N = Inr (lptr q, ?N2)"
    using e by (simp add: Async_def Async_Alloc_eq al lptr_def g_def [symmetric] gf)
  moreover have "heap ?N2 q = Some g" "table_wf (queues ?N2)" "map mq_id (queues ?N2) = map mq_id (queues N)"
    "LaneData_new q False \<in> set (lane_items (queues ?N2 ! ?s) (unat kAdmin) 0)"
    "ask (gc_state_name r1) (registry ?N2) (hdr_unique (header ?N2)) = (i, R, u)"
    using ready q' gp(2) assms(4)
    by (auto simp: put_task_def table_wf_def slot_wf_def nth_list_update_if map_update intro!: nth_equalityI)
  moreover from wait_answers [OF this(1) gp(1) this(2,4,5)] this(3) obtain M g' where
    M: "ae_wait X q ?N2 = Inr M" "heap M = (heap ?N2)(q \<mapsto> g')" "pl g' = PGetOrCreateTaskStateId (r1\<lparr>gc_id := i\<rparr>)" "delcnt g' = 0"
      "registry M = R" "header M = (header N)\<lparr>hdr_unique := u\<rparr>" "table_wf (queues M)" "map mq_id (queues M) = map mq_id (queues N)"
    using gf(3) by (auto simp: put_task_def)
  let ?M = "M\<lparr>heap := (heap N)(p \<mapsto> t\<lparr>pl := PCreateTaskState (r\<lparr>cs_id := i\<rparr>)\<rparr>)\<rparr>"
  have h: "(heap N)(q := None) = heap N" using fresh by auto
  have "fetch_id X p t N = Inr ?M"
    using calculation(1) M(1-4) assms(2,3) qp
    by (simp add: fetch_id_def nm lptr_def task_at_def upd_task_def pay_upd_def DelTask_def trivial_dtor_def free_task_def put_task_def
        fun_upd_twist [of p q] h)
  with M(5-8) show ?thesis by auto
qed

text \<open>The creation under an id that is new.\<close>

lemma create_with_id_new:
  assumes "heap M p = Some t" and "pl t = PCreateTaskState r" and "cs_id r = i" and "\<not> UniqueId_IsNull i"
    and "table_wf (queues M)" and "registry_wf (registry M)" and "libs (registry M) (cs_lib_name r) \<noteq> None"
    and "\<not> TaskStateExists (registry M) i" and "task_state_ids (registry M) (cs_state_name r) \<in> {None, Some i}"
    and "unat (unique i) < length (queues M)" and "UniqueId_IsNull (mq_id (queues M ! unat (unique i)))"
    and "\<And>f t n. fst (ae_create X f t n (registry M)) \<noteq> None"
  shows "\<exists>M'. create_with_id X p M = Inr M' \<and> header M' = header M \<and> state_created X M M' p (cs_state_name r) (cs_queue_info r) i"
proof -
  let ?R = "registry M" and ?name = "cs_state_name r" and ?info = "cs_queue_info r" and ?t = "t\<lparr>method_id := kConstruct\<rparr>"
  let ?c = "CreateTaskState (ae_bits X) (ae_create X) (cs_lib_name r) ?name i ?t ?R"
  obtain t2 R2 where c: "?c = (True, t2, R2)"
    using CreateTaskState_succeeds [OF assms(4,7,12), of "ae_bits X" ?name ?t] by (cases ?c) auto
  from assms(7) obtain li where li: "libs ?R (cs_lib_name r) = Some li" by auto
  from CreateTaskState_new [OF c assms(4) li assms(8)] obtain a s where
    n: "objects ?R a = None" "objects R2 = (objects ?R)(a \<mapsto> s)" "tl_id s = i" "tl_name s = ?name"
      "task_states R2 = (task_states ?R)(key_of i \<mapsto> a)" "task_state_ids R2 = task_state_ids (ids_emplace ?name i ?R)" by auto
  have pl2: "pl t2 = PCreateTaskState r"
    using c li assms(2-4,8) create_keeps [of "li_create_state li" "pay_upd un_CreateTaskState PCreateTaskState cs_id_update (\<lambda>_. i) ?t" ?name ?R]
    by (auto simp: CreateTaskState_def Let_def pay_upd_def split: prod.splits option.splits)
  let ?qs = "(queues M)[unat (unique i) := MultiQueue_new (ae_queue X) (ae_group_mem X) i ?info]"
  have q: "CreateQueue (ae_queue X) (ae_qvec X) (ae_group_mem X) (queues M) i ?info = Inr ?qs"
    by (rule CreateQueue_free [OF assms(4,10,11)])
  let ?M = "put_task p t2 (M\<lparr>queues := ?qs, registry := R2\<rparr>)"
  have "create_with_id X p M = Inr ?M"
    using assms(1-4,8) c q by (simp add: create_with_id_def task_at_def UniqueId_copy_def)
  moreover have "GetTaskStateId ?name R2 = i" using assms(9) n(6) by (auto simp: GetTaskStateId_def ids_emplace_def)
  then have "state_created X M ?M p ?name ?info i"
    using n pl2 assms(3,10) CreateQueue_table_wf [OF assms(5) q] CreateTaskState_wf [OF assms(6) c]
    by (simp add: state_created_def put_task_def GetTaskState_def UniqueId_eq_key map_update) blast
  ultimately show ?thesis by (auto simp: put_task_def)
qed

lemma create_by_name:
  assumes "create_ready X (ad_node A) p name lib info i"
    and "ask name (registry (ad_node A)) (hdr_unique (header (ad_node A))) = (i, R, u)"
  shows "\<exists>A'. srv_CreateTaskState X p A = Inr A' \<and> state_created X (ad_node A) (ad_node A') p name info i \<and>
    header (ad_node A') = (header (ad_node A))\<lparr>hdr_unique := u\<rparr>"
proof -
  let ?N = "ad_node A"
  from assms(1) obtain t r where t: "heap ?N p = Some t" "pl t = PCreateTaskState r" "UniqueId_IsNull (cs_id r)"
    and r: "cs_state_name r = name" "cs_lib_name r = lib" "cs_queue_info r = info" by (auto simp: create_ready_def)
  let ?t = "t\<lparr>pl := PCreateTaskState (r\<lparr>cs_id := i\<rparr>)\<rparr>"
  from fetch_id_answer [OF assms(1) t(1,2) assms(2)] obtain M where
    M: "fetch_id X p t ?N = Inr M" "heap M = (heap ?N)(p \<mapsto> ?t)" "registry M = R" "table_wf (queues M)"
      "map mq_id (queues M) = map mq_id (queues ?N)" "header M = (header ?N)\<lparr>hdr_unique := u\<rparr>" by auto
  note R = ask_registry [OF assms(2)]
  have none: "GetTaskState_name (registry ?N) name (cs_id r) = None"
  proof -
    have "task_state_ids (registry ?N) name = None" and "\<And>j. UniqueId_IsNull j \<Longrightarrow> task_states (registry ?N) (key_of j) = None"
      using assms(1) by (auto simp: create_ready_def TaskStateExists_def registry_wf_def)
    with t(3) show ?thesis
      by (simp add: GetTaskState_name_def GetTaskStateId_def GetTaskState_def UniqueId_IsNull_def UniqueId_GetNull_def UniqueId_new_def Let_def)
  qed
  have slot: "unat (unique i) < length (queues M)" "UniqueId_IsNull (mq_id (queues M ! unat (unique i)))"
    using assms(1) map_eq_imp_length_eq [OF M(5)] arg_cong [OF M(5), where f = "\<lambda>xs. xs ! unat (unique i)"] by (simp_all add: create_ready_def)
  have "registry_wf R" using assms(1) R by (simp add: create_ready_def registry_wf_def TaskStateExists_def)
  with create_with_id_new [of M p ?t "r\<lparr>cs_id := i\<rparr>" i] assms(1) M(2-4) R r slot obtain M' where
    M': "create_with_id X p M = Inr M'" "header M' = header M" "state_created X M M' p name info i"
    by (simp add: create_ready_def TaskStateExists_def) blast
  have "srv_CreateTaskState X p A = Inr (A\<lparr>ad_node := M'\<rparr>)"
    using t M(1) M'(1) none r by (simp add: srv_CreateTaskState_def with_task_def on_node_def task_at_def)
  moreover have "state_created X ?N M' p name info i"
    using M'(3) M(2,3,5) R by (simp add: state_created_def GetTaskState_def)
  ultimately show ?thesis using M(6) M'(2) by simp
qed

end

text \<open>A name that is known gives its state, whatever id the task carries.\<close>

lemma create_known_name:
  assumes "GetTaskStateId name (registry (ad_node B)) = i" and "GetTaskState (registry (ad_node B)) i = Some a" and "\<not> UniqueId_IsNull i"
    and "objects (registry (ad_node B)) a = Some s" and "heap (ad_node B) q = Some t" and "pl t = PCreateTaskState r" and "cs_state_name r = name"
  shows "srv_CreateTaskState Z q B = Inr (B\<lparr>ad_node := put_task q (SetModuleComplete (ae_bits Z)
    (t\<lparr>pl := PCreateTaskState (r\<lparr>cs_id := tl_id s\<rparr>)\<rparr>)) (ad_node B)\<rparr>)"
  using assms
  by (simp add: srv_CreateTaskState_def with_task_def on_node_def task_at_def GetTaskState_name_def pay_upd_def Let_def)

section \<open>Who answers\<close>

text \<open>On node 1 the handler of the subtask runs on the node itself; the worker then sets it complete.\<close>

definition serve_id :: "admin_env \<Rightarrow> Admin \<Rightarrow> Pointer \<Rightarrow> Node \<Rightarrow> Node res" where
  "serve_id X A q M =
     res_bind (srv_GetOrCreateTaskStateId X q (A\<lparr>ad_node := M\<rparr>)) (\<lambda>A'. upd_task q (SetComplete (ae_bits X)) (ad_node A'))"

text \<open>On another node a copy of the subtask is run on node 1, and its answer is brought back.\<close>

definition remote_ids :: "Node \<Rightarrow> string \<Rightarrow> TaskRegistry \<Rightarrow> u64 \<Rightarrow> TaskStateId \<times> TaskRegistry \<times> u64" where
  "remote_ids N n R u = (fst (GetOrCreateTaskStateId n (registry N) (hdr_unique (header N))), R, u)"

definition serve_remote :: "admin_env \<Rightarrow> Admin \<Rightarrow> Pointer \<Rightarrow> Node \<Rightarrow> Node res" where
  "serve_remote X A q M =
     res_bind (task_at M q) (\<lambda>g.
     res_bind (srv_GetOrCreateTaskStateId X q (A\<lparr>ad_node := put_task q g (ad_node A)\<rparr>)) (\<lambda>A'.
     res_bind (task_at (ad_node A') q) (\<lambda>g'. Inr (put_task q (SetComplete (ae_bits X) g') M))))"

text \<open>The handler of the request, in one equation.\<close>

lemma srv_GetOrCreate_eq:
  assumes "heap (ad_node A) q = Some g" and "pl g = PGetOrCreateTaskStateId r"
    and "GetOrCreateTaskStateId (gc_state_name r) (registry (ad_node A)) (hdr_unique (header (ad_node A))) = (i, R, u)"
  shows "srv_GetOrCreateTaskStateId X q A = Inr (A\<lparr>ad_node := put_task q (SetModuleComplete (ae_bits X) (g\<lparr>pl := PGetOrCreateTaskStateId (r\<lparr>gc_id := i\<rparr>)\<rparr>))
    ((ad_node A)\<lparr>registry := R, header := (header (ad_node A))\<lparr>hdr_unique := u\<rparr>\<rparr>)\<rparr>)"
  using assms by (simp add: srv_GetOrCreateTaskStateId_def with_task_def on_node_def task_at_def pay_upd_def)

lemma GetOrCreate_registry:
  assumes "GetOrCreateTaskStateId n R u = (i, R', u')"
  shows "task_states R' = task_states R \<and> objects R' = objects R \<and> libs R' = libs R \<and>
    (task_state_ids R n = None \<longrightarrow> task_state_ids R' n \<in> {None, Some i})"
  using assms by (auto simp: GetOrCreateTaskStateId_def CreateTaskStateId_def ids_emplace_def split: option.splits)

lemma serve_id_answers:
  assumes "heap M q = Some g" and "pl g = PGetOrCreateTaskStateId r"
    and "GetOrCreateTaskStateId (gc_state_name r) (registry M) (hdr_unique (header M)) = (i, R, u)"
  shows "\<exists>M' g'. serve_id X A q M = Inr M' \<and> heap M' = (heap M)(q \<mapsto> g') \<and> pl g' = PGetOrCreateTaskStateId (r\<lparr>gc_id := i\<rparr>) \<and>
    delcnt g' = delcnt g \<and> registry M' = R \<and> header M' = (header M)\<lparr>hdr_unique := u\<rparr> \<and> queues M' = queues M"
  using srv_GetOrCreate_eq [of "A\<lparr>ad_node := M\<rparr>" q g r i R u X] assms
  by (simp add: serve_id_def upd_task_def task_at_def put_task_def SetComplete_def SetModuleComplete_def) (intro exI conjI, rule refl, simp_all)

lemma serve_remote_answers:
  assumes "heap M q = Some g" and "pl g = PGetOrCreateTaskStateId r"
    and "remote_ids (ad_node A) (gc_state_name r) (registry M) (hdr_unique (header M)) = (i, R, u)"
  shows "\<exists>M' g'. serve_remote X A q M = Inr M' \<and> heap M' = (heap M)(q \<mapsto> g') \<and> pl g' = PGetOrCreateTaskStateId (r\<lparr>gc_id := i\<rparr>) \<and>
    delcnt g' = delcnt g \<and> registry M' = R \<and> header M' = (header M)\<lparr>hdr_unique := u\<rparr> \<and> queues M' = queues M"
proof -
  obtain R' u' where "GetOrCreateTaskStateId (gc_state_name r) (registry (ad_node A)) (hdr_unique (header (ad_node A))) = (i, R', u')"
    using assms(3) by (cases "GetOrCreateTaskStateId (gc_state_name r) (registry (ad_node A)) (hdr_unique (header (ad_node A)))")
      (auto simp: remote_ids_def)
  with srv_GetOrCreate_eq [of "A\<lparr>ad_node := put_task q g (ad_node A)\<rparr>" q g r i R' u' X] assms show ?thesis
    by (simp add: serve_remote_def task_at_def put_task_def SetComplete_def SetModuleComplete_def remote_ids_def)
      (intro exI conjI, rule refl, simp_all)
qed

lemma sample_admin_laws:
  "lane_queues (ae_queue sample_admin_env)" "allocator (ae_alloc sample_admin_env)" "queue_table (ae_qvec sample_admin_env)"
  "state_factory (ae_create sample_admin_env)" "pl (fst (snd (ae_create sample_admin_env f t n R))) = pl t"
  by (auto simp: sample_admin_env_def list_lanes.lane_queues_axioms sample_alloc_def bump.allocator_axioms
    list_table.queue_table_axioms arena.state_factory_axioms arena_create_def create_state_def SetModuleComplete_def Let_def
    split: option.splits prod.splits)

text \<open>Both answers fulfil the contract in every environment.\<close>

definition admin_libs :: "admin_env \<Rightarrow> bool" where
  "admin_libs X \<longleftrightarrow> lane_queues (ae_queue X) \<and> allocator (ae_alloc X) \<and> queue_table (ae_qvec X) \<and> state_factory (ae_create X) \<and>
     (\<forall>f t n R. pl (fst (snd (ae_create X f t n R))) = pl t)"

lemma name_service_own:
  assumes "admin_libs X"
  shows "name_service (X\<lparr>ae_wait := serve_id X A\<rparr>) GetOrCreateTaskStateId"
proof (intro name_service.intro name_service_axioms.intro GetOrCreate_registry)
  fix M :: Node and q g r i R u
  assume "heap M q = Some g" "pl g = PGetOrCreateTaskStateId r" and wf: "table_wf (queues M)"
    and "GetOrCreateTaskStateId (gc_state_name r) (registry M) (hdr_unique (header M)) = (i, R, u)"
  from serve_id_answers [OF this(1,2,4), of X A] wf
  show "\<exists>M' g'. ae_wait (X\<lparr>ae_wait := serve_id X A\<rparr>) q M = Inr M' \<and> heap M' = (heap M)(q \<mapsto> g') \<and>
      pl g' = PGetOrCreateTaskStateId (r\<lparr>gc_id := i\<rparr>) \<and> delcnt g' = delcnt g \<and> registry M' = R \<and>
      header M' = (header M)\<lparr>hdr_unique := u\<rparr> \<and> table_wf (queues M') \<and> map mq_id (queues M') = map mq_id (queues M)"
    by fastforce
qed (use assms in \<open>simp_all add: admin_libs_def\<close>)

lemma name_service_asked:
  assumes "admin_libs X"
  shows "name_service (X\<lparr>ae_wait := serve_remote X A\<rparr>) (remote_ids (ad_node A))"
proof (intro name_service.intro name_service_axioms.intro)
  fix M :: Node and q g r i R u
  assume "heap M q = Some g" "pl g = PGetOrCreateTaskStateId r" and wf: "table_wf (queues M)"
    and "remote_ids (ad_node A) (gc_state_name r) (registry M) (hdr_unique (header M)) = (i, R, u)"
  from serve_remote_answers [OF this(1,2,4), of X] wf
  show "\<exists>M' g'. ae_wait (X\<lparr>ae_wait := serve_remote X A\<rparr>) q M = Inr M' \<and> heap M' = (heap M)(q \<mapsto> g') \<and>
      pl g' = PGetOrCreateTaskStateId (r\<lparr>gc_id := i\<rparr>) \<and> delcnt g' = delcnt g \<and> registry M' = R \<and>
      header M' = (header M)\<lparr>hdr_unique := u\<rparr> \<and> table_wf (queues M') \<and> map mq_id (queues M') = map mq_id (queues M)"
    by fastforce
qed (use assms in \<open>auto simp: admin_libs_def remote_ids_def\<close>)

interpretation own_names: name_service "sample_admin_env\<lparr>ae_wait := serve_id sample_admin_env A\<rparr>" GetOrCreateTaskStateId
  by (rule name_service_own) (simp add: admin_libs_def sample_admin_laws)

interpretation asked_names: name_service "sample_admin_env\<lparr>ae_wait := serve_remote sample_admin_env A\<rparr>" "remote_ids (ad_node A)"
  by (rule name_service_asked) (simp add: admin_libs_def sample_admin_laws)

text \<open>Node \<open>n\<close> with an empty registry, two free slots, and task 3, which asks for a state of \<^verbatim>\<open>small_message\<close>.\<close>

definition name_admin :: "u32 \<Rightarrow> Admin" where
  "name_admin n = sample_admin PCustom\<lparr>ad_node := sample_node\<lparr>
     heap := [3 \<mapsto> sample_obj (PCreateTaskState (sample_create\<lparr>cs_id := UniqueId_GetNull\<rparr>))],
     registry := empty_registry\<lparr>rg_node_id := n\<rparr>,
     queues := [queues sample_node ! 0, zero_queue, zero_queue]\<rparr>\<rparr>"

lemma name_admin_ready:
  "create_ready (sample_admin_env\<lparr>ae_wait := f\<rparr>) (ad_node (name_admin n)) 3 ''sm'' ''small_message'' [] (UniqueId_new 1 2)"
  unfolding create_ready_def
proof (intro conjI)
  show "table_wf (queues (ad_node (name_admin n)))"
    by (simp add: name_admin_def sample_node_def table_wf_def slot_wf_def queue_wf_def group_wf_def UniqueId_new_def
      MultiQueue_new_def make_group_def LaneGroup_new_def PriorityInfo_new_def Let_def less_Suc_eq zero_queue_def zero_uid_def
      UniqueId_IsNull_def numeral_3_eq_3)
  show "registry_wf (registry (ad_node (name_admin n)))"
    by (simp add: name_admin_def registry_wf_def empty_registry_def TaskStateExists_def)
  show "\<forall>f' t m R. objects R = objects (registry (ad_node (name_admin n))) \<longrightarrow>
      fst (ae_create (sample_admin_env\<lparr>ae_wait := f\<rparr>) f' t m R) \<noteq> None"
    by (simp add: sample_admin_env_def arena_create_def create_state_def name_admin_def empty_registry_def Let_def upt_rec)
qed (simp_all add: name_admin_def sample_admin_env_def sample_create_def sample_obj_def empty_registry_def sample_node_def sample_alloc_def
    bump_alloc_def upt_rec UniqueId_new_def UniqueId_IsNull_def UniqueId_GetNull_def kAdmin_def IsEmplacePlugged_def MultiQueue_new_def
    word_bitfield_def PriorityInfo_new_def make_group_def LaneGroup_new_def Let_def list_env_def zero_queue_def zero_uid_def TaskStateExists_def)

section \<open>Properties\<close>

text \<open>
  C9. A task state has one id in the whole cluster. The creation of a state of a new name on node 1,
  with the null id in its task, returns: the state is registered under the next id of the node and
  under its name, the slot of that id holds its queue, the task carries the id, the subtask that
  asked for it is gone and nothing else has changed but the id counter. From then on a creation
  by that name on this node, whatever library, queue and id its task carries, gives the same id and
  changes nothing else, and a creation by that name on another node, which asks node 1, registers
  its state and its queue there under the same id.
\<close>

theorem state_id_shared:
  assumes "name_service X GetOrCreateTaskStateId"
    and "i = UniqueId_new (rg_node_id (registry (ad_node A))) (hdr_unique (header (ad_node A)))"
    and "create_ready X (ad_node A) p name lib info i"
  shows "\<exists>A'. srv_CreateTaskState X p A = Inr A' \<and> state_created X (ad_node A) (ad_node A') p name info i \<and>
    header (ad_node A') = (header (ad_node A))\<lparr>hdr_unique := hdr_unique (header (ad_node A)) + 1\<rparr> \<and>
    (\<forall>Z B q t r. registry (ad_node B) = registry (ad_node A') \<and> heap (ad_node B) q = Some t \<and>
       pl t = PCreateTaskState r \<and> cs_state_name r = name \<longrightarrow>
       srv_CreateTaskState Z q B = Inr (B\<lparr>ad_node := put_task q (SetModuleComplete (ae_bits Z)
         (t\<lparr>pl := PCreateTaskState (r\<lparr>cs_id := i\<rparr>)\<rparr>)) (ad_node B)\<rparr>)) \<and>
    (\<forall>Y B q lib' info'. name_service Y (remote_ids (ad_node A')) \<and> create_ready Y (ad_node B) q name lib' info' i \<longrightarrow>
       (\<exists>B'. srv_CreateTaskState Y q B = Inr B' \<and> state_created Y (ad_node B) (ad_node B') q name info' i))"
proof -
  from assms(2,3) have ask: "\<exists>R. GetOrCreateTaskStateId name (registry (ad_node A)) (hdr_unique (header (ad_node A))) =
      (i, R, hdr_unique (header (ad_node A)) + 1)" and nn: "\<not> UniqueId_IsNull i"
    by (simp_all add: create_ready_def GetOrCreateTaskStateId_def CreateTaskStateId_def)
  from ask name_service.create_by_name [OF assms(1,3)] obtain A' where
    A': "srv_CreateTaskState X p A = Inr A'" "state_created X (ad_node A) (ad_node A') p name info i"
      "header (ad_node A') = (header (ad_node A))\<lparr>hdr_unique := hdr_unique (header (ad_node A)) + 1\<rparr>" by blast
  from A'(2) obtain a s where s: "GetTaskStateId name (registry (ad_node A')) = i" "GetTaskState (registry (ad_node A')) i = Some a"
    "objects (registry (ad_node A')) a = Some s" "tl_id s = i" by (auto simp: state_created_def)
  have again: "srv_CreateTaskState Z q B = Inr (B\<lparr>ad_node := put_task q (SetModuleComplete (ae_bits Z)
      (t\<lparr>pl := PCreateTaskState (r\<lparr>cs_id := i\<rparr>)\<rparr>)) (ad_node B)\<rparr>)"
    if "registry (ad_node B) = registry (ad_node A')" "heap (ad_node B) q = Some t" "pl t = PCreateTaskState r" "cs_state_name r = name"
    for Z B q t r
    using create_known_name [OF _ _ nn _ that(2-4), unfolded that(1), OF s(1-3)] by (simp add: s(4))
  have "task_state_ids (registry (ad_node A')) name = Some i"
    using s(1) nn by (auto simp: GetTaskStateId_def UniqueId_IsNull_def UniqueId_GetNull_def UniqueId_new_def split: option.splits)
  then have "remote_ids (ad_node A') name R u = (i, R, u)" for R u by (simp add: remote_ids_def GetOrCreateTaskStateId_def)
  with A' again show ?thesis by (blast dest: name_service.create_by_name)
qed

theorem state_id_shared_witness:
  "\<exists>A' B'. srv_CreateTaskState (sample_admin_env\<lparr>ae_wait := serve_id sample_admin_env (name_admin 1)\<rparr>) 3 (name_admin 1) = Inr A' \<and>
     srv_CreateTaskState (sample_admin_env\<lparr>ae_wait := serve_remote sample_admin_env A'\<rparr>) 3 (name_admin 2) = Inr B' \<and>
     GetTaskStateId ''sm'' (registry (ad_node A')) = UniqueId_new 1 2 \<and> GetTaskStateId ''sm'' (registry (ad_node B')) = UniqueId_new 1 2"
proof -
  have i: "UniqueId_new 1 2 = UniqueId_new (rg_node_id (registry (ad_node (name_admin 1)))) (hdr_unique (header (ad_node (name_admin 1))))"
    by (simp add: name_admin_def sample_node_def)
  from state_id_shared [OF own_names.name_service_axioms [of "name_admin 1"] i name_admin_ready] obtain A' where
    A': "srv_CreateTaskState (sample_admin_env\<lparr>ae_wait := serve_id sample_admin_env (name_admin 1)\<rparr>) 3 (name_admin 1) = Inr A'"
      "GetTaskStateId ''sm'' (registry (ad_node A')) = UniqueId_new 1 2"
      "\<forall>Y B q lib' info'. name_service Y (remote_ids (ad_node A')) \<and> create_ready Y (ad_node B) q ''sm'' lib' info' (UniqueId_new 1 2) \<longrightarrow>
        (\<exists>B'. srv_CreateTaskState Y q B = Inr B' \<and> state_created Y (ad_node B) (ad_node B') q ''sm'' info' (UniqueId_new 1 2))"
    by (elim exE conjE) (rule that, assumption, erule state_created_name, assumption)
  from A'(3) asked_names.name_service_axioms [of A'] name_admin_ready [of _ 2] obtain B' where
    "srv_CreateTaskState (sample_admin_env\<lparr>ae_wait := serve_remote sample_admin_env A'\<rparr>) 3 (name_admin 2) = Inr B'"
    "state_created (sample_admin_env\<lparr>ae_wait := serve_remote sample_admin_env A'\<rparr>) (ad_node (name_admin 2)) (ad_node B') 3 ''sm'' [] (UniqueId_new 1 2)"
    by blast
  with A'(1,2) show ?thesis by (blast dest: state_created_name)
qed

end
