(* ===== verification/Lifetimes.thy ===== *)
theory Lifetimes
  imports Queues Tasks Worker
begin

text \<open>
  The life cycle of the shared-memory containers: copies, moves and destruction of
  \<^verbatim>\<open>LaneGroup\<close> and \<^verbatim>\<open>MultiQueueT<Hshm>\<close> (\<^verbatim>\<open>queue_manager/queues/hshm_queue.h\<close>) and of
  \<^verbatim>\<open>Task\<close> (\<^verbatim>\<open>task_registry/task.h\<close>), and the thread switches of \<^verbatim>\<open>Task::Yield\<close> with the
  wait loop that runs them. The vector of groups and the thread libraries are not part
  of the repository: the records \<open>group_vec_lib\<close> and \<open>thread_lib\<close> are arguments.
\<close>

section \<open>Groups\<close>

text \<open>
  The copy and the move constructor have the same body. Neither touches the lanes, so the
  archive that holds them is a default one, nor the priority.
\<close>

definition LaneGroup_copy :: "LaneGroup \<Rightarrow> LaneGroup \<Rightarrow> LaneGroup" where
  "LaneGroup_copy mem p = mem\<lparr>max_lanes := max_lanes p, num_lanes := num_lanes p,
     num_scheduled := num_scheduled p, depth := depth p, pflags := pflags p, lanes := []\<rparr>"

text \<open>
  \<open>gv_copy f d s\<close> is the assignment of the vector \<open>s\<close> to \<open>d\<close>, which copy-constructs each
  element with \<open>f mem\<close> in memory \<open>mem\<close>; \<open>gv_move d s\<close> is what a move assignment leaves in
  its two sides; \<open>gv_shm_destroy\<close> and \<open>gv_IsNull\<close> are those of the vector. \<open>ct_shm_destroy\<close>
  is the \<^verbatim>\<open>shm_destroy\<close> that the container template derives from \<^verbatim>\<open>IsNull\<close>,
  \<^verbatim>\<open>shm_destroy_main\<close> and \<^verbatim>\<open>SetNull\<close>.
\<close>

record group_vec_lib =
  gv_copy :: "(LaneGroup \<Rightarrow> LaneGroup \<Rightarrow> LaneGroup) \<Rightarrow> LaneGroup list \<Rightarrow> LaneGroup list \<Rightarrow> LaneGroup list"
  gv_move :: "LaneGroup list \<Rightarrow> LaneGroup list \<Rightarrow> LaneGroup list \<times> LaneGroup list"
  gv_shm_destroy :: "LaneGroup list \<Rightarrow> LaneGroup list"
  gv_IsNull :: "LaneGroup list \<Rightarrow> bool"
  ct_shm_destroy :: "(MultiQueue \<Rightarrow> bool) \<Rightarrow> (MultiQueue \<Rightarrow> MultiQueue) \<Rightarrow> (MultiQueue \<Rightarrow> MultiQueue) \<Rightarrow>
    MultiQueue \<Rightarrow> MultiQueue"

locale group_vec =
  fixes G :: group_vec_lib
  assumes length_gv_copy [simp]: "length (gv_copy G f d s) = length s"
    and nth_gv_copy: "k < length s \<Longrightarrow> \<exists>mem. gv_copy G f d s ! k = f mem (s ! k)"
    and fst_gv_move [simp]: "fst (gv_move G d s) = s"
    and destroyed [simp]: "gv_IsNull G (gv_shm_destroy G s)"
    and shm_destroy_eq: "ct_shm_destroy G isn main setn q = (if isn q then q else setn (main q))"

section \<open>Queues\<close>

definition MultiQueue_SetNull :: "MultiQueue \<Rightarrow> MultiQueue" where
  "MultiQueue_SetNull q = q"

definition MultiQueue_IsNull :: "group_vec_lib \<Rightarrow> MultiQueue \<Rightarrow> bool" where
  "MultiQueue_IsNull G q = gv_IsNull G (groups q)"

text \<open>An entry of a worker is null when its queue is.\<close>

definition WorkEntry_IsNull :: "group_vec_lib \<Rightarrow> MultiQueue list \<Rightarrow> WorkEntry \<Rightarrow> bool res" where
  "WorkEntry_IsNull G qs e = res_bind (vec_at qs (we_queue e)) (\<lambda>q. Inr (MultiQueue_IsNull G q))"

definition shm_destroy_main :: "group_vec_lib \<Rightarrow> MultiQueue \<Rightarrow> MultiQueue" where
  "shm_destroy_main G q = q\<lparr>groups := gv_shm_destroy G (groups q)\<rparr>"

definition shm_destroy :: "group_vec_lib \<Rightarrow> MultiQueue \<Rightarrow> MultiQueue" where
  "shm_destroy G = ct_shm_destroy G (MultiQueue_IsNull G) (shm_destroy_main G) MultiQueue_SetNull"

definition shm_strong_copy_construct_and_op :: "group_vec_lib \<Rightarrow> MultiQueue \<Rightarrow> MultiQueue \<Rightarrow> MultiQueue" where
  "shm_strong_copy_construct_and_op G q other =
     q\<lparr>groups := gv_copy G LaneGroup_copy (groups q) (groups other)\<rparr>"

definition MultiQueue_copy :: "bitfield_lib \<Rightarrow> group_vec_lib \<Rightarrow> MultiQueue \<Rightarrow> MultiQueue \<Rightarrow> MultiQueue" where
  "MultiQueue_copy B G mem other =
     shm_strong_copy_construct_and_op G (MultiQueue_SetNull (mem\<lparr>mq_flags := bf_init B\<rparr>)) other"

text \<open>\<open>same\<close>: the two sides of the assignment are one object.\<close>

definition MultiQueue_assign :: "group_vec_lib \<Rightarrow> bool \<Rightarrow> MultiQueue \<Rightarrow> MultiQueue \<Rightarrow> MultiQueue" where
  "MultiQueue_assign G same q other =
     (if \<not> same then shm_strong_copy_construct_and_op G (shm_destroy G q) other else q)"

text \<open>
  The body that the move constructor and the move assignment share: within one allocator
  (\<open>same_alloc\<close>) the groups move and the source is set null, which does nothing; across
  allocators they are copied and the source is destroyed.
\<close>

definition move_groups :: "group_vec_lib \<Rightarrow> bool \<Rightarrow> MultiQueue \<Rightarrow> MultiQueue \<Rightarrow> MultiQueue \<times> MultiQueue" where
  "move_groups G same_alloc q other =
     (if same_alloc
      then case gv_move G (groups q) (groups other) of
             (gs, gs') \<Rightarrow> (q\<lparr>groups := gs\<rparr>, MultiQueue_SetNull (other\<lparr>groups := gs'\<rparr>))
      else (shm_strong_copy_construct_and_op G q other, shm_destroy G other))"

definition MultiQueue_move :: "bitfield_lib \<Rightarrow> group_vec_lib \<Rightarrow> bool \<Rightarrow> MultiQueue \<Rightarrow> MultiQueue \<Rightarrow> MultiQueue \<times> MultiQueue" where
  "MultiQueue_move B G same_alloc mem other = move_groups G same_alloc (mem\<lparr>mq_flags := bf_init B\<rparr>) other"

definition MultiQueue_move_assign :: "group_vec_lib \<Rightarrow> bool \<Rightarrow> bool \<Rightarrow> MultiQueue \<Rightarrow> MultiQueue \<Rightarrow> MultiQueue \<times> MultiQueue" where
  "MultiQueue_move_assign G same same_alloc q other =
     (if \<not> same then move_groups G same_alloc (shm_destroy G q) other else (q, other))"

lemma LaneGroup_copy_simps [simp]:
  "num_lanes (LaneGroup_copy mem p) = num_lanes p"
  "num_scheduled (LaneGroup_copy mem p) = num_scheduled p"
  "gprio (LaneGroup_copy mem p) = gprio mem"
  "lanes (LaneGroup_copy mem p) = []"
  by (simp_all add: LaneGroup_copy_def)

context group_vec
begin

lemma groups_strong_copy:
  assumes "k < length (groups other)"
  shows "\<exists>mem. groups (shm_strong_copy_construct_and_op G q other) ! k = LaneGroup_copy mem (groups other ! k)"
  using nth_gv_copy [OF assms] by (simp add: shm_strong_copy_construct_and_op_def)

text \<open>A copy of a queue has the groups of the original without their lanes: a push to it is undefined.\<close>

lemma Emplace_copy_out_of_range:
  assumes "unat pr < length (groups other)" and "num_lanes (groups other ! unat pr) \<noteq> 0"
  shows "Emplace_lane E (shm_strong_copy_construct_and_op G q other) pr h x = Inl OutOfRange"
proof -
  obtain mem where g: "groups (shm_strong_copy_construct_and_op G q other) ! unat pr =
      LaneGroup_copy mem (groups other ! unat pr)"
    using groups_strong_copy [OF assms(1)] by blast
  have "length (groups (shm_strong_copy_construct_and_op G q other)) = length (groups other)"
    by (simp add: shm_strong_copy_construct_and_op_def)
  with assms g show ?thesis by (simp add: Emplace_lane_def GetGroup_def GetLane_def Let_def)
qed

text \<open>A move within one allocator keeps lanes and what they hold, but neither the id nor the flags.\<close>

lemma groups_move [simp]: "groups (fst (move_groups G True q other)) = groups other"
  using fst_gv_move [of "groups q" "groups other"]
  by (cases "gv_move G (groups q) (groups other)") (simp add: move_groups_def)

lemma move_keeps_lanes:
  "lane_items (fst (move_groups G True q other)) gi li = lane_items other gi li"
  "queue_wf (fst (move_groups G True q other)) = queue_wf other"
  by (simp_all add: lane_items_def queue_wf_def)

lemma shm_destroy_IsNull: "MultiQueue_IsNull G (shm_destroy G q)"
  by (simp add: shm_destroy_def shm_destroy_eq MultiQueue_IsNull_def shm_destroy_main_def MultiQueue_SetNull_def)

lemma destroyed_entry_null:
  "we_queue e < length qs \<Longrightarrow> WorkEntry_IsNull G (qs[we_queue e := shm_destroy G (qs ! we_queue e)]) e = Inr True"
  by (simp add: WorkEntry_IsNull_def shm_destroy_IsNull)

lemma shm_destroy_idem: "shm_destroy G (shm_destroy G q) = shm_destroy G q"
  using shm_destroy_IsNull [of q] unfolding shm_destroy_def by (simp add: shm_destroy_eq)

end

text \<open>The vector of groups on lists.\<close>

definition list_group_vec :: group_vec_lib where
  "list_group_vec = \<lparr>gv_copy = (\<lambda>f d s. map (f zero_group) s), gv_move = (\<lambda>d s. (s, [])),
     gv_shm_destroy = (\<lambda>s. []), gv_IsNull = (\<lambda>s. s = []),
     ct_shm_destroy = (\<lambda>isn main setn q. if isn q then q else setn (main q))\<rparr>"

interpretation list_gv: group_vec list_group_vec
  by unfold_locales (auto simp: list_group_vec_def)

section \<open>Tasks\<close>

text \<open>The copy and move constructors run the initialisers of the members and copy nothing.\<close>

definition Task_copy :: "bitfield_lib \<Rightarrow> 'a Task_scheme \<Rightarrow> 'a Task_scheme \<Rightarrow> 'a Task_scheme" where
  "Task_copy B mem other = Task_new B mem"

definition Task_assign :: "'a Task_scheme \<Rightarrow> 'a Task_scheme \<Rightarrow> 'a Task_scheme" where
  "Task_assign t other = t"

definition Task_move :: "bitfield_lib \<Rightarrow> 'a Task_scheme \<Rightarrow> 'a Task_scheme \<Rightarrow> 'a Task_scheme \<times> 'a Task_scheme" where
  "Task_move B mem other = (Task_new B mem, other)"

definition Task_move_assign :: "'a Task_scheme \<Rightarrow> 'a Task_scheme \<Rightarrow> 'a Task_scheme \<times> 'a Task_scheme" where
  "Task_move_assign t other = (t, other)"

definition Task_shm_destroy_main :: "'a Task_scheme \<Rightarrow> 'a Task_scheme" where
  "Task_shm_destroy_main t = t"

definition Task_IsNull :: "'a Task_scheme \<Rightarrow> bool" where
  "Task_IsNull t = False"

definition Task_SetNull :: "'a Task_scheme \<Rightarrow> 'a Task_scheme" where
  "Task_SetNull t = t"

section \<open>Yielding\<close>

definition TASK_YIELD_STD :: int where "TASK_YIELD_STD = 0"
definition TASK_YIELD_CO :: int where "TASK_YIELD_CO = 1"
definition TASK_YIELD_ABT :: int where "TASK_YIELD_ABT = 2"

text \<open>
  \<open>'s\<close> is all that the other threads can change while this one does not run. A jump takes
  the context that is left in \<^verbatim>\<open>ctx_.jmp_\<close> and gives the one to jump to next.
\<close>

record 's thread_lib =
  tm_Yield :: "'s \<Rightarrow> 's"
  jump_fcontext :: "nat \<Rightarrow> 's \<Rightarrow> nat \<times> 's"
  ABT_thread_yield :: "'s \<Rightarrow> 's"

definition Yield :: "'s thread_lib \<Rightarrow> int \<Rightarrow> nat \<times> 's \<Rightarrow> nat \<times> 's" where
  "Yield L M = (\<lambda>(jmp, s).
     if M = TASK_YIELD_STD then (jmp, tm_Yield L s)
     else if M = TASK_YIELD_CO then jump_fcontext L jmp s
     else if M = TASK_YIELD_ABT then (jmp, ABT_thread_yield L s)
     else (jmp, s))"

text \<open>
  \<^verbatim>\<open>Wait\<close> with the yields it runs: \<open>rd s\<close> is the task as it stands in \<open>s\<close>. The task whose
  context is switched is the waited-for one, or the one given as \<^verbatim>\<open>yield_task\<close>.
\<close>

partial_function (option) Wait_yielding ::
    "bitfield_lib \<Rightarrow> 's thread_lib \<Rightarrow> int \<Rightarrow> ('s \<Rightarrow> 'a Task_scheme) \<Rightarrow> nat \<times> 's \<Rightarrow> (nat \<times> 's) option" where
  "Wait_yielding B L M rd c =
     (if \<not> IsComplete B (rd (snd c)) then Wait_yielding B L M rd (Yield L M c) else Some c)"

text \<open>
  The loop over observations of \<open>Tasks\<close> is this loop with the observations that the yields
  produce: it ends if and only if this one does, and in the same state.
\<close>

lemma Wait_yielding_steps:
  assumes "Wait B (\<lambda>i. rd (snd ((Yield L M ^^ i) c))) i = Some n"
  shows "Wait_yielding B L M rd ((Yield L M ^^ i) c) = Some ((Yield L M ^^ n) c)"
proof -
  from Wait_Some_complete [OF assms] have le: "i \<le> n"
    and stop: "IsComplete B (rd (snd ((Yield L M ^^ n) c)))"
    and run: "\<And>j. i \<le> j \<Longrightarrow> j < n \<Longrightarrow> \<not> IsComplete B (rd (snd ((Yield L M ^^ j) c)))"
    by auto
  from le run show ?thesis
  proof (induction rule: inc_induct)
    case base
    show ?case using stop by (simp add: Wait_yielding.simps [of B L M rd])
  next
    case (step k)
    then show ?case by (simp add: Wait_yielding.simps [of B L M rd "(Yield L M ^^ k) c"])
  qed
qed

lemma Wait_yielding_ends:
  fixes L :: "'b thread_lib" and rd :: "'b \<Rightarrow> 'a Task_scheme"
  assumes "Wait_yielding B L M rd c = Some c'"
  shows "\<exists>n. c' = (Yield L M ^^ n) c \<and> Wait B (\<lambda>i. rd (snd ((Yield L M ^^ i) c))) 0 = Some n"
proof -
  have "\<exists>n. c' = (Yield L M ^^ n) c \<and> IsComplete B (rd (snd c')) \<and>
      (\<forall>j<n. \<not> IsComplete B (rd (snd ((Yield L M ^^ j) c))))"
  proof (rule Wait_yielding.raw_induct [where P = "\<lambda>B L M rd c c'. \<exists>n. c' = (Yield L M ^^ n) c \<and>
      IsComplete B (rd (snd c')) \<and> (\<forall>j<n. \<not> IsComplete B (rd (snd ((Yield L M ^^ j) c))))", OF _ assms])
    fix W B and L :: "'b thread_lib" and M and rd :: "'b \<Rightarrow> 'a Task_scheme" and c c'
    assume IH: "\<And>B (L :: 'b thread_lib) M (rd :: 'b \<Rightarrow> 'a Task_scheme) c c'. W B L M rd c = Some c' \<Longrightarrow>
        \<exists>n. c' = (Yield L M ^^ n) c \<and> IsComplete B (rd (snd c')) \<and>
          (\<forall>j<n. \<not> IsComplete B (rd (snd ((Yield L M ^^ j) c))))"
      and eq: "(if \<not> IsComplete B (rd (snd c)) then W B L M rd (Yield L M c) else Some c) = Some c'"
    show "\<exists>n. c' = (Yield L M ^^ n) c \<and> IsComplete B (rd (snd c')) \<and>
        (\<forall>j<n. \<not> IsComplete B (rd (snd ((Yield L M ^^ j) c))))"
    proof (cases "IsComplete B (rd (snd c))")
      case True
      with eq show ?thesis by (auto intro!: exI [of _ 0])
    next
      case False
      with eq have "W B L M rd (Yield L M c) = Some c'" by simp
      from IH [OF this] obtain n where n: "c' = (Yield L M ^^ Suc n) c" "IsComplete B (rd (snd c'))"
        "\<forall>j<n. \<not> IsComplete B (rd (snd ((Yield L M ^^ Suc j) c)))"
        by (auto simp: funpow_swap1)
      have "\<not> IsComplete B (rd (snd ((Yield L M ^^ j) c)))" if "j < Suc n" for j
        using that False n(3) by (cases j) auto
      with n show ?thesis by blast
    qed
  qed
  then show ?thesis by (auto intro!: Wait_first)
qed

lemma Wait_yielding_refines_Wait:
  "Wait_yielding B L M rd c = map_option (\<lambda>n. (Yield L M ^^ n) c) (Wait B (\<lambda>i. rd (snd ((Yield L M ^^ i) c))) 0)"
proof (cases "Wait B (\<lambda>i. rd (snd ((Yield L M ^^ i) c))) 0")
  case None
  then show ?thesis using Wait_yielding_ends by (cases "Wait_yielding B L M rd c") fastforce+
next
  case (Some n)
  from Wait_yielding_steps [where c = c and i = 0, OF Some] show ?thesis by (simp add: Some)
qed

section \<open>Properties\<close>


end
