(* ===== verification/DefaultConfig.thy ===== *)
theory DefaultConfig
  imports Config
begin

text \<open>
  The built-in configurations, \<^verbatim>\<open>config/config_server_default.h\<close> and
  \<^verbatim>\<open>config/config_client_default.h\<close>: the texts that \<^verbatim>\<open>LoadDefault\<close> hands to the YAML
  library, the documents they denote, and the configuration the parsers of \<open>Config\<close>
  make of them. What the YAML library reads in a text is a hypothesis.
\<close>

definition text_lines :: "string list \<Rightarrow> string" where
  "text_lines ls = concat (map (\<lambda>l. l @ [CHR 0x0A]) ls)"

definition kHermesRunServerDefaultConfigStr :: string where
  \<open>kHermesRunServerDefaultConfigStr = text_lines
    [''### Runtime orchestration settings'',
     ''work_orchestrator:'',
     ''  # The number of worker threads to spawn'',
     ''  max_workers: 4'',
     [],
     ''### Queue Manager settings'',
     ''queue_manager:'',
     ''  # The default depth of allocated queues'',
     ''  queue_depth: 256'',
     ''  # The maximum number of lanes per queue'',
     ''  max_lanes: 16'',
     ''  # The maximum number of queues'',
     ''  max_queues: 1024'',
     ''  # The shared memory allocator to use'',
     ''  shm_allocator: kScalablePageAllocator'',
     ''  # The name of the shared memory region to create'',
     ''  shm_name: "hermes_run_shm"'',
     ''  # The size of the shared memory region to allocate'',
     ''  shm_size: 0g'',
     [],
     ''### Define properties of RPCs'',
     ''rpc:'',
     ''  # A path to a file containing a list of server names, 1 per line. If your'',
     ''  # servers are named according to a pattern (e.g., server-1, server-2, etc.),'',
     ''  # prefer the `rpc_server_base_name` and `rpc_host_number_range` options. If this'',
     ''  # option is not empty, it will override anything in `rpc_server_base_name`.'',
     ''  host_file: ""'',
     [],
     ''  # Host names can be defined using the following syntax:'',
     ''  # ares-comp-[0-9]-40g will convert to ares-comp-0-40g, ares-comp-1-40g, ...'',
     ''  # ares-comp[00-09] will convert to ares-comp-00, ares-comp-01, ...'',
     ''  host_names: ["localhost"]'',
     [],
     ''  # The RPC protocol. This must come from the documentation of the specific RPC'',
     ''  # library in use.'',
     ''  protocol: "ofi+sockets"'',
     [],
     ''  # RPC domain name for verbs transport. Blank for tcp.'',
     ''  domain: ""'',
     [],
     ''  # Desired RPC port number.'',
     ''  port: 8080'',
     [],
     ''  # The number of handler threads for each RPC server.'',
     ''  num_threads: 4'',
     [],
     ''### Task Registry'',
     ''task_registry: ['',
     ''  'hermes_mdm','',
     ''  'hermes_blob_mdm','',
     ''  'hermes_bucket_mdm','',
     ''  'posix_bdev','',
     ''  'ram_bdev'' @ [CHR 0x27],
     '']'']\<close>

definition kHermesRunClientDefaultConfigStr :: string where
  "kHermesRunClientDefaultConfigStr = text_lines [''thread_model: kStd'']"

section \<open>The documents\<close>

definition server_default_doc :: yaml_tree where
  "server_default_doc = YMap
     [(''work_orchestrator'', YMap [(''max_workers'', YNum 4)]),
      (''queue_manager'', YMap
        [(''queue_depth'', YNum 256), (''max_lanes'', YNum 16), (''max_queues'', YNum 1024),
         (''shm_allocator'', YStr ''kScalablePageAllocator''), (''shm_name'', YStr ''hermes_run_shm''),
         (''shm_size'', YStr ''0g'')]),
      (''rpc'', YMap
        [(''host_file'', YStr []), (''host_names'', YSeq [YStr ''localhost'']),
         (''protocol'', YStr ''ofi+sockets''), (''domain'', YStr []), (''port'', YNum 8080),
         (''num_threads'', YNum 4)]),
      (''task_registry'', YSeq (map YStr
        [''hermes_mdm'', ''hermes_blob_mdm'', ''hermes_bucket_mdm'', ''posix_bdev'', ''ram_bdev'']))]"

definition client_default_doc :: yaml_tree where
  "client_default_doc = YMap [(''thread_model'', YStr ''kStd'')]"

section \<open>The configurations\<close>

definition default_config :: "parse_lib \<Rightarrow> string list \<Rightarrow> ServerConfig" where
  "default_config P libs =
     \<lparr>wo = \<lparr>max_workers = 4\<rparr>,
      queue_manager = \<lparr>queue_depth = 256, qm_max_lanes = 16, qm_max_queues = 1024,
        shm_allocator = ''kScalablePageAllocator'', shm_name = ''hermes_run_shm'', shm_size = ParseSize P ''0g''\<rparr>,
      rpc = \<lparr>host_file = [], host_names = ParseHostNameString P ''localhost'', protocol = ''ofi+sockets'',
        rpc_domain = [], port = 8080, num_threads = 4\<rparr>,
      task_libs = libs @ [''hermes_mdm'', ''hermes_blob_mdm'', ''hermes_bucket_mdm'', ''posix_bdev'', ''ram_bdev'']\<rparr>"

text \<open>\<open>ld\<close> reads a text and \<open>lf\<close> a file as a document.\<close>

definition doc_lib :: "(string \<Rightarrow> yaml_tree res) \<Rightarrow> (string \<Rightarrow> yaml_tree res) \<Rightarrow> yaml_tree yaml_lib" where
  "doc_lib ld lf = tree_lib\<lparr>y_load := ld, y_load_file := lf\<rparr>"

lemma doc_lib_load [simp]:
  "y_load (doc_lib ld lf) = ld" "y_load_file (doc_lib ld lf) = lf"
  by (simp_all add: doc_lib_def)

lemma default_orchestrator:
  "ParseWorkOrchestrator (doc_lib ld lf) (YMap [(''max_workers'', YNum 4)]) c = (c\<lparr>wo := \<lparr>max_workers = 4\<rparr>\<rparr>, None)"
  by (simp add: ParseWorkOrchestrator_def opt_field_def doc_lib_def tree_lib_def)

lemma default_queue_manager:
  assumes "y_get (doc_lib ld lf) server_default_doc ''queue_manager'' = Some n"
  shows "ParseQueueManager (doc_lib ld lf) P n c =
    (c\<lparr>queue_manager := queue_manager (default_config P [])\<rparr>, None)"
  using assms
  by (auto simp: ParseQueueManager_def opt_field_def doc_lib_def tree_lib_def server_default_doc_def default_config_def
      then_step_def)

lemma default_rpc:
  assumes "y_get (doc_lib ld lf) server_default_doc ''rpc'' = Some n" and "ExpandPath P [] = []"
  shows "ParseRpcInfo (doc_lib ld lf) P n c = (c\<lparr>rpc := rpc (default_config P [])\<rparr>, None)"
  using assms
  by (auto simp: ParseRpcInfo_def ParseHostFileField_def ParseHostNamesField_def opt_field_def doc_lib_def tree_lib_def
      server_default_doc_def default_config_def then_step_def Let_def)

lemma default_task_registry:
  assumes "y_get (doc_lib ld lf) server_default_doc ''task_registry'' = Some n"
  shows "ParseVector (doc_lib ld lf) (y_seq (doc_lib ld lf) n) acc = (acc @ task_libs (default_config P []), None)"
  using assms by (auto simp: doc_lib_def tree_lib_def server_default_doc_def default_config_def)

lemma server_default_sections:
  "y_get (doc_lib ld lf) server_default_doc ''work_orchestrator'' = Some (YMap [(''max_workers'', YNum 4)])"
  "\<exists>n. y_get (doc_lib ld lf) server_default_doc ''queue_manager'' = Some n"
  "\<exists>n. y_get (doc_lib ld lf) server_default_doc ''rpc'' = Some n"
  "\<exists>n. y_get (doc_lib ld lf) server_default_doc ''task_registry'' = Some n"
  by (simp_all add: server_default_doc_def doc_lib_def tree_lib_def)

lemma parse_server_default:
  assumes "ExpandPath P [] = []"
  shows "ServerConfig_ParseYAML (doc_lib ld lf) P server_default_doc c = (default_config P (task_libs c), None)"
proof -
  obtain q r t where s: "y_get (doc_lib ld lf) server_default_doc ''queue_manager'' = Some q"
    "y_get (doc_lib ld lf) server_default_doc ''rpc'' = Some r"
    "y_get (doc_lib ld lf) server_default_doc ''task_registry'' = Some t"
    using server_default_sections [of ld lf] by blast
  show ?thesis
    by (simp add: ServerConfig_ParseYAML_def section_of_def then_step_def server_default_sections s
        default_orchestrator default_queue_manager [OF s(1)] default_rpc [OF s(2) assms]
        default_task_registry [OF s(3), of _ P] default_config_def)
qed

lemma load_server_default:
  assumes "ld kHermesRunServerDefaultConfigStr = Inr server_default_doc" and "ExpandPath P [] = []"
  shows "LoadDefault (doc_lib ld lf) (ServerConfig_ParseYAML (doc_lib ld lf) P) kHermesRunServerDefaultConfigStr c =
    (default_config P (task_libs c), None)"
proof -
  have "kHermesRunServerDefaultConfigStr \<noteq> []"
    by (simp add: kHermesRunServerDefaultConfigStr_def text_lines_def)
  with assms show ?thesis by (simp add: LoadDefault_def LoadText_body_def parse_server_default)
qed

lemma parse_libs_only:
  "ServerConfig_ParseYAML (doc_lib ld lf) P (YMap [(''task_registry'', YSeq (map YStr libs))]) c =
    (c\<lparr>task_libs := task_libs c @ libs\<rparr>, None)"
proof -
  have "ParseVector (doc_lib ld lf) (map YStr libs) acc = (acc @ libs, None)" for acc
    by (induction libs arbitrary: acc) (simp_all add: doc_lib_def tree_lib_def)
  then show ?thesis
    by (simp add: ServerConfig_ParseYAML_def section_of_def then_step_def doc_lib_def tree_lib_def)
qed

lemma load_client_default:
  assumes "ld kHermesRunClientDefaultConfigStr = Inr client_default_doc"
  shows "LoadDefault (doc_lib ld lf) (ClientConfig_ParseYAML (doc_lib ld lf)) kHermesRunClientDefaultConfigStr c =
    (c\<lparr>thread_model := ''kStd''\<rparr>, None)"
proof -
  have "kHermesRunClientDefaultConfigStr \<noteq> []"
    by (simp add: kHermesRunClientDefaultConfigStr_def text_lines_def)
  with assms show ?thesis
    by (simp add: LoadDefault_def LoadText_body_def ClientConfig_ParseYAML_def opt_field_def client_default_doc_def
        doc_lib_def tree_lib_def)
qed

section \<open>Properties\<close>



end
