(* ===== verification/Buffers.thy ===== *)
theory Buffers
  imports Client
begin

text \<open>
  The buffers that \<^verbatim>\<open>Client::AllocateBuffer\<close> and \<^verbatim>\<open>Client::FreeBuffer\<close> of
  \<^verbatim>\<open>api/hermes_run_client.h\<close> hand out of the shared segment, and the remaining members of the
  client. The segment's allocator is a library: \<open>buffer_lib\<close> is an argument over the state
  \<open>'m\<close> of the segment, of which \<open>bl_live\<close> lists the buffers that are handed out.
\<close>

record 'm buffer_lib =
  bl_alloc :: "'m \<Rightarrow> size_t \<Rightarrow> (LPointer \<times> 'm)"
  bl_free :: "'m \<Rightarrow> Pointer \<Rightarrow> 'm"
  bl_free_local :: "'m \<Rightarrow> LPointer \<Rightarrow> 'm"
  bl_live :: "'m \<Rightarrow> Pointer \<rightharpoonup> size_t"

definition AllocateBuffer :: "'m buffer_lib \<Rightarrow> size_t \<Rightarrow> 'm \<Rightarrow> (LPointer \<times> 'm) res" where
  "AllocateBuffer L sz m =
     (case bl_alloc L m sz of (p, m') \<Rightarrow>
        if lp_ptr p = None then Inl (Thrown ''Could not allocate buffer'') else Inr (p, m'))"

definition FreeBuffer :: "'m buffer_lib \<Rightarrow> Pointer \<Rightarrow> 'm \<Rightarrow> 'm" where
  "FreeBuffer L p m = bl_free L m p"

definition FreeBuffer_local :: "'m buffer_lib \<Rightarrow> LPointer \<Rightarrow> 'm \<Rightarrow> 'm" where
  "FreeBuffer_local L p m = bl_free_local L m p"

definition Client_GetQueue :: "Node \<Rightarrow> QueueId \<Rightarrow> MultiQueue res" where
  "Client_GetQueue N qid = GetQueue (queues N) qid"

definition Client_Finalize :: "Client \<Rightarrow> Client" where
  "Client_Finalize c = c"

locale buffer_segment =
  fixes L :: "'m buffer_lib"
  assumes alloc_live: "bl_alloc L m sz = (p, m') \<Longrightarrow> lp_ptr p \<noteq> None \<Longrightarrow>
      bl_live L m (lp_shm p) = None \<and> bl_live L m' = (bl_live L m)(lp_shm p \<mapsto> sz)"
    and free_live: "bl_live L (bl_free L m q) = (bl_live L m)(q := None)"
    and free_local: "bl_free_local L m lp = bl_free L m (lp_shm lp)"
begin

lemma AllocateBuffer_fresh:
  assumes "AllocateBuffer L sz m = Inr (p, m')"
  shows "bl_live L m (lp_shm p) = None \<and> bl_live L m' = (bl_live L m)(lp_shm p \<mapsto> sz)"
  using assms alloc_live [of m sz p m'] by (auto simp: AllocateBuffer_def split: prod.splits if_splits)

lemma buffer_roundtrip:
  assumes "AllocateBuffer L sz m = Inr (p, m')"
  shows "bl_live L (FreeBuffer L (lp_shm p) m') = bl_live L m"
    and "FreeBuffer_local L p m' = FreeBuffer L (lp_shm p) m'"
  using AllocateBuffer_fresh [OF assms]
  by (auto simp: FreeBuffer_def FreeBuffer_local_def free_live free_local fun_upd_idem)

lemma two_buffers_differ:
  assumes "AllocateBuffer L a m = Inr (p, m1)" and "AllocateBuffer L b m1 = Inr (q, m2)"
  shows "lp_shm p \<noteq> lp_shm q \<and> bl_live L m2 (lp_shm p) = Some a \<and> bl_live L m2 (lp_shm q) = Some b"
  using AllocateBuffer_fresh [OF assms(1)] AllocateBuffer_fresh [OF assms(2)] by (auto split: if_splits)

end

text \<open>A segment of \<open>cap\<close> slots that hands out the first free one.\<close>

definition slot_segment :: "nat \<Rightarrow> (Pointer \<rightharpoonup> size_t) buffer_lib" where
  "slot_segment cap = \<lparr>bl_alloc = (\<lambda>m sz. case find (\<lambda>p. m p = None) [0..<cap] of
       None \<Rightarrow> (\<lparr>lp_ptr = None, lp_shm = 0\<rparr>, m) | Some p \<Rightarrow> (lptr p, m(p \<mapsto> sz))),
     bl_free = (\<lambda>m q. m(q := None)), bl_free_local = (\<lambda>m lp. m(lp_shm lp := None)), bl_live = id\<rparr>"

interpretation slots: buffer_segment "slot_segment cap"
  by unfold_locales (auto simp: slot_segment_def lptr_def find_Some_iff split: option.splits)

lemma slots_exhausted: "AllocateBuffer (slot_segment 1) 8 [0 \<mapsto> 8] = Inl (Thrown ''Could not allocate buffer'')"
  by (simp add: AllocateBuffer_def slot_segment_def)

end
