(* ===== verification/Keeps.thy ===== *)
theory Keeps
  imports Runtime Progress SchedLibs TaskTemplate
begin

text \<open>
  What a handler keeps of the node, whichever library it belongs to: the classes of the tasks
  and the well-formedness of the queue table and of the registry. The contract of a library is a
  locale; the libraries that keep no other state are its first instances.
\<close>

section \<open>What a handler keeps\<close>

lemma res_bindE: "res_bind m f = Inr y \<Longrightarrow> (\<And>x. m = Inr x \<Longrightarrow> f x = Inr y \<Longrightarrow> P) \<Longrightarrow> P"
  by (auto simp: res_bind_Inr_iff)

text \<open>The class an object was constructed as; the source stores it nowhere and casts by method.\<close>

fun class_tag :: "payload \<Rightarrow> nat" where
  "class_tag (PSchedule _) = 0"
| "class_tag (PRegisterTaskLib _) = 1"
| "class_tag (PGetOrCreateTaskStateId _) = 2"
| "class_tag (PCreateTaskState _) = 3"
| "class_tag (PGetTaskStateId _) = 4"
| "class_tag (PDestroyTaskState _) = 5"
| "class_tag PStopRuntime = 6"
| "class_tag (PSetPolicy _) = 7"
| "class_tag (PTypedPush _) = 8"
| "class_tag (PMd _) = 9"
| "class_tag (PMdPush _) = 10"
| "class_tag (PIo _) = 11"
| "class_tag (PRemotePush _) = 12"
| "class_tag PCustom = 13"

definition classes :: "Node \<Rightarrow> Pointer \<rightharpoonup> nat" where
  "classes N p = map_option (\<lambda>t. class_tag (pl t)) (heap N p)"

definition same_class :: "Node \<Rightarrow> Node \<Rightarrow> bool" where
  "same_class N N' \<longleftrightarrow> (\<forall>p \<in> dom (heap N) \<inter> dom (heap N'). classes N' p = classes N p)"

definition node_wf :: "Node \<Rightarrow> bool" where
  "node_wf N \<longleftrightarrow> table_wf (queues N) \<and> registry_wf (registry N)"

text \<open>Tasks are added, or tasks are removed, while the others keep their classes.\<close>

definition extends :: "Node \<Rightarrow> Node \<Rightarrow> bool" where
  "extends N N' \<longleftrightarrow> classes N \<subseteq>\<^sub>m classes N' \<and> (node_wf N \<longrightarrow> node_wf N')"

definition shrinks :: "Node \<Rightarrow> Node \<Rightarrow> bool" where
  "shrinks N N' \<longleftrightarrow> classes N' \<subseteq>\<^sub>m classes N \<and> (node_wf N \<longrightarrow> node_wf N')"

definition node_keeps :: "Node \<Rightarrow> Node \<Rightarrow> bool" where
  "node_keeps N N' \<longleftrightarrow> same_class N N' \<and> (node_wf N \<longrightarrow> node_wf N')"

lemma dom_classes [simp]: "dom (classes N) = dom (heap N)"
  by (auto simp: classes_def)

lemma extends_trans: "extends N N1 \<Longrightarrow> extends N1 N2 \<Longrightarrow> extends N N2"
  unfolding extends_def using map_le_trans by blast

lemma shrinks_trans: "shrinks N N1 \<Longrightarrow> shrinks N1 N2 \<Longrightarrow> shrinks N N2"
  unfolding shrinks_def using map_le_trans by blast

lemma extends_keeps: "extends N N' \<Longrightarrow> node_keeps N N'"
  by (simp add: extends_def node_keeps_def same_class_def map_le_def)

lemma shrinks_keeps: "shrinks N N' \<Longrightarrow> node_keeps N N'"
  by (simp add: shrinks_def node_keeps_def same_class_def map_le_def)

lemma keeps_between: "extends N N1 \<Longrightarrow> node_keeps N1 N2 \<Longrightarrow> shrinks N2 N3 \<Longrightarrow> node_keeps N N3"
proof -
  assume a: "extends N N1" "node_keeps N1 N2" "shrinks N2 N3"
  have "classes N3 p = classes N p" if "p \<in> dom (heap N)" "p \<in> dom (heap N3)" for p
  proof -
    have 1: "classes N1 p = classes N p" "p \<in> dom (heap N1)"
      using a(1) that(1) map_le_implies_dom_le [of "classes N" "classes N1"] by (auto simp: extends_def map_le_def)
    have 3: "classes N3 p = classes N2 p" "p \<in> dom (heap N2)"
      using a(3) that(2) map_le_implies_dom_le [of "classes N3" "classes N2"] by (auto simp: shrinks_def map_le_def)
    with 1 a(2) show ?thesis by (simp add: node_keeps_def same_class_def)
  qed
  with a show ?thesis by (auto simp: node_keeps_def same_class_def extends_def shrinks_def)
qed

lemma extends_refl [simp]: "extends N N"
  by (simp add: extends_def)

lemma shrinks_refl [simp]: "shrinks N N"
  by (simp add: shrinks_def)

lemma keeps_refl [simp]: "node_keeps N N"
  by (simp add: node_keeps_def same_class_def)

lemma frame_both:
  assumes "heap N' = heap N" and "node_wf N \<Longrightarrow> node_wf N'"
  shows "extends N N'" "shrinks N N'"
proof -
  have "classes N' = classes N" using assms(1) by (simp add: classes_def fun_eq_iff)
  with assms(2) show "extends N N'" "shrinks N N'" by (simp_all add: extends_def shrinks_def)
qed

lemma put_both:
  assumes "heap N p = Some t" and "class_tag (pl t') = class_tag (pl t)"
  shows "extends N (put_task p t' N)" "shrinks N (put_task p t' N)"
proof -
  have "classes (put_task p t' N) = classes N" using assms by (auto simp: classes_def fun_eq_iff put_task_def)
  then show "extends N (put_task p t' N)" "shrinks N (put_task p t' N)"
    by (simp_all add: extends_def shrinks_def node_wf_def)
qed

lemma upd_both:
  assumes "upd_task p f N = Inr N'" and "\<And>t. heap N p = Some t \<Longrightarrow> class_tag (pl (f t)) = class_tag (pl t)"
  shows "extends N N'" "shrinks N N'"
  using assms put_both [of N p] by (auto simp: upd_task_def res_bind_Inr_iff task_at_def split: option.splits)

lemma put_new: "heap N p = None \<Longrightarrow> extends N (put_task p t N)"
  by (auto simp: extends_def classes_def map_le_def node_wf_def put_task_def)

lemma free_shrinks: "shrinks N (free_task p N)"
  by (auto simp: shrinks_def classes_def map_le_def node_wf_def free_task_def)

lemma flags_class [simp]: "pl (SetModuleComplete B t) = pl t" "pl (UnsetFireAndForget B t) = pl t"
  by (simp_all add: task_set_defs)

lemma complete_both:
  assumes "upd_task p (SetModuleComplete B) N = Inr N'"
  shows "extends N N'" "shrinks N N'"
  using upd_both [OF assms] by simp_all

lemma Del_shrinks:
  assumes "DelTask fr trivial_dtor p N = Inr N'"
  shows "shrinks N N'"
proof -
  from assms obtain t where t: "heap N p = Some t" and N': "N' = free_task p (put_task p (t\<lparr>delcnt := delcnt t + 1\<rparr>) N)"
    by (auto simp: DelTask_def task_at_def trivial_dtor_def Let_def helog_fatal_def split: option.splits if_splits)
  have "free_task p (put_task p (t\<lparr>delcnt := delcnt t + 1\<rparr>) N) = free_task p N"
    by (simp add: free_task_def put_task_def)
  then show ?thesis using N' free_shrinks by simp
qed

text \<open>Submission adds an entry to a lane, and scheduling changes marks in the queues and the workers.\<close>

lemma Emplace_wf:
  assumes "Emplace E q pr lh p = Inr (q', ok)"
  shows "mq_id q' = mq_id q \<and> (queue_wf q \<longrightarrow> queue_wf q')"
proof -
  have "\<exists>gi li l. q' = put_lane q gi li l"
    using assms by (auto simp: Emplace_def Emplace_data_def Emplace_lane_def Let_def res_bind_Inr_iff case_prod_unfold
        split: if_splits option.splits)
  with put_lane_wf show ?thesis by auto
qed

lemma queue_emplace_both:
  assumes "queue_emplace E qid pr lh p N = Inr N'"
  shows "extends N N'" "shrinks N N'"
proof -
  from assms obtain q q' ok where q: "unat (unique qid) < length (queues N)" "q = queues N ! unat (unique qid)"
    "Emplace E q pr lh p = Inr (q', ok)" and N': "N' = N\<lparr>queues := (queues N)[unat (unique qid) := q']\<rparr>"
    by (auto simp: queue_emplace_def emplace_slot_def GetQueue_def res_bind_Inr_iff vec_at_Inr_iff)
  have "node_wf N \<Longrightarrow> node_wf N'"
    using Emplace_wf [OF q(3)] q(1,2) by (auto simp: N' node_wf_def table_wf_def slot_wf_def nth_list_update_if)
  with frame_both [of N' N] show "extends N N'" "shrinks N N'" by (simp_all add: N')
qed

text \<open>Allocation and submission of a new task.\<close>

lemma NewTask_extends:
  assumes "allocator A" and "NewTask A con N = Inr (lp, N')"
  shows "extends N N' \<and> heap N (lp_shm lp) = None"
proof -
  from assms(2) obtain p m where p: "al_alloc A (heap N) = Some (p, m)" and N': "lp = lptr p" "N' = put_task p (con m) N"
    by (auto simp: NewTask_def split: option.splits)
  with allocator.alloc_fresh [OF assms(1) p] put_new show ?thesis by (simp add: lptr_def)
qed

lemma Async_extends:
  assumes "allocator A" and "Async E A qid con tn N = Inr (lp, N')"
  shows "extends N N' \<and> heap N (lp_shm lp) = None"
proof -
  from assms(2) obtain p m pr lh where p: "al_alloc A (heap N) = Some (p, m)" and lp: "lp = lptr p"
    and q: "queue_emplace E qid pr lh p (put_task p (con tn m) N) = Inr N'"
    by (auto simp: Async_def Async_Alloc_eq res_bind_Inr_iff lptr_def split: option.splits)
  from allocator.alloc_fresh [OF assms(1) p] have f: "heap N p = None" .
  with extends_trans [OF put_new [OF f] queue_emplace_both(1) [OF q]] lp show ?thesis by (simp add: lptr_def)
qed

text \<open>The round-robin policy for queues.\<close>

definition sched_frame :: "Node \<Rightarrow> Node \<Rightarrow> bool" where
  "sched_frame N N' \<longleftrightarrow> heap N' = heap N \<and> registry N' = registry N \<and> length (queues N') = length (queues N) \<and>
     (table_wf (queues N) \<longrightarrow> table_wf (queues N'))"

lemma sched_frame_trans: "sched_frame N N1 \<Longrightarrow> sched_frame N1 N2 \<Longrightarrow> sched_frame N N2"
  by (simp add: sched_frame_def)

lemma sched_lanes_frame: "sched_lanes Q low slot pr ls (c, N) = Inr (c', N') \<Longrightarrow> sched_frame N N'"
proof (induction ls arbitrary: c N)
  case Nil
  then show ?case by (simp add: sched_frame_def)
next
  case (Cons l ls)
  from Cons.prems obtain wid N1 where "poll_lane Q wid slot pr l N = Inr N1"
    and r: "sched_lanes Q low slot pr ls (if low then c else c + 1, N1) = Inr (c', N')"
    by (auto simp: res_bind_Inr_iff)
  then have "sched_frame N N1" by (auto simp: poll_lane_def res_bind_Inr_iff sched_frame_def put_worker_def)
  with Cons.IH [OF r] show ?case by (rule sched_frame_trans [rotated])
qed

lemma set_scheduled_frame: "s < length (queues N) \<Longrightarrow> sched_frame N (set_scheduled s g N)"
  using set_scheduled_facts [where s = s and g = g and N = N] by (auto simp: sched_frame_def dest: map_eq_imp_length_eq)

lemma sched_groups_frame:
  "s < length (queues N) \<Longrightarrow> sched_groups B Q s gis (c, N) = Inr (c', N') \<Longrightarrow> sched_frame N N'"
proof (induction gis arbitrary: c N)
  case Nil
  then show ?case by (simp add: sched_frame_def)
next
  case (Cons g gis)
  from Cons.prems(2) obtain c1 N1 low pr ls where l: "sched_lanes Q low s pr ls (c, N) = Inr (c1, N1)"
    and r: "sched_groups B Q s gis (c1, set_scheduled s g N1) = Inr (c', N')"
    by (auto simp: Let_def res_bind_Inr_iff)
  note f1 = sched_lanes_frame [OF l]
  with Cons.prems(1) have s: "s < length (queues N1)" by (simp add: sched_frame_def)
  note f2 = set_scheduled_frame [OF s, of g]
  with s have "s < length (queues (set_scheduled s g N1))" by (simp add: sched_frame_def)
  from Cons.IH [OF this r] f1 f2 show ?case by (blast intro: sched_frame_trans)
qed

lemma sched_queues_frame:
  "\<forall>s \<in> set ss. s < length (queues N) \<Longrightarrow> sched_queues B Q ss (c, N) = Inr (c', N') \<Longrightarrow> sched_frame N N'"
proof (induction ss arbitrary: c N)
  case Nil
  then show ?case by (simp add: sched_frame_def)
next
  case (Cons s ss)
  show ?case
  proof (cases "UniqueId_IsNull (mq_id (queues N ! s))")
    case True
    with Cons show ?thesis by (simp add: Let_def)
  next
    case False
    with Cons.prems(2) obtain c1 N1 where g: "sched_groups B Q s [0..<length (groups (queues N ! s))] (c, N) = Inr (c1, N1)"
      and r: "sched_queues B Q ss (c1, N1) = Inr (c', N')"
      by (auto simp: Let_def res_bind_Inr_iff)
    have f: "sched_frame N N1" using Cons.prems(1) by (intro sched_groups_frame [OF _ g]) simp
    with Cons.prems(1) have "\<forall>s \<in> set ss. s < length (queues N1)" by (simp add: sched_frame_def)
    from Cons.IH [OF this r] f show ?thesis by (blast intro: sched_frame_trans)
  qed
qed

lemma schedule_both:
  assumes "queue_rr_Schedule B Q c N = Inr (c', N')"
  shows "extends N N'" "shrinks N N'"
proof -
  have "sched_frame N N'" using assms by (intro sched_queues_frame [of "[0..<length (queues N)]"]) (auto simp: queue_rr_Schedule_def)
  with frame_both [of N' N] show "extends N N'" "shrinks N N'" by (simp_all add: sched_frame_def node_wf_def)
qed

section \<open>The contract of a library\<close>

text \<open>
  The handlers of a library on its state \<open>'s\<close>, which holds the node: whatever task they run and
  whatever the method, no task changes its class and the node stays well-formed.
\<close>

locale task_library =
  fixes run :: "u32 \<Rightarrow> Pointer \<Rightarrow> 's \<Rightarrow> 's res" and nd :: "'s \<Rightarrow> Node"
  assumes run_keeps: "run m p s = Inr s' \<Longrightarrow> node_keeps (nd s) (nd s')"

interpretation tn_lib: task_library "tn_Run B" id
  by unfold_locales
    (auto simp: tn_Run_def tn_Construct_def tn_Destruct_def Custom_def dest!: complete_both(1) intro: extends_keeps split: if_splits)

interpretation wq_lib: task_library "wq_Run B Q" snd
  by unfold_locales
    (auto simp: wq_Run_def wq_Construct_def wq_Destruct_def res_bind_Inr_iff
      dest!: complete_both(1) schedule_both(1) intro: extends_keeps split: if_splits prod.splits)

text \<open>The other policy also reports its system calls, which are not part of its state.\<close>

interpretation wp_lib: task_library "\<lambda>m p N. res_bind (wp_Run B ncpu m p N) (\<lambda>(_, N'). Inr N')" id
  by unfold_locales
    (auto simp: wp_Run_def wp_Construct_def wp_Destruct_def Let_def res_bind_Inr_iff
      dest!: complete_both(1) intro: extends_keeps split: if_splits)

text \<open>A handler of \<^verbatim>\<open>small_message\<close> works on its task alone.\<close>

definition sm_run_at :: "bitfield_lib \<Rightarrow> u32 \<Rightarrow> Pointer \<Rightarrow> Node \<Rightarrow> Node res" where
  "sm_run_at B m p N = res_bind (task_at N p) (\<lambda>t. res_bind (sm_Run B m t) (\<lambda>t'. Inr (put_task p t' N)))"

lemma map_ret_class [simp]: "class_tag (map_ret f u) = class_tag u"
  by (cases u) simp_all

lemma sm_Run_class:
  assumes "sm_Run B m t = Inr t'"
  shows "class_tag (pl t') = class_tag (pl t)"
proof -
  have "class_tag (PIo x) = class_tag (pl t)" if "is_PIo (pl t)" for x using that by (cases "pl t") auto
  with assms show ?thesis
    by (auto simp: sm_Run_def sm_Construct_def sm_Destruct_def Md_def MdPush_def Io_def upd_ret_def pay_upd_def res_bind_Inr_iff
        split: if_splits)
qed

interpretation sm_lib: task_library "sm_run_at B" id
  by unfold_locales
    (auto simp: sm_run_at_def res_bind_Inr_iff task_at_def dest!: sm_Run_class intro!: extends_keeps put_both(1) split: option.splits)

lemma extends_class:
  assumes "extends N N'" and "heap N p = Some t" and "heap N' p = Some t'"
  shows "class_tag (pl t') = class_tag (pl t)"
proof -
  have "classes N p = classes N' p" using assms(1,2) by (auto simp: extends_def map_le_def)
  with assms(2,3) show ?thesis by (simp add: classes_def)
qed

lemma shrinks_class:
  assumes "shrinks N N'" and "heap N p = Some t" and "heap N' p = Some t'"
  shows "class_tag (pl t') = class_tag (pl t)"
proof -
  have "classes N' p = classes N p" using assms(1) domI [of "heap N'", OF assms(3)] by (simp add: shrinks_def map_le_def)
  with assms(2,3) show ?thesis by (simp add: classes_def)
qed

lemma node_keeps_class:
  assumes "extends N N1" and "node_keeps N1 N2" and "heap N p = Some t" and "heap N2 p = Some t2"
  shows "class_tag (pl t2) = class_tag (pl t)"
proof -
  have "classes N p = classes N1 p" "p \<in> dom (heap N1)"
    using assms(1,3) map_le_implies_dom_le [of "classes N" "classes N1"] by (auto simp: extends_def map_le_def)
  with assms(2,4) have "classes N2 p = classes N p" by (auto simp: node_keeps_def same_class_def)
  with assms(3,4) show ?thesis by (simp add: classes_def)
qed

lemma create_tag: "class_tag u = 3 \<longleftrightarrow> is_PCreateTaskState u"
  by (cases u) simp_all

text \<open>The push task and its subtask may be the same object; both writes keep the class.\<close>

lemma Push_schedule_extends:
  assumes "Push_schedule E p t N = Inr N'" and "heap N p = Some t" and "is_PTypedPush (pl t)"
  shows "extends N N'"
proof -
  from assms(3) obtain r where r: "pl t = PTypedPush r" by (cases "pl t") auto
  define t1 where "t1 = t\<lparr>pl := PTypedPush (r\<lparr>sub_run := \<lparr>lp_ptr = GetPrivatePointer (lp_shm (sub_cli r)), lp_shm = lp_shm (sub_cli r)\<rparr>\<rparr>)\<rparr>"
  let ?N1 = "put_task p t1 N" and ?sp = "lp_shm (sub_cli r)"
  from assms(1) r obtain sub N2 N3 where sub: "heap ?N1 ?sp = Some sub"
    and N2: "N2 = ?N1 \<or> N2 = put_task ?sp (UnsetFireAndForget (qe_bits E) sub) ?N1"
    and q: "queue_emplace E (UniqueId_copy (task_state sub)) (prio sub) (lane_hash sub) ?sp N2 = Inr N3"
    and u: "upd_task p (pay_upd un_TypedPush PTypedPush phase_update (\<lambda>_. PhaseWaitSchedule)) N3 = Inr N'"
    by (auto simp: Push_schedule_def Let_def GetPrivatePointer_def t1_def res_bind_Inr_iff task_at_def split: option.splits if_splits)
  have e1: "extends N ?N1" using r by (intro put_both(1) [OF assms(2)]) (simp add: t1_def)
  have "extends ?N1 N2" using N2 put_both(1) [OF sub, of "UnsetFireAndForget (qe_bits E) sub"] by auto
  with e1 queue_emplace_both(1) [OF q] have e3: "extends N N3" by (blast intro: extends_trans)
  have "extends N3 N'"
  proof (rule upd_both(1) [OF u])
    fix t3 assume "heap N3 p = Some t3"
    from extends_class [OF e3 assms(2) this] r show "class_tag (pl (pay_upd un_TypedPush PTypedPush phase_update (\<lambda>_. PhaseWaitSchedule) t3)) = class_tag (pl t3)"
      by (simp add: pay_upd_def)
  qed
  with e3 show ?thesis by (rule extends_trans)
qed

lemma Push_extends:
  assumes "Push E p N = Inr N'"
  shows "extends N N'"
proof -
  have w: "extends M M'" if "Push_wait (qe_bits E) p M = Inr M'" for M M'
    using that by (auto simp: Push_wait_def res_bind_Inr_iff dest: complete_both(1) split: option.splits if_splits)
  show ?thesis
    using assms w Push_schedule_extends
    by (auto simp: Push_def res_bind_Inr_iff task_at_def split: if_splits option.splits) (metis extends_trans)
qed

interpretation pq_lib: task_library "pq_Run E" id
  by unfold_locales
    (auto simp: pq_Run_def pq_Construct_def pq_Destruct_def dest!: complete_both(1) Push_extends intro: extends_keeps split: if_splits)

end
