(* ===== verification/RemoteSteps.thy ===== *)
theory RemoteSteps
  imports Keeps Cluster
begin

text \<open>
  The library \<^verbatim>\<open>remote_queue\<close> on a node where other work goes on: its handlers and procedures as
  steps of the node, with the steps of a push task separated by the calls it waits for.
\<close>

section \<open>Steps\<close>

inductive remote_step :: "remote_env \<Rightarrow> ThalliumRpc \<times> Node \<Rightarrow> ThalliumRpc \<times> Node \<Rightarrow> bool" for Y where
  construct: "rq_Construct (re_tl Y) (re_bits Y) p (T, N) = Inr (T', N') \<Longrightarrow> remote_step Y (T, N) (T', N')"
| destruct: "rq_Destruct (re_bits Y) p N = Inr N' \<Longrightarrow> remote_step Y (T, N) (T, N')"
| disperse: "Disperse Y cl p exec ds N = Inr N' \<Longrightarrow> remote_step Y (T, N) (T, N')"
| push_member: "heap N p = Some u \<Longrightarrow> is_PRemotePush (pl u) \<Longrightarrow>
    remote_step Y (T, N) (T, put_task p (u\<lparr>pl := PRemotePush r\<rparr>) N)"
| push_output: "ClientHandlePushReplicaOutput Y k ret r N = Inr N' \<Longrightarrow> remote_step Y (T, N) (T, N')"
| push_end: "ClientHandlePushReplicaEnd Y p r N = Inr N' \<Longrightarrow> remote_step Y (T, N) (T, N')"
| small_request: "RpcPushSmall Y sid m params N = Inr (ans, N') \<Longrightarrow> remote_step Y (T, N) (T, N')"
| bulk_request: "RpcPushBulk Y b sid m params n ty N = Inr (ans, b', N') \<Longrightarrow> remote_step Y (T, N) (T, N')"
| delete: "rq_Del fr m p N = Inr N' \<Longrightarrow> remote_step Y (T, N) (T, N')"

inductive_cases remote_stepE: "remote_step Y S S'"

section \<open>What the steps keep\<close>

text \<open>
  What the library relies on: the allocator; that whatever runs while it waits for a task keeps
  the node; and that the states whose tasks it moves load a task into a new object, keep the
  class of a task they load outputs into or replicate, and delete by freeing.
\<close>

locale remote_runtime =
  fixes Y :: remote_env
  assumes r_alloc: "allocator (re_alloc Y)"
    and r_wait: "re_wait Y p N = Inr N' \<Longrightarrow> node_keeps N N'"
    and load_start: "ex_LoadStart (re_exec Y x) m ia N = Inr (op, N') \<Longrightarrow> extends N N'"
    and load_end: "ex_LoadEnd (re_exec Y x) k m ia t = Inr t' \<Longrightarrow> class_tag (pl t') = class_tag (pl t)"
    and rep_start: "ex_ReplicateStart (re_exec Y x) m n t = Inr t' \<Longrightarrow> class_tag (pl t') = class_tag (pl t)"
    and rep_end: "ex_ReplicateEnd (re_exec Y x) m t = Inr t' \<Longrightarrow> class_tag (pl t') = class_tag (pl t)"
    and del: "ex_Del (re_exec Y x) m p N = Inr N' \<Longrightarrow> shrinks N N'"
begin

lemma put_at:
  "res_bind (task_at N p) (\<lambda>t. f t) = Inr y \<Longrightarrow> (\<And>t. heap N p = Some t \<Longrightarrow> f t = Inr y \<Longrightarrow> P) \<Longrightarrow> P"
  by (auto simp: res_bind_Inr_iff task_at_def split: option.splits)

lemma Disperse_extends: "Disperse Y cl p exec ds N = Inr N' \<Longrightarrow> extends N N'"
  unfolding Disperse_def Let_def
proof (erule put_at, elim res_bindE)
  fix t xfer t1 lpN
  assume t: "heap N p = Some t" "ex_ReplicateStart (re_exec Y exec) (method_id t) (of_nat (length ds)) t = Inr t1"
    and n: "NewTask (re_alloc Y) (\<lambda>mem. RemotePushTask_new (re_shm Y) mem (TaskNode_plus (task_node t1) 1) (GetLocal (re_bits Y))
        (tc_id cl) ds p exec (method_id t1) xfer) (put_task p t1 N) = Inr lpN"
    and q: "(case lpN of (lp, N1) \<Rightarrow> queue_emplace (re_queue Y) (tc_queue_id cl) (prio t1) (lane_hash t1) (lp_shm lp) N1) = Inr N'"
  obtain lp N1 where lp: "lpN = (lp, N1)" by (cases lpN)
  have "extends N (put_task p t1 N)" by (rule put_both(1) [OF t(1) rep_start [OF t(2)]])
  moreover have "extends (put_task p t1 N) N1" using NewTask_extends [OF r_alloc n [unfolded lp]] by simp
  moreover have "extends N1 N'" using queue_emplace_both(1) q by (simp add: lp)
  ultimately show "extends N N'" by (blast intro: extends_trans)
qed

lemma push_output_extends: "ClientHandlePushReplicaOutput Y k ret r N = Inr N' \<Longrightarrow> extends N N'"
  by (auto simp: ClientHandlePushReplicaOutput_def res_bind_Inr_iff task_at_def split: option.splits intro!: put_both(1) load_end)

lemma push_end_extends: "ClientHandlePushReplicaEnd Y p r N = Inr N' \<Longrightarrow> extends N N'"
  unfolding ClientHandlePushReplicaEnd_def
proof (erule put_at, elim res_bindE)
  fix t t' N1
  assume t: "heap N (orig_task r) = Some t" "ex_ReplicateEnd (re_exec Y (rp_exec r)) (method_id t) t = Inr t'"
    and u: "upd_task (orig_task r) (\<lambda>_. SetModuleComplete (re_bits Y) t') N = Inr N1" "upd_task p (SetModuleComplete (re_bits Y)) N1 = Inr N'"
  have "extends N N1" by (rule upd_both(1) [OF u(1)]) (use t rep_end in auto)
  with complete_both(1) [OF u(2)] show "extends N N'" by (blast intro: extends_trans)
qed

lemma pl_rpc_flags: "pl (rpc_flags B t) = pl t"
  by simp

lemma RpcExec_keeps:
  assumes "RpcExec Y sid m xfer N = Inr (o', sent, N')"
  obtains N1 where "extends N N1" and "node_keeps N1 N'"
proof -
  show thesis
  proof (cases "GetTaskState (registry N) sid")
    case None
    with assms have "N' = N" by (auto simp: RpcExec_def helog_fatal_def res_bind_Inr_iff split: if_splits)
    with that [of N] show thesis by simp
  next
    case (Some exec)
    with assms obtain ar p N1 N2 N3 and t :: TaskObj and N4 where l: "ex_LoadStart (re_exec Y exec) m ar N = Inr (Some p, N1)"
      and d: "upd_task p (domain_id_update (\<lambda>_. GetNode (re_bits Y) (hdr_node_id (header N1)))) N1 = Inr N2"
      and f: "upd_task p (rpc_flags (re_bits Y)) N2 = Inr N3"
      and q: "queue_emplace (re_queue Y) (UniqueId_copy sid) (prio t) (lane_hash t) p N3 = Inr N4" and w: "re_wait Y p N4 = Inr N'"
      unfolding RpcExec_def by (auto elim!: res_bindE split: option.splits)
    have "extends N1 N2" by (rule upd_both(1) [OF d]) simp
    moreover have "extends N2 N3" by (rule upd_both(1) [OF f]) simp
    ultimately have "extends N N4" using load_start [OF l] queue_emplace_both(1) [OF q] by (blast intro: extends_trans)
    with r_wait [OF w] that show thesis by blast
  qed
qed

lemma RpcComplete_shrinks: "RpcComplete Y m p exec sent N = Inr (ans, N') \<Longrightarrow> shrinks N N'"
  unfolding RpcComplete_def by (auto elim!: res_bindE simp: DelTask_exec_def dest!: del split: if_splits)

lemma requests_keep:
  "RpcPushSmall Y sid m params N = Inr (ans, N') \<Longrightarrow> node_keeps N N'"
  "RpcPushBulk Y b sid m params n ty N = Inr (ans, b', N') \<Longrightarrow> node_keeps N N'"
proof -
  show "node_keeps N N'" if "RpcPushSmall Y sid m params N = Inr (ans, N')"
    using that unfolding RpcPushSmall_def
    by (auto elim!: res_bindE RpcExec_keeps dest!: RpcComplete_shrinks intro: keeps_between split: option.splits prod.splits)
  show "node_keeps N N'" if "RpcPushBulk Y b sid m params n ty N = Inr (ans, b', N')"
    using that unfolding RpcPushBulk_def Let_def
    by (auto elim!: res_bindE RpcExec_keeps dest!: RpcComplete_shrinks intro: keeps_between split: option.splits prod.splits)
qed

lemma remote_step_keeps:
  assumes "remote_step Y S S'"
  shows "node_keeps (snd S) (snd S')"
  using assms
proof (cases rule: remote_step.cases)
  case (construct p T N T' N')
  then show ?thesis
    by (auto simp: rq_Construct_def elim!: res_bindE dest!: complete_both(1) intro: extends_keeps)
next
  case (destruct p N N' T)
  then show ?thesis by (auto simp: rq_Destruct_def dest!: complete_both(1) intro: extends_keeps)
next
  case (disperse cl p exec ds N N' T)
  then show ?thesis by (auto dest: Disperse_extends intro: extends_keeps)
next
  case (push_member N p u T r)
  then have "extends N (put_task p (u\<lparr>pl := PRemotePush r\<rparr>) N)" by (intro put_both(1) [OF push_member(3)]) (cases "pl u"; simp)
  then show ?thesis using push_member(1,2) by (simp add: extends_keeps)
next
  case (push_output k ret r N N' T)
  then show ?thesis by (auto dest: push_output_extends intro: extends_keeps)
next
  case (push_end p r N N' T)
  then show ?thesis by (auto dest: push_end_extends intro: extends_keeps)
next
  case (small_request sid m params N ans N' T)
  then show ?thesis by (auto dest: requests_keep(1))
next
  case (bulk_request b sid m params n ty N ans b' N' T)
  then show ?thesis by (auto dest: requests_keep(2))
next
  case (delete fr m p N N' T)
  then show ?thesis by (auto simp: rq_Del_def dest: Del_shrinks intro: shrinks_keeps split: if_splits)
qed

text \<open>
  A push task is a run of such steps: between them, while a call is under way, the node is free
  for others, so a network that hands the node back as it got it leaves nothing else.
\<close>

lemma push_member_step:
  assumes "upd_task p (pay_upd un_RemotePush PRemotePush upd f) N = Inr N'" and "heap N p = Some u" and "is_PRemotePush (pl u)"
  shows "remote_step Y (T, N) (T, N') \<and> (\<exists>u'. heap N' p = Some u' \<and> is_PRemotePush (pl u'))"
  using assms remote_step.push_member [OF assms(2,3)] by (auto simp: upd_task_def task_at_def pay_upd_def)

lemma push_output_kept:
  assumes "ClientHandlePushReplicaOutput Y k ret r N = Inr N'" and "heap N p = Some u" and "is_PRemotePush (pl u)"
  shows "\<exists>u'. heap N' p = Some u' \<and> is_PRemotePush (pl u')"
proof -
  have tag: "class_tag v = 12 \<longleftrightarrow> is_PRemotePush v" for v by (cases v) simp_all
  note e = push_output_extends [OF assms(1)]
  then obtain u' where u': "heap N' p = Some u'" using assms(2) map_le_implies_dom_le [of "classes N" "classes N'"] by (auto simp: extends_def)
  from extends_class [OF e assms(2) u'] assms(3) u' show ?thesis by (metis tag)
qed

lemma small_push_steps:
  assumes "\<And>g e f a M x M'. tl_call (re_tl Y) g e f a M = Inr (x, M') \<Longrightarrow> M' = M"
  shows "small_push_loop Y r params k ds N = Inr N' \<Longrightarrow> (remote_step Y)\<^sup>*\<^sup>* (T, N) (T, N')"
proof (induction ds arbitrary: k N)
  case (Cons d ds)
  from Cons.prems obtain ret N1 N2 where c: "rpc_call Y (dom_id d) ''RpcPushSmall''
      (SmallArgs (ex_id (re_exec Y (rp_exec r))) (exec_method r) params) N = Inr (ret, N1)"
    and o: "ClientHandlePushReplicaOutput Y (of_nat k) ret r N1 = Inr N2" and l: "small_push_loop Y r params (Suc k) ds N2 = Inr N'"
    by (auto elim!: res_bindE)
  have "N1 = N" using c assms by (auto simp: SyncCall_def catch_def call_failed_def helog_fatal_def res_bind_def split: sum.splits error.splits if_splits)
  with o have "remote_step Y (T, N) (T, N2)" by (auto intro: remote_step.push_output)
  from this Cons.IH [OF l] show ?case by (rule converse_rtranclp_into_rtranclp)
qed simp

lemma io_push_steps:
  assumes "\<And>g e f md b a M x b' M'. tl_bulk_call (re_tl Y) g e f md b a M = Inr (x, b', M') \<Longrightarrow> M' = M"
  shows "io_push_loop Y p r ty data params k ds N = Inr N' \<Longrightarrow> heap N p = Some u \<Longrightarrow> is_PRemotePush (pl u) \<Longrightarrow>
    (remote_step Y)\<^sup>*\<^sup>* (T, N) (T, N')"
proof (induction ds arbitrary: k N data u)
  case (Cons d ds)
  from Cons.prems(1) obtain ret data' N1 N2 N3 where c: "rpc_io_call Y (dom_id d) ''RpcPushBulk'' ty data
      (BulkArgs (ex_id (re_exec Y (rp_exec r))) (exec_method r) params (of_nat (length data)) ty) N = Inr (ret, data', N1)"
    and m: "upd_task p (pay_upd un_RemotePush PRemotePush rp_xfer_update (\<lambda>xs. xs[0 := (xs ! 0)\<lparr>xf_data := Some data'\<rparr>])) N1 = Inr N2"
    and o: "ClientHandlePushReplicaOutput Y (of_nat k) ret r N2 = Inr N3" and l: "io_push_loop Y p r ty data' params (Suc k) ds N3 = Inr N'"
    by (auto elim!: res_bindE)
  have "N1 = N" using c assms
    by (auto simp: SyncIoCall_def catch_def call_failed_def helog_fatal_def res_bind_def split: sum.splits error.splits if_splits IoType.splits)
  with push_member_step [OF m] Cons.prems(2,3) obtain u2 where s: "remote_step Y (T, N) (T, N2)" and u2: "heap N2 p = Some u2" "is_PRemotePush (pl u2)"
    by blast
  from push_output_kept [OF o u2] obtain u3 where "heap N3 p = Some u3" "is_PRemotePush (pl u3)" by blast
  from Cons.IH [OF l this] have "(remote_step Y)\<^sup>*\<^sup>* (T, N3) (T, N')" .
  with remote_step.push_output [OF o] s show ?case by (metis converse_rtranclp_into_rtranclp)
qed simp

lemma rq_Push_steps:
  assumes "\<And>g e f a M x M'. tl_call (re_tl Y) g e f a M = Inr (x, M') \<Longrightarrow> M' = M"
    and "\<And>g e f md b a M x b' M'. tl_bulk_call (re_tl Y) g e f md b a M = Inr (x, b', M') \<Longrightarrow> M' = M"
    and "rq_Push Y p N = Inr N'"
  shows "(remote_step Y)\<^sup>*\<^sup>* (T, N) (T, N')"
proof -
  from assms(3) obtain u where u: "heap N p = Some u" by (cases "heap N p") (simp_all add: rq_Push_def task_at_def)
  with assms(3) have "is_PRemotePush (pl u)" by (cases "is_PRemotePush (pl u)") (simp_all add: rq_Push_def task_at_def)
  note u = u this
  let ?r = "un_RemotePush (pl u)"
  define push where "push = (if length (rp_xfer ?r) = 1 then ClientSmallPush Y p ?r N else if length (rp_xfer ?r) = 2 then ClientIoPush Y p ?r N
      else helog_fatal (re_fatal_returns Y) ''The task does not support remote calls'' (Inr N))"
  have "rq_Push Y p N = res_bind push (ClientHandlePushReplicaEnd Y p ?r)" using u by (simp add: rq_Push_def task_at_def push_def Let_def)
  with assms(3) obtain N1 where b: "push = Inr N1" and e: "ClientHandlePushReplicaEnd Y p ?r N1 = Inr N'" by (auto elim: res_bindE)
  consider "N1 = N" | "ClientSmallPush Y p ?r N = Inr N1" | "ClientIoPush Y p ?r N = Inr N1"
    using b unfolding push_def helog_fatal_def by (metis sum.inject(2) sum.distinct(1))
  then have "(remote_step Y)\<^sup>*\<^sup>* (T, N) (T, N1)"
  proof cases
    case 2
    then obtain params Nm where m: "upd_task p (pay_upd un_RemotePush PRemotePush rp_params_update (\<lambda>_. params)) N = Inr Nm"
      and l: "small_push_loop Y ?r params 0 (domain_ids ?r) Nm = Inr N1" unfolding ClientSmallPush_def by (elim res_bindE) blast
    have "(remote_step Y)\<^sup>*\<^sup>* (T, Nm) (T, N1)" by (rule small_push_steps [OF _ l]) (rule assms(1))
    with push_member_step [OF m u, of T] show ?thesis by (metis converse_rtranclp_into_rtranclp)
  next
    case 3
    then obtain params ty data Nm where m: "upd_task p (pay_upd un_RemotePush PRemotePush rp_params_update (\<lambda>_. params)) N = Inr Nm"
      and l: "io_push_loop Y p ?r ty data params 0 (domain_ids ?r) Nm = Inr N1" unfolding ClientIoPush_def by (elim res_bindE) blast
    from push_member_step [OF m u, of T] obtain u' where s: "remote_step Y (T, N) (T, Nm)" "heap Nm p = Some u'" "is_PRemotePush (pl u')" by blast
    have "(remote_step Y)\<^sup>*\<^sup>* (T, Nm) (T, N1)" by (rule io_push_steps [OF _ l s(2,3)]) (rule assms(2))
    with s(1) show ?thesis by (rule converse_rtranclp_into_rtranclp)
  qed simp
  from rtranclp.rtrancl_into_rtrancl [OF this remote_step.push_end [OF e]] show ?thesis .
qed

end

section \<open>The states of the message library\<close>

lemma ar_in_class:
  assumes "\<And>f v t. f \<in> set fs \<Longrightarrow> class_tag (pl t) = c \<Longrightarrow> class_tag (pl (fset f v t)) = c"
  shows "ar_in C fs t s = Inr (t', s') \<Longrightarrow> class_tag (pl t) = c \<Longrightarrow> class_tag (pl t') = c"
  using assms by (induction fs arbitrary: t s) (auto elim!: res_bindE)

lemma fset_class:
  "f \<in> set (CreateTaskState_SerializeEnd r) \<Longrightarrow> class_tag (pl t) = 3 \<Longrightarrow> class_tag (pl (fset f v t)) = 3"
  "f \<in> set (Io_SerializeEnd r) \<Longrightarrow> class_tag (pl t) = 11 \<Longrightarrow> class_tag (pl (fset f v t)) = 11"
  "Md_SerializeEnd r u = Inr fs \<Longrightarrow> f \<in> set fs \<Longrightarrow> class_tag (pl (fset f v t)) = class_tag (pl t)"
  by (auto simp: CreateTaskState_SerializeEnd_def Io_SerializeEnd_def Md_SerializeEnd_def sub_flds_def sub_fld_def serialize_defs
      fld_defs pay_upd_def upd_ret_def split: if_splits srl_val.splits)

lemma LoadEnd_fields:
  assumes "Deserialize_task C False cls k t ia = Inr (t', ia')"
  shows "t' = t \<or> (\<exists>fs. tc_is cls (pl t) \<and> tc_SerializeEnd cls k t = Inr fs \<and> ar_in C fs t (ia_ss ia) = Inr (t', ia_ss ia'))"
  using assms by (auto simp: Deserialize_task_def Deserialize_flds_def elim!: res_bindE split: if_splits)

lemma sm_LoadEnd_class:
  assumes "sm_LoadEnd C S k m ia t = Inr t'"
  shows "class_tag (pl t') = class_tag (pl t)"
proof (cases "sm_switch C S m")
  case None
  with assms show ?thesis by (simp add: sm_LoadEnd_def lib_LoadEnd_def)
next
  case (Some cls)
  with assms obtain ia' where "Deserialize_task C False cls k t ia = Inr (t', ia')"
    by (auto simp: sm_LoadEnd_def lib_LoadEnd_def elim!: res_bindE)
  from LoadEnd_fields [OF this] show ?thesis
  proof (elim disjE exE conjE)
    fix fs assume c: "tc_is cls (pl t)" "tc_SerializeEnd cls k t = Inr fs" and r: "ar_in C fs t (ia_ss ia) = Inr (t', ia_ss ia')"
    have tags: "is_PCreateTaskState (pl t) \<Longrightarrow> class_tag (pl t) = 3" "is_PIo (pl t) \<Longrightarrow> class_tag (pl t) = 11" by (cases "pl t"; simp)+
    have "class_tag (pl (fset f v u)) = class_tag (pl t)" if "f \<in> set fs" "class_tag (pl u) = class_tag (pl t)" for f v u
      using Some c that tags fset_class
      by (auto simp: sm_switch_def CreateTaskState_class_def DestroyTaskState_class_def sm_class_defs split: if_splits)
    from ar_in_class [OF this r] show ?thesis by simp
  qed simp
qed

lemma sm_Replicate_class:
  "sm_ReplicateStart C S m n t = Inr t' \<Longrightarrow> class_tag (pl t') = class_tag (pl t)"
  "sm_ReplicateEnd C S m t = Inr t' \<Longrightarrow> class_tag (pl t') = class_tag (pl t)"
  by (auto simp: sm_exec_defs lib_ReplicateStart_def lib_ReplicateEnd_def sm_switch_def CALL_REPLICA_START_def CALL_REPLICA_END_def
      CreateTaskState_class_def DestroyTaskState_class_def sm_class_defs Md_ReplicateStart_def Md_ReplicateEnd_def
      CreateTaskState_ReplicateStart_def CreateTaskState_ReplicateEnd_def upd_ret_def split: option.splits if_splits)

lemma sm_remote_runtime:
  assumes "allocator (re_alloc Y)" and "allocator A" and "\<And>x. re_exec Y x = sm_ops C S A mem fr i"
    and "\<And>p N N'. re_wait Y p N = Inr N' \<Longrightarrow> node_keeps N N'"
  shows "remote_runtime Y"
proof (rule remote_runtime.intro)
  show "extends N N'" if "ex_LoadStart (re_exec Y x) m ia N = Inr (op, N')" for x m ia N op N'
    using that allocator.alloc_fresh [OF assms(2)] by (auto simp: assms(3) sm_ops_def elim!: res_bindE intro!: put_new split: option.splits)
  show "shrinks N N'" if "ex_Del (re_exec Y x) m p N = Inr N'" for x m p N N'
    using that by (auto simp: assms(3) sm_ops_def sm_Del_def dest: Del_shrinks split: if_splits)
qed (use assms sm_LoadEnd_class sm_Replicate_class in \<open>auto simp: sm_ops_def\<close>)

interpretation sample_remote_rt: remote_runtime sample_remote
proof -
  have "node_keeps N N'" if "re_wait sample_remote p N = Inr N'" for p N N'
  proof -
    from that obtain t t' where "heap N p = Some t" "sm_Run word_bitfield (method_id t) t = Inr t'"
      "N' = put_task p (SetComplete word_bitfield t') N"
      by (auto simp: sample_remote_def task_at_def elim!: res_bindE split: option.splits)
    with sm_Run_class show ?thesis by (auto intro!: extends_keeps put_both(1) simp: SetComplete_def)
  qed
  then show "remote_runtime sample_remote"
    by (intro sm_remote_runtime) (auto simp: sample_remote_def sample_alloc_def bump.allocator_axioms)
qed

end
