(* ===== verification/PollSteps.thy ===== *)
theory PollSteps
  imports Poll
begin

text \<open>
  The work of a worker as a run of small steps: writes to the members of the base class of a
  task, to a lane, to the worker itself, and the functions of the task states and of the thread
  library. Whatever relation these steps have, a whole run of a worker has it.
\<close>

locale step_env =
  fixes V :: worker_env and R :: "Node \<Rightarrow> Node \<Rightarrow> bool"
  assumes R_refl: "R N N" and R_trans: "R N N1 \<Longrightarrow> R N1 N2 \<Longrightarrow> R N N2"
    and R_task: "heap N p = Some t \<Longrightarrow> pl t' = pl t \<Longrightarrow> R N (put_task p t' N)"
    and R_lane: "R N (set_lane r l N)"
    and R_worker: "R N (put_worker w wk N)"
    and R_Run: "wv_Run V ex m p N = Inr N' \<Longrightarrow> R N N'"
    and R_Del: "wv_Del V ex m p N = Inr N' \<Longrightarrow> R N N'"
    and R_Disperse: "wv_Disperse V p ex ds N = Inr N' \<Longrightarrow> R N N'"
    and R_jump: "wv_jump V p N = Inr N' \<Longrightarrow> R N N'"
    and R_create: "wv_abt_create V p N = (x, N') \<Longrightarrow> R N N'"
    and R_join: "wv_join V th N = Inr N' \<Longrightarrow> R N N'"
begin

lemma bind_R: "res_bind m f = Inr y \<Longrightarrow> (\<And>x. m = Inr x \<Longrightarrow> f x = Inr y \<Longrightarrow> P) \<Longrightarrow> P"
  by (auto simp: res_bind_Inr_iff)

lemma task_at_heap: "task_at N p = Inr t \<longleftrightarrow> heap N p = Some t"
  by (auto simp: task_at_def split: option.splits)

lemma base_flags_pl:
  "pl (SetComplete B t) = pl t" "pl (SetStarted B t) = pl t" "pl (DisableRun B t) = pl t" "pl (UnsetCoroutine B t) = pl t"
  "pl (fst (SetUnordered B t)) = pl t"
  by (simp_all add: task_set_defs SetUnordered_def)

lemma upd_R: "upd_task p f N = Inr N' \<Longrightarrow> (\<And>t. pl (f t) = pl t) \<Longrightarrow> R N N'"
  by (auto simp: upd_task_def task_at_heap elim!: bind_R intro: R_task)

lemma poke_R: "poke_entry V r off f N = Inr N' \<Longrightarrow> R N N'"
  by (auto simp: poke_entry_def R_lane elim!: bind_R split: option.splits)

lemma group_R:
  "check_group V w ex t l rm N = Inr (ok, N') \<Longrightarrow> R N N' \<and> heap N' = heap N"
  "remove_group V w ex t l rm N = Inr N' \<Longrightarrow> R N N'"
  by (auto simp: check_group_def remove_group_def R_worker put_worker_def [of _ _ N, symmetric] elim!: bind_R)
    (simp_all add: put_worker_def)

lemma EndTask_R:
  assumes "EndTask V r exec p off N = Inr (off', N')" shows "R N N'"
proof -
  from assms obtain l t N1 where N1: "N1 = set_lane r l N" and t: "heap N1 p = Some t"
    and e: "N' = put_task p (SetComplete (wv_bits V) t) N1 \<or> (\<exists>ex. wv_Del V ex (method_id t) p N1 = Inr N')"
    unfolding EndTask_def Let_def by (cases exec; elim bind_R) (auto simp: task_at_heap elim!: bind_R split: prod.splits if_splits, blast)
  have "R N1 N'" using e R_task [OF t] R_Del by (auto simp: base_flags_pl)
  with R_lane [of N r l] N1 show ?thesis by (blast intro: R_trans)
qed

lemma dispatch_R:
  assumes "dispatch_task V r off p ex t rm N = Inr N'" and "heap N p = Some t"
  shows "R N N'"
proof -
  have put: "R N (put_task p t' N)" if "pl t' = pl t" for t' by (rule R_task [OF assms(2) that])
  consider "rm" | "\<not> rm" "IsCoroutine (wv_bits V) t" | "\<not> rm" "\<not> IsCoroutine (wv_bits V) t" "IsPreemptive (wv_bits V) t"
    | "\<not> rm" "\<not> IsCoroutine (wv_bits V) t" "\<not> IsPreemptive (wv_bits V) t" by blast
  then show ?thesis
  proof cases
    case 1
    with assms(1) obtain N1 where "wv_Disperse V p ex (wv_ResolveDomainId V (domain_id t)) N = Inr N1"
      "upd_task p (\<lambda>t. UnsetCoroutine (wv_bits V) (fst (SetUnordered (wv_bits V) (DisableRun (wv_bits V) t)))) N1 = Inr N'"
      by (auto simp: dispatch_task_def elim!: bind_R)
    with upd_R R_Disperse show ?thesis by (metis (no_types, lifting) R_trans base_flags_pl(3-5))
  next
    case 2
    with assms(1) obtain N1 where "N1 = N \<or> (\<exists>c. N1 = put_task p (SetStarted (wv_bits V) (t\<lparr>ctx := c\<rparr>)) N)" "wv_jump V p N1 = Inr N'"
      by (auto simp: dispatch_task_def Let_def helog_fatal_def elim!: bind_R split: if_splits)
    moreover from this put R_refl have "R N N1" by (auto simp: base_flags_pl)
    ultimately show ?thesis using R_jump by (blast intro: R_trans)
  next
    case 3
    with assms(1) obtain th N1 where s: "SpawnAsyncThread V p (put_task p (DisableRun (wv_bits V) t) N) = Inr (th, N1)"
      and k: "poke_entry V r off (\<lambda>d. d\<lparr>ld_thread := Some th\<rparr>) N1 = Inr N'" by (auto simp: dispatch_task_def elim!: bind_R)
    from s have "R (put_task p (DisableRun (wv_bits V) t) N) N1"
      by (auto simp: SpawnAsyncThread_def helog_fatal_def intro: R_create split: prod.splits if_splits)
    with put [of "DisableRun (wv_bits V) t"] poke_R [OF k] show ?thesis by (auto simp: base_flags_pl intro: R_trans)
  next
    case 4
    with assms(1) have "wv_Run V ex (method_id t) p (put_task p (SetStarted (wv_bits V) t) N) = Inr N'" by (simp add: dispatch_task_def)
    with put [of "SetStarted (wv_bits V) t"] R_Run show ?thesis by (auto simp: base_flags_pl intro: R_trans)
  qed
qed

lemma finish_R:
  assumes "finish_task V w e off p rm N = Inr (off', N')" shows "R N N'"
proof -
  from assms obtain t where t: "heap N p = Some t" by (auto simp: finish_task_def task_at_heap elim!: bind_R)
  show ?thesis
  proof (cases "IsModuleComplete (wv_bits V) t")
    case False
    with assms t R_refl show ?thesis by (simp add: finish_task_def task_at_def)
  next
    case True
    with assms t obtain N1 N2 t2 where N1: "poke_entry V (we_lane e) off (\<lambda>d. d\<lparr>ld_complete := True\<rparr>) N = Inr N1"
      and J: "(if IsCoroutine (wv_bits V) t then Inr N1 else if IsPreemptive (wv_bits V) t
          then res_bind (lane_at N1 (we_lane e)) (\<lambda>lane. case mpsc_peek (wv_queue V) lane off of
            None \<Rightarrow> Inl Dangling | Some d \<Rightarrow> wv_join V (ld_thread d) N1) else Inr N1) = Inr N2"
      and E: "(case ctx_exec (ctx t2) of
          None \<Rightarrow> if rm then EndTask V (we_lane e) None p off N2 else Inl NullDeref
        | Some ex \<Rightarrow> res_bind (remove_group V w ex t2 (we_lane_id e) rm N2) (EndTask V (we_lane e) (Some ex) p off)) = Inr (off', N')"
      unfolding finish_task_def by (auto simp: task_at_def [of N] res_bind_Inr_iff)
    have "R N1 N2" using J R_refl R_join by (auto elim!: bind_R split: if_splits option.splits)
    moreover have "R N2 N'"
      using E by (auto elim!: bind_R split: option.splits if_splits dest: EndTask_R intro: R_trans [OF group_R(2) EndTask_R])
    ultimately show ?thesis using poke_R [OF N1] by (blast intro: R_trans)
  qed
qed

lemma PollEntry_R:
  assumes "PollEntry V w e off p N = Inr (off', N')" shows "R N N'"
proof -
  from assms obtain t0 where t0: "task_at N p = Inr t0" by (auto simp: PollEntry_def elim!: bind_R)
  define t where "t = t0\<lparr>ctx := (ctx t0)\<lparr>ctx_lane_id := we_lane_id e, ctx_exec := GetTaskState (registry N) (task_state t0)\<rparr>\<rparr>"
  define N1 where "N1 = put_task p t N"
  have h: "heap N p = Some t0" "heap N1 p = Some t" using t0 by (simp_all add: task_at_heap N1_def put_task_def)
  have r1: "R N N1" unfolding N1_def by (rule R_task [OF h(1)]) (simp add: t_def)
  have "R N1 N'"
  proof (cases "GetTaskState (registry N) (task_state t0)")
    case None
    with assms t0 obtain N2 where "poke_entry V (we_lane e) off (\<lambda>d. d\<lparr>ld_complete := True\<rparr>) N1 = Inr N2"
      "EndTask V (we_lane e) None p off N2 = Inr (off', N')"
      by (auto simp: PollEntry_def Let_def N1_def t_def helog_fatal_def res_bind_Inr_iff split: if_splits)
    with poke_R EndTask_R show ?thesis by (blast intro: R_trans)
  next
    case (Some ex)
    let ?rm = "DomainId_IsRemote (wv_bits V) (domain_id t) (wv_num_hosts V) (wv_node_id V)"
    from Some assms t0 obtain ok N2 N3 where
      c: "(if IsRunDisabled (wv_bits V) t then Inr (False, N1) else check_group V w ex t (we_lane_id e) ?rm N1) = Inr (ok, N2)"
      and d: "(if ok then dispatch_task V (we_lane e) off p ex t ?rm N2 else Inr N2) = Inr N3"
      and f: "finish_task V w e off p ?rm N3 = Inr (off', N')"
      unfolding PollEntry_def Let_def N1_def t_def by (auto simp: res_bind_Inr_iff)
    have 2: "R N1 N2 \<and> heap N2 = heap N1" using c group_R(1) R_refl by (auto split: if_splits)
    have "R N2 N3" using d dispatch_R 2 h(2) R_refl by (auto split: if_splits)
    with 2 finish_R [OF f] show ?thesis by (blast intro: R_trans)
  qed
  with r1 show ?thesis by (rule R_trans)
qed

lemma poll_iters_R: "poll_iters V w e n off N = Inr N' \<Longrightarrow> R N N'"
proof (induction n arbitrary: off N)
  case (Suc n)
  from Suc.prems obtain l where l: "lane_at N (we_lane e) = Inr l" by (auto elim!: bind_R)
  show ?case
  proof (cases "mpsc_peek (wv_queue V) l off")
    case (Some d)
    show ?thesis
    proof (cases "ld_complete d")
      case True
      with Suc Some l show ?thesis by (auto intro: R_trans [OF R_lane] split: prod.splits)
    next
      case False
      with Suc Some l show ?thesis by (auto elim!: bind_R intro: R_trans [OF PollEntry_R])
    qed
  qed (use Suc.prems l R_refl in simp)
qed (simp add: R_refl)

lemma run_entry_R: "run_entry V w i N = Inr N' \<Longrightarrow> R N N'"
  unfolding run_entry_def bump_count_def put_worker_def [symmetric]
  by (auto simp: Let_def PollGrouped_def elim!: bind_R split: if_splits intro: poll_iters_R R_worker R_trans [OF R_worker poll_iters_R])

lemma run_entries_R: "run_entries V w is N = Inr N' \<Longrightarrow> R N N'"
  by (induction "is" arbitrary: N) (auto simp: R_refl elim!: bind_R intro: R_trans [OF run_entry_R])

lemma Worker_Run_R: "Worker_Run V w N = Inr N' \<Longrightarrow> R N N'"
  unfolding Worker_Run_def by (elim bind_R) (rule R_trans [OF R_worker run_entries_R])

lemma run_times_R: "run_times V w n N = Inr N' \<Longrightarrow> R N N'"
  by (induction n arbitrary: N) (auto simp: R_refl elim!: bind_R intro: R_trans [OF Worker_Run_R])

end

end
