(* ===== verification/System.thy ===== *)
theory System
  imports Keeps RemoteSteps PollSteps
begin

text \<open>
  The libraries together on one node: the runs in which the handlers of all libraries, requests
  from other nodes, the clients that submit tasks and those that delete them take turns.
\<close>

section \<open>The administration library\<close>

text \<open>
  What it relies on: the allocator, the factory, which also keeps the class of the task it is
  given, the queue table, and that whatever runs while it waits for a subtask keeps the node.
\<close>

locale typed_factory = state_factory +
  assumes cs_class: "cs f t n R = (a, t', R') \<Longrightarrow> class_tag (pl t') = class_tag (pl t)"

interpretation typed_arena: typed_factory "arena_create cap (\<lambda>a m. SetModuleComplete B)"
  by unfold_locales (auto simp: arena_create_def create_state_def Let_def split: option.splits)

locale admin_runtime =
  fixes X :: admin_env
  assumes alloc: "allocator (ae_alloc X)" and factory: "typed_factory (ae_create X)" and qtable: "queue_table (ae_qvec X)"
    and wait_keeps: "ae_wait X q N = Inr N' \<Longrightarrow> node_keeps N N'"
begin

lemma with_taskE:
  assumes "with_task is_cls p f A = Inr A'"
  obtains t N' where "heap (ad_node A) p = Some t" and "is_cls (pl t)" and "f t (ad_node A) = Inr N'" and "A' = A\<lparr>ad_node := N'\<rparr>"
  using assms by (auto simp: with_task_def on_node_def res_bind_Inr_iff task_at_def split: option.splits if_splits)

lemma put_registry:
  assumes "heap N p = Some t" and "class_tag (pl t') = class_tag (pl t)" and "registry_wf (registry N) \<Longrightarrow> registry_wf R"
    and "table_wf (queues N) \<Longrightarrow> table_wf qs"
  shows "shrinks N (put_task p t' (N\<lparr>registry := R, queues := qs, header := h\<rparr>))"
proof -
  let ?N1 = "N\<lparr>registry := R, queues := qs, header := h\<rparr>"
  have "shrinks N ?N1" using assms(3,4) by (intro frame_both) (simp_all add: node_wf_def)
  moreover have "shrinks ?N1 (put_task p t' ?N1)" using assms(1,2) by (intro put_both) simp_all
  ultimately show ?thesis by (rule shrinks_trans)
qed

lemma pay_class:
  "is_PGetOrCreateTaskStateId (pl t) \<Longrightarrow> class_tag (pl (pay_upd un_GetOrCreate PGetOrCreateTaskStateId u f t)) = class_tag (pl t)"
  "is_PCreateTaskState (pl t) \<Longrightarrow> class_tag (pl (pay_upd un_CreateTaskState PCreateTaskState v g t)) = class_tag (pl t)"
  "is_PGetTaskStateId (pl t) \<Longrightarrow> class_tag (pl (pay_upd un_GetTaskStateId PGetTaskStateId w h t)) = class_tag (pl t)"
  by (cases "pl t"; simp add: pay_upd_def)+

lemma registry_kept:
  "registry_wf R \<Longrightarrow> registry_wf (fst (snd (RegisterTaskLib L n R)))"
  "registry_wf R \<Longrightarrow> registry_wf (fst (DestroyTaskLib n R))"
  "registry_wf R \<Longrightarrow> GetOrCreateTaskStateId n R u = (i, R', u') \<Longrightarrow> registry_wf R'"
  "registry_wf R \<Longrightarrow> DestroyTaskState i R = Inr R' \<Longrightarrow> registry_wf R'"
proof -
  assume R: "registry_wf R"
  show "registry_wf (fst (snd (RegisterTaskLib L n R)))" using RegisterTaskLib_frame [of L n R] R by auto
  show "registry_wf (fst (DestroyTaskLib n R))" using R by (simp add: DestroyTaskLib_def split: option.splits)
  show "registry_wf R'" if "GetOrCreateTaskStateId n R u = (i, R', u')"
    using that R by (auto simp: GetOrCreateTaskStateId_def ids_emplace_def registry_wf_def TaskStateExists_def split: option.splits prod.splits)
  show "registry_wf R'" if "DestroyTaskState i R = Inr R'" using DestroyTaskState_wf [OF R, of i] that by auto
qed

lemma simple_handlers:
  "srv_RegisterTaskLib X p A = Inr A' \<Longrightarrow> shrinks (ad_node A) (ad_node A')"
  "srv_DestroyTaskLib X p A = Inr A' \<Longrightarrow> shrinks (ad_node A) (ad_node A')"
  "srv_GetOrCreateTaskStateId X p A = Inr A' \<Longrightarrow> shrinks (ad_node A) (ad_node A')"
  "srv_GetTaskStateId X p A = Inr A' \<Longrightarrow> shrinks (ad_node A) (ad_node A')"
  "srv_DestroyTaskState X p A = Inr A' \<Longrightarrow> shrinks (ad_node A) (ad_node A')"
proof -
  note reg = put_registry [where qs = "queues (ad_node A)" and h = "header (ad_node A)"]
  show "shrinks (ad_node A) (ad_node A')" if "srv_RegisterTaskLib X p A = Inr A'"
    using that reg [of "ad_node A" p] registry_kept(1) unfolding srv_RegisterTaskLib_def by (auto elim!: with_taskE)
  show "shrinks (ad_node A) (ad_node A')" if "srv_DestroyTaskLib X p A = Inr A'"
    using that reg [of "ad_node A" p] registry_kept(2) unfolding srv_DestroyTaskLib_def by (auto elim!: with_taskE)
  show "shrinks (ad_node A) (ad_node A')" if "srv_GetOrCreateTaskStateId X p A = Inr A'"
    using that unfolding srv_GetOrCreateTaskStateId_def
  proof (rule with_taskE)
    fix t N' assume t: "heap (ad_node A) p = Some t" "is_PGetOrCreateTaskStateId (pl t)" and A': "A' = A\<lparr>ad_node := N'\<rparr>"
      and N': "(case GetOrCreateTaskStateId (gc_state_name (un_GetOrCreate (pl t))) (registry (ad_node A)) (hdr_unique (header (ad_node A))) of
       (i, R, u) \<Rightarrow> Inr (put_task p (SetModuleComplete (ae_bits X) (pay_upd un_GetOrCreate PGetOrCreateTaskStateId gc_id_update (\<lambda>_. i) t))
          ((ad_node A)\<lparr>registry := R, header := (header (ad_node A))\<lparr>hdr_unique := u\<rparr>\<rparr>))) = Inr N'"
    obtain i R u where g: "GetOrCreateTaskStateId (gc_state_name (un_GetOrCreate (pl t))) (registry (ad_node A)) (hdr_unique (header (ad_node A))) = (i, R, u)"
      by (cases "GetOrCreateTaskStateId (gc_state_name (un_GetOrCreate (pl t))) (registry (ad_node A)) (hdr_unique (header (ad_node A)))") auto
    have "shrinks (ad_node A) (put_task p (SetModuleComplete (ae_bits X) (pay_upd un_GetOrCreate PGetOrCreateTaskStateId gc_id_update (\<lambda>_. i) t))
        ((ad_node A)\<lparr>registry := R, queues := queues (ad_node A), header := (header (ad_node A))\<lparr>hdr_unique := u\<rparr>\<rparr>))"
      by (rule put_registry [OF t(1)]) (use pay_class(1) [OF t(2)] registry_kept(3) [OF _ g] in simp_all)
    then show ?thesis using N' g A' by auto
  qed
  show "shrinks (ad_node A) (ad_node A')" if "srv_GetTaskStateId X p A = Inr A'"
    using that unfolding srv_GetTaskStateId_def by (auto elim!: with_taskE intro!: put_both(2) simp: pay_class(3))
  show "shrinks (ad_node A) (ad_node A')" if "srv_DestroyTaskState X p A = Inr A'"
    using that reg [of "ad_node A" p] registry_kept(4) unfolding srv_DestroyTaskState_def by (auto elim!: with_taskE simp: res_bind_Inr_iff)
qed

lemma StopRuntime_shrinks:
  assumes "srv_StopRuntime X p A = Inr A'"
  shows "shrinks (ad_node A) (ad_node A')"
  using assms by (auto simp: srv_StopRuntime_def on_node_def res_bind_Inr_iff dest: complete_both(2))

lemma CreateTaskState_class:
  assumes "CreateTaskState B (ae_create X) lib name i t R = (ok, t', R')" and "is_PCreateTaskState (pl t)"
  shows "class_tag (pl t') = class_tag (pl t)"
proof -
  let ?t = "pay_upd un_CreateTaskState PCreateTaskState cs_id_update (\<lambda>_. i) t"
  have c: "class_tag (pl t2) = class_tag (pl t)" if "ae_create X f ?t name R = (a, t2, R2)" for f a t2 R2
    using typed_factory.cs_class [OF factory that] pay_class(2) [OF assms(2)] by simp
  show ?thesis
    using assms(1) c by (auto simp: CreateTaskState_def Let_def split: if_splits option.splits prod.splits)
qed

lemma create_with_id_shrinks:
  assumes "create_with_id X p N = Inr N'" and "heap N p = Some t" and "is_PCreateTaskState (pl t)"
  shows "shrinks N N'"
proof -
  let ?r = "un_CreateTaskState (pl t)" and ?B = "ae_bits X"
  show ?thesis
  proof (cases "UniqueId_IsNull (cs_id ?r) \<or> TaskStateExists (registry N) (cs_id ?r)")
    case True
    with assms put_both(2) [OF assms(2), of "SetModuleComplete ?B t"] show ?thesis
      by (auto simp: create_with_id_def task_at_def Let_def split: if_splits)
  next
    case False
    obtain ret t2 R where c: "CreateTaskState ?B (ae_create X) (cs_lib_name ?r) (cs_state_name ?r) (cs_id ?r) (t\<lparr>method_id := kConstruct\<rparr>) (registry N) = (ret, t2, R)"
      by (cases "CreateTaskState ?B (ae_create X) (cs_lib_name ?r) (cs_state_name ?r) (cs_id ?r) (t\<lparr>method_id := kConstruct\<rparr>) (registry N)") auto
    from assms(1,2) False c obtain qs where q: "CreateQueue (ae_queue X) (ae_qvec X) (ae_group_mem X) (queues N) (UniqueId_copy (cs_id ?r)) (cs_queue_info ?r) = Inr qs"
      and N': "N' = put_task p (if \<not> ret then SetModuleComplete ?B t2 else t2) (N\<lparr>registry := R, queues := qs, header := header N\<rparr>)"
      by (auto simp: create_with_id_def task_at_def Let_def res_bind_Inr_iff)
    have "class_tag (pl t2) = class_tag (pl t)" using CreateTaskState_class [OF c] assms(3) by simp
    moreover have "registry_wf R" if "registry_wf (registry N)"
      using factory state_factory.CreateTaskState_wf [OF _ that c] by (simp add: typed_factory_def)
    moreover have "table_wf qs" if "table_wf (queues N)" using queue_table.CreateQueue_table_wf [OF qtable that q] by simp
    ultimately show ?thesis unfolding N' by (intro put_registry [OF assms(2)]) simp_all
  qed
qed

text \<open>Asking for an id: a new task comes and goes, and while it is there anything may run that keeps the node.\<close>

lemma fetch_id_keeps:
  assumes "fetch_id X p t N = Inr N'" and "heap N p = Some t" and "is_PCreateTaskState (pl t)"
  obtains N1 N2 where "extends N N1" and "node_keeps N1 N2" and "shrinks N2 N'"
    and "\<And>t'. heap N' p = Some t' \<Longrightarrow> is_PCreateTaskState (pl t')"
proof -
  from assms(1) obtain con lp N1 N2 f N3 where a: "Async (ae_queue X) (ae_alloc X) (tc_queue_id (ae_client X)) con
        (TaskNode_plus (task_node t) 1) N = Inr (lp, N1)"
    and w: "ae_wait X (lp_shm lp) N1 = Inr N2"
    and u: "upd_task p (pay_upd un_CreateTaskState PCreateTaskState cs_id_update f) N2 = Inr N3"
    and d: "DelTask (ae_fatal_returns X) trivial_dtor (lp_shm lp) N3 = Inr N'"
    unfolding fetch_id_def by (elim res_bindE) (auto elim!: res_bindE)
  have e: "extends N N1" using Async_extends [OF alloc a] by simp
  note k = wait_keeps [OF w]
  have cls: "is_PCreateTaskState (pl t2)" if "heap N2 p = Some t2" for t2
    using node_keeps_class [OF e k assms(2) that] assms(3) by (metis create_tag)
  have s1: "shrinks N2 N3" by (rule upd_both(2) [OF u]) (use cls pay_class(2) in blast)
  note sh = shrinks_trans [OF s1 Del_shrinks [OF d]]
  show thesis
  proof (rule that [OF e k sh])
    fix t' assume "heap N' p = Some t'"
    moreover obtain t2 where "heap N2 p = Some t2" using u by (auto simp: upd_task_def res_bind_Inr_iff task_at_def split: option.splits)
    ultimately show "is_PCreateTaskState (pl t')"
      using shrinks_class [OF sh] cls by (metis create_tag)
  qed
qed

lemma CreateTaskState_keeps:
  assumes "srv_CreateTaskState X p A = Inr A'"
  shows "node_keeps (ad_node A) (ad_node A')"
  using assms unfolding srv_CreateTaskState_def
proof (rule with_taskE)
  fix t N' assume t: "heap (ad_node A) p = Some t" "is_PCreateTaskState (pl t)" and A': "A' = A\<lparr>ad_node := N'\<rparr>"
    and N': "(let r = un_CreateTaskState (pl t)
     in case GetTaskState_name (registry (ad_node A)) (cs_state_name r) (cs_id r) of
          Some a \<Rightarrow> (case objects (registry (ad_node A)) a of
              None \<Rightarrow> Inl Dangling
            | Some s \<Rightarrow> Inr (put_task p (SetModuleComplete (ae_bits X)
                (pay_upd un_CreateTaskState PCreateTaskState cs_id_update (\<lambda>_. tl_id s) t)) (ad_node A)))
        | None \<Rightarrow> res_bind (if UniqueId_IsNull (cs_id r) then fetch_id X p t (ad_node A) else Inr (ad_node A)) (create_with_id X p)) = Inr N'"
  let ?N = "ad_node A" and ?r = "un_CreateTaskState (pl t)"
  consider f where "N' = put_task p (SetModuleComplete (ae_bits X) (pay_upd un_CreateTaskState PCreateTaskState cs_id_update f t)) ?N"
    | "create_with_id X p ?N = Inr N'"
    | N1 where "fetch_id X p t ?N = Inr N1" "create_with_id X p N1 = Inr N'"
    using N' by (auto simp: Let_def elim!: res_bindE split: option.splits if_splits)
  then have "node_keeps ?N N'"
  proof cases
    case 1
    then show ?thesis using pay_class(2) [OF t(2)] by (auto intro!: shrinks_keeps put_both(2) [OF t(1)])
  next
    case 2
    then show ?thesis by (intro shrinks_keeps create_with_id_shrinks [OF _ t])
  next
    case (3 N1)
    from 3(2) obtain t1 where t1: "heap N1 p = Some t1" by (auto simp: create_with_id_def res_bind_Inr_iff task_at_def split: option.splits)
    show ?thesis
    proof (rule fetch_id_keeps [OF 3(1) t])
      fix Na Nb assume s: "extends ?N Na" "node_keeps Na Nb" "shrinks Nb N1"
        and c: "\<And>t'. heap N1 p = Some t' \<Longrightarrow> is_PCreateTaskState (pl t')"
      from shrinks_trans [OF s(3) create_with_id_shrinks [OF 3(2) t1 c [OF t1]]] s(1,2) show ?thesis by (blast intro: keeps_between)
    qed
  qed
  then show ?thesis by (simp add: A')
qed

lemma set_policy_extends:
  assumes "set_policy sched sched_update X p A = Inr A'" and "\<And>f A. ad_node (sched_update f A) = ad_node A"
  shows "extends (ad_node A) (ad_node A')"
proof -
  from assms(1) obtain A1 where 1: "(case sched A of None \<Rightarrow> Inr A | Some q \<Rightarrow> on_node (upd_task q (SetModuleComplete (ae_bits X))) A) = Inr A1"
    and 2: "A' = A1 \<or> (\<exists>con lp N1 N2 N3. NewTask (ae_alloc X) con (ad_node A1) = Inr (lp, N1) \<and>
      queue_emplace (ae_queue X) (ad_queue_id A1) 0 0 (lp_shm lp) N1 = Inr N2 \<and>
      upd_task p (SetModuleComplete (ae_bits X)) N2 = Inr N3 \<and> ad_node A' = N3)"
    unfolding set_policy_def on_node_def
    by (elim res_bindE) (auto simp: assms(2) elim!: res_bindE split: if_splits, blast)
  have e1: "extends (ad_node A) (ad_node A1)"
    using 1 by (auto simp: on_node_def res_bind_Inr_iff dest: complete_both(1) split: option.splits)
  from 2 show ?thesis
  proof (elim disjE exE conjE)
    assume "A' = A1" with e1 show ?thesis by simp
  next
    fix con lp N1 N2 N3
    assume n: "NewTask (ae_alloc X) con (ad_node A1) = Inr (lp, N1)"
      "queue_emplace (ae_queue X) (ad_queue_id A1) 0 0 (lp_shm lp) N1 = Inr N2"
      "upd_task p (SetModuleComplete (ae_bits X)) N2 = Inr N3" "ad_node A' = N3"
    with NewTask_extends [OF alloc n(1)] queue_emplace_both(1) [OF n(2)] complete_both(1) [OF n(3)] e1
    show ?thesis by (blast intro: extends_trans)
  qed
qed

end

sublocale admin_runtime \<subseteq> admin_lib: task_library "admin_Run X" ad_node
proof
  fix m p A A' assume "admin_Run X m p A = Inr A'"
  then show "node_keeps (ad_node A) (ad_node A')"
    by (auto simp: admin_Run_def srv_SetWorkOrchQueuePolicy_def srv_SetWorkOrchProcPolicy_def split: if_splits
        dest: CreateTaskState_keeps simple_handlers [THEN shrinks_keeps] StopRuntime_shrinks [THEN shrinks_keeps]
          set_policy_extends [THEN extends_keeps])
qed

interpretation sample_admin_rt: admin_runtime sample_admin_env
proof -
  show "admin_runtime sample_admin_env"
    unfolding admin_runtime_def sample_admin_env_def sample_alloc_def
    using bump.allocator_axioms typed_arena.typed_factory_axioms list_table.queue_table_axioms by simp
qed

section \<open>The node as a whole\<close>

text \<open>What a worker does itself: write to members of the base class of a task, to a lane, to its own state.\<close>

inductive worker_step :: "Node \<Rightarrow> Node \<Rightarrow> bool" where
  task: "heap N p = Some t \<Longrightarrow> pl t' = pl t \<Longrightarrow> worker_step N (put_task p t' N)"
| lane: "worker_step N (set_lane r l N)"
| state: "worker_step N (put_worker w wk N)"

lemma worker_step_keeps: "worker_step N N' \<Longrightarrow> node_keeps N N'"
proof (induction rule: worker_step.induct)
  case (task N p t t')
  then show ?case by (intro extends_keeps put_both(1)) simp_all
next
  case (lane N r l)
  obtain s g i where r: "r = (s, g, i)" by (cases r)
  have "lane_frame (s, g, i) l N (set_lane r l N)" by (simp add: lane_frame_def r)
  from lane_frame_shape(1) [OF this] show ?case by (intro extends_keeps frame_both(1)) (simp_all add: node_wf_def)
next
  case (state N w wk)
  show ?case by (intro extends_keeps frame_both(1)) (simp_all add: node_wf_def)
qed

text \<open>
  The steps of a node: a worker, a handler of one of its libraries, a request from another node, a client
  that submits a root task, a client that deletes a task. The second component is the counter of
  the queue policy.
\<close>

inductive sys_step :: "admin_env \<Rightarrow> remote_env \<Rightarrow> spsc_lib \<Rightarrow> int \<Rightarrow> Admin \<times> u32 \<Rightarrow> Admin \<times> u32 \<Rightarrow> bool" for X Y Q ncpu where
  admin: "admin_Run X m p A = Inr A' \<Longrightarrow> sys_step X Y Q ncpu (A, c) (A', c)"
| proc: "pq_Run (ae_queue X) m p (ad_node A) = Inr N \<Longrightarrow> sys_step X Y Q ncpu (A, c) (A\<lparr>ad_node := N\<rparr>, c)"
| message: "sm_run_at (ae_bits X) m p (ad_node A) = Inr N \<Longrightarrow> sys_step X Y Q ncpu (A, c) (A\<lparr>ad_node := N\<rparr>, c)"
| remote: "remote_step Y (ad_thallium A, ad_node A) (T, N) \<Longrightarrow> sys_step X Y Q ncpu (A, c) (A\<lparr>ad_node := N, ad_thallium := T\<rparr>, c)"
| queue_policy: "wq_Run (ae_bits X) Q m p (c, ad_node A) = Inr (c', N) \<Longrightarrow> sys_step X Y Q ncpu (A, c) (A\<lparr>ad_node := N\<rparr>, c')"
| proc_policy: "wp_Run (ae_bits X) ncpu m p (ad_node A) = Inr (calls, N) \<Longrightarrow> sys_step X Y Q ncpu (A, c) (A\<lparr>ad_node := N\<rparr>, c)"
| template: "tn_Run (ae_bits X) m p (ad_node A) = Inr N \<Longrightarrow> sys_step X Y Q ncpu (A, c) (A\<lparr>ad_node := N\<rparr>, c)"
| worker: "worker_step (ad_node A) N \<Longrightarrow> sys_step X Y Q ncpu (A, c) (A\<lparr>ad_node := N\<rparr>, c)"
| submit: "Async_Root (ae_queue X) (ae_alloc X) qid con (ad_node A) = Inr (lp, N) \<Longrightarrow> sys_step X Y Q ncpu (A, c) (A\<lparr>ad_node := N\<rparr>, c)"
| delete: "DelTask (ae_fatal_returns X) trivial_dtor p (ad_node A) = Inr N \<Longrightarrow> sys_step X Y Q ncpu (A, c) (A\<lparr>ad_node := N\<rparr>, c)"

inductive_cases sys_stepE: "sys_step X Y Q ncpu S S'"

lemma Async_Root_extends:
  assumes "allocator A" and "Async_Root E A qid con N = Inr (lp, N')"
  shows "extends N N'"
proof -
  obtain tn N1 where m: "MakeTaskNodeId N = (tn, N1)" by (cases "MakeTaskNodeId N")
  then have "extends N N1" by (intro frame_both(1)) (auto simp: MakeTaskNodeId_def fetch_add_unique_def node_wf_def)
  moreover have "extends N1 N'" using Async_extends [OF assms(1)] assms(2) by (auto simp: Async_Root_def m)
  ultimately show ?thesis by (rule extends_trans)
qed

text \<open>The runtime of a node needs what the administration and what the remote queue need.\<close>

locale node_runtime = admin_runtime X + remote_runtime Y for X :: admin_env and Y :: remote_env
begin

lemma sys_step_keeps:
  assumes "sys_step X Y Q ncpu S S'"
  shows "node_keeps (ad_node (fst S)) (ad_node (fst S'))"
  using assms
proof (cases rule: sys_step.cases)
  case (admin m p A A' c)
  then show ?thesis using admin_lib.run_keeps by simp
next
  case (proc m p A N c)
  then show ?thesis using pq_lib.run_keeps by simp
next
  case (message m p A N c)
  then show ?thesis using sm_lib.run_keeps by simp
next
  case (remote A T N c)
  then show ?thesis using remote_step_keeps [OF remote(3)] by simp
next
  case (queue_policy m p c A c' N)
  then show ?thesis using wq_lib.run_keeps [OF queue_policy(3)] by simp
next
  case (proc_policy m p A calls N c)
  then show ?thesis using wp_lib.run_keeps [of "ae_bits X" ncpu m p "ad_node A" N] by simp
next
  case (template m p A N c)
  then show ?thesis using tn_lib.run_keeps by simp
next
  case (worker A N c)
  then show ?thesis using worker_step_keeps by simp
next
  case (submit qid con A lp N c)
  then show ?thesis using Async_Root_extends [OF alloc submit(3)] by (simp add: extends_keeps)
next
  case (delete p A N c)
  then show ?thesis using Del_shrinks [OF delete(3)] by (simp add: shrinks_keeps)
qed

lemma sys_steps_wf:
  "(sys_step X Y Q ncpu)\<^sup>*\<^sup>* S S' \<Longrightarrow> node_wf (ad_node (fst S)) \<Longrightarrow> node_wf (ad_node (fst S'))"
  by (induction rule: rtranclp_induct) (auto dest: sys_step_keeps simp: node_keeps_def)

end

text \<open>
  A run of steps from one node to another, and workers whose task states and thread library do
  no more than such runs.
\<close>

definition node_run :: "admin_env \<Rightarrow> remote_env \<Rightarrow> spsc_lib \<Rightarrow> int \<Rightarrow> Node \<Rightarrow> Node \<Rightarrow> bool" where
  "node_run X Y Q ncpu N N' \<longleftrightarrow> (\<forall>A c. ad_node A = N \<longrightarrow> (\<exists>A' c'. (sys_step X Y Q ncpu)\<^sup>*\<^sup>* (A, c) (A', c') \<and> ad_node A' = N'))"

lemma node_run_refl: "node_run X Y Q ncpu N N"
  by (auto simp: node_run_def)

lemma node_run_trans:
  assumes "node_run X Y Q ncpu N N1" and "node_run X Y Q ncpu N1 N2" shows "node_run X Y Q ncpu N N2"
  unfolding node_run_def
proof (intro allI impI)
  fix A :: Admin and c assume "ad_node A = N"
  with assms(1) obtain A1 c1 where 1: "(sys_step X Y Q ncpu)\<^sup>*\<^sup>* (A, c) (A1, c1)" "ad_node A1 = N1" unfolding node_run_def by blast
  with assms(2) obtain A2 c2 where 2: "(sys_step X Y Q ncpu)\<^sup>*\<^sup>* (A1, c1) (A2, c2)" "ad_node A2 = N2" unfolding node_run_def by blast
  from rtranclp_trans [OF 1(1) 2(1)] 2(2) show "\<exists>A' c'. (sys_step X Y Q ncpu)\<^sup>*\<^sup>* (A, c) (A', c') \<and> ad_node A' = N2" by blast
qed

lemma step_node_run:
  assumes "\<And>A c. ad_node A = N \<Longrightarrow> \<exists>A' c'. sys_step X Y Q ncpu (A, c) (A', c') \<and> ad_node A' = N'"
  shows "node_run X Y Q ncpu N N'"
  using assms unfolding node_run_def by blast

lemma worker_node_run: "worker_step N N' \<Longrightarrow> node_run X Y Q ncpu N N'"
  by (rule step_node_run) (use sys_step.worker in fastforce)

locale node_worker = node_runtime X Y for X :: admin_env and Y :: remote_env +
  fixes Q :: spsc_lib and ncpu :: int and V :: worker_env
  assumes w_Run: "wv_Run V ex m p N = Inr N' \<Longrightarrow> node_run X Y Q ncpu N N'"
    and w_Del: "wv_Del V ex m p N = Inr N' \<Longrightarrow> node_run X Y Q ncpu N N'"
    and w_Disperse: "wv_Disperse V p ex ds N = Inr N' \<Longrightarrow> node_run X Y Q ncpu N N'"
    and w_jump: "wv_jump V p N = Inr N' \<Longrightarrow> node_run X Y Q ncpu N N'"
    and w_create: "wv_abt_create V p N = (x, N') \<Longrightarrow> node_run X Y Q ncpu N N'"
    and w_join: "wv_join V th N = Inr N' \<Longrightarrow> node_run X Y Q ncpu N N'"

sublocale node_worker \<subseteq> worker_steps: step_env V "node_run X Y Q ncpu"
  by unfold_locales
    (use w_Run w_Del w_Disperse w_jump w_create w_join in
      \<open>auto intro: node_run_refl node_run_trans worker_node_run worker_step.intros\<close>)

context node_worker
begin

lemma loop_run:
  assumes "Worker_Loop V w alive i N = Some (Inr N')"
  shows "node_run X Y Q ncpu N N'"
proof -
  from Loop_Some [OF assms] obtain k where "\<not> alive (i + k)" by (metis le_add_diff_inverse)
  then obtain n where n: "\<not> alive (i + n)" "\<And>j. j < n \<Longrightarrow> alive (i + j)"
    using exists_least_iff [of "\<lambda>k. \<not> alive (i + k)"] by blast
  have "run_times V w (Suc n) N = Inr N'" using Loop_until [of n alive i V w N] n assms by simp
  then show ?thesis by (rule worker_steps.run_times_R)
qed

end

interpretation sample_node_rt: node_runtime sample_admin_env sample_remote
  by (intro node_runtime.intro sample_admin_rt.admin_runtime_axioms sample_remote_rt.remote_runtime_axioms)

text \<open>A worker that runs the states of the message library and disperses remote tasks.\<close>

definition sample_node_env :: worker_env where
  "sample_node_env = sm_env\<lparr>wv_Disperse := Disperse sample_remote \<lparr>tc_id = UniqueId_new 1 1, tc_queue_id = UniqueId_new 1 1\<rparr>\<rparr>"

interpretation sample_node_worker: node_worker sample_admin_env sample_remote list_spsc 4 sample_node_env
proof (intro node_worker.intro node_worker_axioms.intro sample_node_rt.node_runtime_axioms)
  let ?run = "node_run sample_admin_env sample_remote list_spsc 4"
  have b: "ae_bits sample_admin_env = word_bitfield" "ae_fatal_returns sample_admin_env = False" by (simp_all add: sample_admin_env_def)
  show "?run N N'" if "wv_Run sample_node_env ex m p N = Inr N'" for ex m p N N'
    using that sys_step.message [where X = sample_admin_env and m = m and p = p]
    by (intro step_node_run) (fastforce simp: sample_node_env_def sm_env_simps sm_run_at_def b)
  show "?run N N'" if "wv_Del sample_node_env ex m p N = Inr N'" for ex m p N N'
  proof -
    from that have "N' = N \<or> DelTask False trivial_dtor p N = Inr N'"
      by (auto simp: sample_node_env_def sm_env_simps sm_Del_def split: if_splits)
    then show ?thesis
      using sys_step.delete [where X = sample_admin_env and p = p]
      by (elim disjE) (simp add: node_run_refl, intro step_node_run, fastforce simp: b)
  qed
  show "?run N N'" if "wv_Disperse sample_node_env p ex ds N = Inr N'" for p ex ds N N'
    using that sys_step.remote [OF remote_step.disperse, of sample_remote]
    by (intro step_node_run) (fastforce simp: sample_node_env_def)
  show "?run N N'" if "wv_jump sample_node_env p N = Inr N'" for p N N'
    using that
    by (intro worker_node_run)
      (auto simp: sample_node_env_def sm_env_def plain_env_def upd_task_def task_at_def res_bind_Inr_iff intro!: worker_step.task split: option.splits)
qed (auto simp: sample_node_env_def sm_env_def plain_env_def node_run_refl)

section \<open>Properties\<close>

text \<open>
  C2. Types and invariants of a node: however the handlers of all its libraries, requests from
  other nodes, the steps of calls to other nodes, the writes of workers, submitting clients and
  deleting clients take turns, the queue table and the registry stay well-formed, and in every state that is reached no step
  changes the class of any task that is there before and after it, so the casts by method that
  the libraries make stay right for as long as a task lives.
\<close>

theorem node_type_safety:
  assumes "node_runtime X Y" and "(sys_step X Y Q ncpu)\<^sup>*\<^sup>* S S'" and "node_wf (ad_node (fst S))"
  shows "node_wf (ad_node (fst S')) \<and>
    (\<forall>S''. sys_step X Y Q ncpu S' S'' \<longrightarrow> (\<forall>p t t'. heap (ad_node (fst S')) p = Some t \<and> heap (ad_node (fst S'')) p = Some t' \<longrightarrow>
       class_tag (pl t') = class_tag (pl t)))"
proof -
  have "class_tag (pl t') = class_tag (pl t)"
    if "sys_step X Y Q ncpu S' S''" "heap (ad_node (fst S')) p = Some t" "heap (ad_node (fst S'')) p = Some t'" for S'' p t t'
    using node_runtime.sys_step_keeps [OF assms(1) that(1)] that(2,3)
    by (force simp: node_keeps_def same_class_def classes_def)
  with node_runtime.sys_steps_wf [OF assms] show ?thesis by blast
qed

theorem node_type_safety_witness:
  "\<exists>A'. sys_step sample_admin_env sample_remote list_spsc 4 (sample_admin PStopRuntime, 0) (A', 0) \<and> node_wf (ad_node A')"
proof -
  have wf: "node_wf (ad_node (sample_admin PStopRuntime))"
    using sample_admin_wf empty_registry_wf by (simp add: node_wf_def sample_admin_node)
  have "tn_Run (ae_bits sample_admin_env) tn_kCustom 9 (ad_node (sample_admin PStopRuntime)) =
      Inr (put_task 9 (SetModuleComplete (ae_bits sample_admin_env) (sample_obj PCustom)) (ad_node (sample_admin PStopRuntime)))"
    by (simp add: tn_Run_def tn_kCustom_def Custom_def upd_task_def task_at_def sample_admin_node base_method_defs)
  from sys_step.template [where Q = list_spsc and ncpu = 4 and c = 0, OF this]
  obtain A' where s: "sys_step sample_admin_env sample_remote list_spsc 4 (sample_admin PStopRuntime, 0) (A', 0)" by blast
  from node_type_safety [OF sample_node_rt.node_runtime_axioms r_into_rtranclp [of "sys_step sample_admin_env sample_remote list_spsc 4", OF s]] wf s
  show ?thesis by auto
qed



end
