(* ===== verification/Spec2Isabelle.thy ===== *)
theory Spec2Isabelle
  imports Prelude Hshm Ids Tasks LocalSerialize Queues Config QueueManager Archive TaskObjects AdminTasks Registry Worker Poll Sched Client SmallMessage ProcQueue Rpc Thallium AdminServer RemoteQueue SchedLibs TaskTemplate LibClients Runtime Progress Cluster PushCalls AdminCalls Lifetimes DefaultConfig Buffers Keeps RemoteSteps PollSteps System
begin

text \<open>
  \<^bold>\<open>Verification of the Hermes runtime.\<close>

  \<^bold>\<open>The program.\<close> A daemon on every node of a cluster runs tasks for clients. A client allocates a
  task object in shared memory and puts its address into a lane of a multi-lane queue. Workers
  poll lanes, order the tasks of a group, look up the task state (an instance of a task
  library) a task is for and call its handler. A task for another node is dispersed by the
  library \<^verbatim>\<open>remote_queue\<close>, which serialises it, calls the other daemons and collects their
  answers. The administration library creates and destroys libraries, states and queues and
  sets the policies that assign lanes to workers. All paths below are under
  \<^verbatim>\<open>src/include/hermes_run\<close>, \<^verbatim>\<open>src/src\<close> or \<^verbatim>\<open>src/tasks_required\<close>; the code is shallowly embedded,
  one definition per function, with the names of the source.

  \<^bold>\<open>Conventions\<close> (\<open>Prelude\<close>, \<open>Hshm\<close>). Integers have their width (\<open>u32\<close>, \<open>u64\<close> are words and
  wrap around); \<^verbatim>\<open>int\<close> counters that the code only increments are \<open>int\<close>. Undefined behaviour, fatal
  log records, exceptions and loops that do not end are the values of \<open>error\<close>, so a result
  \<open>Inr x\<close> says that none of them occurs. A function that mutates an object takes and returns
  it; a constructor takes the previous contents of the memory (\<open>mem\<close>), because C++ leaves
  members without initialiser as they are. Whether a fatal log record returns is an argument
  (\<open>fr\<close>). Code that is not in the repository (shared-memory containers, bit fields, YAML, cereal,
  Thallium, Argobots, the dynamic loader, host lookup) is a record of functions that the
  definitions take as an argument; what is relied on of it is a locale, and every locale is
  interpreted on an executable instance.

  \<^bold>\<open>Theories.\<close>
  \<^item> \<open>Ids\<close>: \<^verbatim>\<open>hermes_run_types.h\<close>, scheduling domains and unique ids; printing, hashing and \<^verbatim>\<open>==\<close> agree.
  \<^item> \<open>Tasks\<close>: \<^verbatim>\<open>task_registry/task.h\<close>, task flags, task nodes, compile-time flags, constructors and the
    wait loop. \<open>Lifetimes\<close>: copies and moves of tasks and queues, thread switches, and the outcome
    of the wait loop under every thread model.
  \<^item> \<open>LocalSerialize\<close>: \<^verbatim>\<open>network/local_serialize.h\<close> with its round trip.
  \<^item> \<open>Queues\<close>: \<^verbatim>\<open>queue_manager/queue.h\<close> and \<^verbatim>\<open>queues/hshm_queue.h\<close>, lane groups, lanes, emplace and
    plugging; the locale \<open>lane_queues\<close> is what the lock-free lane promises.
  \<^item> \<open>QueueManager\<close>: the table of queues, its start-up, creation and destruction, on the
    contract \<open>queue_table\<close>.
  \<^item> \<open>Config\<close>, \<open>DefaultConfig\<close>: \<^verbatim>\<open>config/*.h\<close>, \<^verbatim>\<open>config_server.cc\<close>, \<^verbatim>\<open>config_client.cc\<close>; a parse step
    gives the configuration it leaves and the exception, if any.
  \<^item> \<open>Archive\<close>, \<open>TaskObjects\<close>: \<^verbatim>\<open>network/serialize.h\<close>, the archives between nodes over a codec that
    satisfies \<open>cereal\<close>; task objects as base class and payload (\<open>pl\<close>), the dispatch that the
    generated headers \<^verbatim>\<open>*_lib_exec.h\<close> share.
  \<^item> \<open>AdminTasks\<close>, \<open>AdminServer\<close>: \<^verbatim>\<open>hermes_run_admin\<close>, tasks, dispatch, handlers and client.
  \<^item> \<open>Registry\<close>: \<^verbatim>\<open>task_lib.h\<close>, \<^verbatim>\<open>task_registry.h\<close>, library search and loading, ids and states
    of task libraries; \<open>registry_wf\<close> is its invariant, \<open>state_factory\<close> what a library's
    \<^verbatim>\<open>create_state\<close> promises.
  \<^item> \<open>Worker\<close>, \<open>Poll\<close>, \<open>Progress\<close>: \<^verbatim>\<open>work_orchestrator/worker.h\<close> and \<^verbatim>\<open>worker.cc\<close>. \<open>Worker\<close> has lanes
    that are handed over and task groups, with \<open>group_run\<close>, all sequences of group operations of
    a worker; \<open>Poll\<close> has polling and the work loop, with \<open>lane_step\<close>, the abstract lane that
    polling refines; \<open>Progress\<close> shows what a poll makes of a lane of tasks whose handlers end them
    (\<open>completing_env\<close>, interpreted on \<^verbatim>\<open>small_message\<close>): the lane is empty and every task has its result.
  \<^item> \<open>Sched\<close>, \<open>SchedLibs\<close>: \<^verbatim>\<open>work_orchestrator.h\<close>, \<^verbatim>\<open>affinity.h\<close> and the round-robin policies.
  \<^item> \<open>Client\<close>, \<open>Buffers\<close>, \<open>LibClients\<close>: \<^verbatim>\<open>api/manager.h\<close>, \<^verbatim>\<open>api/hermes_run_client.h\<close>, ids, allocation,
    submission macros, buffers, and the client classes of the libraries with their blocking calls.
  \<^item> \<open>SmallMessage\<close>, \<open>ProcQueue\<close>, \<open>RemoteQueue\<close>, \<open>TaskTemplate\<close>: the task libraries of those names
    (\<^verbatim>\<open>TASK_NAME\<close> is the template), tasks, handlers, dispatch.
  \<^item> \<open>Rpc\<close>, \<open>Thallium\<close>: \<^verbatim>\<open>network/rpc.h\<close>, \<^verbatim>\<open>network/rpc_thallium.h\<close>, the host table and the calls.
  \<^item> \<open>Runtime\<close>: \<^verbatim>\<open>api/hermes_run_runtime.h\<close> and the programs that start and stop the daemon.
  \<^item> \<open>Cluster\<close>: calls between nodes, end to end. \<open>sm_server\<close> is a node whose procedures for remote
    calls submit to a lane that a worker of that node polls, \<open>rpc_cluster\<close> and \<open>bulk_cluster\<close> say that
    the network runs the procedure of the node that is called; blocking calls of a local client
    and dispersed calls return with the answers the handlers give.
  \<^item> \<open>PushCalls\<close>: blocking calls through the process queue, whose push task submits the task of the
    call and waits for it. \<open>push_worker\<close> is a worker with both lanes; \<open>call_state\<close> is how far a call
    has come, and every poll of either lane keeps it or brings it on, so the order of polls does not matter.
  \<^item> \<open>AdminCalls\<close>: creation of states by name. \<open>name_service\<close> is the request for an id that the handler
    waits for, answered on node 1 or by node 1; both answers fulfil it in every environment.
  \<^item> \<open>Keeps\<close>: the contract \<open>task_library\<close> every handler keeps of the node, interpreted for each library.
    \<open>RemoteSteps\<close>: \<open>remote_step\<close>, the handlers of \<^verbatim>\<open>remote_queue\<close>, its two procedures and the parts of a
    push between its calls. \<open>PollSteps\<close>: \<open>step_env\<close>, a relation that the writes of a worker have is one
    that its whole loop has.
  \<^item> \<open>System\<close>: all of it on one node. \<open>sys_step\<close> interleaves the handlers of all libraries, requests of
    other nodes, workers, submissions and deletions; the loop of a worker is a run of it.

  \<^bold>\<open>State.\<close> \<open>Node\<close> is what the components of a daemon share: task heap, queue table, workers,
  registry and the header of the segment with its id counter. Pointers into it are addresses or
  indices (\<open>lane_ref\<close> for \<^verbatim>\<open>Lane*\<close>), so aliasing is explicit. Handlers map a node to
  \<open>error + Node\<close>; \<open>worker_env\<close> and \<open>admin_env\<close> collect the libraries and virtual functions.

  \<^bold>\<open>What is shown.\<close> Invariants: mutual exclusion and exact counting of task groups over
  every run; the class of a task never changes and tables stay well-formed in every run of all libraries and in
  the whole loop of a worker; a push submits its subtask at most once; what holds once the daemon is up.
  Refinement: polling of the abstract lane, the queue policy of its plan. Composition: blocking calls of a
  client, direct and through the process queue, sequences of requests to a node and calls to all nodes of
  a cluster, each with the workers that run them; states created by name have one id on all nodes.
  Round trips: flat serialisation, calls of the administration library between nodes. Functional behaviour
  on every branch, errors included, of the handlers, the registry, the queue table, submission and
  configuration. Liveness and termination: a poll of a lane, waiting, and the work loop. Bounds: workers chosen
  by the policies, ids against the queue table. Some theorems describe defects of the code as it is; these say
  so.

  \<^bold>\<open>Bounds and loops.\<close> Polling runs at most 1024 entries, the bound in the source, so \<open>poll_iters\<close> is
  recursive in that count. Loops whose end depends on other threads (\<open>Wait\<close>,
  \<open>Wait_yielding\<close>, \<open>WaitForEmplacePlug\<close>, \<open>poll_loop\<close>, \<open>relinquish_loop\<close>, \<open>Worker_Loop\<close>) are partial
  functions into \<open>option\<close>, \<open>None\<close> when they do not end; that they end is proved under what it
  takes. No definition uses fuel that the source does not have.

  \<^bold>\<open>Not modelled.\<close> Preemption inside an operation: a step of one thread is atomic, and what other
  threads do between steps is an argument (the observations of a wait, \<open>plug_reads\<close>) or the
  interleaving of \<open>group_run\<close>, \<open>push_run\<close> and \<open>sys_step\<close>. In the end-to-end calls of \<open>Cluster\<close> and
  \<open>PushCalls\<close> the worker runs while the caller waits and a node that is called does nothing else meanwhile;
  in \<open>AdminCalls\<close> only the subtask is run while its creation waits.
  The stack contents of coroutines (\<open>wv_jump\<close> is their effect), log output, timing, and code under
  \<^verbatim>\<open>REMOTE_DEBUG\<close> and \<^verbatim>\<open>DEBUG\<close>. The code generator (its output is modelled), tests, benchmarks and build
  files. Members that cannot be instantiated (\<^verbatim>\<open>CreateRoot\<close> of \<^verbatim>\<open>proc_queue\<close> and of the template,
  \<^verbatim>\<open>AsyncCreateTaskStateEmplace\<close>), and those that nothing uses: \<^verbatim>\<open>DataPointer\<close>, the comparison and
  serialisation of a data transfer, and the array members \<^verbatim>\<open>read\<close> and \<^verbatim>\<open>write\<close> of the archives.
\<close>

end
